(* ===== verification/Prelude.thy ===== *)
theory Prelude
  imports Main "HOL-Library.Word"
begin

text \<open>
  Shared vocabulary of the development.  The theory models the parts of Go and of its standard
  library that the verified packages rely on, each as an executable function: error values and
  \<open>errors.Is\<close> / \<open>errors.Join\<close>, byte strings and the \<open>strings\<close>, \<open>strconv\<close> and \<open>path\<close>
  helpers the sources call, regular expressions that are sequences of character classes, and a
  state-and-error monad for code that performs effects.  The weakest-precondition calculus at the
  end is what the component theories use to reason about effectful code.
\<close>

named_theorems wp_rules "weakest preconditions of effectful operations"
named_theorems wp_intros \<open>introduction rules for weakest preconditions\<close>
named_theorems keeps_intros \<open>composition of operations that keep an invariant\<close>
named_theorems go_defs "definitions of small source helpers, unfolded together"

section \<open>Error values\<close>

text \<open>
  A Go error is a tree of wrapped errors; the sources inspect it only through \<open>err == nil\<close> and
  \<open>errors.Is\<close>.  The model is the list of the sentinels the tree contains: \<open>nil\<close> is the empty
  list, \<open>errors.Join\<close> is concatenation, \<open>fmt.Errorf("%w: ...", e)\<close> is \<open>e\<close>.  Errors that
  carry no sentinel of the repository are \<open>Other\<close> with a short name.
\<close>

datatype sentinel =
    ErrNotFound | ErrInvalidState | ErrOwnershipAmbiguous | ErrLifecycleConflict
  | ErrRecoveryRequired
  | ErrUnavailable | ErrSessionUnsupported | ErrDifferentPolicy | ErrDifferentScope
  | ErrLifecycleDeadline | ErrCARemovalUnsupported | ErrEnvironmentChanged | ErrActivationRace
  | NotExist | DeadlineExceeded | Canceled
  | Other string

type_synonym err = "sentinel list"

abbreviation nil_err :: err where "nil_err \<equiv> []"

definition errors_Is :: "err \<Rightarrow> sentinel \<Rightarrow> bool" where
  [go_defs]: "errors_Is e s \<longleftrightarrow> s \<in> set e"

definition errors_Join :: "err list \<Rightarrow> err" where
  [go_defs]: "errors_Join es = concat es"

lemma errors_Is_Join [simp]:
  "errors_Is (errors_Join es) s \<longleftrightarrow> (\<exists>e\<in>set es. errors_Is e s)"
  by (auto simp: go_defs)

lemma errors_Is_nil [simp]: "\<not> errors_Is [] s"
  by (simp add: go_defs)

lemma errors_Is_Cons [simp]: "errors_Is (x # e) s \<longleftrightarrow> x = s \<or> errors_Is e s"
  by (auto simp: go_defs)

lemma errors_Is_append [simp]: "errors_Is (d @ e) s \<longleftrightarrow> errors_Is d s \<or> errors_Is e s"
  by (auto simp: go_defs)

section \<open>Byte strings\<close>

text \<open>A Go string is a sequence of bytes: \<open>string\<close>, with \<open>length\<close> counting bytes.\<close>

abbreviation byte :: "char \<Rightarrow> nat" where "byte c \<equiv> of_char c"

definition in_range :: "nat \<Rightarrow> nat \<Rightarrow> char \<Rightarrow> bool" where
  [go_defs]: "in_range lo hi c \<longleftrightarrow> lo \<le> byte c \<and> byte c \<le> hi"

definition is_digit :: "char \<Rightarrow> bool" where
  [go_defs]: "is_digit = in_range 48 57"

definition is_lower :: "char \<Rightarrow> bool" where
  [go_defs]: "is_lower = in_range 97 122"

definition is_upper :: "char \<Rightarrow> bool" where
  [go_defs]: "is_upper = in_range 65 90"

definition is_lower_hex :: "char \<Rightarrow> bool" where
  [go_defs]: "is_lower_hex c \<longleftrightarrow> is_digit c \<or> in_range 97 102 c"

definition is_any_hex :: "char \<Rightarrow> bool" where
  [go_defs]: "is_any_hex c \<longleftrightarrow> is_lower_hex c \<or> in_range 65 70 c"

definition hasPrefix :: "string \<Rightarrow> string \<Rightarrow> bool" where
  [go_defs]: "hasPrefix s p \<longleftrightarrow> take (length p) s = p"

lemma hasPrefix_iff: "hasPrefix s p \<longleftrightarrow> (\<exists>t. s = p @ t)"
  unfolding hasPrefix_def by (metis append_eq_conv_conj append_take_drop_id)

definition oneOf :: "string \<Rightarrow> string list \<Rightarrow> bool" where
  [go_defs]: "oneOf v choices \<longleftrightarrow> List.member choices v"

lemma oneOf_iff [simp]: "oneOf v choices \<longleftrightarrow> v \<in> set choices"
  by (simp add: oneOf_def)

text \<open>An anchored regular expression that is a fixed sequence of character classes.\<close>

definition match_classes :: "(char \<Rightarrow> bool) list \<Rightarrow> string \<Rightarrow> bool" where
  "match_classes cs s \<longleftrightarrow> length cs = length s \<and> list_all (\<lambda>(p, c). p c) (zip cs s)"

lemma match_classes_length: "match_classes cs s \<Longrightarrow> length s = length cs"
  by (simp add: match_classes_def)

text \<open>\<open>strings.Split(s, sep)\<close> for a one-byte separator.\<close>

fun split_on :: "char \<Rightarrow> string \<Rightarrow> string list" where
  "split_on sep [] = [[]]"
| "split_on sep (c # cs) =
     (if c = sep then [] # split_on sep cs
      else (case split_on sep cs of [] \<Rightarrow> [[c]] | p # ps \<Rightarrow> (c # p) # ps))"

fun join_with :: "string \<Rightarrow> string list \<Rightarrow> string" where
  "join_with sep [] = []"
| "join_with sep [p] = p"
| "join_with sep (p # q # ps) = p @ sep @ join_with sep (q # ps)"

lemma split_on_not_Nil [simp]: "split_on sep s \<noteq> []"
  by (induction s) (auto split: list.splits)

lemma join_split: "join_with [sep] (split_on sep s) = s"
proof (induction s)
  case (Cons c cs)
  obtain p ps where ps: "split_on sep cs = p # ps"
    by (metis split_on_not_Nil list.exhaust)
  with Cons show ?case by (cases ps) auto
qed simp

text \<open>\<open>strings.Cut(s, "=")\<close>: the text before and after the first separator.\<close>

fun cut_at :: "char \<Rightarrow> string \<Rightarrow> (string \<times> string) option" where
  "cut_at sep [] = None"
| "cut_at sep (c # cs) =
     (if c = sep then Some ([], cs)
      else map_option (\<lambda>(a, b). (c # a, b)) (cut_at sep cs))"

lemma cut_at_Some: "cut_at sep s = Some (a, b) \<Longrightarrow> s = a @ sep # b \<and> sep \<notin> set a"
  by (induction s arbitrary: a) (auto split: if_splits)

section \<open>Integers in text\<close>

definition digit_char :: "int \<Rightarrow> char" where
  "digit_char d = char_of (48 + d)"

function int_digits :: "int \<Rightarrow> string" where
  "int_digits i = (if i < 10 then [digit_char i] else int_digits (i div 10) @ [digit_char (i mod 10)])"
  by pat_completeness auto
termination
  by (relation "measure nat") auto

declare int_digits.simps [simp del]

text \<open>\<open>strconv.FormatInt(i, 10)\<close>.\<close>

definition formatInt :: "int \<Rightarrow> string" where
  "formatInt i = (if i < 0 then CHR ''-'' # int_digits (- i) else int_digits i)"

fun digits_value :: "int \<Rightarrow> string \<Rightarrow> int" where
  "digits_value acc [] = acc"
| "digits_value acc (c # cs) = digits_value (10 * acc + (of_char c - 48)) cs"

definition int64_ok :: "int \<Rightarrow> bool" where
  "int64_ok i \<longleftrightarrow> - (2 ^ 63) \<le> i \<and> i < 2 ^ 63"

text \<open>
  \<open>strconv.ParseInt(s, 10, 64)\<close> and \<open>strconv.Atoi(s)\<close> on a 64-bit platform: an optional sign,
  at least one decimal digit, no overflow.
\<close>

definition parse_digits :: "string \<Rightarrow> int option" where
  "parse_digits s = (if s \<noteq> [] \<and> list_all is_digit s then Some (digits_value 0 s) else None)"

definition parseInt64 :: "string \<Rightarrow> int option" where
  "parseInt64 s =
     (let (neg, body) = (case s of
            [] \<Rightarrow> (False, [])
          | c # cs \<Rightarrow> if c = CHR ''-'' then (True, cs)
                      else if c = CHR ''+'' then (False, cs) else (False, s))
      in (case parse_digits body of
            None \<Rightarrow> None
          | Some n \<Rightarrow> (let i = (if neg then - n else n) in
                        if int64_ok i then Some i else None)))"

lemma of_char_digit_char: "0 \<le> d \<Longrightarrow> d < 10 \<Longrightarrow> of_char (digit_char d) = 48 + d"
  by (simp add: digit_char_def)

lemma is_digit_digit_char: "0 \<le> d \<Longrightarrow> d < 10 \<Longrightarrow> is_digit (digit_char d)"
proof -
  assume d: "0 \<le> d" "d < 10"
  have "int (byte (digit_char d)) = 48 + d"
    using of_char_digit_char [OF d] by (metis of_nat_of_char)
  then show ?thesis using d by (simp add: is_digit_def in_range_def)
qed

lemma digits_value_append: "digits_value acc (s @ t) = digits_value (digits_value acc s) t"
  by (induction s arbitrary: acc) auto

lemma int_digits_value: "0 \<le> i \<Longrightarrow> digits_value 0 (int_digits i) = i"
proof (induction i rule: int_digits.induct)
  case (1 i)
  then show ?case
    by (subst int_digits.simps) (auto simp: of_char_digit_char digits_value_append)
qed

lemma int_digits_all: "0 \<le> i \<Longrightarrow> list_all is_digit (int_digits i) \<and> int_digits i \<noteq> []"
proof (induction i rule: int_digits.induct)
  case (1 i)
  then show ?case
    by (subst (1 2) int_digits.simps) (auto simp: is_digit_digit_char)
qed

lemma parse_int_digits [simp]: "0 \<le> i \<Longrightarrow> parse_digits (int_digits i) = Some i"
  by (simp add: parse_digits_def int_digits_all int_digits_value)

lemma sign_not_digit: "\<not> is_digit (CHR ''-'')" "\<not> is_digit (CHR ''+'')"
  by (simp_all add: is_digit_def in_range_def)

lemma parseInt64_formatInt: "int64_ok i \<Longrightarrow> parseInt64 (formatInt i) = Some i"
proof (cases "i < 0")
  case False
  assume ok: "int64_ok i"
  obtain c cs where c: "int_digits i = c # cs" and d: "is_digit c"
    using int_digits_all [of i] False by (cases "int_digits i") auto
  then have "c \<noteq> CHR ''-''" "c \<noteq> CHR ''+''"
    using sign_not_digit by auto
  then show ?thesis
    using False ok c parse_int_digits [of i]
    by (simp add: parseInt64_def formatInt_def)
qed (simp add: parseInt64_def formatInt_def)

section \<open>Hexadecimal\<close>

definition hex_char :: "int \<Rightarrow> char" where
  "hex_char d = (if d < 10 then char_of (48 + d) else char_of (87 + d))"

text \<open>The last \<open>k\<close> hexadecimal digits of a number, most significant first.\<close>

fun hex_digits :: "nat \<Rightarrow> int \<Rightarrow> string" where
  "hex_digits 0 n = []"
| "hex_digits (Suc k) n = hex_digits k (n div 16) @ [hex_char (n mod 16)]"

lemma length_hex_digits [simp]: "length (hex_digits k n) = k"
  by (induction k arbitrary: n) auto

lemma of_char_hex_char:
  "0 \<le> d \<Longrightarrow> d < 16 \<Longrightarrow> of_char (hex_char d) = (if d < 10 then 48 + d else 87 + d)"
  by (simp add: hex_char_def)

lemma hex_char_lower: "0 \<le> d \<Longrightarrow> d < 16 \<Longrightarrow> is_lower_hex (hex_char d)"
proof -
  assume d: "0 \<le> d" "d < 16"
  have "int (byte (hex_char d)) = (if d < 10 then 48 + d else 87 + d)"
    using of_char_hex_char [OF d] by (metis of_nat_of_char)
  then show ?thesis using d by (auto simp: go_defs split: if_splits)
qed

lemma hex_digits_lower: "list_all is_lower_hex (hex_digits k n)"
  by (induction k arbitrary: n) (auto simp: hex_char_lower)

text \<open>\<open>sha256.Sum256\<close> is a parameter of the model: a function to 32 bytes.\<close>

type_synonym sha256 = "string \<Rightarrow> 256 word"

definition hex256 :: "256 word \<Rightarrow> string" where
  "hex256 w = hex_digits 64 (uint w)"

definition digest_text :: "sha256 \<Rightarrow> string \<Rightarrow> string" where
  "digest_text sha s = ''sha256:'' @ hex256 (sha s)"

section \<open>Slash-separated paths\<close>

text \<open>
  \<open>path.Clean\<close> and, on the supported platforms, \<open>filepath.Clean\<close>: the components are scanned
  left to right, empty and \<open>.\<close> components are dropped, \<open>..\<close> removes the component before it (and
  is dropped at the root of a rooted path).
\<close>

fun clean_components :: "bool \<Rightarrow> string list \<Rightarrow> string list \<Rightarrow> string list" where
  "clean_components rooted acc [] = rev acc"
| "clean_components rooted acc (p # ps) =
     (if p = '''' \<or> p = ''.'' then clean_components rooted acc ps
      else if p = ''..'' then
        (case acc of
           [] \<Rightarrow> clean_components rooted (if rooted then [] else [p]) ps
         | q # qs \<Rightarrow> if q = ''..'' then clean_components rooted (p # acc) ps
                     else clean_components rooted qs ps)
      else clean_components rooted (p # acc) ps)"

definition isAbs :: "string \<Rightarrow> bool" where
  "isAbs p \<longleftrightarrow> p \<noteq> [] \<and> hd p = CHR ''/''"

definition path_Clean :: "string \<Rightarrow> string" where
  "path_Clean p =
     (let comps = clean_components (isAbs p) [] (split_on (CHR ''/'') p);
          body = join_with ''/'' comps
      in if isAbs p then CHR ''/'' # body else if comps = [] then ''.'' else body)"

section \<open>Instants\<close>

text \<open>
  An instant is a number of nanoseconds since the Unix epoch.  The zero \<open>time.Time\<close> is midnight of
  1 January of the year 1.  \<open>formatRFC3339Nano\<close> is the text \<open>time.Time\<close> marshals to in UTC.
\<close>

type_synonym instant = int

definition zero_time :: instant where
  "zero_time = - 62135596800000000000"

definition time_IsZero :: "instant \<Rightarrow> bool" where
  [go_defs]: "time_IsZero t \<longleftrightarrow> t = zero_time"

definition time_Second :: int where "time_Second = 1000000000"

definition pad :: "nat \<Rightarrow> int \<Rightarrow> string" where
  "pad k i = (let s = formatInt i in replicate (k - length s) (CHR ''0'') @ s)"

text \<open>
  Year, month and day of a day number counted from the epoch (proleptic Gregorian).  The day of a
  400-year era is split into centuries, four-year cycles and years that begin in March.
\<close>

definition year_of_era :: "int \<Rightarrow> int \<times> int" where
  "year_of_era doe =
     (let c = min 3 (doe div 36524); doc = doe - 36524 * c; q = doc div 1461; doq = doc mod 1461;
          a = min 3 (doq div 365)
      in (100 * c + 4 * q + a, doq - 365 * a))"

definition civil :: "int \<Rightarrow> int \<times> int \<times> int" where
  "civil days =
     (let z = days + 719468; era = z div 146097; (yoe, doy) = year_of_era (z mod 146097);
          mp = (5 * doy + 2) div 153;
          d = doy - (153 * mp + 2) div 5 + 1;
          m = (if mp < 10 then mp + 3 else mp - 9);
          y = yoe + era * 400 + (if m \<le> 2 then 1 else 0)
      in (y, m, d))"

definition fraction_text :: "int \<Rightarrow> string" where
  "fraction_text ns =
     (if ns = 0 then ''''
      else CHR ''.'' # rev (dropWhile (\<lambda>c. c = CHR ''0'') (rev (pad 9 ns))))"

definition formatRFC3339Nano :: "instant \<Rightarrow> string option" where
  "formatRFC3339Nano t =
     (let secs = t div 1000000000; ns = t mod 1000000000;
          days = secs div 86400; sod = secs mod 86400;
          (y, m, d) = civil days
      in if y < 0 \<or> 9999 < y then None
         else Some (pad 4 y @ ''-'' @ pad 2 m @ ''-'' @ pad 2 d @ ''T'' @
                    pad 2 (sod div 3600) @ '':'' @ pad 2 ((sod div 60) mod 60) @ '':'' @
                    pad 2 (sod mod 60) @ fraction_text ns @ ''Z''))"

subsection \<open>The calendar\<close>

definition leap_year :: "int \<Rightarrow> bool" where
  "leap_year y \<longleftrightarrow> y mod 4 = 0 \<and> (y mod 100 \<noteq> 0 \<or> y mod 400 = 0)"

definition daysIn :: "int \<Rightarrow> int \<Rightarrow> int" where
  "daysIn month year =
     (if month = 2 then (if leap_year year then 29 else 28)
      else if month = 4 \<or> month = 6 \<or> month = 9 \<or> month = 11 then 30 else 31)"

definition days_of_civil :: "int \<Rightarrow> int \<Rightarrow> int \<Rightarrow> int" where
  "days_of_civil year month day =
     (let y = (if month \<le> 2 then year - 1 else year); era = y div 400; yoe = y mod 400;
          mp = (if month > 2 then month - 3 else month + 9);
          doy = (153 * mp + 2) div 5 + day - 1
      in era * 146097 + 365 * yoe + yoe div 4 - yoe div 100 + doy - 719468)"

lemma div_min:
  fixes n m k :: int
  assumes "0 \<le> n" and "0 < m" and "0 \<le> k"
  obtains q where "q = min k (n div m)" and "0 \<le> q" and "q \<le> k" and "m * q \<le> n" and "q < k \<Longrightarrow> n < m * q + m"
proof -
  have split: "m * (n div m) + n mod m = n" "0 \<le> n mod m" "n mod m < m" "0 \<le> n div m"
    using assms by (simp_all add: pos_imp_zdiv_nonneg_iff)
  then have "m * min k (n div m) \<le> m * (n div m)" using assms by (intro mult_left_mono) auto
  with split have "m * min k (n div m) \<le> n" by linarith
  moreover have "n < m * min k (n div m) + m" if "min k (n div m) < k" 
  proof -
    have eq: "min k (n div m) = n div m" using that by (simp add: min_def split: if_splits)
    show ?thesis unfolding eq using split(1,3) by linarith
  qed
  ultimately show ?thesis using that [of "min k (n div m)"] assms split by auto
qed

lemma year_of_era:
  assumes "0 \<le> doe" and "doe < 146097" and y: "year_of_era doe = (yoe, doy)"
  shows "0 \<le> yoe" "yoe \<le> 399" "0 \<le> doy" "doy \<le> 365" "doy = 365 \<Longrightarrow> leap_year (yoe + 1)"
    "365 * yoe + yoe div 4 - yoe div 100 + doy = doe"
proof -
  obtain c where c: "c = min 3 (doe div 36524)" "0 \<le> c" "c \<le> 3" "36524 * c \<le> doe" "c < 3 \<Longrightarrow> doe < 36524 * c + 36524"
    by (rule div_min [of doe 36524 3]) (use assms in auto)
  define doc where "doc = doe - 36524 * c"
  define q where "q = doc div 1461"
  define doq where "doq = doc mod 1461"
  have doc: "0 \<le> doc" "doc \<le> 36524" "c < 3 \<Longrightarrow> doc < 36524"
    using c assms(1,2) by (auto simp: doc_def)
  have doq: "doc = 1461 * q + doq" "0 \<le> doq" "doq \<le> 1460" by (simp_all add: q_def doq_def)
  have q: "0 \<le> q" "q \<le> 24" using doc doq by linarith+
  obtain a where a: "a = min 3 (doq div 365)" "0 \<le> a" "a \<le> 3" "365 * a \<le> doq" "a < 3 \<Longrightarrow> doq < 365 * a + 365"
    by (rule div_min [of doq 365 3]) (use doq in auto)
  have eq: "yoe = 100 * c + 4 * q + a" "doy = doq - 365 * a"
    using y by (simp_all add: year_of_era_def Let_def c(1) doc_def q_def doq_def a(1))
  show "0 \<le> yoe" "yoe \<le> 399" using c(2,3) q a(2,3) unfolding eq by linarith+
  show "0 \<le> doy" "doy \<le> 365" using a(2-5) doq unfolding eq by linarith+
  have "yoe div 4 = 25 * c + q" "yoe div 100 = c" unfolding eq using a(2,3) q c(2,3) by linarith+
  then show "365 * yoe + yoe div 4 - yoe div 100 + doy = doe"
    using doq by (simp add: eq doc_def)
  show "leap_year (yoe + 1)" if "doy = 365"
  proof -
    have e: "a = 3" "doq = 1460" using that a(2-5) doq unfolding eq by linarith+
    have q4: "(yoe + 1) mod 4 = 0" unfolding eq e using c(2,3) by presburger
    show ?thesis
    proof (cases "q < 24")
      case True
      then have "(yoe + 1) mod 100 \<noteq> 0" unfolding eq e using q c(2,3) by presburger
      with q4 show ?thesis by (simp add: leap_year_def)
    next
      case False
      then have "c = 3" "q = 24" using doc doq e c(2,3) q by linarith+
      then show ?thesis using q4 unfolding eq e leap_year_def by simp
    qed
  qed
qed

lemma month_cases:
  fixes doy :: int
  assumes "0 \<le> doy" and "doy \<le> 365"
  defines "mp \<equiv> (5 * doy + 2) div 153"
  shows "0 \<le> mp" "mp \<le> 11" "1 \<le> doy - (153 * mp + 2) div 5 + 1"
    "mp < 11 \<Longrightarrow> doy - (153 * mp + 2) div 5 + 1 \<le> (if mp \<in> {1, 3, 6, 8} then 30 else 31)"
    "mp = 11 \<Longrightarrow> doy - (153 * mp + 2) div 5 + 1 = doy - 336"
proof -
  show b: "0 \<le> mp" "mp \<le> 11" using assms by simp_all
  have m: "153 * mp \<le> 5 * doy + 2" "5 * doy + 2 < 153 * mp + 153" unfolding mp_def by presburger+
  from b have "mp = 0 \<or> mp = 1 \<or> mp = 2 \<or> mp = 3 \<or> mp = 4 \<or> mp = 5 \<or> mp = 6 \<or> mp = 7 \<or> mp = 8 \<or> mp = 9 \<or> mp = 10 \<or> mp = 11"
    by presburger
  note cases = this m
  show "1 \<le> doy - (153 * mp + 2) div 5 + 1" using cases by (elim disjE; simp)
  show "mp < 11 \<Longrightarrow> doy - (153 * mp + 2) div 5 + 1 \<le> (if mp \<in> {1, 3, 6, 8} then 30 else 31)"
    using cases by (elim disjE; simp)
  show "mp = 11 \<Longrightarrow> doy - (153 * mp + 2) div 5 + 1 = doy - 336" by simp
qed

lemma civil_correct:
  assumes "civil days = (y, m, d)"
  shows "1 \<le> m" "m \<le> 12" "1 \<le> d" "d \<le> daysIn m y" "days_of_civil y m d = days"
proof -
  define z where "z = days + 719468"
  obtain yoe doy where yd: "year_of_era (z mod 146097) = (yoe, doy)" by (metis prod.exhaust)
  have "0 \<le> z mod 146097" "z mod 146097 < 146097" by simp_all
  note e = year_of_era [OF this yd]
  define mp where "mp = (5 * doy + 2) div 153"
  note mc = month_cases [OF e(3,4), folded mp_def]
  have d: "d = doy - (153 * mp + 2) div 5 + 1" and m: "m = (if mp < 10 then mp + 3 else mp - 9)"
    and y: "y = yoe + z div 146097 * 400 + (if m \<le> 2 then 1 else 0)"
    using assms yd unfolding mp_def z_def by (auto simp: civil_def Let_def split del: if_split)
  show "1 \<le> m" "m \<le> 12" "1 \<le> d" using mc(1-3) unfolding m d by auto
  have period: "(yoe + k * 400 + 1) mod n = (yoe + 1) mod n" if "n dvd 400" for k n :: int
  proof -
    from that obtain j where "400 = n * j" by (rule dvdE)
    then have "yoe + k * 400 + 1 = yoe + 1 + n * (j * k)" by simp
    then show ?thesis by (simp only: mod_mult_self2)
  qed
  have leap: "leap_year (yoe + k * 400 + 1) = leap_year (yoe + 1)" for k
    unfolding leap_year_def using period [of 4 k] period [of 100 k] period [of 400 k] by simp
  show "d \<le> daysIn m y"
  proof (cases "mp = 11")
    case True
    then have "m = 2" "d = doy - 336" using m d mc(5) by auto
    then show ?thesis using e(4,5) leap [of "z div 146097"] y by (cases "doy = 365") (auto simp: daysIn_def)
  next
    case False
    then have "mp < 11" using mc(2) by simp
    then show ?thesis using mc(4) mc(1) False unfolding d m daysIn_def by (auto split: if_splits)
  qed
  have "(if m \<le> 2 then y - 1 else y) = yoe + z div 146097 * 400" using y by simp
  moreover have "(yoe + z div 146097 * 400) div 400 = z div 146097" "(yoe + z div 146097 * 400) mod 400 = yoe"
    using e(1,2) by simp_all
  moreover have "(if m > 2 then m - 3 else m + 9) = mp" using mc(1,2) m by auto
  ultimately have "days_of_civil y m d = z div 146097 * 146097 + 365 * yoe + yoe div 4 - yoe div 100 + ((153 * mp + 2) div 5 + d - 1) - 719468"
    by (simp add: days_of_civil_def Let_def)
  moreover have "365 * yoe + yoe div 4 - yoe div 100 + ((153 * mp + 2) div 5 + d - 1) = z mod 146097"
    using e(6) unfolding d by simp
  ultimately have "days_of_civil y m d = z div 146097 * 146097 + z mod 146097 - 719468" by linarith
  also have "\<dots> = days" unfolding div_mult_mod_eq by (simp add: z_def)
  finally show "days_of_civil y m d = days" .
qed

subsection \<open>Length of a timestamp\<close>

lemma int_digits_length: "0 \<le> i \<Longrightarrow> i < 10 ^ Suc n \<Longrightarrow> length (int_digits i) \<le> Suc n"
proof (induction n arbitrary: i)
  case (Suc n)
  have "0 \<le> i div 10" "i div 10 < 10 ^ Suc n" using Suc.prems by auto
  from Suc.IH [OF this] show ?case by (subst int_digits.simps) auto
qed (simp add: int_digits.simps)

lemma pad_length: "\<bar>i\<bar> < 10 ^ Suc n \<Longrightarrow> length (pad k i) \<le> max k (n + 2)"
  using int_digits_length [of "\<bar>i\<bar>" n] by (auto simp: pad_def formatInt_def Let_def max_def)

lemma div_within: "\<bar>x\<bar> \<le> k \<Longrightarrow> 0 < c \<Longrightarrow> \<bar>x div c\<bar> \<le> (k :: int)"
proof -
  assume x: "\<bar>x\<bar> \<le> k" and c: "0 < c"
  have "k * 1 \<le> k * c" using x c by (intro mult_left_mono) linarith+
  then have "x \<le> k * c" "- k * c \<le> x" using x by linarith+
  from zdiv_mono1 [OF this(1) c] zdiv_mono1 [OF this(2) c] have "x div c \<le> k" "- k \<le> x div c"
    using nonzero_mult_div_cancel_right [of c k] nonzero_mult_div_cancel_right [of c "- k"] c by auto
  then show ?thesis by linarith
qed

lemma civil_bounds:
  assumes "civil days = (y, m, d)"
  shows "\<bar>m\<bar> < 10 ^ Suc 12" "\<bar>d\<bar> < 10 ^ Suc 12"
proof -
  have "d \<le> 31" using civil_correct(4) [OF assms] by (simp add: daysIn_def split: if_splits)
  moreover have "(10::int) ^ Suc 12 = 10000000000000" by simp
  ultimately show "\<bar>m\<bar> < 10 ^ Suc 12" "\<bar>d\<bar> < 10 ^ Suc 12"
    unfolding abs_less_iff using civil_correct(1-3) [OF assms] by linarith+
qed

lemma fraction_text_length: "0 \<le> ns \<Longrightarrow> ns < 1000000000 \<Longrightarrow> length (fraction_text ns) \<le> 11"
  using pad_length [of ns 8 9] length_dropWhile_le [of "\<lambda>c. c = CHR ''0''" "rev (pad 9 ns)"]
  by (simp add: fraction_text_def del: length_dropWhile_le)

lemma pad_short:
  assumes "\<bar>i\<bar> < 10 ^ Suc 12"
  shows "length (pad 2 i) \<le> 14" "length (pad 4 i) \<le> 14"
  using pad_length [OF assms, of 2] pad_length [OF assms, of 4] by simp_all

lemma formatRFC3339Nano_length:
  assumes "formatRFC3339Nano t = Some s"
  shows "length s \<le> 120"
proof -
  obtain y m d where c: "civil (t div 1000000000 div 86400) = (y, m, d)" by (metis prod.exhaust)
  let ?sod = "t div 1000000000 mod 86400"
  have eq: "s = pad 4 y @ ''-'' @ pad 2 m @ ''-'' @ pad 2 d @ ''T'' @ pad 2 (?sod div 3600) @ '':'' @
      pad 2 ((?sod div 60) mod 60) @ '':'' @ pad 2 (?sod mod 60) @ fraction_text (t mod 1000000000) @ ''Z''"
    and y: "\<bar>y\<bar> < 10 ^ Suc 12"
    using assms c by (simp_all add: formatRFC3339Nano_def Let_def split: if_splits)
  have "\<bar>?sod div 3600\<bar> < 10 ^ Suc 12" "\<bar>?sod div 60 mod 60\<bar> < 10 ^ Suc 12" "\<bar>?sod mod 60\<bar> < 10 ^ Suc 12"
    using div_within [of ?sod 86400 3600] by simp_all
  note short = this [THEN pad_short(1)] y [THEN pad_short(2)]
    civil_bounds [OF c, THEN pad_short(1)] fraction_text_length [of "t mod 1000000000", simplified]
  show ?thesis unfolding eq using short by (simp only: length_append list.size)
qed

end
