(* ===== verification/Effects.thy ===== *)
theory Effects
  imports Prelude
begin

text \<open>
  Effectful code.  An operation takes the world and returns an error or a value, and the new world.
  What the operating system, the clock and the random source answer is data of the world: a list of
  outcomes for the coming system calls (\<open>w_io\<close>, where a call beyond the end of the list succeeds),
  the clock readings (\<open>w_clock\<close> and the increments \<open>w_ticks\<close>), and the random values
  (\<open>w_rand\<close>).  A theorem that holds for every world therefore holds for every placement of
  failures.  \<open>w_history\<close> records the file system after each change to it, so a statement about
  its elements is a statement about every point at which the process may be killed.
\<close>

section \<open>The monad\<close>

type_synonym ('w, 'a) io = "'w \<Rightarrow> (err + 'a) \<times> 'w"

definition returnE :: "'a \<Rightarrow> ('w, 'a) io" where
  "returnE x = (\<lambda>w. (Inr x, w))"

definition failE :: "err \<Rightarrow> ('w, 'a) io" where
  "failE e = (\<lambda>w. (Inl e, w))"

definition bindE :: "('w, 'a) io \<Rightarrow> ('a \<Rightarrow> ('w, 'b) io) \<Rightarrow> ('w, 'b) io" where
  "bindE m f = (\<lambda>w. case m w of (Inl e, w') \<Rightarrow> (Inl e, w') | (Inr x, w') \<Rightarrow> f x w')"

abbreviation thenE :: "('w, 'a) io \<Rightarrow> ('w, 'b) io \<Rightarrow> ('w, 'b) io" where
  "thenE m n \<equiv> bindE m (\<lambda>_. n)"

text \<open>Statements in sequence, each followed by \<open>if err != nil { return err }\<close>.\<close>

fun seqE :: "('w, unit) io list \<Rightarrow> ('w, unit) io" where
  "seqE [] = returnE ()"
| "seqE (m # ms) = thenE m (seqE ms)"

text \<open>\<open>v, err := m()\<close>: the error becomes a value the code inspects.\<close>

definition tryE :: "('w, 'a) io \<Rightarrow> ('w, err + 'a) io" where
  "tryE m = (\<lambda>w. case m w of (r, w') \<Rightarrow> (Inr r, w'))"

text \<open>\<open>if err := e; err != nil { return err }\<close>.\<close>

definition checkE :: "err \<Rightarrow> ('w, unit) io" where
  "checkE e = (if e = [] then returnE () else failE e)"

text \<open>\<open>defer func() { err = errors.Join(err, cleanup()) }()\<close>.\<close>

fun err_of :: "err + 'a \<Rightarrow> err" where
  "err_of (Inl e) = e"
| "err_of (Inr _) = []"

definition deferJoin :: "('w, unit) io \<Rightarrow> ('w, 'a) io \<Rightarrow> ('w, 'a) io" where
  "deferJoin cleanup m = (\<lambda>w. case m w of (r, w1) \<Rightarrow>
     (case cleanup w1 of
        (Inr _, w2) \<Rightarrow> (r, w2)
      | (Inl e, w2) \<Rightarrow> (Inl (errors_Join [err_of r, e]), w2)))"

section \<open>Weakest preconditions\<close>

text \<open>
  \<open>wp m Q E w\<close>: started in \<open>w\<close>, operation \<open>m\<close> either returns a value and a world in \<open>Q\<close> or
  fails with an error and a world in \<open>E\<close>.  Operations are total, so this is total correctness.
\<close>

definition wp :: "('w, 'a) io \<Rightarrow> ('a \<Rightarrow> 'w \<Rightarrow> bool) \<Rightarrow> (err \<Rightarrow> 'w \<Rightarrow> bool) \<Rightarrow> 'w \<Rightarrow> bool" where
  "wp m Q E w \<longleftrightarrow> (case m w of (Inl e, w') \<Rightarrow> E e w' | (Inr x, w') \<Rightarrow> Q x w')"

lemma wp_returnE [wp_rules]: "wp (returnE x) Q E = Q x"
  by (simp add: wp_def returnE_def fun_eq_iff)

lemma wp_failE [wp_rules]: "wp (failE e) Q E = E e"
  by (simp add: wp_def failE_def fun_eq_iff)

lemma wp_bindE [wp_rules]: "wp (bindE m f) Q E w \<longleftrightarrow> wp m (\<lambda>x. wp (f x) Q E) E w"
  by (auto simp: wp_def bindE_def split: prod.splits sum.splits)

lemma wp_tryE [wp_rules]:
  "wp (tryE m) Q E w \<longleftrightarrow> wp m (\<lambda>x. Q (Inr x)) (\<lambda>e. Q (Inl e)) w"
  by (auto simp: wp_def tryE_def split: prod.splits sum.splits)

lemma wp_checkE [wp_rules]: "wp (checkE e) Q E w \<longleftrightarrow> (if e = [] then Q () w else E e w)"
  by (simp add: checkE_def wp_rules)

lemma thenE_checkE_nil [simp]: "thenE (checkE []) m = m"
  by (simp add: checkE_def bindE_def returnE_def)

lemma wp_deferJoin [wp_rules]:
  "wp (deferJoin c m) Q E w \<longleftrightarrow>
     wp m (\<lambda>x. wp c (\<lambda>_. Q x) E) (\<lambda>e. wp c (\<lambda>_. E e) (\<lambda>e'. E (errors_Join [e, e']))) w"
  by (auto simp: wp_def deferJoin_def errors_Join_def split: prod.splits sum.splits)

lemma wp_if [wp_rules]:
  "wp (if b then m else n) Q E w \<longleftrightarrow> (if b then wp m Q E w else wp n Q E w)"
  by simp

lemma wp_case_option [wp_rules]:
  "wp (case x of None \<Rightarrow> m | Some y \<Rightarrow> f y) Q E w \<longleftrightarrow>
     (case x of None \<Rightarrow> wp m Q E w | Some y \<Rightarrow> wp (f y) Q E w)"
  by (simp split: option.splits)

lemma wp_case_sum [wp_rules]:
  "wp (case x of Inl e \<Rightarrow> f e | Inr y \<Rightarrow> g y) Q E w \<longleftrightarrow>
     (case x of Inl e \<Rightarrow> wp (f e) Q E w | Inr y \<Rightarrow> wp (g y) Q E w)"
  by (simp split: sum.splits)

lemma wp_Let [wp_rules]: "wp (let x = a in f x) Q E w \<longleftrightarrow> (let x = a in wp (f x) Q E w)"
  by simp

lemma wp_mono:
  "wp m Q E w \<Longrightarrow> (\<And>x w'. Q x w' \<Longrightarrow> Q' x w') \<Longrightarrow> (\<And>e w'. E e w' \<Longrightarrow> E' e w') \<Longrightarrow> wp m Q' E' w"
  by (auto simp: wp_def split: prod.splits sum.splits)

lemma wp_conj:
  "wp m (\<lambda>x w'. Q x w' \<and> Q' x w') (\<lambda>e w'. E e w' \<and> E' e w') w \<longleftrightarrow> wp m Q E w \<and> wp m Q' E' w"
  by (auto simp: wp_def split: prod.splits sum.splits)

lemma wp_result: "wp m Q E w \<Longrightarrow> m w = (Inr x, w') \<Longrightarrow> Q x w'"
  by (simp add: wp_def)

lemma wp_error: "wp m Q E w \<Longrightarrow> m w = (Inl e, w') \<Longrightarrow> E e w'"
  by (simp add: wp_def)

lemma wp_snd: "wp m (\<lambda>_. P) (\<lambda>_. P) w \<longleftrightarrow> P (snd (m w))"
  by (auto simp: wp_def split: prod.splits sum.splits)

lemma wp_eval: "wp m (\<lambda>x w'. m w = (Inr x, w')) (\<lambda>e w'. m w = (Inl e, w')) w"
  by (auto simp: wp_def split: prod.splits sum.splits)

section \<open>Functions that return a value and an error\<close>

text \<open>
  A Go function with results \<open>(T, error)\<close> whose value is used even when the error is not nil.
  \<open>bindA m a f\<close> runs \<open>m\<close> and, when it fails, returns the value \<open>a\<close> built so far.
\<close>

type_synonym ('w, 'a) act = "'w \<Rightarrow> ('a \<times> err) \<times> 'w"

definition retA :: "'a \<Rightarrow> err \<Rightarrow> ('w, 'a) act" where
  "retA a e = (\<lambda>w. ((a, e), w))"

definition bindA :: "('w, 'b) io \<Rightarrow> 'a \<Rightarrow> ('b \<Rightarrow> ('w, 'a) act) \<Rightarrow> ('w, 'a) act" where
  "bindA m a f = (\<lambda>w. case m w of (Inl e, w') \<Rightarrow> ((a, e), w') | (Inr x, w') \<Rightarrow> f x w')"

text \<open>A function with a single error result is an action with the value unit.\<close>

definition actE :: "('w, unit) io \<Rightarrow> ('w, unit) act" where
  "actE m = bindA m () (\<lambda>_. retA () [])"

definition ioA :: "('w, 'a) act \<Rightarrow> ('w, 'a) io" where
  "ioA m = (\<lambda>w. case m w of ((a, e), w') \<Rightarrow> (if e = [] then Inr a else Inl e, w'))"

definition wpa :: "('w, 'a) act \<Rightarrow> ('a \<Rightarrow> err \<Rightarrow> 'w \<Rightarrow> bool) \<Rightarrow> 'w \<Rightarrow> bool" where
  "wpa m Q w \<longleftrightarrow> (case m w of ((a, e), w') \<Rightarrow> Q a e w')"

lemma wpa_retA [wp_rules]: "wpa (retA a e) Q = Q a e"
  by (simp add: wpa_def retA_def fun_eq_iff)

lemma wpa_bindA [wp_rules]: "wpa (bindA m a f) Q w \<longleftrightarrow> wp m (\<lambda>x. wpa (f x) Q) (\<lambda>e. Q a e) w"
  by (auto simp: wpa_def wp_def bindA_def split: prod.splits sum.splits)

lemma wpa_actE [wp_rules]: "wpa (actE m) Q w \<longleftrightarrow> wp m (\<lambda>_. Q () []) (\<lambda>e. Q () e) w"
  by (auto simp: actE_def wp_rules wp_def split: prod.splits sum.splits)

lemma wp_ioA [wp_rules]:
  "wp (ioA m) Q E w \<longleftrightarrow> wpa m (\<lambda>a e w'. if e = [] then Q a w' else E e w') w"
  by (auto simp: wpa_def wp_def ioA_def split: prod.splits)

lemma wpa_if [wp_rules]:
  "wpa (if b then m else n) Q w \<longleftrightarrow> (if b then wpa m Q w else wpa n Q w)"
  by simp

lemma wpa_case_sum [wp_rules]:
  "wpa (case x of Inl e \<Rightarrow> f e | Inr y \<Rightarrow> g y) Q w \<longleftrightarrow>
     (case x of Inl e \<Rightarrow> wpa (f e) Q w | Inr y \<Rightarrow> wpa (g y) Q w)"
  by (simp split: sum.splits)

lemma wpa_case_option [wp_rules]:
  "wpa (case x of None \<Rightarrow> m | Some y \<Rightarrow> f y) Q w \<longleftrightarrow>
     (case x of None \<Rightarrow> wpa m Q w | Some y \<Rightarrow> wpa (f y) Q w)"
  by (simp split: option.splits)

lemma wpa_Let [wp_rules]: "wpa (let x = a in f x) Q w \<longleftrightarrow> (let x = a in wpa (f x) Q w)"
  by simp

lemma wpa_mono: "wpa m Q w \<Longrightarrow> (\<And>a e w'. Q a e w' \<Longrightarrow> Q' a e w') \<Longrightarrow> wpa m Q' w"
  by (auto simp: wpa_def split: prod.splits)

section \<open>Walking through an operation\<close>

text \<open>
  The rules again, as introduction rules: \<open>(intro wp_intros)\<close> follows the structure of an operation
  and leaves one goal for each call and each way to return.
\<close>

lemma wp_returnI [wp_intros]: "Q x w \<Longrightarrow> wp (returnE x) Q E w"
  by (simp add: wp_rules)

lemma wp_failI [wp_intros]: "E e w \<Longrightarrow> wp (failE e) Q E w"
  by (simp add: wp_rules)

lemma wp_bindI [wp_intros]: "wp m (\<lambda>x. wp (f x) Q E) E w \<Longrightarrow> wp (bindE m f) Q E w"
  by (simp add: wp_rules)

lemma wp_tryI [wp_intros]: "wp m (\<lambda>x. Q (Inr x)) (\<lambda>e. Q (Inl e)) w \<Longrightarrow> wp (tryE m) Q E w"
  by (simp add: wp_rules)

lemma wp_checkI [wp_intros]: "(e = [] \<Longrightarrow> Q () w) \<Longrightarrow> (e \<noteq> [] \<Longrightarrow> E e w) \<Longrightarrow> wp (checkE e) Q E w"
  by (simp add: wp_rules)

lemma wp_ifI [wp_intros]:
  "(b \<Longrightarrow> wp m Q E w) \<Longrightarrow> (\<not> b \<Longrightarrow> wp n Q E w) \<Longrightarrow> wp (if b then m else n) Q E w"
  by simp

lemma wp_LetI [wp_intros]: "wp (f a) Q E w \<Longrightarrow> wp (Let a f) Q E w"
  by simp

lemma wp_ioAI [wp_intros]: "wpa m (\<lambda>a e w'. if e = [] then Q a w' else E e w') w \<Longrightarrow> wp (ioA m) Q E w"
  by (simp add: wp_rules)

lemma wpa_retI [wp_intros]: "Q a e w \<Longrightarrow> wpa (retA a e) Q w"
  by (simp add: wp_rules)

lemma wpa_bindI [wp_intros]: "wp m (\<lambda>x. wpa (f x) Q) (Q a) w \<Longrightarrow> wpa (bindA m a f) Q w"
  by (simp add: wp_rules)

lemma wpa_actI [wp_intros]: "wp m (\<lambda>_. Q () []) (Q ()) w \<Longrightarrow> wpa (actE m) Q w"
  by (simp add: wp_rules)

lemma wpa_ifI [wp_intros]:
  "(b \<Longrightarrow> wpa m Q w) \<Longrightarrow> (\<not> b \<Longrightarrow> wpa n Q w) \<Longrightarrow> wpa (if b then m else n) Q w"
  by simp

lemma wpa_LetI [wp_intros]: "wpa (f a) Q w \<Longrightarrow> wpa (Let a f) Q w"
  by simp

lemma wp_case_sumI [wp_intros]:
  "wp (g y) Q E w \<Longrightarrow> wp (case Inr y of Inl e \<Rightarrow> f e | Inr z \<Rightarrow> g z) Q E w"
  "wp (f e) Q E w \<Longrightarrow> wp (case Inl e of Inl e' \<Rightarrow> f e' | Inr z \<Rightarrow> g z) Q E w"
  by simp_all

lemma wpa_case_sumI [wp_intros]:
  "wpa (g y) Q w \<Longrightarrow> wpa (case Inr y of Inl e \<Rightarrow> f e | Inr z \<Rightarrow> g z) Q w"
  "wpa (f e) Q w \<Longrightarrow> wpa (case Inl e of Inl e' \<Rightarrow> f e' | Inr z \<Rightarrow> g z) Q w"
  by simp_all

text \<open>\<open>v, err := m()\<close> for a function whose value is used whatever the error.\<close>

definition pairA :: "('w, 'a) act \<Rightarrow> ('w, 'a \<times> err) io" where
  "pairA m = (\<lambda>w. case m w of (r, w') \<Rightarrow> (Inr r, w'))"

lemma wp_pairA [wp_rules]: "wp (pairA m) Q E w \<longleftrightarrow> wpa m (\<lambda>a e. Q (a, e)) w"
  by (auto simp: wp_def wpa_def pairA_def split: prod.splits)

lemma wp_pairAI [wp_intros]: "wpa m (\<lambda>a e. Q (a, e)) w \<Longrightarrow> wp (pairA m) Q E w"
  by (simp add: wp_rules)

section \<open>Invariants of operations\<close>

text \<open>
  \<open>keeps P m\<close>: operation \<open>m\<close>, started in a world in \<open>P\<close>, ends in a world in \<open>P\<close>, with a value or an
  error.  The rules compose along the structure of an operation.
\<close>

definition keeps :: "('w \<Rightarrow> bool) \<Rightarrow> ('w, 'a) io \<Rightarrow> bool" where
  "keeps P m \<longleftrightarrow> (\<forall>w. P w \<longrightarrow> wp m (\<lambda>_. P) (\<lambda>_. P) w)"

definition keepsA :: "('w \<Rightarrow> bool) \<Rightarrow> ('w, 'a) act \<Rightarrow> bool" where
  "keepsA P m \<longleftrightarrow> (\<forall>w. P w \<longrightarrow> wpa m (\<lambda>_ _. P) w)"

lemma keepsI: "(\<And>w. P w \<Longrightarrow> wp m (\<lambda>_. P) (\<lambda>_. P) w) \<Longrightarrow> keeps P m"
  by (simp add: keeps_def)

lemma keepsD: "keeps P m \<Longrightarrow> P w \<Longrightarrow> wp m (\<lambda>_. P) (\<lambda>_. P) w"
  by (simp add: keeps_def)

lemma keepsAI: "(\<And>w. P w \<Longrightarrow> wpa m (\<lambda>_ _. P) w) \<Longrightarrow> keepsA P m"
  by (simp add: keepsA_def)

lemma keepsAD: "keepsA P m \<Longrightarrow> P w \<Longrightarrow> wpa m (\<lambda>_ _. P) w"
  by (simp add: keepsA_def)

lemma keeps_result: "keeps P m \<Longrightarrow> P w \<Longrightarrow> m w = (r, w') \<Longrightarrow> P w'"
  by (auto simp: keeps_def wp_def split: sum.splits dest: spec [of _ w])

lemma keepsA_result: "keepsA P m \<Longrightarrow> P w \<Longrightarrow> m w = (r, w') \<Longrightarrow> P w'"
  by (auto simp: keepsA_def wpa_def split: prod.splits dest: spec [of _ w])

lemma keeps_conj:
  assumes "keeps P m" and "keeps Q m"
  shows "keeps (\<lambda>w. P w \<and> Q w) m"
  using assms by (simp add: keeps_def wp_conj)

lemma keeps_return [keeps_intros]: "keeps P (returnE x)"
  by (simp add: keeps_def wp_rules)

lemma keeps_fail [keeps_intros]: "keeps P (failE e)"
  by (simp add: keeps_def wp_rules)

lemma keeps_check [keeps_intros]: "keeps P (checkE e)"
  by (simp add: keeps_def wp_rules)

lemma keepsA_ret [keeps_intros]: "keepsA P (retA a e)"
  by (simp add: keepsA_def wp_rules)

lemma keeps_bind [keeps_intros]:
  assumes "keeps P m" and "\<And>x. keeps P (f x)"
  shows "keeps P (bindE m f)"
  by (rule keepsI, rule wp_bindI, rule wp_mono [OF keepsD [OF assms(1)]], assumption)
    (rule keepsD [OF assms(2)], assumption)

lemma keepsA_bind [keeps_intros]:
  assumes "keeps P m" and "\<And>x. keepsA P (f x)"
  shows "keepsA P (bindA m a f)"
  by (rule keepsAI, rule wpa_bindI, rule wp_mono [OF keepsD [OF assms(1)]], assumption)
    (rule keepsAD [OF assms(2)], assumption)

lemma keeps_try [keeps_intros]: "keeps P m \<Longrightarrow> keeps P (tryE m)"
  by (simp add: keeps_def wp_tryE)

lemma keepsA_act [keeps_intros]: "keeps P m \<Longrightarrow> keepsA P (actE m)"
  by (simp add: keeps_def keepsA_def wpa_actE)

lemma keeps_io [keeps_intros]: "keepsA P m \<Longrightarrow> keeps P (ioA m)"
  by (auto simp: keeps_def keepsA_def wp_ioA intro: wpa_mono)

lemma keeps_pair [keeps_intros]: "keepsA P m \<Longrightarrow> keeps P (pairA m)"
  by (simp add: keeps_def keepsA_def wp_pairA)

lemma keeps_if [keeps_intros]: "keeps P m \<Longrightarrow> keeps P n \<Longrightarrow> keeps P (if b then m else n)"
  by simp

lemma keepsA_if [keeps_intros]: "keepsA P m \<Longrightarrow> keepsA P n \<Longrightarrow> keepsA P (if b then m else n)"
  by simp

lemma keeps_sum [keeps_intros]:
  "(\<And>e. keeps P (f e)) \<Longrightarrow> (\<And>x. keeps P (g x)) \<Longrightarrow> keeps P (case r of Inl e \<Rightarrow> f e | Inr x \<Rightarrow> g x)"
  by (simp split: sum.split)

lemma keepsA_sum [keeps_intros]:
  "(\<And>e. keepsA P (f e)) \<Longrightarrow> (\<And>x. keepsA P (g x)) \<Longrightarrow> keepsA P (case r of Inl e \<Rightarrow> f e | Inr x \<Rightarrow> g x)"
  by (simp split: sum.split)

lemma keeps_option [keeps_intros]:
  "keeps P m \<Longrightarrow> (\<And>x. keeps P (g x)) \<Longrightarrow> keeps P (case r of None \<Rightarrow> m | Some x \<Rightarrow> g x)"
  by (simp split: option.split)

lemma keepsA_option [keeps_intros]:
  "keepsA P m \<Longrightarrow> (\<And>x. keepsA P (g x)) \<Longrightarrow> keepsA P (case r of None \<Rightarrow> m | Some x \<Rightarrow> g x)"
  by (simp split: option.split)

lemma keeps_prod [keeps_intros]: "(\<And>x y. keeps P (f x y)) \<Longrightarrow> keeps P (case p of (x, y) \<Rightarrow> f x y)"
  by (simp split: prod.split)

lemma keepsA_prod [keeps_intros]: "(\<And>x y. keepsA P (f x y)) \<Longrightarrow> keepsA P (case p of (x, y) \<Rightarrow> f x y)"
  by (simp split: prod.split)

lemma keeps_Let [keeps_intros]: "(\<And>x. keeps P (f x)) \<Longrightarrow> keeps P (Let x f)"
  by simp

lemma keepsA_Let [keeps_intros]: "(\<And>x. keepsA P (f x)) \<Longrightarrow> keepsA P (Let x f)"
  by simp

lemma keeps_seq [keeps_intros]: "list_all (keeps P) ms \<Longrightarrow> keeps P (seqE ms)"
  by (induction ms) (auto intro: keeps_intros)

text \<open>\<open>errors.Join\<close> of an operation's error with that of a step that always follows.\<close>

lemma keepsA_then_join:
  assumes "keepsA P operation" and "keeps P after"
  shows "keepsA P (\<lambda>w. case operation w of ((a, e), w') \<Rightarrow> (case after w' of (r, w'') \<Rightarrow> ((a, f e r), w'')))"
  by (rule keepsAI)
    (auto simp: wpa_def split: prod.splits dest: keepsA_result [OF assms(1)] keeps_result [OF assms(2)])

end
