(* ===== verification/CanonicalJson.thy ===== *)
theory CanonicalJson
  imports Prelude "HOL-Library.Char_ord" "HOL-Library.List_Lexorder" "HOL-Library.Multiset"
begin

text \<open>
  The canonical JSON of \<open>internal/proxy/state/canonical.go\<close>: \<open>writeCanonical\<close> and
  \<open>writeJSONString\<close> over decoded JSON values, and the checksum of a record.  \<open>decodeRune\<close> and
  \<open>encodeRune\<close> are \<open>utf8.DecodeRuneInString\<close> and the conversion \<open>string(r)\<close> of the Go runtime.
  The theory shows that decoding inverts encoding of UTF-8, bounds the length of canonical text, and
  (locale \<open>checksummed\<close>) shows that a record whose checksum was just set passes verification.
\<close>

section \<open>UTF-8\<close>

abbreviation rune_error :: nat where "rune_error \<equiv> 65533"

definition is_cont :: "char \<Rightarrow> bool" where
  "is_cont c \<longleftrightarrow> 128 \<le> byte c \<and> byte c \<le> 191"

definition second_lo :: "nat \<Rightarrow> nat" where
  "second_lo x = (if x = 224 then 160 else if x = 240 then 144 else 128)"

definition second_hi :: "nat \<Rightarrow> nat" where
  "second_hi x = (if x = 237 then 159 else if x = 244 then 143 else 191)"

definition is_second :: "nat \<Rightarrow> char \<Rightarrow> bool" where
  "is_second x c \<longleftrightarrow> second_lo x \<le> byte c \<and> byte c \<le> second_hi x"

fun decodeRune :: "string \<Rightarrow> nat \<times> nat" where
  "decodeRune [] = (rune_error, 0)"
| "decodeRune (a # s) =
     (let x = byte a in
      if x < 128 then (x, 1)
      else if 194 \<le> x \<and> x \<le> 223 then
        (case s of
           b # _ \<Rightarrow> if is_second x b then ((x - 192) * 64 + (byte b - 128), 2) else (rune_error, 1)
         | _ \<Rightarrow> (rune_error, 1))
      else if 224 \<le> x \<and> x \<le> 239 then
        (case s of
           b # c # _ \<Rightarrow> if is_second x b \<and> is_cont c
             then ((x - 224) * 4096 + (byte b - 128) * 64 + (byte c - 128), 3) else (rune_error, 1)
         | _ \<Rightarrow> (rune_error, 1))
      else if 240 \<le> x \<and> x \<le> 244 then
        (case s of
           b # c # d # _ \<Rightarrow> if is_second x b \<and> is_cont c \<and> is_cont d
             then ((x - 240) * 262144 + (byte b - 128) * 4096 + (byte c - 128) * 64 + (byte d - 128), 4)
             else (rune_error, 1)
         | _ \<Rightarrow> (rune_error, 1))
      else (rune_error, 1))"

definition encodeRune :: "nat \<Rightarrow> string" where
  "encodeRune r =
     (if r < 128 then [char_of r]
      else if r < 2048 then [char_of (192 + r div 64), char_of (128 + r mod 64)]
      else if r < 65536 \<and> \<not> (55296 \<le> r \<and> r \<le> 57343) then
        [char_of (224 + r div 4096), char_of (128 + (r div 64) mod 64), char_of (128 + r mod 64)]
      else if 65536 \<le> r \<and> r \<le> 1114111 then
        [char_of (240 + r div 262144), char_of (128 + (r div 4096) mod 64),
         char_of (128 + (r div 64) mod 64), char_of (128 + r mod 64)]
      else [char_of (239::nat), char_of (191::nat), char_of (189::nat)])"

lemma decodeRune_size: "s \<noteq> [] \<Longrightarrow> 1 \<le> snd (decodeRune s)"
  by (cases s) (auto simp: Let_def split: list.splits)

lemma decodeRune_shrinks: "s \<noteq> [] \<Longrightarrow> length (drop (snd (decodeRune s)) s) < length s"
  using decodeRune_size [of s] by (cases s) auto

text \<open>The loop of \<open>for len(value) > 0 { r, size := ...; value = value[size:] ... }\<close>.\<close>

function runes :: "string \<Rightarrow> nat list" where
  "runes s = (if s = [] then [] else fst (decodeRune s) # runes (drop (snd (decodeRune s)) s))"
  by pat_completeness auto
termination
  by (relation "measure length") (use decodeRune_shrinks in auto)

declare runes.simps [simp del]

function valid_utf8 :: "string \<Rightarrow> bool" where
  "valid_utf8 s =
     (if s = [] then True
      else decodeRune s \<noteq> (rune_error, 1) \<and> valid_utf8 (drop (snd (decodeRune s)) s))"
  by pat_completeness auto
termination
  by (relation "measure length") (use decodeRune_shrinks in auto)

declare valid_utf8.simps [simp del]

text \<open>
  \<open>json.Marshal\<close> replaces every byte that is not part of valid UTF-8 by the replacement character,
  so this is what a string field reads back as after one trip through a file.
\<close>

definition coerceUTF8 :: "string \<Rightarrow> string" where
  "coerceUTF8 s = concat (map encodeRune (runes s))"

definition is_scalar :: "nat \<Rightarrow> bool" where
  "is_scalar r \<longleftrightarrow> r \<le> 1114111 \<and> \<not> (55296 \<le> r \<and> r \<le> 57343)"

lemma byte_char_of: "n < 256 \<Longrightarrow> byte (char_of n) = n"
  by simp

lemma char_of_eqI: "byte c = n \<Longrightarrow> char_of n = c"
  by auto

lemma rune_cases:
  assumes "is_scalar r"
  obtains "r < 128" | "128 \<le> r" "r < 2048" | "2048 \<le> r" "r < 55296" | "57343 < r" "r < 65536"
    | "65536 \<le> r" "r \<le> 1114111"
  using assms unfolding is_scalar_def by linarith

lemma mod64_le: "n mod 64 \<le> (63::nat)"
  using mod_less_divisor [of 64 n] by linarith

lemma base64_parts:
  fixes r :: nat
  shows "r = 64 * (r div 64) + r mod 64"
    and "r div 64 = 64 * (r div 4096) + (r div 64) mod 64"
    and "r div 4096 = 64 * (r div 262144) + (r div 4096) mod 64"
    and "r mod 64 < 64" and "(r div 64) mod 64 < 64" and "(r div 4096) mod 64 < 64"
  using div_mult2_eq [of r 64 64] div_mult2_eq [of r 4096 64] by simp_all

lemma decode_encodeRune:
  assumes "is_scalar r"
  shows "decodeRune (encodeRune r @ s) = (r, length (encodeRune r))"
  using assms
proof (cases rule: rune_cases)
  case 1
  then show ?thesis by (simp add: encodeRune_def)
next
  case 2
  then have "2 \<le> r div 64" "r div 64 < 32" by linarith+
  with 2 show ?thesis
    by (simp add: Let_def encodeRune_def is_second_def second_lo_def second_hi_def)
next
  case 3
  note b = base64_parts [of r]
  have "r div 4096 < 14" "r div 4096 = 0 \<Longrightarrow> 32 \<le> (r div 64) mod 64"
    "r div 4096 = 13 \<Longrightarrow> (r div 64) mod 64 < 32"
    "r div 4096 * 4096 + (r div 64) mod 64 * 64 + r mod 64 = r"
    using 3 b by linarith+
  with 3 b(4-) show ?thesis
    by (simp add: Let_def encodeRune_def is_second_def is_cont_def second_lo_def second_hi_def mod64_le)
next
  case 4
  note b = base64_parts [of r]
  have "13 < r div 4096" "r div 4096 < 16"
    "r div 4096 * 4096 + (r div 64) mod 64 * 64 + r mod 64 = r"
    using 4 b by linarith+
  with 4 b(4-) show ?thesis
    by (auto simp: Let_def encodeRune_def is_second_def is_cont_def second_lo_def second_hi_def mod64_le)
next
  case 5
  note b = base64_parts [of r]
  have "r div 262144 < 5" "r div 262144 = 0 \<Longrightarrow> 16 \<le> (r div 4096) mod 64"
    "r div 262144 = 4 \<Longrightarrow> (r div 4096) mod 64 < 16"
    "r div 262144 * 262144 + (r div 4096) mod 64 * 4096 + (r div 64) mod 64 * 64 + r mod 64 = r"
    using 5 b by linarith+
  with 5 b(4-) show ?thesis
    by (simp add: Let_def encodeRune_def is_second_def is_cont_def second_lo_def second_hi_def mod64_le)
qed

lemma two_bytes:
  fixes q r p :: nat
  assumes "q < 64" and "r = p * 64 + q"
  shows "r div 64 = p" "r mod 64 = q"
  using assms by simp_all

lemma three_bytes:
  fixes q t r p :: nat
  assumes "q < 64" "t < 64" and r: "r = p * 4096 + q * 64 + t"
  shows "r div 4096 = p" "(r div 64) mod 64 = q" "r mod 64 = t"
proof -
  have "r = (p * 64 + q) * 64 + t" using r by simp
  note low = two_bytes [OF assms(2) this]
  note high = two_bytes [OF assms(1) refl, of p]
  show "r mod 64 = t" "(r div 64) mod 64 = q" using low high by simp_all
  show "r div 4096 = p" using low high div_mult2_eq [of r 64 64] by simp
qed

lemma four_bytes:
  fixes q t u r p :: nat
  assumes "q < 64" "t < 64" "u < 64" and r: "r = p * 262144 + q * 4096 + t * 64 + u"
  shows "r div 262144 = p" "(r div 4096) mod 64 = q" "(r div 64) mod 64 = t" "r mod 64 = u"
proof -
  have "r = (p * 4096 + q * 64 + t) * 64 + u" using r by simp
  note low = two_bytes [OF assms(3) this]
  note high = three_bytes [OF assms(1,2) refl, of p]
  show "r mod 64 = u" using low by simp
  show "(r div 64) mod 64 = t" using low high by simp
  show "(r div 4096) mod 64 = q" using low high div_mult2_eq [of r 64 64] by simp
  show "r div 262144 = p" using low high div_mult2_eq [of r 64 4096] by simp
qed

lemma encode_decodeRune2:
  assumes x: "194 \<le> byte a" "byte a \<le> 223" and b: "is_second (byte a) b"
    and r: "r = (byte a - 192) * 64 + (byte b - 128)"
  shows "encodeRune r = [a, b] \<and> is_scalar r"
proof -
  define p q where "p = byte a - 192" and "q = byte b - 128"
  have pq: "byte a = 192 + p" "byte b = 128 + q" and bounds: "2 \<le> p" "p < 32" "q < 64"
    using x b by (auto simp: p_def q_def is_second_def second_lo_def second_hi_def split: if_splits)
  have r': "r = p * 64 + q" using r by (simp add: p_def q_def)
  have "r div 64 = p" "r mod 64 = q" "128 \<le> r" "r < 2048"
    using two_bytes [OF bounds(3) r'] r' bounds by linarith+
  moreover have "char_of (192 + p) = a" "char_of (128 + q) = b"
    using pq by (metis char_of_char)+
  ultimately show ?thesis by (simp add: encodeRune_def is_scalar_def)
qed

lemma encode_decodeRune3:
  assumes x: "224 \<le> byte a" "byte a \<le> 239" and b: "is_second (byte a) b" and c: "is_cont c"
    and r: "r = (byte a - 224) * 4096 + (byte b - 128) * 64 + (byte c - 128)"
  shows "encodeRune r = [a, b, c] \<and> is_scalar r"
proof -
  define p q t where "p = byte a - 224" and "q = byte b - 128" and "t = byte c - 128"
  have pqt: "byte a = 224 + p" "byte b = 128 + q" "byte c = 128 + t"
    and bounds: "p < 16" "q < 64" "t < 64" and edge: "p = 0 \<Longrightarrow> 32 \<le> q" "p = 13 \<Longrightarrow> q < 32"
    using x b c by (auto simp: p_def q_def t_def is_cont_def is_second_def second_lo_def
        second_hi_def split: if_splits)
  have r': "r = p * 4096 + q * 64 + t" using r by (simp add: p_def q_def t_def)
  have "2048 \<le> r" "r < 65536"
    using r' bounds edge(1) by (cases "p = 0"; linarith)+
  moreover have "\<not> (55296 \<le> r \<and> r \<le> 57343)"
    using r' bounds edge(2) by (cases "p < 13"; cases "p = 13") linarith+
  moreover have "char_of (224 + p) = a" "char_of (128 + q) = b" "char_of (128 + t) = c"
    using pqt by (metis char_of_char)+
  ultimately show ?thesis
    using three_bytes [OF bounds(2,3) r'] by (simp add: encodeRune_def is_scalar_def)
qed

lemma encode_decodeRune4:
  assumes x: "240 \<le> byte a" "byte a \<le> 244" and b: "is_second (byte a) b" and c: "is_cont c"
    and d: "is_cont d"
    and r: "r = (byte a - 240) * 262144 + (byte b - 128) * 4096 + (byte c - 128) * 64 + (byte d - 128)"
  shows "encodeRune r = [a, b, c, d] \<and> is_scalar r"
proof -
  define p q t u where "p = byte a - 240" and "q = byte b - 128" and "t = byte c - 128"
    and "u = byte d - 128"
  have pqt: "byte a = 240 + p" "byte b = 128 + q" "byte c = 128 + t" "byte d = 128 + u"
    and bounds: "p \<le> 4" "q < 64" "t < 64" "u < 64" and edge: "p = 0 \<Longrightarrow> 16 \<le> q" "p = 4 \<Longrightarrow> q < 16"
    using x b c d by (auto simp: p_def q_def t_def u_def is_cont_def is_second_def second_lo_def
        second_hi_def split: if_splits)
  have r': "r = p * 262144 + q * 4096 + t * 64 + u" using r by (simp add: p_def q_def t_def u_def)
  have "65536 \<le> r"
    using r' bounds edge(1) by (cases "p = 0") linarith+
  moreover have "r \<le> 1114111"
    using r' bounds edge(2) by (cases "p = 4") linarith+
  moreover have "char_of (240 + p) = a" "char_of (128 + q) = b" "char_of (128 + t) = c"
    "char_of (128 + u) = d"
    using pqt by (metis char_of_char)+
  ultimately show ?thesis
    using four_bytes [OF bounds(2,3,4) r'] by (simp add: encodeRune_def is_scalar_def)
qed

lemma encodeRune_ascii: "byte a < 128 \<Longrightarrow> encodeRune (byte a) = [a] \<and> is_scalar (byte a)"
  by (simp add: encodeRune_def is_scalar_def)

lemma encode_decodeRune:
  assumes "s \<noteq> []" and "decodeRune s \<noteq> (rune_error, 1)"
  shows "encodeRune (fst (decodeRune s)) = take (snd (decodeRune s)) s \<and> is_scalar (fst (decodeRune s))"
proof -
  obtain a t where s: "s = a # t" using assms(1) by (cases s) auto
  show ?thesis
    using assms(2) encode_decodeRune2 [OF _ _ _ refl, of a] encode_decodeRune3 [OF _ _ _ _ refl, of a]
      encode_decodeRune4 [OF _ _ _ _ _ refl, of a]
    encodeRune_ascii [of a]
    by (auto simp: s Let_def split: list.splits if_splits)
qed

lemma decodeRune_scalar: "is_scalar (fst (decodeRune s))"
proof (cases "s \<noteq> [] \<and> decodeRune s \<noteq> (rune_error, 1)")
  case True
  then show ?thesis using encode_decodeRune by blast
next
  case False
  then show ?thesis by (cases s) (auto simp: is_scalar_def)
qed

lemma runes_scalar: "list_all is_scalar (runes s)"
proof (induction s rule: runes.induct)
  case (1 s)
  then show ?case by (subst runes.simps) (simp add: decodeRune_scalar)
qed

lemma encodeRune_not_Nil [simp]: "encodeRune r \<noteq> []"
  by (simp add: encodeRune_def)

lemma runes_encode: "list_all is_scalar rs \<Longrightarrow> runes (concat (map encodeRune rs)) = rs"
proof (induction rs)
  case (Cons r rs)
  then show ?case by (subst runes.simps) (simp add: decode_encodeRune)
qed (simp add: runes.simps)

lemma runes_coerceUTF8 [simp]: "runes (coerceUTF8 s) = runes s"
  by (simp add: coerceUTF8_def runes_encode runes_scalar)

lemma coerceUTF8_idem [simp]: "coerceUTF8 (coerceUTF8 s) = coerceUTF8 s"
  by (simp add: coerceUTF8_def [of "coerceUTF8 s"] coerceUTF8_def [of s, symmetric])

lemma coerceUTF8_valid: "valid_utf8 s \<Longrightarrow> coerceUTF8 s = s"
proof (induction s rule: valid_utf8.induct)
  case (1 s)
  show ?case
  proof (cases "s = []")
    case False
    with "1.prems" have v: "decodeRune s \<noteq> (rune_error, 1)" "valid_utf8 (drop (snd (decodeRune s)) s)"
      by (simp_all add: valid_utf8.simps [of s])
    have "coerceUTF8 s = take (snd (decodeRune s)) s @ coerceUTF8 (drop (snd (decodeRune s)) s)"
      using False encode_decodeRune [OF False v(1)] by (simp add: coerceUTF8_def runes.simps [of s])
    then show ?thesis using "1.IH" [OF False v(2)] by simp
  qed (simp add: coerceUTF8_def runes.simps)
qed

lemma decodeRune_ascii: "s \<noteq> [] \<Longrightarrow> byte (hd s) < 128 \<Longrightarrow> decodeRune s = (byte (hd s), 1)"
  by (cases s) auto

lemma coerceUTF8_ascii: "list_all (\<lambda>c. byte c < 128) s \<Longrightarrow> coerceUTF8 s = s"
proof (induction s)
  case (Cons c s)
  then show ?case
    by (simp add: coerceUTF8_def runes.simps [of "c # s"] encodeRune_def)
qed (simp add: coerceUTF8_def runes.simps)

section \<open>JSON values and the canonical writer\<close>

text \<open>
  A value as \<open>json.Decoder\<close> with \<open>UseNumber\<close> delivers it: numbers keep their spelling, and an
  object is a map, given by the list of its members.
\<close>

datatype json =
    JNull
  | JBool bool
  | JString string
  | JNumber string
  | JArray "json list"
  | JObject "(string \<times> json) list"

definition escapeRune :: "nat \<Rightarrow> string" where
  "escapeRune r =
     (if r = 34 \<or> r = 92 then [char_of (92::nat), char_of r]
      else if r = 8 then [char_of (92::nat), CHR ''b'']
      else if r = 12 then [char_of (92::nat), CHR ''f'']
      else if r = 10 then [char_of (92::nat), CHR ''n'']
      else if r = 13 then [char_of (92::nat), CHR ''r'']
      else if r = 9 then [char_of (92::nat), CHR ''t'']
      else if r < 32 then [char_of (92::nat), CHR ''u''] @ hex_digits 4 (int r)
      else encodeRune r)"

definition writeJSONString :: "string \<Rightarrow> string" where
  "writeJSONString s = [CHR 34] @ concat (map escapeRune (runes s)) @ [CHR 34]"

fun all_some :: "'a option list \<Rightarrow> 'a list option" where
  "all_some [] = Some []"
| "all_some (x # xs) =
     (case x of None \<Rightarrow> None | Some y \<Rightarrow> map_option (Cons y) (all_some xs))"

text \<open>
  \<open>None\<close> is the error return (a number that is not a normalized 64-bit integer).  The members of
  an object are written in the byte order of their names.
\<close>

function writeCanonical :: "json \<Rightarrow> string option" where
  "writeCanonical JNull = Some ''null''"
| "writeCanonical (JBool b) = Some (if b then ''true'' else ''false'')"
| "writeCanonical (JString s) = Some (writeJSONString s)"
| "writeCanonical (JNumber n) =
     (case parseInt64 n of
        None \<Rightarrow> None
      | Some i \<Rightarrow> if formatInt i = n then Some n else None)"
| "writeCanonical (JArray vs) =
     map_option (\<lambda>ps. ''['' @ join_with '','' ps @ '']'') (all_some (map writeCanonical vs))"
| "writeCanonical (JObject kvs) =
     map_option (\<lambda>ps. ''{'' @ join_with '','' ps @ ''}'')
       (all_some (map (\<lambda>kv. map_option (\<lambda>t. writeJSONString (fst kv) @ '':'' @ t) (writeCanonical (snd kv)))
          (sort_key fst kvs)))"
  by pat_completeness auto
termination
proof (relation "measure size", goal_cases)
  case (2 vs v)
  then show ?case by (simp add: size_list_estimation less_Suc_eq_le size_list_estimation')
next
  case (3 kvs kv)
  then have kv: "kv \<in> set kvs" by simp
  have "size (snd kv) < Suc (size_prod (\<lambda>_. 0) size kv)" by (cases kv) simp
  also have "\<dots> \<le> Suc (size_list (size_prod (\<lambda>_. 0) size) kvs)"
    using kv by (simp add: size_list_estimation')
  finally show ?case by simp
qed simp

section \<open>Checksums\<close>

text \<open>
  \<open>checksumRecord\<close> on the JSON of a record (\<open>None\<close> where \<open>json.Marshal\<close> fails), and its two
  callers.  \<open>marshalChecksummed\<close> returns the bytes written and the record with its checksum set;
  the record is the caller's struct, so its strings are still the caller's own.
\<close>

definition without_checksum :: "(string \<times> json) list \<Rightarrow> (string \<times> json) list" where
  "without_checksum kvs = filter (\<lambda>kv. fst kv \<noteq> ''checksum'') kvs"

definition checksumRecord :: "sha256 \<Rightarrow> (string \<times> json) list option \<Rightarrow> err + string" where
  "checksumRecord sha obj =
     (case obj of
        None \<Rightarrow> Inl [Other ''json.Marshal'']
      | Some kvs \<Rightarrow>
          (case writeCanonical (JObject (without_checksum kvs)) of
             None \<Rightarrow> Inl [Other ''canonical JSON only accepts normalized integers'']
           | Some canonical \<Rightarrow> Inr (digest_text sha canonical)))"

definition canonicalJSON :: "(string \<times> json) list option \<Rightarrow> err + string" where
  "canonicalJSON obj =
     (case obj of
        None \<Rightarrow> Inl [Other ''json.Marshal'']
      | Some kvs \<Rightarrow>
          (case writeCanonical (JObject kvs) of
             None \<Rightarrow> Inl [Other ''canonical JSON only accepts normalized integers'']
           | Some t \<Rightarrow> Inr t))"

definition marshalChecksummed ::
    "sha256 \<Rightarrow> ('r \<Rightarrow> (string \<times> json) list option) \<Rightarrow> (string \<Rightarrow> 'r \<Rightarrow> 'r) \<Rightarrow> 'r \<Rightarrow> err + (string \<times> 'r)" where
  "marshalChecksummed sha json_of setChecksum value =
     (case checksumRecord sha (json_of value) of
        Inl e \<Rightarrow> Inl e
      | Inr c \<Rightarrow> (let value' = setChecksum c value in
          (case canonicalJSON (json_of value') of
             Inl e \<Rightarrow> Inl e
           | Inr data \<Rightarrow> Inr (data, value'))))"

definition verifyChecksum :: "sha256 \<Rightarrow> (string \<times> json) list option \<Rightarrow> string \<Rightarrow> err" where
  "verifyChecksum sha obj expected =
     (case checksumRecord sha obj of
        Inl e \<Rightarrow> e
      | Inr actual \<Rightarrow> if actual \<noteq> expected then [ErrInvalidState] else [])"

lemma checksumRecord_digest: "checksumRecord sha obj = Inr c \<Longrightarrow> \<exists>t. c = digest_text sha t"
  unfolding checksumRecord_def by (force split: option.splits simp del: writeCanonical.simps)

text \<open>
  What the record types promise the checksum code: the checksum is a field of its own, and the JSON
  of the other fields does not depend on it.
\<close>

locale checksummed =
  fixes json_of :: "'r \<Rightarrow> (string \<times> json) list option"
    and get_sum :: "'r \<Rightarrow> string"
    and set_sum :: "string \<Rightarrow> 'r \<Rightarrow> 'r"
  assumes get_set: "get_sum (set_sum c r) = c"
    and set_set: "set_sum c (set_sum c' r) = set_sum c r"
    and body_independent:
      "map_option without_checksum (json_of (set_sum c r)) = map_option without_checksum (json_of r)"
begin

lemma checksum_set: "checksumRecord sha (json_of (set_sum c r)) = checksumRecord sha (json_of r)"
  using body_independent [of c r]
  by (cases "json_of (set_sum c r)"; cases "json_of r") (simp_all add: checksumRecord_def)

lemma marshal_set:
  "marshalChecksummed sha json_of set_sum (set_sum c r) = marshalChecksummed sha json_of set_sum r"
  by (cases "checksumRecord sha (json_of r)") (simp_all add: marshalChecksummed_def checksum_set set_set Let_def)

lemma marshal_sets:
  assumes "marshalChecksummed sha json_of set_sum r = Inr (data, r')"
  shows "checksumRecord sha (json_of r) = Inr (get_sum r') \<and> r' = set_sum (get_sum r') r"
  using assms by (auto simp: marshalChecksummed_def Let_def get_set split: sum.splits)

lemma marshal_verifies:
  assumes "marshalChecksummed sha json_of set_sum r = Inr (data, r')"
  shows "verifyChecksum sha (json_of r') (get_sum r') = []"
  using marshal_sets [OF assms] checksum_set [of sha "get_sum r'" r]
  by (simp add: verifyChecksum_def)

lemma marshal_digest:
  assumes "marshalChecksummed sha json_of set_sum r = Inr (data, r')"
  shows "\<exists>t. get_sum r' = digest_text sha t"
  using marshal_sets [OF assms] checksumRecord_digest by blast

end

lemma runes_ascii: "list_all (\<lambda>c. byte c < 128) s \<Longrightarrow> runes s = map byte s"
proof (induction s)
  case (Cons c s)
  have "runes (c # s) = byte c # runes s" using Cons.prems by (subst runes.simps) simp
  then show ?case using Cons by simp
qed (simp add: runes.simps)

section \<open>How long canonical text can be\<close>

fun json_ok :: "json \<Rightarrow> bool" where
  "json_ok (JNumber n) \<longleftrightarrow> (case parseInt64 n of None \<Rightarrow> False | Some i \<Rightarrow> formatInt i = n)"
| "json_ok (JArray vs) \<longleftrightarrow> (\<forall>v\<in>set vs. json_ok v)"
| "json_ok (JObject kvs) \<longleftrightarrow> (\<forall>kv\<in>set kvs. json_ok (snd kv))"
| "json_ok _ \<longleftrightarrow> True"

lemma json_ok_int [simp]: "int64_ok i \<Longrightarrow> json_ok (JNumber (formatInt i))"
  by (simp add: parseInt64_formatInt)

fun json_cost :: "json \<Rightarrow> nat" where
  "json_cost JNull = 4"
| "json_cost (JBool b) = 5"
| "json_cost (JString s) = 6 * length s + 2"
| "json_cost (JNumber n) = length n"
| "json_cost (JArray vs) = 2 + sum_list (map (\<lambda>v. Suc (json_cost v)) vs)"
| "json_cost (JObject kvs) = 2 + sum_list (map (\<lambda>kv. 6 * length (fst kv) + 4 + json_cost (snd kv)) kvs)"

lemma escapeRune_length: "length (escapeRune r) \<le> 6"
  by (simp add: escapeRune_def encodeRune_def)

lemma runes_length: "length (runes s) \<le> length s"
proof (induction s rule: runes.induct)
  case (1 s)
  show ?case
  proof (cases "s = []")
    case False
    then show ?thesis using 1 [OF False] decodeRune_shrinks [OF False] by (subst runes.simps) simp
  qed (simp add: runes.simps)
qed

lemma concat_length: "(\<And>x. x \<in> set xs \<Longrightarrow> length (f x) \<le> k) \<Longrightarrow> length (concat (map f xs)) \<le> k * length xs"
  by (induction xs) (auto, fastforce)

lemma writeJSONString_length: "length (writeJSONString s) \<le> 6 * length s + 2"
proof -
  have "length (concat (map escapeRune (runes s))) \<le> 6 * length (runes s)"
    by (rule concat_length) (rule escapeRune_length)
  with runes_length [of s] show ?thesis by (simp add: writeJSONString_def)
qed

lemma all_some_map: "(\<And>x. x \<in> set xs \<Longrightarrow> f x = Some (g x)) \<Longrightarrow> all_some (map f xs) = Some (map g xs)"
  by (induction xs) auto

lemma join_with_length: "length (join_with '','' ps) \<le> sum_list (map (\<lambda>p. Suc (length p)) ps)"
  by (induction "'',''" ps rule: join_with.induct) auto

lemma sum_list_sort_key: "sum_list (map f (sort_key k xs)) = (sum_list (map f xs) :: nat)"
  by (metis mset_map mset_sort sum_mset_sum_list)

lemma writeCanonical_length:
  "json_ok v \<Longrightarrow> \<exists>t. writeCanonical v = Some t \<and> length t \<le> json_cost v"
proof (induction v rule: writeCanonical.induct)
  case (4 n)
  then show ?case by (auto split: option.splits)
next
  case (5 vs)
  define g where "g v = the (writeCanonical v)" for v
  have g: "writeCanonical v = Some (g v)" "length (g v) \<le> json_cost v" if "v \<in> set vs" for v
    using "5.IH" [OF that] "5.prems" that by (auto simp: g_def)
  have "sum_list (map (\<lambda>p. Suc (length p)) (map g vs)) \<le> sum_list (map (\<lambda>v. Suc (json_cost v)) vs)"
    unfolding map_map comp_def by (rule sum_list_mono) (use g in simp)
  with join_with_length [of "map g vs"] all_some_map [of vs writeCanonical g] g(1) show ?case by simp
next
  case (6 kvs)
  define g where "g kv = writeJSONString (fst kv) @ '':'' @ the (writeCanonical (snd kv))" for kv
  have g: "map_option (\<lambda>t. writeJSONString (fst kv) @ '':'' @ t) (writeCanonical (snd kv)) = Some (g kv)"
    "Suc (length (g kv)) \<le> 6 * length (fst kv) + 4 + json_cost (snd kv)" if "kv \<in> set kvs" for kv
    using "6.IH" [of kv] "6.prems" that writeJSONString_length [of "fst kv"] by (auto simp: g_def)
  have "sum_list (map (\<lambda>p. Suc (length p)) (map g (sort_key fst kvs))) \<le>
      sum_list (map (\<lambda>kv. 6 * length (fst kv) + 4 + json_cost (snd kv)) (sort_key fst kvs))"
    unfolding map_map comp_def by (rule sum_list_mono) (use g in simp)
  also have "\<dots> = sum_list (map (\<lambda>kv. 6 * length (fst kv) + 4 + json_cost (snd kv)) kvs)" by (rule sum_list_sort_key)
  finally have "sum_list (map (\<lambda>p. Suc (length p)) (map g (sort_key fst kvs))) \<le>
      sum_list (map (\<lambda>kv. 6 * length (fst kv) + 4 + json_cost (snd kv)) kvs)" .
  with join_with_length [of "map g (sort_key fst kvs)"]
    all_some_map [of "sort_key fst kvs" "\<lambda>kv. map_option (\<lambda>t. writeJSONString (fst kv) @ '':'' @ t) (writeCanonical (snd kv))" g] g(1)
  show ?case by simp
next
  case (3 s)
  show ?case using writeJSONString_length [of s] by simp
qed simp_all

end
