(* ===== verification/ProxyRecords.thy ===== *)
theory ProxyRecords
  imports CanonicalJson
begin

text \<open>
  The persisted records of the proxy lifecycle (\<open>internal/proxy/state/types.go\<close> and the
  \<open>Reservation\<close> of \<open>store_unix.go\<close>): the structs as records, their validation, their JSON, and
  the binding between a journal and its receipt.  A slice whose nil-ness the sources can observe
  (\<open>RollbackActions\<close>, compared with \<open>reflect.DeepEqual\<close>) is an option of a list, \<open>None\<close> for
  nil; timestamps are UTC instants.
\<close>

section \<open>Structs\<close>

definition SchemaVersion :: string where
  "SchemaVersion = ''proxy/v1alpha1''"

definition EnvironmentNames :: "string list" where
  "EnvironmentNames = [''OPENAI_BASE_URL'', ''OPENAI_API_KEY'', ''ANTHROPIC_BASE_URL'',
     ''ANTHROPIC_API_KEY'', ''ANTHROPIC_AUTH_TOKEN'']"

record PolicyIdentity =
  pID :: string
  pVersion :: int
  pDigest :: string

record BinaryIdentity =
  bPath :: string
  bDigest :: string

record ListenerIdentity =
  lPID :: int
  lProcessStartIdentity :: string
  lExecutableIdentity :: string
  lAddress :: string
  lListenerKeyFingerprint :: string

record JournalEnvironment =
  jeName :: string
  jePriorPresent :: bool
  jePriorValue :: "string option"
  jeDesiredValueDigest :: string
  jeActivationMarker :: string
  jeRollbackAction :: string

record ReceiptEnvironment =
  reName :: string
  reDesiredValueDigest :: string
  reActivationMarker :: string

record RollbackAction =
  raOrdinal :: int
  raOperation :: string
  raTarget :: string

record Journal =
  jSchemaVersion :: string
  jActivationID :: string
  jNonce :: string
  jGeneration :: int
  jState :: string
  jOwnerUID :: int
  jPlatform :: string
  jMode :: string
  jSessionIdentity :: string
  jPolicy :: PolicyIdentity
  jBinary :: BinaryIdentity
  jListener :: ListenerIdentity
  jEnvironment :: "JournalEnvironment list"
  jCA :: "json option"
  jRollbackActions :: "RollbackAction list option"
  jCreatedAt :: instant
  jUpdatedAt :: instant
  jChecksum :: string

record Receipt =
  rSchemaVersion :: string
  rActivationID :: string
  rNonce :: string
  rGeneration :: int
  rOwnerUID :: int
  rJournalDigest :: string
  rPolicyDigest :: string
  rPlatform :: string
  rMode :: string
  rSessionIdentity :: string
  rBinary :: BinaryIdentity
  rListener :: ListenerIdentity
  rPublicationMechanism :: string
  rEnvironment :: "ReceiptEnvironment list"
  rRollbackSummary :: "RollbackAction list option"
  rActivatedAt :: instant
  rState :: string
  rChecksum :: string

record Reservation =
  vNonce :: string
  vOwnerUID :: int
  vExpiresAt :: instant
  vChecksum :: string

section \<open>Validation\<close>

text \<open>\<open>uuidPattern\<close>: case-insensitive, version 1 to 5, variant 8, 9, a or b.\<close>

definition uuid_classes :: "(char \<Rightarrow> bool) list" where
  "uuid_classes =
     (let dash = (\<lambda>c. c = CHR ''-'')
      in replicate 8 is_any_hex @ [dash] @ replicate 4 is_any_hex @ [dash] @
         [in_range 49 53] @ replicate 3 is_any_hex @ [dash] @
         [\<lambda>c. c \<in> set ''89abAB''] @ replicate 3 is_any_hex @ [dash] @
         replicate 12 is_any_hex)"

definition uuidPattern :: "string \<Rightarrow> bool" where
  "uuidPattern = match_classes uuid_classes"

definition validateDigest :: "string \<Rightarrow> err" where
  "validateDigest value =
     (if length value \<noteq> 71 \<or> \<not> hasPrefix value ''sha256:'' then [ErrInvalidState]
      else if \<not> list_all is_lower_hex (drop 7 value) then [ErrInvalidState]
      else [])"

definition validNonce :: "string \<Rightarrow> bool" where
  "validNonce value \<longleftrightarrow>
     \<not> (length value < 32 \<or> length value > 128) \<and>
     list_all (\<lambda>c. is_lower c \<or> is_upper c \<or> is_digit c \<or> c = CHR ''_'' \<or> c = CHR ''-'') value"

definition validEnvironmentName :: "string \<Rightarrow> bool" where
  "validEnvironmentName name \<longleftrightarrow> list_ex (\<lambda>candidate. name = candidate) EnvironmentNames"

text \<open>\<open>net.SplitHostPort\<close>: host and port, or nothing where it returns an error.\<close>

definition last_index :: "char \<Rightarrow> string \<Rightarrow> nat option" where
  "last_index c s = (if c \<in> set s then Some (length s - 1 - length (takeWhile (\<lambda>d. d \<noteq> c) (rev s))) else None)"

definition splitHostPort :: "string \<Rightarrow> (string \<times> string) option" where
  "splitHostPort hostport =
     (case last_index (CHR '':'') hostport of
        None \<Rightarrow> None
      | Some i \<Rightarrow>
          if hd hostport = CHR ''['' then
            (if CHR '']'' \<notin> set hostport then None
             else let e = length (takeWhile (\<lambda>d. d \<noteq> CHR '']'') hostport) in
               if e + 1 \<noteq> i then None
               else if CHR ''['' \<in> set (drop 1 hostport) \<or> CHR '']'' \<in> set (drop (e + 1) hostport) then None
               else Some (take (e - 1) (drop 1 hostport), drop (i + 1) hostport))
          else
            (let host = take i hostport in
             if CHR '':'' \<in> set host \<or> CHR ''['' \<in> set hostport \<or> CHR '']'' \<in> set hostport then None
             else Some (host, drop (i + 1) hostport)))"

definition validateLoopbackAddress :: "string \<Rightarrow> err" where
  "validateLoopbackAddress address =
     (case splitHostPort address of
        None \<Rightarrow> [ErrInvalidState]
      | Some (host, portText) \<Rightarrow>
          if host \<noteq> ''127.0.0.1'' \<and> host \<noteq> ''::1'' then [ErrInvalidState]
          else (case parseInt64 portText of
                  None \<Rightarrow> [ErrInvalidState]
                | Some port \<Rightarrow> if port < 1 \<or> port > 65535 then [ErrInvalidState] else []))"

definition validateBinaryListener :: "BinaryIdentity \<Rightarrow> ListenerIdentity \<Rightarrow> err" where
  "validateBinaryListener binary listener =
     (if \<not> isAbs (bPath binary) \<or> path_Clean (bPath binary) \<noteq> bPath binary \<or>
         validateDigest (bDigest binary) \<noteq> [] then [ErrInvalidState]
      else if lPID listener < 1 \<or> lProcessStartIdentity listener = '''' \<or>
         lExecutableIdentity listener = '''' \<or> lAddress listener = '''' \<or>
         validateDigest (lListenerKeyFingerprint listener) \<noteq> [] then [ErrInvalidState]
      else validateLoopbackAddress (lAddress listener))"

text \<open>The loop over the environment records, with the names seen so far.\<close>

fun checkJournalEnvironment :: "string list \<Rightarrow> JournalEnvironment list \<Rightarrow> err" where
  "checkJournalEnvironment seen [] = []"
| "checkJournalEnvironment seen (item # items) =
     (if \<not> validEnvironmentName (jeName item) \<or> jeName item \<in> set seen \<or>
         validateDigest (jeDesiredValueDigest item) \<noteq> [] \<or> length (jeActivationMarker item) < 16
      then [ErrInvalidState]
      else if jePriorPresent item then
        (if jePriorValue item = None \<or> jeRollbackAction item \<noteq> ''restore_prior_value''
         then [ErrInvalidState] else checkJournalEnvironment (jeName item # seen) items)
      else if jePriorValue item \<noteq> None \<or> jeRollbackAction item \<noteq> ''remove_blazn_value''
        then [ErrInvalidState]
      else checkJournalEnvironment (jeName item # seen) items)"

definition validateJournalEnvironment :: "JournalEnvironment list \<Rightarrow> err" where
  "validateJournalEnvironment values =
     (if length values \<noteq> length EnvironmentNames then [ErrInvalidState]
      else checkJournalEnvironment [] values)"

fun checkReceiptEnvironment :: "string list \<Rightarrow> ReceiptEnvironment list \<Rightarrow> err" where
  "checkReceiptEnvironment seen [] = []"
| "checkReceiptEnvironment seen (item # items) =
     (if \<not> validEnvironmentName (reName item) \<or> reName item \<in> set seen \<or>
         validateDigest (reDesiredValueDigest item) \<noteq> [] \<or> length (reActivationMarker item) < 16
      then [ErrInvalidState]
      else checkReceiptEnvironment (reName item # seen) items)"

definition validateReceiptEnvironment :: "ReceiptEnvironment list \<Rightarrow> err" where
  "validateReceiptEnvironment values =
     (if length values \<noteq> length EnvironmentNames then [ErrInvalidState]
      else checkReceiptEnvironment [] values)"

text \<open>A nil slice and an empty slice range alike.\<close>

definition slice_elems :: "'a list option \<Rightarrow> 'a list" where
  "slice_elems xs = (case xs of None \<Rightarrow> [] | Some ys \<Rightarrow> ys)"

fun adjacent_equal :: "int list \<Rightarrow> bool" where
  "adjacent_equal (x # y # zs) \<longleftrightarrow> x = y \<or> adjacent_equal (y # zs)"
| "adjacent_equal _ \<longleftrightarrow> False"

definition validateRollback :: "RollbackAction list option \<Rightarrow> err" where
  "validateRollback actions =
     (if list_ex (\<lambda>action. raOrdinal action < 1 \<or> raTarget action = '''' \<or>
           \<not> oneOf (raOperation action) [''restore_environment'', ''stop_listener'', ''remove_scoped_state''])
         (slice_elems actions)
      then [ErrInvalidState]
      else if adjacent_equal (sort (map raOrdinal (slice_elems actions))) then [ErrInvalidState]
      else [])"

definition Journal_Validate :: "Journal \<Rightarrow> err" where
  "Journal_Validate j =
     (if jSchemaVersion j \<noteq> SchemaVersion \<or> \<not> uuidPattern (jActivationID j) \<or>
         \<not> validNonce (jNonce j) \<or> jGeneration j < 1 then [ErrInvalidState]
      else if jOwnerUID j < 0 \<or> \<not> oneOf (jPlatform j) [''darwin'', ''linux''] \<or>
         \<not> oneOf (jMode j) [''session'', ''scoped_run''] \<or> jSessionIdentity j = '''' \<or>
         length (jSessionIdentity j) > 256 \<or> jCA j \<noteq> None then [ErrInvalidState]
      else if \<not> oneOf (jState j) [''prepared'', ''publishing'', ''active'', ''deactivating'', ''recovery_required'']
         then [ErrInvalidState]
      else if validateDigest (pDigest (jPolicy j)) \<noteq> [] \<or> \<not> uuidPattern (pID (jPolicy j)) \<or>
         pVersion (jPolicy j) < 1 then [ErrInvalidState]
      else if validateBinaryListener (jBinary j) (jListener j) \<noteq> []
         then validateBinaryListener (jBinary j) (jListener j)
      else if validateJournalEnvironment (jEnvironment j) \<noteq> []
         then validateJournalEnvironment (jEnvironment j)
      else if time_IsZero (jCreatedAt j) \<or> time_IsZero (jUpdatedAt j) then [ErrInvalidState]
      else validateRollback (jRollbackActions j))"

definition Receipt_Validate :: "Receipt \<Rightarrow> err" where
  "Receipt_Validate r =
     (if rSchemaVersion r \<noteq> SchemaVersion \<or> \<not> uuidPattern (rActivationID r) \<or>
         \<not> validNonce (rNonce r) \<or> rGeneration r < 1 \<or> rOwnerUID r < 0 then [ErrInvalidState]
      else if validateDigest (rJournalDigest r) \<noteq> [] then [ErrInvalidState]
      else if validateDigest (rPolicyDigest r) \<noteq> [] then [ErrInvalidState]
      else if \<not> oneOf (rPlatform r) [''darwin'', ''linux''] \<or>
         \<not> oneOf (rMode r) [''session'', ''scoped_run''] \<or> rSessionIdentity r = '''' \<or>
         length (rSessionIdentity r) > 256 then [ErrInvalidState]
      else if \<not> oneOf (rPublicationMechanism r)
           [''process_environment'', ''launchctl_user_environment'', ''systemd_user_environment''] \<or>
         \<not> oneOf (rState r) [''active'', ''recovery_required''] then [ErrInvalidState]
      else if validateBinaryListener (rBinary r) (rListener r) \<noteq> []
         then validateBinaryListener (rBinary r) (rListener r)
      else if validateReceiptEnvironment (rEnvironment r) \<noteq> []
         then validateReceiptEnvironment (rEnvironment r)
      else if time_IsZero (rActivatedAt r) then [ErrInvalidState]
      else validateRollback (rRollbackSummary r))"

section \<open>JSON\<close>

text \<open>
  What \<open>json.Marshal\<close> makes of the structs, following their field tags: \<open>omitempty\<close> pointers and
  interfaces are left out when nil, a nil slice is \<open>null\<close>, strings are valid UTF-8.  A timestamp
  whose year has more than four digits does not marshal.
\<close>

abbreviation jstr :: "string \<Rightarrow> json" where "jstr s \<equiv> JString (coerceUTF8 s)"
abbreviation jint :: "int \<Rightarrow> json" where "jint i \<equiv> JNumber (formatInt i)"

definition policy_json :: "PolicyIdentity \<Rightarrow> json" where
  "policy_json p = JObject [(''id'', jstr (pID p)), (''version'', jint (pVersion p)), (''digest'', jstr (pDigest p))]"

definition binary_json :: "BinaryIdentity \<Rightarrow> json" where
  "binary_json b = JObject [(''path'', jstr (bPath b)), (''digest'', jstr (bDigest b))]"

definition listener_json :: "ListenerIdentity \<Rightarrow> json" where
  "listener_json l = JObject [(''pid'', jint (lPID l)),
     (''processStartIdentity'', jstr (lProcessStartIdentity l)),
     (''executableIdentity'', jstr (lExecutableIdentity l)),
     (''address'', jstr (lAddress l)),
     (''listenerKeyFingerprint'', jstr (lListenerKeyFingerprint l))]"

definition journal_environment_json :: "JournalEnvironment \<Rightarrow> json" where
  "journal_environment_json e = JObject
     ([(''name'', jstr (jeName e)), (''priorPresent'', JBool (jePriorPresent e))] @
      (case jePriorValue e of None \<Rightarrow> [] | Some v \<Rightarrow> [(''priorValue'', jstr v)]) @
      [(''desiredValueDigest'', jstr (jeDesiredValueDigest e)),
       (''activationMarker'', jstr (jeActivationMarker e)),
       (''rollbackAction'', jstr (jeRollbackAction e))])"

definition receipt_environment_json :: "ReceiptEnvironment \<Rightarrow> json" where
  "receipt_environment_json e = JObject
     [(''name'', jstr (reName e)), (''desiredValueDigest'', jstr (reDesiredValueDigest e)),
      (''activationMarker'', jstr (reActivationMarker e))]"

definition rollback_json :: "RollbackAction list option \<Rightarrow> json" where
  "rollback_json xs = (case xs of None \<Rightarrow> JNull | Some ys \<Rightarrow> JArray (map (\<lambda>a.
     JObject [(''ordinal'', jint (raOrdinal a)), (''operation'', jstr (raOperation a)),
              (''target'', jstr (raTarget a))]) ys))"

definition journal_json :: "Journal \<Rightarrow> (string \<times> json) list option" where
  "journal_json j =
     (case (formatRFC3339Nano (jCreatedAt j), formatRFC3339Nano (jUpdatedAt j)) of
        (Some created, Some updated) \<Rightarrow> Some
          ([(''schemaVersion'', jstr (jSchemaVersion j)), (''activationId'', jstr (jActivationID j)),
            (''nonce'', jstr (jNonce j)), (''generation'', jint (jGeneration j)),
            (''state'', jstr (jState j)), (''ownerUid'', jint (jOwnerUID j)),
            (''platform'', jstr (jPlatform j)), (''mode'', jstr (jMode j)),
            (''sessionIdentity'', jstr (jSessionIdentity j)), (''policy'', policy_json (jPolicy j)),
            (''binary'', binary_json (jBinary j)), (''listener'', listener_json (jListener j)),
            (''environment'', JArray (map journal_environment_json (jEnvironment j)))] @
           (case jCA j of None \<Rightarrow> [] | Some v \<Rightarrow> [(''ca'', v)]) @
           [(''rollbackActions'', rollback_json (jRollbackActions j)),
            (''createdAt'', JString created), (''updatedAt'', JString updated),
            (''checksum'', jstr (jChecksum j))])
      | _ \<Rightarrow> None)"

definition receipt_json :: "Receipt \<Rightarrow> (string \<times> json) list option" where
  "receipt_json r =
     (case formatRFC3339Nano (rActivatedAt r) of
        None \<Rightarrow> None
      | Some activated \<Rightarrow> Some
          [(''schemaVersion'', jstr (rSchemaVersion r)), (''activationId'', jstr (rActivationID r)),
           (''nonce'', jstr (rNonce r)), (''generation'', jint (rGeneration r)),
           (''ownerUid'', jint (rOwnerUID r)), (''journalDigest'', jstr (rJournalDigest r)),
           (''policyDigest'', jstr (rPolicyDigest r)), (''platform'', jstr (rPlatform r)),
           (''mode'', jstr (rMode r)), (''sessionIdentity'', jstr (rSessionIdentity r)),
           (''binary'', binary_json (rBinary r)), (''listener'', listener_json (rListener r)),
           (''publicationMechanism'', jstr (rPublicationMechanism r)),
           (''environment'', JArray (map receipt_environment_json (rEnvironment r))),
           (''rollbackSummary'', rollback_json (rRollbackSummary r)),
           (''activatedAt'', JString activated), (''state'', jstr (rState r)),
           (''checksum'', jstr (rChecksum r))])"

definition reservation_json :: "Reservation \<Rightarrow> (string \<times> json) list option" where
  "reservation_json v =
     (case formatRFC3339Nano (vExpiresAt v) of
        None \<Rightarrow> None
      | Some expires \<Rightarrow> Some
          [(''nonce'', jstr (vNonce v)), (''ownerUid'', jint (vOwnerUID v)),
           (''expiresAt'', JString expires), (''checksum'', jstr (vChecksum v))])"

text \<open>
  The record a strict decode of the written bytes delivers: the same record, with every string as
  valid UTF-8.
\<close>

definition wire_binary :: "BinaryIdentity \<Rightarrow> BinaryIdentity" where
  "wire_binary b = \<lparr>bPath = coerceUTF8 (bPath b), bDigest = coerceUTF8 (bDigest b)\<rparr>"

definition wire_listener :: "ListenerIdentity \<Rightarrow> ListenerIdentity" where
  "wire_listener l = \<lparr>lPID = lPID l, lProcessStartIdentity = coerceUTF8 (lProcessStartIdentity l),
     lExecutableIdentity = coerceUTF8 (lExecutableIdentity l), lAddress = coerceUTF8 (lAddress l),
     lListenerKeyFingerprint = coerceUTF8 (lListenerKeyFingerprint l)\<rparr>"

definition wire_journal_environment :: "JournalEnvironment \<Rightarrow> JournalEnvironment" where
  "wire_journal_environment e = \<lparr>jeName = coerceUTF8 (jeName e), jePriorPresent = jePriorPresent e,
     jePriorValue = map_option coerceUTF8 (jePriorValue e),
     jeDesiredValueDigest = coerceUTF8 (jeDesiredValueDigest e),
     jeActivationMarker = coerceUTF8 (jeActivationMarker e),
     jeRollbackAction = coerceUTF8 (jeRollbackAction e)\<rparr>"

definition wire_receipt_environment :: "ReceiptEnvironment \<Rightarrow> ReceiptEnvironment" where
  "wire_receipt_environment e = \<lparr>reName = coerceUTF8 (reName e),
     reDesiredValueDigest = coerceUTF8 (reDesiredValueDigest e),
     reActivationMarker = coerceUTF8 (reActivationMarker e)\<rparr>"

definition wire_rollback :: "RollbackAction list option \<Rightarrow> RollbackAction list option" where
  "wire_rollback = map_option (map (\<lambda>a. \<lparr>raOrdinal = raOrdinal a,
     raOperation = coerceUTF8 (raOperation a), raTarget = coerceUTF8 (raTarget a)\<rparr>))"

definition wire_journal :: "Journal \<Rightarrow> Journal" where
  "wire_journal j = \<lparr>jSchemaVersion = coerceUTF8 (jSchemaVersion j),
     jActivationID = coerceUTF8 (jActivationID j), jNonce = coerceUTF8 (jNonce j),
     jGeneration = jGeneration j, jState = coerceUTF8 (jState j), jOwnerUID = jOwnerUID j,
     jPlatform = coerceUTF8 (jPlatform j), jMode = coerceUTF8 (jMode j),
     jSessionIdentity = coerceUTF8 (jSessionIdentity j),
     jPolicy = \<lparr>pID = coerceUTF8 (pID (jPolicy j)), pVersion = pVersion (jPolicy j),
                pDigest = coerceUTF8 (pDigest (jPolicy j))\<rparr>,
     jBinary = wire_binary (jBinary j), jListener = wire_listener (jListener j),
     jEnvironment = map wire_journal_environment (jEnvironment j), jCA = jCA j,
     jRollbackActions = wire_rollback (jRollbackActions j),
     jCreatedAt = jCreatedAt j, jUpdatedAt = jUpdatedAt j, jChecksum = coerceUTF8 (jChecksum j)\<rparr>"

definition wire_receipt :: "Receipt \<Rightarrow> Receipt" where
  "wire_receipt r = \<lparr>rSchemaVersion = coerceUTF8 (rSchemaVersion r),
     rActivationID = coerceUTF8 (rActivationID r), rNonce = coerceUTF8 (rNonce r),
     rGeneration = rGeneration r, rOwnerUID = rOwnerUID r,
     rJournalDigest = coerceUTF8 (rJournalDigest r), rPolicyDigest = coerceUTF8 (rPolicyDigest r),
     rPlatform = coerceUTF8 (rPlatform r), rMode = coerceUTF8 (rMode r),
     rSessionIdentity = coerceUTF8 (rSessionIdentity r), rBinary = wire_binary (rBinary r),
     rListener = wire_listener (rListener r),
     rPublicationMechanism = coerceUTF8 (rPublicationMechanism r),
     rEnvironment = map wire_receipt_environment (rEnvironment r),
     rRollbackSummary = wire_rollback (rRollbackSummary r), rActivatedAt = rActivatedAt r,
     rState = coerceUTF8 (rState r), rChecksum = coerceUTF8 (rChecksum r)\<rparr>"

definition wire_reservation :: "Reservation \<Rightarrow> Reservation" where
  "wire_reservation v = \<lparr>vNonce = coerceUTF8 (vNonce v), vOwnerUID = vOwnerUID v,
     vExpiresAt = vExpiresAt v, vChecksum = coerceUTF8 (vChecksum v)\<rparr>"

lemmas wire_defs = wire_journal_def wire_receipt_def wire_reservation_def wire_binary_def
  wire_listener_def wire_journal_environment_def wire_receipt_environment_def wire_rollback_def

lemma journal_environment_json_wire [simp]:
  "journal_environment_json (wire_journal_environment e) = journal_environment_json e"
  by (simp add: journal_environment_json_def wire_journal_environment_def split: option.splits)

lemma receipt_environment_json_wire [simp]:
  "receipt_environment_json (wire_receipt_environment e) = receipt_environment_json e"
  by (simp add: receipt_environment_json_def wire_receipt_environment_def)

lemma identity_json_wire [simp]:
  "binary_json (wire_binary b) = binary_json b"
  "listener_json (wire_listener l) = listener_json l"
  "rollback_json (wire_rollback xs) = rollback_json xs"
  by (simp_all add: binary_json_def listener_json_def rollback_json_def wire_defs split: option.splits)

text \<open>Reading back what was written and marshalling it again gives the same JSON.\<close>

lemma journal_json_wire [simp]: "journal_json (wire_journal j) = journal_json j"
proof -
  have "map journal_environment_json (map wire_journal_environment (jEnvironment j)) =
      map journal_environment_json (jEnvironment j)" by simp
  then show ?thesis
    by (simp add: journal_json_def wire_journal_def policy_json_def split: option.splits)
qed

lemma receipt_json_wire [simp]: "receipt_json (wire_receipt r) = receipt_json r"
proof -
  have "map receipt_environment_json (map wire_receipt_environment (rEnvironment r)) =
      map receipt_environment_json (rEnvironment r)" by simp
  then show ?thesis
    by (simp add: receipt_json_def wire_receipt_def split: option.splits)
qed

lemma reservation_json_wire [simp]: "reservation_json (wire_reservation v) = reservation_json v"
  by (simp add: reservation_json_def wire_reservation_def split: option.splits)

definition set_journal_checksum :: "string \<Rightarrow> Journal \<Rightarrow> Journal" where
  "set_journal_checksum c j = j\<lparr>jChecksum := c\<rparr>"

definition set_receipt_checksum :: "string \<Rightarrow> Receipt \<Rightarrow> Receipt" where
  "set_receipt_checksum c r = r\<lparr>rChecksum := c\<rparr>"

definition set_reservation_checksum :: "string \<Rightarrow> Reservation \<Rightarrow> Reservation" where
  "set_reservation_checksum c v = v\<lparr>vChecksum := c\<rparr>"

interpretation journal_sum: checksummed journal_json jChecksum set_journal_checksum
  by unfold_locales
    (auto simp: set_journal_checksum_def journal_json_def without_checksum_def split: option.splits)

interpretation receipt_sum: checksummed receipt_json rChecksum set_receipt_checksum
  by unfold_locales
    (auto simp: set_receipt_checksum_def receipt_json_def without_checksum_def split: option.splits)

interpretation reservation_sum: checksummed reservation_json vChecksum set_reservation_checksum
  by unfold_locales
    (auto simp: set_reservation_checksum_def reservation_json_def without_checksum_def split: option.splits)

section \<open>Binding a receipt to a journal\<close>

definition publicationMechanism :: "Journal \<Rightarrow> string" where
  "publicationMechanism j =
     (if jMode j = ''scoped_run'' then ''process_environment''
      else if jPlatform j = ''darwin'' then ''launchctl_user_environment''
      else ''systemd_user_environment'')"

definition receipt_environment_of :: "JournalEnvironment \<Rightarrow> ReceiptEnvironment" where
  "receipt_environment_of item = \<lparr>reName = jeName item,
     reDesiredValueDigest = jeDesiredValueDigest item, reActivationMarker = jeActivationMarker item\<rparr>"

text \<open>The map \<open>wanted\<close> of \<open>ValidateBinding\<close>: a later record of the same name wins, and a missing
  name reads as the zero struct.\<close>

definition wanted :: "JournalEnvironment list \<Rightarrow> string \<Rightarrow> ReceiptEnvironment" where
  "wanted items name =
     (case map_of (rev (map (\<lambda>i. (jeName i, receipt_environment_of i)) items)) name of
        Some e \<Rightarrow> e
      | None \<Rightarrow> \<lparr>reName = '''', reDesiredValueDigest = '''', reActivationMarker = ''''\<rparr>)"

definition expectedReceiptState :: "Journal \<Rightarrow> string" where
  "expectedReceiptState j = (if jState j \<noteq> ''active'' then ''recovery_required'' else ''active'')"

definition ValidateBinding :: "Journal \<Rightarrow> Receipt \<Rightarrow> err" where
  "ValidateBinding j r =
     (if rActivationID r \<noteq> jActivationID j \<or> rNonce r \<noteq> jNonce j \<or> rGeneration r \<noteq> jGeneration j \<or>
         rOwnerUID r \<noteq> jOwnerUID j \<or> rJournalDigest r \<noteq> jChecksum j \<or>
         rPolicyDigest r \<noteq> pDigest (jPolicy j) \<or> rPlatform r \<noteq> jPlatform j \<or> rMode r \<noteq> jMode j \<or>
         rSessionIdentity r \<noteq> jSessionIdentity j \<or> rBinary r \<noteq> jBinary j \<or> rListener r \<noteq> jListener j
      then [ErrOwnershipAmbiguous]
      else if length (rEnvironment r) \<noteq> length (jEnvironment j) then [ErrOwnershipAmbiguous]
      else if list_ex (\<lambda>item. wanted (jEnvironment j) (reName item) \<noteq> item) (rEnvironment r)
      then [ErrOwnershipAmbiguous]
      else if rState r \<noteq> expectedReceiptState j \<or> rPublicationMechanism r \<noteq> publicationMechanism j \<or>
         rActivatedAt r > jUpdatedAt j \<or> rRollbackSummary r \<noteq> jRollbackActions j
      then [ErrOwnershipAmbiguous]
      else [])"

text \<open>
  \<open>append([]RollbackAction(nil), xs...)\<close> is nil when \<open>xs\<close> has no element, whether \<open>xs\<close> is nil
  or an empty slice.
\<close>

definition append_to_nil :: "'a list option \<Rightarrow> 'a list option" where
  "append_to_nil xs = (if slice_elems xs = [] then None else Some (slice_elems xs))"

definition receiptFromJournalAt :: "Journal \<Rightarrow> string \<Rightarrow> instant \<Rightarrow> err + Receipt" where
  "receiptFromJournalAt j mechanism activatedAt =
     (if jChecksum j = '''' \<or> validateDigest (jChecksum j) \<noteq> [] then Inl [ErrInvalidState]
      else if mechanism \<noteq> publicationMechanism j then Inl [ErrInvalidState]
      else
        let receipt = \<lparr>
          rSchemaVersion = SchemaVersion, rActivationID = jActivationID j, rNonce = jNonce j,
          rGeneration = jGeneration j, rOwnerUID = jOwnerUID j, rJournalDigest = jChecksum j,
          rPolicyDigest = pDigest (jPolicy j), rPlatform = jPlatform j, rMode = jMode j,
          rSessionIdentity = jSessionIdentity j, rBinary = jBinary j, rListener = jListener j,
          rPublicationMechanism = mechanism,
          rEnvironment = map receipt_environment_of (jEnvironment j),
          rRollbackSummary = append_to_nil (jRollbackActions j), rActivatedAt = activatedAt,
          rState = ''active'', rChecksum = ''''\<rparr>
        in if Receipt_Validate receipt = [] then Inr receipt else Inl (Receipt_Validate receipt))"

definition receiptFromJournal :: "Journal \<Rightarrow> string \<Rightarrow> err + Receipt" where
  "receiptFromJournal j mechanism = receiptFromJournalAt j mechanism (jUpdatedAt j)"

section \<open>What validation guarantees\<close>

lemma set_EnvironmentNames: "distinct EnvironmentNames" "length EnvironmentNames = 5"
  by (simp_all add: EnvironmentNames_def)

lemma validEnvironmentName_iff [simp]: "validEnvironmentName n \<longleftrightarrow> n \<in> set EnvironmentNames"
  by (auto simp: validEnvironmentName_def list_ex_iff)

lemma checkJournalEnvironment_nil:
  "checkJournalEnvironment seen items = [] \<Longrightarrow>
     distinct (map jeName items) \<and> set (map jeName items) \<subseteq> set EnvironmentNames - set seen \<and>
     (\<forall>i\<in>set items. validateDigest (jeDesiredValueDigest i) = [] \<and> 16 \<le> length (jeActivationMarker i) \<and>
        (jePriorPresent i \<longleftrightarrow> jePriorValue i \<noteq> None) \<and>
        jeRollbackAction i = (if jePriorPresent i then ''restore_prior_value'' else ''remove_blazn_value''))"
proof (induction items arbitrary: seen)
  case (Cons item items)
  from Cons.prems have rest: "checkJournalEnvironment (jeName item # seen) items = []"
    by (auto split: if_splits)
  note ih = Cons.IH [OF rest]
  have head: "jeName item \<in> set EnvironmentNames - set seen"
    "validateDigest (jeDesiredValueDigest item) = []" "16 \<le> length (jeActivationMarker item)"
    "jePriorPresent item \<longleftrightarrow> jePriorValue item \<noteq> None"
    "jeRollbackAction item = (if jePriorPresent item then ''restore_prior_value'' else ''remove_blazn_value'')"
    using Cons.prems by (auto split: if_splits)
  show ?case using ih head by auto
qed simp

lemma distinct_subset_full:
  assumes "distinct xs" "set xs \<subseteq> set ys" "length xs = length ys" "distinct ys"
  shows "set xs = set ys"
  using assms by (simp add: card_subset_eq distinct_card)

text \<open>A valid journal environment names each documented variable exactly once.\<close>

lemma validateJournalEnvironment_names:
  assumes "validateJournalEnvironment items = []"
  shows "distinct (map jeName items) \<and> set (map jeName items) = set EnvironmentNames"
proof -
  have len: "length (map jeName items) = length EnvironmentNames"
    and chk: "checkJournalEnvironment [] items = []"
    using assms by (auto simp: validateJournalEnvironment_def split: if_splits)
  from checkJournalEnvironment_nil [OF chk] len show ?thesis
    using distinct_subset_full [of "map jeName items" EnvironmentNames] set_EnvironmentNames by auto
qed

lemma checkReceipt_of_journal:
  "checkJournalEnvironment seen items = [] \<Longrightarrow>
     checkReceiptEnvironment seen (map receipt_environment_of items) = []"
  by (induction items arbitrary: seen) (auto simp: receipt_environment_of_def split: if_splits)

lemma validateReceiptEnvironment_of_journal:
  "validateJournalEnvironment items = [] \<Longrightarrow>
     validateReceiptEnvironment (map receipt_environment_of items) = []"
  by (auto simp: validateJournalEnvironment_def validateReceiptEnvironment_def
      checkReceipt_of_journal split: if_splits)

lemma wanted_distinct:
  assumes "distinct (map jeName items)" and "item \<in> set items"
  shows "wanted items (jeName item) = receipt_environment_of item"
proof -
  have "map_of (rev (map (\<lambda>i. (jeName i, receipt_environment_of i)) items)) (jeName item) =
      Some (receipt_environment_of item)"
    using assms by (intro map_of_is_SomeI) (auto simp: rev_map [symmetric] comp_def)
  then show ?thesis by (simp add: wanted_def)
qed

lemma adjacent_equal_sorted: "sorted xs \<Longrightarrow> adjacent_equal xs \<longleftrightarrow> \<not> distinct xs"
proof (induction xs rule: adjacent_equal.induct)
  case (1 x y zs)
  from "1.prems" have "x \<le> y" "\<forall>z\<in>set zs. y \<le> z" by auto
  then have "x \<in> set zs \<Longrightarrow> x = y" by (meson order_antisym)
  with 1 show ?case by auto
qed auto

text \<open>Sorting and comparing neighbours finds exactly the duplicate ordinals.\<close>

lemma validateRollback_iff:
  "validateRollback actions = [] \<longleftrightarrow>
     (\<forall>a\<in>set (slice_elems actions). 1 \<le> raOrdinal a \<and> raTarget a \<noteq> '''' \<and>
        raOperation a \<in> {''restore_environment'', ''stop_listener'', ''remove_scoped_state''}) \<and>
     distinct (map raOrdinal (slice_elems actions))"
  by (simp add: validateRollback_def list_ex_iff adjacent_equal_sorted)
    (meson linorder_not_less)

lemma slice_elems_append_to_nil [simp]: "slice_elems (append_to_nil xs) = slice_elems xs"
  by (simp add: append_to_nil_def slice_elems_def)

lemma validateRollback_append_to_nil [simp]:
  "validateRollback (append_to_nil actions) = validateRollback actions"
  by (simp add: validateRollback_def)

lemma validateDigest_digest_text [simp]: "validateDigest (digest_text sha t) = []"
  by (simp add: validateDigest_def digest_text_def hex256_def hasPrefix_def hex_digits_lower)

lemma length_digest_text [simp]: "length (digest_text sha t) = 71"
  by (simp add: digest_text_def hex256_def)

lemma digest_text_not_Nil [simp]: "digest_text sha t \<noteq> []"
  by (simp add: digest_text_def)

lemma Journal_ValidateD:
  assumes "Journal_Validate j = []"
  shows "jSchemaVersion j = SchemaVersion" "uuidPattern (jActivationID j)" "validNonce (jNonce j)"
    "1 \<le> jGeneration j" "0 \<le> jOwnerUID j" "jPlatform j \<in> {''darwin'', ''linux''}"
    "jMode j \<in> {''session'', ''scoped_run''}" "jSessionIdentity j \<noteq> ''''"
    "length (jSessionIdentity j) \<le> 256" "jCA j = None"
    "jState j \<in> {''prepared'', ''publishing'', ''active'', ''deactivating'', ''recovery_required''}"
    "validateDigest (pDigest (jPolicy j)) = []"
    "validateBinaryListener (jBinary j) (jListener j) = []"
    "validateJournalEnvironment (jEnvironment j) = []"
    "\<not> time_IsZero (jCreatedAt j)" "\<not> time_IsZero (jUpdatedAt j)"
    "validateRollback (jRollbackActions j) = []"
  using assms unfolding Journal_Validate_def
  by (auto simp: not_less split: if_splits)

lemma publicationMechanism_known:
  "publicationMechanism j \<in> {''process_environment'', ''launchctl_user_environment'', ''systemd_user_environment''}"
  by (simp add: publicationMechanism_def)

lemma Receipt_Validate_state:
  "Receipt_Validate r = [] \<Longrightarrow> s \<in> {''active'', ''recovery_required''} \<Longrightarrow>
     Receipt_Validate (r\<lparr>rState := s\<rparr>) = []"
  by (auto simp: Receipt_Validate_def split: if_splits)

end
