(* ===== verification/SecureFiles.thy ===== *)
theory SecureFiles
  imports Effects ProxyRecords
begin

text \<open>
  The protected files of \<open>internal/proxy/state/securefs_unix.go\<close>.  A file is its inode metadata
  together with what a strict JSON decode of its bytes delivers for each record type; contents that
  no decode accepts have no record.  Every system call and every fault-injection point consumes one
  outcome of the world, in program order.  The temporary file of \<open>atomicWrite\<close> is private to the
  call (a fresh name opened with \<open>O_EXCL\<close>, removed on every path) and no operation reads it, so it
  appears only as the outcomes of its system calls.  The lemmas show that a failed write or removal
  leaves the old or the new content, never a mixture.
\<close>

section \<open>Files and the world\<close>

datatype filekind = Regular | Directory | Symlink | Special

record doc =
  doc_journal :: "Journal option"
  doc_receipt :: "Receipt option"
  doc_reservation :: "Reservation option"

definition empty_doc :: doc where
  "empty_doc = \<lparr>doc_journal = None, doc_receipt = None, doc_reservation = None\<rparr>"

record node =
  n_kind :: filekind
  n_uid :: int
  n_perm :: nat
  n_nlink :: nat
  n_size :: nat
  n_doc :: doc

type_synonym files = "string \<Rightarrow> node option"

datatype outcome = IoOk | IoErr string | CtxDeadline | CtxCanceled

record 'x world =
  w_files :: files
  w_history :: "files list"
  w_euid :: int
  w_io :: "outcome list"
  w_clock :: instant
  w_ticks :: "int list"
  w_rand :: "int option list"
  w_ext :: 'x

section \<open>System calls, clock and random source\<close>

fun outcome_err :: "outcome \<Rightarrow> err" where
  "outcome_err IoOk = []"
| "outcome_err (IoErr s) = [Other s]"
| "outcome_err CtxDeadline = [DeadlineExceeded]"
| "outcome_err CtxCanceled = [Canceled]"

definition sysE :: "('x world, unit) io" where
  "sysE = (\<lambda>w. case w_io w of
     [] \<Rightarrow> (Inr (), w)
   | r # rs \<Rightarrow> (let w' = w\<lparr>w_io := rs\<rparr> in
       if outcome_err r = [] then (Inr (), w') else (Inl (outcome_err r), w')))"

text \<open>\<open>faults.Check(point)\<close>.\<close>

definition faultE :: "string \<Rightarrow> ('x world, unit) io" where
  "faultE point = sysE"

definition nowE :: "('x world, instant) io" where
  "nowE = (\<lambda>w. case w_ticks w of
     [] \<Rightarrow> (Inr (w_clock w), w)
   | d # ds \<Rightarrow> (Inr (w_clock w + d), w\<lparr>w_clock := w_clock w + d, w_ticks := ds\<rparr>))"

text \<open>\<open>randomSuffix\<close>: sixteen random bytes in hexadecimal.\<close>

definition randomSuffix :: "('x world, string) io" where
  "randomSuffix = (\<lambda>w. case w_rand w of
     [] \<Rightarrow> (Inr (hex_digits 32 0), w)
   | r # rs \<Rightarrow> (let w' = w\<lparr>w_rand := rs\<rparr> in
       (case r of None \<Rightarrow> (Inl [Other ''rand.Read''], w') | Some n \<Rightarrow> (Inr (hex_digits 32 n), w'))))"

definition lookupE :: "string \<Rightarrow> ('x world, node) io" where
  "lookupE path = (\<lambda>w. case w_files w path of None \<Rightarrow> (Inl [NotExist], w) | Some n \<Rightarrow> (Inr n, w))"

definition mutateE :: "string \<Rightarrow> node option \<Rightarrow> ('x world, unit) io" where
  "mutateE path n = (\<lambda>w. let f = (w_files w)(path := n) in
     (Inr (), w\<lparr>w_files := f, w_history := w_history w @ [f]\<rparr>))"

section \<open>securefs_unix.go\<close>

definition validateOwnerMode :: "node \<Rightarrow> int \<Rightarrow> nat \<Rightarrow> bool \<Rightarrow> err" where
  "validateOwnerMode info uid mode directory =
     (if n_uid info \<noteq> uid then [ErrOwnershipAmbiguous]
      else if directory \<noteq> (n_kind info = Directory) \<or> n_perm info \<noteq> mode then [ErrOwnershipAmbiguous]
      else if \<not> directory \<and> (n_kind info \<noteq> Regular \<or> n_nlink info \<noteq> 1) then [ErrOwnershipAmbiguous]
      else [])"

definition perm_file :: nat where "perm_file = 384"  \<comment> \<open>0o600\<close>

definition validateSecureFile :: "string \<Rightarrow> int \<Rightarrow> ('x world, unit) io" where
  "validateSecureFile path uid =
     thenE sysE (bindE (lookupE path) (\<lambda>info.
       if n_kind info = Symlink then failE [ErrOwnershipAmbiguous]
       else checkE (validateOwnerMode info uid perm_file False)))"

definition readSecureFile :: "string \<Rightarrow> int \<Rightarrow> nat \<Rightarrow> ('x world, doc) io" where
  "readSecureFile path uid limit =
     thenE (validateSecureFile path uid) (thenE sysE (bindE (lookupE path) (\<lambda>info.
       thenE sysE (thenE (checkE (validateOwnerMode info uid perm_file False)) (thenE sysE (
         if n_size info > limit then failE [ErrInvalidState] else returnE (n_doc info)))))))"

text \<open>A file the process has just created with mode 0600.\<close>

definition created_node :: "int \<Rightarrow> nat \<Rightarrow> doc \<Rightarrow> node" where
  "created_node uid sz d = \<lparr>n_kind = Regular, n_uid = uid, n_perm = perm_file, n_nlink = 1,
     n_size = sz, n_doc = d\<rparr>"

definition validateOwnerModeFile :: "node \<Rightarrow> int \<Rightarrow> ('x world, unit) io" where
  "validateOwnerModeFile info uid = thenE sysE (checkE (validateOwnerMode info uid perm_file False))"

definition euidE :: "('x world, int) io" where
  "euidE = (\<lambda>w. (Inr (w_euid w), w))"

definition syncDirectory :: "('x world, unit) io" where
  "syncDirectory = thenE sysE sysE"

definition atomicWrite :: "string \<Rightarrow> int \<Rightarrow> string \<Rightarrow> doc \<Rightarrow> ('x world, unit) io" where
  "atomicWrite path uid data d =
     bindE (tryE (validateSecureFile path uid)) (\<lambda>r.
     if err_of r \<noteq> [] \<and> \<not> errors_Is (err_of r) NotExist then failE (err_of r)
     else bindE randomSuffix (\<lambda>_.
       thenE sysE (bindE euidE (\<lambda>euid.                     \<comment> \<open>OpenFile, exclusive\<close>
       let temp = created_node euid (length data) d in
       seqE [validateOwnerModeFile temp uid,
             faultE ''state.temp.opened'',
             sysE,                                         \<comment> \<open>Write\<close>
             faultE ''state.temp.written'',
             sysE,                                         \<comment> \<open>Sync\<close>
             faultE ''state.temp.synced'',
             sysE,                                         \<comment> \<open>Close\<close>
             faultE ''state.temp.closed'',
             sysE, mutateE path (Some temp),               \<comment> \<open>Rename\<close>
             faultE ''state.renamed'',
             syncDirectory,
             faultE ''state.parent.synced'']))))"

definition removeSecureFile :: "string \<Rightarrow> int \<Rightarrow> ('x world, unit) io" where
  "removeSecureFile path uid =
     bindE (tryE (validateSecureFile path uid)) (\<lambda>r.
     if err_of r \<noteq> [] then
       (if errors_Is (err_of r) NotExist then returnE () else failE (err_of r))
     else
       seqE [sysE, mutateE path None,                      \<comment> \<open>Remove\<close>
             faultE ''state.removed'',
             syncDirectory,
             faultE ''state.remove.parent.synced''])"

text \<open>
  \<open>lockFile\<close>: the lock file is created when absent and must be ours; the polling loop around
  \<open>flock\<close> ends by acquiring the lock or with the error of the context, one outcome of the world.
\<close>

definition lockFile :: "string \<Rightarrow> int \<Rightarrow> ('x world, unit) io" where
  "lockFile path uid =
     thenE sysE (bindE (tryE (lookupE path)) (\<lambda>r.
       bindE (case r of
                Inr info \<Rightarrow> if n_kind info = Symlink then failE [Other ''ELOOP''] else returnE info
              | Inl _ \<Rightarrow> bindE euidE (\<lambda>euid.
                  let info = created_node euid 0 empty_doc
                  in thenE (mutateE path (Some info)) (returnE info)))
         (\<lambda>info. thenE (validateOwnerModeFile info uid) sysE)))"

definition unlockFile :: "('x world, unit) io" where
  "unlockFile = bindE (tryE sysE) (\<lambda>a. bindE (tryE sysE) (\<lambda>b. checkE (errors_Join [err_of a, err_of b])))"

section \<open>Weakest preconditions of the file operations\<close>

text \<open>The errors an operating-system answer can contribute: none of the sentinels of the repository.\<close>

definition io_err :: "err \<Rightarrow> bool" where
  "io_err e \<longleftrightarrow> e = [DeadlineExceeded] \<or> e = [Canceled] \<or> (\<exists>s. e = [Other s])"

lemma outcome_err_cases: "outcome_err r \<noteq> [] \<Longrightarrow> io_err (outcome_err r)"
  by (cases r) (auto simp: io_err_def)

lemma io_err_Is [simp]:
  "io_err e \<Longrightarrow> \<not> errors_Is e NotExist" "io_err e \<Longrightarrow> \<not> errors_Is e ErrNotFound"
  "io_err e \<Longrightarrow> \<not> errors_Is e ErrInvalidState" "io_err e \<Longrightarrow> \<not> errors_Is e ErrOwnershipAmbiguous"
  "io_err e \<Longrightarrow> \<not> errors_Is e ErrLifecycleConflict" "io_err e \<Longrightarrow> \<not> errors_Is e ErrRecoveryRequired"
  "io_err e \<Longrightarrow> e \<noteq> []"
  by (auto simp: io_err_def)

lemma io_err_nil [simp]: "\<not> io_err []" "\<not> io_err [ErrOwnershipAmbiguous]" "\<not> io_err [NotExist]"
  by (auto simp: io_err_def)

lemma wp_sysE:
  assumes "\<And>io. Q () (w\<lparr>w_io := io\<rparr>)" and "\<And>io e. io_err e \<Longrightarrow> E e (w\<lparr>w_io := io\<rparr>)"
  shows "wp sysE Q E w"
proof (cases "w_io w")
  case Nil
  then have "w\<lparr>w_io := []\<rparr> = w" by simp
  with assms(1) [of "[]"] Nil show ?thesis by (simp add: wp_def sysE_def)
next
  case (Cons r rs)
  then show ?thesis using assms
    by (auto simp: wp_def sysE_def Let_def dest: outcome_err_cases)
qed

lemma wp_faultE [wp_rules]: "wp (faultE p) Q E w \<longleftrightarrow> wp sysE Q E w"
  by (simp add: faultE_def)

lemma wp_euidE [wp_rules]: "wp euidE Q E w \<longleftrightarrow> Q (w_euid w) w"
  by (simp add: wp_def euidE_def)

lemma wp_lookupE [wp_rules]:
  "wp (lookupE path) Q E w \<longleftrightarrow> (case w_files w path of None \<Rightarrow> E [NotExist] w | Some n \<Rightarrow> Q n w)"
  by (simp add: wp_def lookupE_def split: option.splits)

lemma wp_mutateE :
  "wp (mutateE path n) Q E w \<longleftrightarrow>
     Q () (w\<lparr>w_files := (w_files w)(path := n), w_history := w_history w @ [(w_files w)(path := n)]\<rparr>)"
  by (simp add: wp_def mutateE_def Let_def)

lemma wp_randomSuffix:
  assumes "\<And>n rs. Q (hex_digits 32 n) (w\<lparr>w_rand := rs\<rparr>)"
    and "\<And>rs e. io_err e \<Longrightarrow> E e (w\<lparr>w_rand := rs\<rparr>)"
  shows "wp randomSuffix Q E w"
proof (cases "w_rand w")
  case Nil
  then have "w\<lparr>w_rand := []\<rparr> = w" by simp
  with assms(1) [of 0 "[]"] Nil show ?thesis by (simp add: wp_def randomSuffix_def)
next
  case (Cons r rs)
  then show ?thesis using assms
    by (auto simp: wp_def randomSuffix_def Let_def io_err_def split: option.splits)
qed

lemma wp_nowE:
  assumes "\<And>t ts. Q t (w\<lparr>w_clock := t, w_ticks := ts\<rparr>)"
  shows "wp nowE Q E w"
proof (cases "w_ticks w")
  case Nil
  then have eq: "w\<lparr>w_clock := w_clock w, w_ticks := []\<rparr> = w" by simp
  show ?thesis using assms [of "w_clock w" "[]", unfolded eq] Nil by (simp add: wp_def nowE_def)
qed (use assms in \<open>simp add: wp_def nowE_def\<close>)

text \<open>
  \<open>quiet w w'\<close>: only answers of the operating system and of the random source were consumed.
  \<open>wrote path n w w'\<close>: besides, the file \<open>path\<close> became \<open>n\<close>.
\<close>

definition quiet :: "'x world \<Rightarrow> 'x world \<Rightarrow> bool" where
  "quiet w w' \<longleftrightarrow> w_files w' = w_files w \<and> w_history w' = w_history w \<and> w_euid w' = w_euid w \<and>
     w_ext w' = w_ext w \<and> w_clock w' = w_clock w \<and> w_ticks w' = w_ticks w"

definition wrote :: "string \<Rightarrow> node option \<Rightarrow> 'x world \<Rightarrow> 'x world \<Rightarrow> bool" where
  "wrote path n w w' \<longleftrightarrow> w_files w' = (w_files w)(path := n) \<and>
     w_history w' = w_history w @ [(w_files w)(path := n)] \<and> w_euid w' = w_euid w \<and>
     w_ext w' = w_ext w \<and> w_clock w' = w_clock w \<and> w_ticks w' = w_ticks w"

lemma quiet_refl [simp]: "quiet w w"
  by (simp add: quiet_def)

lemma quiet_trans: "quiet w v \<Longrightarrow> quiet v u \<Longrightarrow> quiet w u"
  by (simp add: quiet_def)

lemma quiet_answers [simp]:
  "quiet w (v\<lparr>w_io := io\<rparr>) = quiet w v" "quiet w (v\<lparr>w_rand := rs\<rparr>) = quiet w v"
  by (simp_all add: quiet_def)

lemma wrote_answers [simp]:
  "wrote p n w (v\<lparr>w_io := io\<rparr>) = wrote p n w v" "wrote p n w (v\<lparr>w_rand := rs\<rparr>) = wrote p n w v"
  by (simp_all add: wrote_def)

lemma wp_mutateE_quiet:
  assumes "quiet w v" and "\<And>u. wrote p n w u \<Longrightarrow> w_files u p = n \<Longrightarrow> Q () u"
  shows "wp (mutateE p n) Q E v"
  using assms by (simp add: wp_mutateE quiet_def wrote_def)

lemma quiet_files: "quiet w v \<Longrightarrow> w_files v = w_files w \<and> w_euid v = w_euid w"
  by (simp add: quiet_def)

definition secure_node :: "int \<Rightarrow> node \<Rightarrow> bool" where
  "secure_node uid n \<longleftrightarrow> n_kind n = Regular \<and> n_uid n = uid \<and> n_perm n = perm_file \<and> n_nlink n = 1"

lemma validateOwnerMode_secure:
  "validateOwnerMode n uid perm_file False = (if secure_node uid n then [] else [ErrOwnershipAmbiguous])"
  by (auto simp: validateOwnerMode_def secure_node_def)


lemma secure_created [simp]: "secure_node uid (created_node euid sz d) \<longleftrightarrow> euid = uid"
  by (auto simp: secure_node_def created_node_def)

lemma io_err_Other: "io_err [Other s]"
  by (simp add: io_err_def)

lemma validateSecureFile_spec:
  "wp (validateSecureFile path uid)
     (\<lambda>_ w'. quiet w w' \<and> w_files w' = w_files w \<and> w_euid w' = w_euid w \<and> (\<exists>n. w_files w path = Some n \<and> secure_node uid n))
     (\<lambda>e w'. quiet w w' \<and> w_files w' = w_files w \<and> w_euid w' = w_euid w \<and>
        (io_err e \<or> e = [NotExist] \<and> w_files w path = None \<or>
         e = [ErrOwnershipAmbiguous] \<and> (\<exists>n. w_files w path = Some n \<and> \<not> secure_node uid n))) w"
  unfolding validateSecureFile_def
  by (auto simp: wp_rules validateOwnerMode_secure secure_node_def intro!: wp_sysE split: option.splits)

lemma readSecureFile_spec:
  "wp (readSecureFile path uid limit)
     (\<lambda>d w'. quiet w w' \<and>
        (\<exists>n. w_files w path = Some n \<and> secure_node uid n \<and> n_size n \<le> limit \<and> d = n_doc n))
     (\<lambda>e w'. quiet w w' \<and>
        (io_err e \<or> e = [NotExist] \<and> w_files w path = None \<or>
         e = [ErrOwnershipAmbiguous] \<and> (\<exists>n. w_files w path = Some n \<and> \<not> secure_node uid n) \<or>
         e = [ErrInvalidState] \<and> (\<exists>n. w_files w path = Some n \<and> secure_node uid n \<and> limit < n_size n))) w"
  unfolding readSecureFile_def wp_bindE
  by (rule wp_mono [OF validateSecureFile_spec])
    (auto simp: wp_rules validateOwnerMode_secure intro!: wp_sysE split: option.splits dest: quiet_files)

lemma atomicWrite_spec:
  "wp (atomicWrite path uid data d)
     (\<lambda>_ w'. w_euid w = uid \<and> wrote path (Some (created_node uid (length data) d)) w w')
     (\<lambda>e w'. (io_err e \<or> e = [ErrOwnershipAmbiguous]) \<and>
        (quiet w w' \<or> w_euid w = uid \<and> wrote path (Some (created_node uid (length data) d)) w w')) w"
  unfolding atomicWrite_def wp_bindE wp_tryE
  by (rule wp_mono [OF validateSecureFile_spec])
    (auto simp: wp_rules Let_def validateOwnerModeFile_def validateOwnerMode_secure syncDirectory_def
      secure_created intro!: wp_sysE wp_randomSuffix wp_mutateE_quiet [of w] dest: quiet_files)

lemma removeSecureFile_spec:
  "wp (removeSecureFile path uid)
     (\<lambda>_ w'. w_files w' path = None \<and> (quiet w w' \<or>
        wrote path None w w' \<and> (\<exists>n. w_files w path = Some n \<and> secure_node uid n)))
     (\<lambda>e w'. (io_err e \<or> e = [ErrOwnershipAmbiguous] \<and> (\<exists>n. w_files w path = Some n \<and> \<not> secure_node uid n)) \<and>
        (quiet w w' \<or> wrote path None w w' \<and> (\<exists>n. w_files w path = Some n \<and> secure_node uid n))) w"
  unfolding removeSecureFile_def wp_bindE wp_tryE
  by (rule wp_mono [OF validateSecureFile_spec])
    (auto simp: wp_rules syncDirectory_def intro!: wp_sysE wp_mutateE_quiet [of w] dest: quiet_files)

lemma lockFile_spec:
  "wp (lockFile path uid)
     (\<lambda>_ w'. quiet w w' \<or> wrote path (Some (created_node (w_euid w) 0 empty_doc)) w w')
     (\<lambda>e w'. (io_err e \<or> e = [ErrOwnershipAmbiguous]) \<and>
        (quiet w w' \<or> wrote path (Some (created_node (w_euid w) 0 empty_doc)) w w')) w"
  unfolding lockFile_def
  by (auto simp: wp_rules Let_def validateOwnerModeFile_def validateOwnerMode_secure
      intro!: wp_sysE wp_mutateE_quiet [of w] io_err_Other split: option.splits sum.splits)

lemma unlockFile_spec:
  "wp unlockFile (\<lambda>_ w'. quiet w w') (\<lambda>e w'. (\<forall>s. errors_Is e s \<longrightarrow> s \<in> {DeadlineExceeded, Canceled} \<union> range Other) \<and> quiet w w') w"
  unfolding unlockFile_def
  by (auto simp: wp_rules io_err_def intro!: wp_sysE)

end
