(* ===== verification/ProxyStore.thy ===== *)
theory ProxyStore
  imports SecureFiles
begin

text \<open>
  The activation store of \<open>internal/proxy/state/store_unix.go\<close>: reservations, the compare-and-set
  transaction over journal and receipt, and reconciliation.  All operations run under the lifecycle
  lock; the callbacks the sources pass as closures are arguments.  The theory shows that a
  successful write can be read back and that a failed one leaves the old or the complete new record
  (locale \<open>record_file\<close>, interpreted for the three records).
\<close>

section \<open>Reading and writing records\<close>

definition maxRecordSize :: nat where "maxRecordSize = 1048576"

record paths =
  pathLock :: string
  pathReservation :: string
  pathJournal :: string
  pathReceipt :: string

record store =
  stPaths :: paths
  stUid :: int

definition readRecord :: "(doc \<Rightarrow> 'r option) \<Rightarrow> string \<Rightarrow> int \<Rightarrow> ('x world, 'r) io" where
  "readRecord decode path uid =
     bindE (tryE (readSecureFile path uid maxRecordSize)) (\<lambda>r.
       case r of
         Inl e \<Rightarrow> if errors_Is e NotExist then failE [ErrNotFound] else failE e
       | Inr d \<Rightarrow> (case decode d of None \<Rightarrow> failE [ErrInvalidState] | Some v \<Rightarrow> returnE v))"

definition readJournal :: "sha256 \<Rightarrow> string \<Rightarrow> int \<Rightarrow> ('x world, Journal) io" where
  "readJournal sha path uid =
     bindE (readRecord doc_journal path uid) (\<lambda>journal.
       if jOwnerUID journal \<noteq> uid then failE [ErrOwnershipAmbiguous]
       else thenE (checkE (Journal_Validate journal))
           (thenE (checkE (verifyChecksum sha (journal_json journal) (jChecksum journal)))
                  (returnE journal)))"

definition readReceipt :: "sha256 \<Rightarrow> string \<Rightarrow> int \<Rightarrow> ('x world, Receipt) io" where
  "readReceipt sha path uid =
     bindE (readRecord doc_receipt path uid) (\<lambda>receipt.
       if rOwnerUID receipt \<noteq> uid then failE [ErrOwnershipAmbiguous]
       else thenE (checkE (Receipt_Validate receipt))
           (thenE (checkE (verifyChecksum sha (receipt_json receipt) (rChecksum receipt)))
                  (returnE receipt)))"

definition readReservation :: "sha256 \<Rightarrow> store \<Rightarrow> ('x world, Reservation) io" where
  "readReservation sha s =
     bindE (readRecord doc_reservation (pathReservation (stPaths s)) (stUid s)) (\<lambda>reservation.
       if vOwnerUID reservation \<noteq> stUid s \<or> \<not> validNonce (vNonce reservation) \<or>
          time_IsZero (vExpiresAt reservation) then failE [ErrInvalidState]
       else thenE (checkE (verifyChecksum sha (reservation_json reservation) (vChecksum reservation)))
                  (returnE reservation))"

text \<open>The writers set the checksum of the caller's struct: they return the updated struct.\<close>

definition writeJournal :: "sha256 \<Rightarrow> store \<Rightarrow> Journal \<Rightarrow> ('x world, Journal) io" where
  "writeJournal sha s journal =
     (if jOwnerUID journal \<noteq> stUid s then failE [ErrOwnershipAmbiguous]
      else thenE (checkE (Journal_Validate journal))
        (case marshalChecksummed sha journal_json set_journal_checksum journal of
           Inl e \<Rightarrow> failE e
         | Inr (data, journal') \<Rightarrow>
             thenE (atomicWrite (pathJournal (stPaths s)) (stUid s) data
                      (empty_doc\<lparr>doc_journal := Some (wire_journal journal')\<rparr>))
                   (returnE journal')))"

definition writeReceipt :: "sha256 \<Rightarrow> store \<Rightarrow> Receipt \<Rightarrow> ('x world, Receipt) io" where
  "writeReceipt sha s receipt =
     (if rOwnerUID receipt \<noteq> stUid s then failE [ErrOwnershipAmbiguous]
      else thenE (checkE (Receipt_Validate receipt))
        (case marshalChecksummed sha receipt_json set_receipt_checksum receipt of
           Inl e \<Rightarrow> failE e
         | Inr (data, receipt') \<Rightarrow>
             thenE (atomicWrite (pathReceipt (stPaths s)) (stUid s) data
                      (empty_doc\<lparr>doc_receipt := Some (wire_receipt receipt')\<rparr>))
                   (returnE receipt')))"

definition writeReservation :: "sha256 \<Rightarrow> store \<Rightarrow> Reservation \<Rightarrow> ('x world, Reservation) io" where
  "writeReservation sha s reservation =
     (case marshalChecksummed sha reservation_json set_reservation_checksum reservation of
        Inl e \<Rightarrow> failE e
      | Inr (data, reservation') \<Rightarrow>
          thenE (atomicWrite (pathReservation (stPaths s)) (stUid s) data
                   (empty_doc\<lparr>doc_reservation := Some (wire_reservation reservation')\<rparr>))
                (returnE reservation'))"

definition locked_readJournal :: "sha256 \<Rightarrow> store \<Rightarrow> ('x world, Journal) io" where
  "locked_readJournal sha s = readJournal sha (pathJournal (stPaths s)) (stUid s)"

definition locked_readReceipt :: "sha256 \<Rightarrow> store \<Rightarrow> ('x world, Receipt) io" where
  "locked_readReceipt sha s = readReceipt sha (pathReceipt (stPaths s)) (stUid s)"

definition removeRecords :: "store \<Rightarrow> ('x world, unit) io" where
  "removeRecords s =
     thenE (removeSecureFile (pathReceipt (stPaths s)) (stUid s))
           (removeSecureFile (pathJournal (stPaths s)) (stUid s))"

section \<open>Lock and reservations\<close>

definition withLifecycleLock :: "store \<Rightarrow> 'a \<Rightarrow> ('x world, 'a) act \<Rightarrow> ('x world, 'a) act" where
  "withLifecycleLock s zero operation =
     bindA (lockFile (pathLock (stPaths s)) (stUid s)) zero (\<lambda>_ w.
       case operation w of ((a, e), w') \<Rightarrow>
         (case unlockFile w' of (r, w'') \<Rightarrow> ((a, errors_Join [e, err_of r]), w'')))"

definition five_minutes :: int where "five_minutes = 300 * time_Second"

definition zero_reservation :: Reservation where
  "zero_reservation = \<lparr>vNonce = '''', vOwnerUID = 0, vExpiresAt = zero_time, vChecksum = ''''\<rparr>"

definition Reserve :: "sha256 \<Rightarrow> store \<Rightarrow> string \<Rightarrow> int \<Rightarrow> ('x world, Reservation) act" where
  "Reserve sha s nonce ttl =
     (if \<not> validNonce nonce \<or> ttl \<le> 0 \<or> ttl > five_minutes then retA zero_reservation [ErrInvalidState]
      else bindA nowE zero_reservation (\<lambda>now.
        let reservation = \<lparr>vNonce = nonce, vOwnerUID = stUid s, vExpiresAt = now + ttl, vChecksum = ''''\<rparr> in
        withLifecycleLock s reservation
          (bindA (tryE (readReservation sha s)) reservation (\<lambda>current.
            case current of
              Inr c \<Rightarrow> bindA nowE reservation (\<lambda>now'.
                if vExpiresAt c > now' then
                  (if vNonce c \<noteq> nonce then retA reservation [ErrLifecycleConflict] else retA c [])
                else bindA (writeReservation sha s reservation) reservation (\<lambda>v. retA v []))
            | Inl e \<Rightarrow>
                if \<not> errors_Is e ErrNotFound then retA reservation e
                else bindA (writeReservation sha s reservation) reservation (\<lambda>v. retA v [])))))"

definition withOwnedReservation ::
    "sha256 \<Rightarrow> store \<Rightarrow> Reservation \<Rightarrow> 'a \<Rightarrow> ('x world, 'a) act \<Rightarrow> ('x world, 'a) act" where
  "withOwnedReservation sha s reservation zero operation =
     withLifecycleLock s zero
       (bindA (tryE (readReservation sha s)) zero (\<lambda>current.
          case current of
            Inl _ \<Rightarrow> retA zero [ErrLifecycleConflict]
          | Inr c \<Rightarrow>
              if vNonce c \<noteq> vNonce reservation \<or> vOwnerUID c \<noteq> stUid s \<or>
                 vOwnerUID reservation \<noteq> stUid s \<or> vChecksum c \<noteq> vChecksum reservation \<or>
                 vExpiresAt c \<noteq> vExpiresAt reservation then retA zero [ErrLifecycleConflict]
              else bindA nowE zero (\<lambda>now.
                if \<not> vExpiresAt c > now then retA zero [ErrLifecycleConflict] else operation)))"

definition withReservation ::
    "sha256 \<Rightarrow> store \<Rightarrow> Reservation \<Rightarrow> 'a \<Rightarrow> ('x world, 'a) act \<Rightarrow> ('x world, 'a) act" where
  "withReservation sha s reservation zero operation =
     withOwnedReservation sha s reservation zero (\<lambda>w.
       case operation w of ((a, e), w') \<Rightarrow>
         if e \<noteq> [] then ((a, e), w')
         else bindA (removeSecureFile (pathReservation (stPaths s)) (stUid s)) a (\<lambda>_. retA a []) w')"

definition withFinalReservation ::
    "sha256 \<Rightarrow> store \<Rightarrow> Reservation \<Rightarrow> 'a \<Rightarrow> ('x world, 'a) act \<Rightarrow> ('x world, 'a) act" where
  "withFinalReservation sha s reservation zero operation =
     withOwnedReservation sha s reservation zero (\<lambda>w.
       case operation w of ((a, e), w') \<Rightarrow>
         (case removeSecureFile (pathReservation (stPaths s)) (stUid s) w' of (r, w'') \<Rightarrow>
            ((a, errors_Join [e, err_of r]), w'')))"

definition withInternalReservation ::
    "sha256 \<Rightarrow> store \<Rightarrow> 'a \<Rightarrow> ('x world, 'a) act \<Rightarrow> ('x world, 'a) act" where
  "withInternalReservation sha s zero operation =
     bindA randomSuffix zero (\<lambda>nonce.
       bindA (ioA (Reserve sha s nonce (30 * time_Second))) zero (\<lambda>reservation.
         withReservation sha s reservation zero operation))"

definition CancelReservation :: "sha256 \<Rightarrow> store \<Rightarrow> Reservation \<Rightarrow> ('x world, unit) act" where
  "CancelReservation sha s reservation =
     withLifecycleLock s ()
       (bindA (tryE (readReservation sha s)) () (\<lambda>current.
          case current of
            Inl e \<Rightarrow> if errors_Is e ErrNotFound then retA () [] else retA () e
          | Inr c \<Rightarrow>
              if vNonce c \<noteq> vNonce reservation \<or> vOwnerUID c \<noteq> stUid s \<or>
                 vOwnerUID reservation \<noteq> stUid s \<or> vChecksum c \<noteq> vChecksum reservation
              then retA () [ErrLifecycleConflict]
              else actE (removeSecureFile (pathReservation (stPaths s)) (stUid s))))"

definition RenewReservation ::
    "sha256 \<Rightarrow> store \<Rightarrow> Reservation \<Rightarrow> int \<Rightarrow> ('x world, Reservation) act" where
  "RenewReservation sha s reservation ttl =
     (if ttl \<le> 0 \<or> ttl > five_minutes then retA zero_reservation [ErrInvalidState]
      else withLifecycleLock s reservation
        (bindA (readReservation sha s) reservation (\<lambda>c.
           if vNonce c \<noteq> vNonce reservation \<or> vOwnerUID c \<noteq> stUid s \<or>
              vChecksum c \<noteq> vChecksum reservation \<or> vExpiresAt c \<noteq> vExpiresAt reservation
           then retA reservation [ErrLifecycleConflict]
           else bindA nowE reservation (\<lambda>now.
             if \<not> vExpiresAt c > now then retA reservation [ErrLifecycleConflict]
             else bindA nowE reservation (\<lambda>now'.
               let next = reservation\<lparr>vExpiresAt := now' + ttl\<rparr> in
               bindA (writeReservation sha s next) next (\<lambda>v. retA v []))))))"

section \<open>The activation transaction\<close>

record ActivationTransaction =
  txStore :: store
  txActive :: bool

record ExpectedActivation =
  eaGeneration :: int
  eaState :: string

definition ownershipError :: "err \<Rightarrow> bool" where
  "ownershipError e \<longleftrightarrow> errors_Is e ErrOwnershipAmbiguous"

definition WithReservation ::
    "sha256 \<Rightarrow> store \<Rightarrow> Reservation \<Rightarrow> 'a \<Rightarrow> (ActivationTransaction \<Rightarrow> ('x world, 'a) act) \<Rightarrow> ('x world, 'a) act" where
  "WithReservation sha s reservation zero operation =
     withReservation sha s reservation zero (operation \<lparr>txStore = s, txActive = True\<rparr>)"

definition Prepare :: "sha256 \<Rightarrow> ActivationTransaction \<Rightarrow> Journal \<Rightarrow> ('x world, unit) io" where
  "Prepare sha tx journal =
     (if \<not> txActive tx then failE [ErrLifecycleConflict]
      else if jState journal \<noteq> ''prepared'' then failE [ErrInvalidState]
      else bindE (tryE (locked_readJournal sha (txStore tx))) (\<lambda>currentJournal.
           bindE (tryE (locked_readReceipt sha (txStore tx))) (\<lambda>currentReceipt.
             let journalErr = err_of currentJournal; receiptErr = err_of currentReceipt in
             if errors_Is journalErr ErrNotFound \<and> errors_Is receiptErr ErrNotFound
             then thenE (writeJournal sha (txStore tx) journal) (returnE ())
             else if ownershipError journalErr \<or> ownershipError receiptErr \<or>
                errors_Is journalErr ErrInvalidState \<or> errors_Is receiptErr ErrInvalidState
             then failE [ErrOwnershipAmbiguous]
             else if journalErr = [] \<or> receiptErr = [] then failE [ErrLifecycleConflict]
             else checkE (errors_Join [journalErr, receiptErr]))))"

definition sameActivationIdentity :: "Journal \<Rightarrow> Journal \<Rightarrow> bool" where
  "sameActivationIdentity current next \<longleftrightarrow>
     jSchemaVersion current = jSchemaVersion next \<and> jActivationID current = jActivationID next \<and>
     jNonce current = jNonce next \<and> jOwnerUID current = jOwnerUID next \<and>
     jPlatform current = jPlatform next \<and> jMode current = jMode next \<and>
     jSessionIdentity current = jSessionIdentity next \<and> jPolicy current = jPolicy next \<and>
     jBinary current = jBinary next \<and> jListener current = jListener next \<and>
     jCreatedAt current = jCreatedAt next \<and> jEnvironment current = jEnvironment next \<and>
     jRollbackActions current = jRollbackActions next"

definition allowed_transitions :: "(string \<times> string list) list" where
  "allowed_transitions =
     [(''prepared'', [''publishing'', ''active'', ''recovery_required'']),
      (''publishing'', [''active'', ''recovery_required'']),
      (''active'', [''deactivating'', ''recovery_required'']),
      (''deactivating'', [''recovery_required'']),
      (''recovery_required'', [''deactivating''])]"

definition validStateTransition :: "string \<Rightarrow> string \<Rightarrow> bool" where
  "validStateTransition current next \<longleftrightarrow>
     (case map_of allowed_transitions current of None \<Rightarrow> False | Some ns \<Rightarrow> List.member ns next)"

text \<open>The end of \<open>Transition\<close>: the journal is replaced while no receipt exists, then its receipt is written.\<close>

definition commit :: "sha256 \<Rightarrow> store \<Rightarrow> Journal \<Rightarrow> string \<Rightarrow> instant \<Rightarrow> ('x world, unit) io" where
  "commit sha s next mechanism activatedAt =
     bindE (writeJournal sha s next) (\<lambda>next'.
       if jState next' \<noteq> ''active'' \<and> jState next' \<noteq> ''recovery_required'' then returnE ()
       else (case receiptFromJournalAt next' mechanism activatedAt of
               Inl e \<Rightarrow> failE e
             | Inr newReceipt \<Rightarrow>
                 thenE (writeReceipt sha s
                          (if jState next' = ''recovery_required''
                           then newReceipt\<lparr>rState := ''recovery_required''\<rparr> else newReceipt))
                       (returnE ())))"

definition Transition ::
    "sha256 \<Rightarrow> ActivationTransaction \<Rightarrow> ExpectedActivation \<Rightarrow> Journal \<Rightarrow> string \<Rightarrow> ('x world, unit) io" where
  "Transition sha tx expected next mechanism =
     (if \<not> txActive tx then failE [ErrLifecycleConflict]
      else bindE (locked_readJournal sha (txStore tx)) (\<lambda>current.
        if jGeneration current \<noteq> eaGeneration expected \<or> jState current \<noteq> eaState expected
        then failE [ErrLifecycleConflict]
        else thenE (checkE (Journal_Validate next))
       (if jGeneration next \<noteq> jGeneration current \<or> \<not> sameActivationIdentity current next \<or>
           \<not> validStateTransition (jState current) (jState next) \<or> \<not> jUpdatedAt next > jUpdatedAt current
        then failE [ErrInvalidState]
        else bindE (tryE (locked_readReceipt sha (txStore tx))) (\<lambda>receipt.
          let receiptErr = err_of receipt in
          if ownershipError receiptErr then failE [ErrOwnershipAmbiguous]
          else thenE (case receipt of
                  Inr r \<Rightarrow> checkE (ValidateBinding current r)
                | Inl e \<Rightarrow> if \<not> errors_Is e ErrNotFound \<and> \<not> errors_Is e ErrInvalidState then failE e
                          else returnE ())
         (let activatedAt = (case receipt of Inr r \<Rightarrow> rActivatedAt r | Inl _ \<Rightarrow> jUpdatedAt next);
              mechanism' = (case receipt of
                  Inr r \<Rightarrow> if mechanism = '''' then rPublicationMechanism r else mechanism
                | Inl _ \<Rightarrow> mechanism)
          in if (jState next = ''active'' \<or> jState next = ''recovery_required'') \<and>
                mechanism' \<noteq> publicationMechanism next then failE [ErrInvalidState]
          else thenE (if \<not> errors_Is receiptErr ErrNotFound
                      then removeSecureFile (pathReceipt (stPaths (txStore tx))) (stUid (txStore tx))
                      else returnE ())
         (commit sha (txStore tx) next mechanism' activatedAt))))))"

definition Clear :: "sha256 \<Rightarrow> ActivationTransaction \<Rightarrow> ExpectedActivation \<Rightarrow> ('x world, unit) io" where
  "Clear sha tx expected =
     (if \<not> txActive tx then failE [ErrLifecycleConflict]
      else bindE (locked_readJournal sha (txStore tx)) (\<lambda>journal.
        if jGeneration journal \<noteq> eaGeneration expected \<or> jState journal \<noteq> eaState expected
        then failE [ErrLifecycleConflict]
        else bindE (tryE (locked_readReceipt sha (txStore tx))) (\<lambda>receipt.
          let receiptErr = err_of receipt in
          if ownershipError receiptErr then failE [ErrOwnershipAmbiguous]
          else thenE (case receipt of
                  Inr r \<Rightarrow> checkE (ValidateBinding journal r)
                | Inl e \<Rightarrow> if \<not> errors_Is e ErrNotFound \<and> \<not> errors_Is e ErrInvalidState then failE e
                          else returnE ())
               (removeRecords (txStore tx)))))"

section \<open>Reconciliation\<close>

record LiveListenerProof =
  lpPID :: int
  lpProcessStartIdentity :: string
  lpExecutableIdentity :: string
  lpBinaryDigest :: string
  lpListenerKeyFingerprint :: string
  lpActivationNonce :: string
  lpOwnerUID :: int
  lpGeneration :: int
  lpMode :: string
  lpSessionIdentity :: string

definition proofFromJournal :: "Journal \<Rightarrow> LiveListenerProof" where
  "proofFromJournal j = \<lparr>lpPID = lPID (jListener j),
     lpProcessStartIdentity = lProcessStartIdentity (jListener j),
     lpExecutableIdentity = lExecutableIdentity (jListener j), lpBinaryDigest = bDigest (jBinary j),
     lpListenerKeyFingerprint = lListenerKeyFingerprint (jListener j), lpActivationNonce = jNonce j,
     lpOwnerUID = jOwnerUID j, lpGeneration = jGeneration j, lpMode = jMode j,
     lpSessionIdentity = jSessionIdentity j\<rparr>"

definition proofFromReceipt :: "Receipt \<Rightarrow> LiveListenerProof" where
  "proofFromReceipt r = \<lparr>lpPID = lPID (rListener r),
     lpProcessStartIdentity = lProcessStartIdentity (rListener r),
     lpExecutableIdentity = lExecutableIdentity (rListener r), lpBinaryDigest = bDigest (rBinary r),
     lpListenerKeyFingerprint = lListenerKeyFingerprint (rListener r), lpActivationNonce = rNonce r,
     lpOwnerUID = rOwnerUID r, lpGeneration = rGeneration r, lpMode = rMode r,
     lpSessionIdentity = rSessionIdentity r\<rparr>"

datatype ReconciliationState =
    ReconciliationNone   \<comment> \<open>the zero value, the empty string\<close>
  | ReconciliationInactive | ReconciliationActive | ReconciliationRecoveryRequired

record Reconciliation =
  rcState :: ReconciliationState
  rcActivationID :: string
  rcGeneration :: int
  rcLifecycleState :: string
  rcPolicyDigest :: string
  rcMode :: string
  rcListenerProof :: "LiveListenerProof option"
  rcReceiptRepaired :: bool

definition zero_reconciliation :: Reconciliation where
  "zero_reconciliation = \<lparr>rcState = ReconciliationNone, rcActivationID = '''', rcGeneration = 0,
     rcLifecycleState = '''', rcPolicyDigest = '''', rcMode = '''', rcListenerProof = None,
     rcReceiptRepaired = False\<rparr>"

definition reconciliationFromJournal :: "Journal \<Rightarrow> bool \<Rightarrow> Reconciliation" where
  "reconciliationFromJournal j repaired = \<lparr>
     rcState = (if jState j \<noteq> ''active'' then ReconciliationRecoveryRequired else ReconciliationActive),
     rcActivationID = jActivationID j, rcGeneration = jGeneration j, rcLifecycleState = jState j,
     rcPolicyDigest = pDigest (jPolicy j), rcMode = jMode j,
     rcListenerProof = Some (proofFromJournal j), rcReceiptRepaired = repaired\<rparr>"

text \<open>
  The value is the pair of \<open>*result\<close> and \<open>*semanticErr\<close>; the error is the one returned to the
  reservation wrapper.
\<close>

definition reconcileLocked :: "sha256 \<Rightarrow> store \<Rightarrow> ('x world, Reconciliation \<times> err) act" where
  "reconcileLocked sha s =
     bindA (tryE (locked_readJournal sha s)) (zero_reconciliation, []) (\<lambda>journal.
     bindA (tryE (locked_readReceipt sha s)) (zero_reconciliation, []) (\<lambda>receipt.
       if ownershipError (err_of journal) \<or> ownershipError (err_of receipt)
       then retA (zero_reconciliation, []) [ErrOwnershipAmbiguous]
       else (case journal of
         Inr j \<Rightarrow> (case receipt of
           Inr r \<Rightarrow> bindA (checkE (ValidateBinding j r)) (zero_reconciliation, []) (\<lambda>_.
             retA (reconciliationFromJournal j False, []) [])
         | Inl _ \<Rightarrow> (case receiptFromJournal j (publicationMechanism j) of
             Inl e \<Rightarrow> retA (zero_reconciliation, []) e
           | Inr repaired \<Rightarrow>
               bindA (writeReceipt sha s (if jState j \<noteq> ''active''
                        then repaired\<lparr>rState := ''recovery_required''\<rparr> else repaired))
                 (zero_reconciliation, []) (\<lambda>_. retA (reconciliationFromJournal j True, []) [])))
       | Inl journalErr \<Rightarrow> (case receipt of
           Inr r \<Rightarrow> retA (\<lparr>rcState = ReconciliationRecoveryRequired, rcActivationID = rActivationID r,
               rcGeneration = rGeneration r, rcLifecycleState = ''recovery_required'',
               rcPolicyDigest = rPolicyDigest r, rcMode = rMode r,
               rcListenerProof = Some (proofFromReceipt r), rcReceiptRepaired = False\<rparr>,
               [ErrRecoveryRequired]) []
         | Inl receiptErr \<Rightarrow>
             if errors_Is journalErr ErrNotFound \<and> errors_Is receiptErr ErrNotFound
             then retA (zero_reconciliation\<lparr>rcState := ReconciliationInactive\<rparr>, []) []
             else retA (zero_reconciliation, []) [ErrOwnershipAmbiguous]))))"

text \<open>\<open>return result, errors.Join(err, semanticErr)\<close>.\<close>

definition joinSemantic :: "('x world, 'a \<times> err) act \<Rightarrow> ('x world, 'a) act" where
  "joinSemantic m = (\<lambda>w. case m w of (((a, semanticErr), e), w') \<Rightarrow> ((a, errors_Join [e, semanticErr]), w'))"

definition Reconcile :: "sha256 \<Rightarrow> store \<Rightarrow> ('x world, Reconciliation) act" where
  "Reconcile sha s =
     joinSemantic (withInternalReservation sha s (zero_reconciliation, []) (reconcileLocked sha s))"

definition ReconcileReserved :: "sha256 \<Rightarrow> store \<Rightarrow> Reservation \<Rightarrow> ('x world, Reconciliation) act" where
  "ReconcileReserved sha s reservation =
     joinSemantic (withOwnedReservation sha s reservation (zero_reconciliation, []) (reconcileLocked sha s))"

section \<open>What a file holds\<close>

text \<open>
  \<open>stored decode check uid path f\<close> is what the readers answer about the file at \<open>path\<close> when no
  system call fails: a function of the file system alone.
\<close>

definition stored :: "(doc \<Rightarrow> 'r option) \<Rightarrow> ('r \<Rightarrow> err) \<Rightarrow> int \<Rightarrow> string \<Rightarrow> files \<Rightarrow> err + 'r" where
  "stored decode check uid path f =
     (case f path of
        None \<Rightarrow> Inl [ErrNotFound]
      | Some n \<Rightarrow>
          if \<not> secure_node uid n then Inl [ErrOwnershipAmbiguous]
          else if maxRecordSize < n_size n then Inl [ErrInvalidState]
          else (case decode (n_doc n) of
                  None \<Rightarrow> Inl [ErrInvalidState]
                | Some r \<Rightarrow> if check r = [] then Inr r else Inl (check r)))"

definition journal_check :: "sha256 \<Rightarrow> int \<Rightarrow> Journal \<Rightarrow> err" where
  "journal_check sha uid j =
     (if jOwnerUID j \<noteq> uid then [ErrOwnershipAmbiguous]
      else if Journal_Validate j \<noteq> [] then Journal_Validate j
      else verifyChecksum sha (journal_json j) (jChecksum j))"

definition receipt_check :: "sha256 \<Rightarrow> int \<Rightarrow> Receipt \<Rightarrow> err" where
  "receipt_check sha uid r =
     (if rOwnerUID r \<noteq> uid then [ErrOwnershipAmbiguous]
      else if Receipt_Validate r \<noteq> [] then Receipt_Validate r
      else verifyChecksum sha (receipt_json r) (rChecksum r))"

definition reservation_check :: "sha256 \<Rightarrow> int \<Rightarrow> Reservation \<Rightarrow> err" where
  "reservation_check sha uid v =
     (if vOwnerUID v \<noteq> uid \<or> \<not> validNonce (vNonce v) \<or> time_IsZero (vExpiresAt v) then [ErrInvalidState]
      else verifyChecksum sha (reservation_json v) (vChecksum v))"

definition journal_at :: "sha256 \<Rightarrow> store \<Rightarrow> files \<Rightarrow> err + Journal" where
  "journal_at sha s = stored doc_journal (journal_check sha (stUid s)) (stUid s) (pathJournal (stPaths s))"

definition receipt_at :: "sha256 \<Rightarrow> store \<Rightarrow> files \<Rightarrow> err + Receipt" where
  "receipt_at sha s = stored doc_receipt (receipt_check sha (stUid s)) (stUid s) (pathReceipt (stPaths s))"

definition reservation_at :: "sha256 \<Rightarrow> store \<Rightarrow> files \<Rightarrow> err + Reservation" where
  "reservation_at sha s =
     stored doc_reservation (reservation_check sha (stUid s)) (stUid s) (pathReservation (stPaths s))"

lemma stored_frame: "p \<noteq> path \<Longrightarrow> stored decode check uid path (f(p := n)) = stored decode check uid path f"
  by (simp add: stored_def)

lemma stored_removed: "stored decode check uid path (f(path := None)) = Inl [ErrNotFound]"
  by (simp add: stored_def)

lemma stored_created:
  "stored decode check uid path (f(path := Some (created_node uid sz d))) =
     (if maxRecordSize < sz then Inl [ErrInvalidState]
      else (case decode d of None \<Rightarrow> Inl [ErrInvalidState] | Some r \<Rightarrow> if check r = [] then Inr r else Inl (check r)))"
proof -
  have "n_size (created_node uid sz d) = sz" "n_doc (created_node uid sz d) = d"
    by (simp_all add: created_node_def)
  then show ?thesis by (simp add: stored_def)
qed

text \<open>A reader reports what is stored, or an error of the operating system, and changes nothing.\<close>

definition reads :: "('x world, 'r) io \<Rightarrow> (files \<Rightarrow> err + 'r) \<Rightarrow> bool" where
  "reads m view \<longleftrightarrow> (\<forall>w. wp m
     (\<lambda>r w'. quiet w w' \<and> view (w_files w) = Inr r)
     (\<lambda>e w'. quiet w w' \<and> (io_err e \<or> view (w_files w) = Inl e)) w)"

lemma readRecord_spec:
  "wp (readRecord decode path uid)
     (\<lambda>r w'. quiet w w' \<and> (\<exists>n. w_files w path = Some n \<and> secure_node uid n \<and>
        n_size n \<le> maxRecordSize \<and> decode (n_doc n) = Some r))
     (\<lambda>e w'. quiet w w' \<and> (io_err e \<or> stored decode check uid path (w_files w) = Inl e)) w"
  unfolding readRecord_def wp_bindE wp_tryE
  by (rule wp_mono [OF readSecureFile_spec])
    (auto simp: wp_rules stored_def split: option.splits)

lemma reads_check:
  assumes "m = bindE (readRecord decode path uid) (\<lambda>r. thenE (checkE (check r)) (returnE r))"
  shows "reads m (stored decode check uid path)"
  unfolding reads_def assms wp_bindE
  by (intro allI, rule wp_mono [OF readRecord_spec [where check = check]])
    (auto simp: wp_rules stored_def)

lemma locked_readJournal_reads: "reads (locked_readJournal sha s) (journal_at sha s)"
  unfolding journal_at_def
  by (rule reads_check)
    (auto simp: locked_readJournal_def readJournal_def journal_check_def bindE_def checkE_def returnE_def
      failE_def fun_eq_iff split: prod.splits sum.splits)

lemma locked_readReceipt_reads: "reads (locked_readReceipt sha s) (receipt_at sha s)"
  unfolding receipt_at_def
  by (rule reads_check)
    (auto simp: locked_readReceipt_def readReceipt_def receipt_check_def bindE_def checkE_def returnE_def
      failE_def fun_eq_iff split: prod.splits sum.splits)

lemma readReservation_reads: "reads (readReservation sha s) (reservation_at sha s)"
  unfolding reservation_at_def
  by (rule reads_check)
    (auto simp: readReservation_def reservation_check_def bindE_def checkE_def returnE_def
      failE_def fun_eq_iff split: prod.splits sum.splits)


section \<open>Writing\<close>

text \<open>
  A record can be stored faithfully when its strings are valid UTF-8 and its encoding does not exceed
  the size the readers accept; the writers check neither.
\<close>

definition fits :: "err + (string \<times> 'r) \<Rightarrow> bool" where
  "fits m \<longleftrightarrow> (case m of Inl _ \<Rightarrow> True | Inr (data, _) \<Rightarrow> length data \<le> maxRecordSize)"

text \<open>The checksum field does not count: a write replaces it.\<close>

definition wire_stable :: "Journal \<Rightarrow> bool" where
  "wire_stable j \<longleftrightarrow> (wire_journal j)\<lparr>jChecksum := jChecksum j\<rparr> = j"

definition journal_storable :: "sha256 \<Rightarrow> Journal \<Rightarrow> bool" where
  "journal_storable sha j \<longleftrightarrow> wire_stable j \<and> fits (marshalChecksummed sha journal_json set_journal_checksum j)"

definition receipt_storable :: "sha256 \<Rightarrow> Receipt \<Rightarrow> bool" where
  "receipt_storable sha r \<longleftrightarrow> wire_receipt r = r \<and> fits (marshalChecksummed sha receipt_json set_receipt_checksum r)"

definition reservation_storable :: "sha256 \<Rightarrow> store \<Rightarrow> Reservation \<Rightarrow> bool" where
  "reservation_storable sha s v \<longleftrightarrow> wire_reservation v = v \<and> vOwnerUID v = stUid s \<and>
     validNonce (vNonce v) \<and> \<not> time_IsZero (vExpiresAt v) \<and>
     fits (marshalChecksummed sha reservation_json set_reservation_checksum v)"

definition journal_stamped :: "sha256 \<Rightarrow> Journal \<Rightarrow> Journal \<Rightarrow> bool" where
  "journal_stamped sha j j' \<longleftrightarrow> j' = j\<lparr>jChecksum := jChecksum j'\<rparr> \<and> checksumRecord sha (journal_json j) = Inr (jChecksum j')"

definition receipt_stamped :: "sha256 \<Rightarrow> Receipt \<Rightarrow> Receipt \<Rightarrow> bool" where
  "receipt_stamped sha r r' \<longleftrightarrow> r' = r\<lparr>rChecksum := rChecksum r'\<rparr> \<and> checksumRecord sha (receipt_json r) = Inr (rChecksum r')"

definition reservation_stamped :: "sha256 \<Rightarrow> Reservation \<Rightarrow> Reservation \<Rightarrow> bool" where
  "reservation_stamped sha v v' \<longleftrightarrow> v' = v\<lparr>vChecksum := vChecksum v'\<rparr> \<and> checksumRecord sha (reservation_json v) = Inr (vChecksum v')"

lemma is_lower_hex_ascii: "is_lower_hex c \<Longrightarrow> byte c < 128"
  by (auto simp: go_defs)

lemma coerceUTF8_digest_text [simp]: "coerceUTF8 (digest_text sha t) = digest_text sha t"
proof (rule coerceUTF8_ascii)
  have "list_all is_lower_hex (hex256 w)" for w by (simp add: hex256_def hex_digits_lower)
  then have "list_all (\<lambda>c. byte c < 128) (hex256 (sha t))"
    by (rule list.pred_mono_strong) (rule is_lower_hex_ascii)
  then show "list_all (\<lambda>c. byte c < 128) (digest_text sha t)"
    by (simp add: digest_text_def)
qed

lemma coerceUTF8_digest:
  assumes "validateDigest d = []"
  shows "coerceUTF8 d = d"
proof (rule coerceUTF8_ascii)
  obtain t where d: "d = ''sha256:'' @ t" and "list_all is_lower_hex (drop 7 d)"
    using assms by (auto simp: validateDigest_def hasPrefix_iff split: if_splits)
  then have "list_all is_lower_hex t" by simp
  then have "list_all (\<lambda>c. byte c < 128) t" by (rule list.pred_mono_strong) (rule is_lower_hex_ascii)
  then show "list_all (\<lambda>c. byte c < 128) d" by (simp add: d)
qed

lemma Journal_Validate_checksum [simp]: "Journal_Validate (j\<lparr>jChecksum := c\<rparr>) = Journal_Validate j"
  by (simp add: Journal_Validate_def)

lemma Receipt_Validate_checksum [simp]: "Receipt_Validate (r\<lparr>rChecksum := c\<rparr>) = Receipt_Validate r"
  by (simp add: Receipt_Validate_def)

lemma wire_checksum:
  "coerceUTF8 c = c \<Longrightarrow> wire_journal (j\<lparr>jChecksum := c\<rparr>) = (wire_journal j)\<lparr>jChecksum := c\<rparr>"
  "coerceUTF8 c = c \<Longrightarrow> wire_receipt (r\<lparr>rChecksum := c\<rparr>) = (wire_receipt r)\<lparr>rChecksum := c\<rparr>"
  "coerceUTF8 c = c \<Longrightarrow> wire_reservation (v\<lparr>vChecksum := c\<rparr>) = (wire_reservation v)\<lparr>vChecksum := c\<rparr>"
  by (simp_all add: wire_journal_def wire_receipt_def wire_reservation_def)

lemma wire_stable_checksum:
  assumes "wire_stable j" and "coerceUTF8 c = c"
  shows "wire_journal (j\<lparr>jChecksum := c\<rparr>) = j\<lparr>jChecksum := c\<rparr>"
proof -
  have "(wire_journal j)\<lparr>jChecksum := c\<rparr> = ((wire_journal j)\<lparr>jChecksum := jChecksum j\<rparr>)\<lparr>jChecksum := c\<rparr>" by simp
  also have "\<dots> = j\<lparr>jChecksum := c\<rparr>" using assms(1) by (simp only: wire_stable_def)
  finally show ?thesis by (simp add: wire_checksum(1) [OF assms(2)])
qed

text \<open>What the lifecycle code relies on when it reads and writes one of the three records.\<close>

locale record_file =
  fixes path :: string
    and view :: "files \<Rightarrow> err + 'r"
    and readR :: "('x world, 'r) io"
    and writeR :: "'r \<Rightarrow> ('x world, 'r) io"
    and storable :: "'r \<Rightarrow> bool"
    and stamped :: "'r \<Rightarrow> 'r \<Rightarrow> bool"
  assumes read_spec: "reads readR view"
    and view_frame: "p \<noteq> path \<Longrightarrow> view (f(p := n)) = view f"
    and view_removed: "view (f(path := None)) = Inl [ErrNotFound]"
    and write_ok: "storable r \<Longrightarrow> writeR r w = (Inr r', w') \<Longrightarrow>
      stamped r r' \<and> view (w_files w') = Inr r' \<and> (\<exists>n. wrote path (Some n) w w')"
    and write_fail: "storable r \<Longrightarrow> writeR r w = (Inl e, w') \<Longrightarrow>
      quiet w w' \<or> (\<exists>n r'. stamped r r' \<and> view (w_files w') = Inr r' \<and> wrote path (Some n) w w')"
begin

lemma read_wp:
  assumes "\<And>r w'. quiet w w' \<Longrightarrow> view (w_files w) = Inr r \<Longrightarrow> Q r w'"
    and "\<And>e w'. quiet w w' \<Longrightarrow> io_err e \<or> view (w_files w) = Inl e \<Longrightarrow> E e w'"
  shows "wp readR Q E w"
  by (rule wp_mono [OF read_spec [unfolded reads_def, rule_format]]) (use assms in blast)+

lemma write_wp:
  assumes "storable r"
    and "\<And>r' n w'. stamped r r' \<Longrightarrow> view (w_files w') = Inr r' \<Longrightarrow> wrote path (Some n) w w' \<Longrightarrow> Q r' w'"
    and "\<And>e w'. quiet w w' \<Longrightarrow> E e w'"
    and "\<And>e r' n w'. stamped r r' \<Longrightarrow> view (w_files w') = Inr r' \<Longrightarrow> wrote path (Some n) w w' \<Longrightarrow> E e w'"
  shows "wp (writeR r) Q E w"
proof (cases "writeR r w")
  case (Pair res w')
  show ?thesis
  proof (cases res)
    case (Inl e)
    with Pair write_fail [OF assms(1)] assms(3,4) show ?thesis by (fastforce simp: wp_def)
  next
    case (Inr r')
    with Pair write_ok [OF assms(1)] assms(2) show ?thesis by (fastforce simp: wp_def)
  qed
qed

text \<open>Whatever happens during a write, a later reader finds the old or the complete new record.\<close>

lemma write_atomic:
  assumes "storable r"
  shows "view (w_files (snd (writeR r w))) = view (w_files w) \<or>
     (\<exists>r'. stamped r r' \<and> view (w_files (snd (writeR r w))) = Inr r')"
proof -
  have "wp (writeR r) (\<lambda>_ w'. view (w_files w') = view (w_files w) \<or> (\<exists>r'. stamped r r' \<and> view (w_files w') = Inr r'))
     (\<lambda>_ w'. view (w_files w') = view (w_files w) \<or> (\<exists>r'. stamped r r' \<and> view (w_files w') = Inr r')) w"
    by (rule write_wp [OF assms]) (auto simp: quiet_def)
  then show ?thesis by (simp add: wp_snd)
qed

lemma read_after_write:
  assumes "storable r" and "writeR r w = (Inr r', w')" and "readR w' = (res, w'')"
  shows "res = Inr r' \<or> (\<exists>e. res = Inl e \<and> io_err e)"
proof -
  have "view (w_files w') = Inr r'" using write_ok [OF assms(1,2)] by blast
  moreover have "wp readR (\<lambda>r _. view (w_files w') = Inr r) (\<lambda>e _. io_err e \<or> view (w_files w') = Inl e) w'"
    by (rule read_wp) auto
  ultimately show ?thesis using assms(3) by (auto simp: wp_def split: sum.splits)
qed

end

text \<open>The common tail of the writers: put the encoded record in place.\<close>

lemma store_wp:
  assumes "length data \<le> maxRecordSize" and "decode d = Some r'" and "check r' = []"
  shows "wp (thenE (atomicWrite path uid data d) (returnE r'))
     (\<lambda>x w'. x = r' \<and> stored decode check uid path (w_files w') = Inr r' \<and> (\<exists>n. wrote path (Some n) w w'))
     (\<lambda>e w'. quiet w w' \<or> stored decode check uid path (w_files w') = Inr r' \<and> (\<exists>n. wrote path (Some n) w w')) w"
  unfolding wp_bindE wp_returnE
  by (rule wp_mono [OF atomicWrite_spec]) (use assms in \<open>auto simp: wrote_def stored_created\<close>)

lemma writeJournal_spec:
  assumes "journal_storable sha j"
  shows "wp (writeJournal sha s j)
     (\<lambda>j' w'. journal_stamped sha j j' \<and> journal_at sha s (w_files w') = Inr j' \<and>
        (\<exists>n. wrote (pathJournal (stPaths s)) (Some n) w w'))
     (\<lambda>e w'. quiet w w' \<or> (\<exists>n j'. journal_stamped sha j j' \<and> journal_at sha s (w_files w') = Inr j' \<and>
        wrote (pathJournal (stPaths s)) (Some n) w w')) w"
proof (cases "\<exists>data j'. jOwnerUID j = stUid s \<and> Journal_Validate j = [] \<and>
    marshalChecksummed sha journal_json set_journal_checksum j = Inr (data, j')")
  case False
  then show ?thesis by (auto simp: writeJournal_def wp_rules split: sum.splits)
next
  case True
  then obtain data j' where ok: "jOwnerUID j = stUid s" "Journal_Validate j = []"
    and m: "marshalChecksummed sha journal_json set_journal_checksum j = Inr (data, j')" by blast
  have st: "journal_stamped sha j j'"
    using journal_sum.marshal_sets [OF m] by (simp add: journal_stamped_def set_journal_checksum_def)
  obtain t where "jChecksum j' = digest_text sha t" using journal_sum.marshal_digest [OF m] by blast
  then have j': "j' = j\<lparr>jChecksum := digest_text sha t\<rparr>" using st by (simp add: journal_stamped_def)
  have wire: "wire_journal j' = j'" and small: "length data \<le> maxRecordSize"
    using assms m by (simp_all add: journal_storable_def fits_def j' wire_stable_checksum)
  have chk: "journal_check sha (stUid s) j' = []"
    using journal_sum.marshal_verifies [OF m] ok by (simp add: journal_check_def j')
  from ok m have eq: "writeJournal sha s j = thenE (atomicWrite (pathJournal (stPaths s)) (stUid s) data
      (empty_doc\<lparr>doc_journal := Some j'\<rparr>)) (returnE j')"
    by (simp add: writeJournal_def wire)
  show ?thesis unfolding eq journal_at_def
    by (rule wp_mono [OF store_wp [where decode = doc_journal and check = "journal_check sha (stUid s)", OF small _ chk]]; use st in auto)
qed

lemma writeReceipt_spec:
  assumes "receipt_storable sha r"
  shows "wp (writeReceipt sha s r)
     (\<lambda>r' w'. receipt_stamped sha r r' \<and> receipt_at sha s (w_files w') = Inr r' \<and>
        (\<exists>n. wrote (pathReceipt (stPaths s)) (Some n) w w'))
     (\<lambda>e w'. quiet w w' \<or> (\<exists>n r'. receipt_stamped sha r r' \<and> receipt_at sha s (w_files w') = Inr r' \<and>
        wrote (pathReceipt (stPaths s)) (Some n) w w')) w"
proof (cases "\<exists>data r'. rOwnerUID r = stUid s \<and> Receipt_Validate r = [] \<and>
    marshalChecksummed sha receipt_json set_receipt_checksum r = Inr (data, r')")
  case False
  then show ?thesis by (auto simp: writeReceipt_def wp_rules split: sum.splits)
next
  case True
  then obtain data r' where ok: "rOwnerUID r = stUid s" "Receipt_Validate r = []"
    and m: "marshalChecksummed sha receipt_json set_receipt_checksum r = Inr (data, r')" by blast
  have st: "receipt_stamped sha r r'"
    using receipt_sum.marshal_sets [OF m] by (simp add: receipt_stamped_def set_receipt_checksum_def)
  obtain t where "rChecksum r' = digest_text sha t" using receipt_sum.marshal_digest [OF m] by blast
  then have r': "r' = r\<lparr>rChecksum := digest_text sha t\<rparr>" using st by (simp add: receipt_stamped_def)
  have wire: "wire_receipt r' = r'" and small: "length data \<le> maxRecordSize"
    using assms m by (simp_all add: receipt_storable_def fits_def r' wire_checksum)
  have chk: "receipt_check sha (stUid s) r' = []"
    using receipt_sum.marshal_verifies [OF m] ok by (simp add: receipt_check_def r')
  from ok m have eq: "writeReceipt sha s r = thenE (atomicWrite (pathReceipt (stPaths s)) (stUid s) data
      (empty_doc\<lparr>doc_receipt := Some r'\<rparr>)) (returnE r')"
    by (simp add: writeReceipt_def wire)
  show ?thesis unfolding eq receipt_at_def
    by (rule wp_mono [OF store_wp [where decode = doc_receipt and check = "receipt_check sha (stUid s)", OF small _ chk]]; use st in auto)
qed

lemma writeReservation_spec:
  assumes "reservation_storable sha s v"
  shows "wp (writeReservation sha s v)
     (\<lambda>v' w'. reservation_stamped sha v v' \<and> reservation_at sha s (w_files w') = Inr v' \<and>
        (\<exists>n. wrote (pathReservation (stPaths s)) (Some n) w w'))
     (\<lambda>e w'. quiet w w' \<or> (\<exists>n v'. reservation_stamped sha v v' \<and> reservation_at sha s (w_files w') = Inr v' \<and>
        wrote (pathReservation (stPaths s)) (Some n) w w')) w"
proof (cases "marshalChecksummed sha reservation_json set_reservation_checksum v")
  case (Inl e)
  then show ?thesis by (simp add: writeReservation_def wp_rules)
next
  case (Inr p)
  then obtain data v' where m: "marshalChecksummed sha reservation_json set_reservation_checksum v = Inr (data, v')"
    by (cases p) auto
  have st: "reservation_stamped sha v v'"
    using reservation_sum.marshal_sets [OF m] by (simp add: reservation_stamped_def set_reservation_checksum_def)
  obtain t where "vChecksum v' = digest_text sha t" using reservation_sum.marshal_digest [OF m] by blast
  then have v': "v' = v\<lparr>vChecksum := digest_text sha t\<rparr>" using st by (simp add: reservation_stamped_def)
  have wire: "wire_reservation v' = v'" and small: "length data \<le> maxRecordSize"
    using assms m by (simp_all add: reservation_storable_def fits_def v' wire_checksum)
  have chk: "reservation_check sha (stUid s) v' = []"
    using reservation_sum.marshal_verifies [OF m] assms by (simp add: reservation_check_def reservation_storable_def v')
  from m have eq: "writeReservation sha s v = thenE (atomicWrite (pathReservation (stPaths s)) (stUid s) data
      (empty_doc\<lparr>doc_reservation := Some v'\<rparr>)) (returnE v')"
    by (simp add: writeReservation_def wire)
  show ?thesis unfolding eq reservation_at_def
    by (rule wp_mono [OF store_wp [where decode = doc_reservation and check = "reservation_check sha (stUid s)", OF small _ chk]]; use st in auto)
qed

interpretation journal_file: record_file "pathJournal (stPaths s)" "journal_at sha s"
    "locked_readJournal sha s" "writeJournal sha s" "journal_storable sha" "journal_stamped sha"
  for sha s
proof unfold_locales
  fix r r' w w' e
  assume st: "journal_storable sha r"
  show "writeJournal sha s r w = (Inr r', w') \<Longrightarrow> journal_stamped sha r r' \<and>
      journal_at sha s (w_files w') = Inr r' \<and> (\<exists>n. wrote (pathJournal (stPaths s)) (Some n) w w')"
    by (rule wp_result [OF writeJournal_spec [OF st]])
  show "writeJournal sha s r w = (Inl e, w') \<Longrightarrow> quiet w w' \<or> (\<exists>n r'. journal_stamped sha r r' \<and>
      journal_at sha s (w_files w') = Inr r' \<and> wrote (pathJournal (stPaths s)) (Some n) w w')"
    by (rule wp_error [OF writeJournal_spec [OF st]])
qed (simp_all add: locked_readJournal_reads [unfolded journal_at_def] journal_at_def stored_frame stored_removed)

interpretation receipt_file: record_file "pathReceipt (stPaths s)" "receipt_at sha s"
    "locked_readReceipt sha s" "writeReceipt sha s" "receipt_storable sha" "receipt_stamped sha"
  for sha s
proof unfold_locales
  fix r r' w w' e
  assume st: "receipt_storable sha r"
  show "writeReceipt sha s r w = (Inr r', w') \<Longrightarrow> receipt_stamped sha r r' \<and>
      receipt_at sha s (w_files w') = Inr r' \<and> (\<exists>n. wrote (pathReceipt (stPaths s)) (Some n) w w')"
    by (rule wp_result [OF writeReceipt_spec [OF st]])
  show "writeReceipt sha s r w = (Inl e, w') \<Longrightarrow> quiet w w' \<or> (\<exists>n r'. receipt_stamped sha r r' \<and>
      receipt_at sha s (w_files w') = Inr r' \<and> wrote (pathReceipt (stPaths s)) (Some n) w w')"
    by (rule wp_error [OF writeReceipt_spec [OF st]])
qed (simp_all add: locked_readReceipt_reads [unfolded receipt_at_def] receipt_at_def stored_frame stored_removed)

interpretation reservation_file: record_file "pathReservation (stPaths s)" "reservation_at sha s"
    "readReservation sha s" "writeReservation sha s" "reservation_storable sha s" "reservation_stamped sha"
  for sha s
proof unfold_locales
  fix r r' w w' e
  assume st: "reservation_storable sha s r"
  show "writeReservation sha s r w = (Inr r', w') \<Longrightarrow> reservation_stamped sha r r' \<and>
      reservation_at sha s (w_files w') = Inr r' \<and> (\<exists>n. wrote (pathReservation (stPaths s)) (Some n) w w')"
    by (rule wp_result [OF writeReservation_spec [OF st]])
  show "writeReservation sha s r w = (Inl e, w') \<Longrightarrow> quiet w w' \<or> (\<exists>n r'. reservation_stamped sha r r' \<and>
      reservation_at sha s (w_files w') = Inr r' \<and> wrote (pathReservation (stPaths s)) (Some n) w w')"
    by (rule wp_error [OF writeReservation_spec [OF st]])
qed (simp_all add: readReservation_reads [unfolded reservation_at_def] reservation_at_def stored_frame stored_removed)

end
