(* ===== verification/Consistency.thy ===== *)
theory Consistency
  imports ProxyStore
begin

text \<open>
  When journal and receipt belong together, and that the steps of a transition keep them so: the
  redundant records of \<open>internal/proxy/state/store_unix.go\<close> are consistent after each single change of
  the file system.
\<close>

section \<open>Consistency of the redundant records\<close>

text \<open>
  A file system is consistent when there is no activation evidence at all, or an authoritative
  journal whose receipt is bound to it, missing, or corrupt and hence repairable.  A journal is
  regular when it is one that decoding can produce (its strings are valid UTF-8), its list of
  rollback actions is not an empty slice, which no receipt made from it could match, and in every
  state and at every time its encoding stays within the size the readers accept.
\<close>

definition journal_states :: "string list" where
  "journal_states = [''prepared'', ''publishing'', ''active'', ''deactivating'', ''recovery_required'']"

definition roomy :: "sha256 \<Rightarrow> Journal \<Rightarrow> bool" where
  "roomy sha j \<longleftrightarrow> (\<forall>st\<in>set journal_states. \<forall>t.
     fits (marshalChecksummed sha journal_json set_journal_checksum (j\<lparr>jState := st, jUpdatedAt := t\<rparr>)))"

definition regular_journal :: "sha256 \<Rightarrow> Journal \<Rightarrow> bool" where
  "regular_journal sha j \<longleftrightarrow> wire_stable j \<and> jRollbackActions j \<noteq> Some [] \<and> roomy sha j"

lemma regular_storable:
  assumes "regular_journal sha j" and "jState j \<in> set journal_states"
  shows "journal_storable sha j"
proof -
  have "\<forall>t. fits (marshalChecksummed sha journal_json set_journal_checksum (j\<lparr>jState := jState j, jUpdatedAt := t\<rparr>))"
    using assms unfolding regular_journal_def roomy_def by blast
  from this [rule_format, of "jUpdatedAt j"]
  show ?thesis using assms(1) by (simp add: journal_storable_def regular_journal_def)
qed

lemma Journal_Validate_states: "Journal_Validate j = [] \<Longrightarrow> jState j \<in> set journal_states"
  by (auto simp: Journal_Validate_def journal_states_def split: if_splits)

definition consistent :: "sha256 \<Rightarrow> store \<Rightarrow> files \<Rightarrow> bool" where
  "consistent sha s f \<longleftrightarrow>
     (case journal_at sha s f of
        Inr j \<Rightarrow> regular_journal sha j \<and>
          (case receipt_at sha s f of
             Inr r \<Rightarrow> ValidateBinding j r = []
           | Inl e \<Rightarrow> e = [ErrNotFound] \<or> e = [ErrInvalidState])
      | Inl e \<Rightarrow> e = [ErrNotFound] \<and> receipt_at sha s f = Inl [ErrNotFound])"

definition distinct_paths :: "store \<Rightarrow> bool" where
  "distinct_paths s \<longleftrightarrow> distinct [pathLock (stPaths s), pathReservation (stPaths s), pathJournal (stPaths s), pathReceipt (stPaths s)]"

text \<open>Since \<open>w0\<close>, every state the file system went through is consistent, and so is the present one.\<close>

definition safe_since :: "sha256 \<Rightarrow> store \<Rightarrow> 'x world \<Rightarrow> 'x world \<Rightarrow> bool" where
  "safe_since sha s w0 w \<longleftrightarrow> consistent sha s (w_files w) \<and>
     (\<exists>new. w_history w = w_history w0 @ new \<and> list_all (consistent sha s) new)"

lemma safe_since_refl: "consistent sha s (w_files w) \<Longrightarrow> safe_since sha s w w"
  by (simp add: safe_since_def)

lemma safe_since_quiet: "safe_since sha s w0 w \<Longrightarrow> quiet w w' \<Longrightarrow> safe_since sha s w0 w'"
  by (simp add: safe_since_def quiet_def)

lemma safe_since_wrote:
  "safe_since sha s w0 w \<Longrightarrow> wrote p n w w' \<Longrightarrow> consistent sha s (w_files w') \<Longrightarrow> safe_since sha s w0 w'"
  by (auto simp: safe_since_def wrote_def)

lemma at_quiet:
  "quiet w w' \<Longrightarrow> journal_at sha s (w_files w') = journal_at sha s (w_files w)"
  "quiet w w' \<Longrightarrow> receipt_at sha s (w_files w') = receipt_at sha s (w_files w)"
  "quiet w w' \<Longrightarrow> reservation_at sha s (w_files w') = reservation_at sha s (w_files w)"
  by (simp_all add: quiet_def)

lemma stored_NotFound:
  assumes "stored decode check uid path f = Inl e" "errors_Is e ErrNotFound" "\<And>r. \<not> errors_Is (check r) ErrNotFound"
  shows "f path = None"
  using assms by (auto simp: stored_def split: option.splits if_splits)

lemma verifyChecksum_errors:
  "errors_Is (verifyChecksum sha obj c) s \<Longrightarrow> s = ErrInvalidState \<or> (\<exists>m. s = Other m)"
  by (auto simp: verifyChecksum_def checksumRecord_def split: sum.splits option.splits if_splits)

definition plain :: "err \<Rightarrow> bool" where
  "plain e \<longleftrightarrow> e = [] \<or> e = [ErrInvalidState]"

lemma plain_simps:
  "plain []" "plain [ErrInvalidState]" "plain (if b then e else e') \<longleftrightarrow> (if b then plain e else plain e')"
  by (simp_all add: plain_def)

lemma plain_not: "plain e \<Longrightarrow> s \<noteq> ErrInvalidState \<Longrightarrow> \<not> errors_Is e s"
  by (auto simp: plain_def)

lemma plain_validators:
  "plain (validateBinaryListener b l)" "plain (checkJournalEnvironment seen js)"
  "plain (checkReceiptEnvironment seen' rs)" "plain (validateRollback xs)"
proof -
  have "plain (validateLoopbackAddress a)" for a
    by (simp add: validateLoopbackAddress_def plain_simps split: option.splits prod.splits)
  then show "plain (validateBinaryListener b l)" by (simp add: validateBinaryListener_def plain_simps)
  show "plain (checkJournalEnvironment seen js)" by (induction js arbitrary: seen) (auto simp: plain_simps)
  show "plain (checkReceiptEnvironment seen' rs)" by (induction rs arbitrary: seen') (auto simp: plain_simps)
  show "plain (validateRollback xs)" by (simp add: validateRollback_def plain_simps)
qed

lemma plain_Validate: "plain (Journal_Validate j)" "plain (Receipt_Validate r)"
  by (simp_all add: Journal_Validate_def Receipt_Validate_def validateJournalEnvironment_def
      validateReceiptEnvironment_def plain_simps plain_validators)

lemma receipt_check_errors: "\<not> errors_Is (receipt_check sha uid r) ErrNotFound"
  using plain_not [OF plain_Validate(2)] verifyChecksum_errors [of sha "receipt_json r" "rChecksum r" ErrNotFound]
  by (auto simp: receipt_check_def)

lemma journal_check_errors: "\<not> errors_Is (journal_check sha uid j) ErrNotFound"
  using plain_not [OF plain_Validate(1)] verifyChecksum_errors [of sha "journal_json j" "jChecksum j" ErrNotFound]
  by (auto simp: journal_check_def)

lemma receipt_NotFound:
  "receipt_at sha s f = Inl e \<Longrightarrow> errors_Is e ErrNotFound \<Longrightarrow> f (pathReceipt (stPaths s)) = None"
  unfolding receipt_at_def by (rule stored_NotFound [OF _ _ receipt_check_errors])

lemma receipt_absent: "f (pathReceipt (stPaths s)) = None \<Longrightarrow> receipt_at sha s f = Inl [ErrNotFound]"
  by (simp add: receipt_at_def stored_def)

lemma consistent_absent:
  "journal_at sha s f = Inr j \<Longrightarrow> regular_journal sha j \<Longrightarrow> f (pathReceipt (stPaths s)) = None \<Longrightarrow> consistent sha s f"
  by (simp add: consistent_def receipt_absent)

section \<open>A receipt made from a journal is bound to it\<close>

lemma receiptFromJournalAt_binds:
  assumes "Journal_Validate j = []" and "receiptFromJournalAt j mechanism t = Inr r"
    and "t \<le> jUpdatedAt j" and "jRollbackActions j \<noteq> Some []"
  shows "ValidateBinding j (r\<lparr>rState := expectedReceiptState j\<rparr>) = []"
proof -
  have d: "distinct (map jeName (jEnvironment j))"
    using validateJournalEnvironment_names [OF Journal_ValidateD(14) [OF assms(1)]] by blast
  have m: "mechanism = publicationMechanism j" and r: "r = \<lparr>
          rSchemaVersion = SchemaVersion, rActivationID = jActivationID j, rNonce = jNonce j,
          rGeneration = jGeneration j, rOwnerUID = jOwnerUID j, rJournalDigest = jChecksum j,
          rPolicyDigest = pDigest (jPolicy j), rPlatform = jPlatform j, rMode = jMode j,
          rSessionIdentity = jSessionIdentity j, rBinary = jBinary j, rListener = jListener j,
          rPublicationMechanism = mechanism,
          rEnvironment = map receipt_environment_of (jEnvironment j),
          rRollbackSummary = append_to_nil (jRollbackActions j), rActivatedAt = t,
          rState = ''active'', rChecksum = ''''\<rparr>"
    using assms(2) by (auto simp: receiptFromJournalAt_def Let_def split: if_splits)
  have env: "\<not> list_ex (\<lambda>item. wanted (jEnvironment j) (reName item) \<noteq> item)
      (map receipt_environment_of (jEnvironment j))"
  proof -
    have "reName (receipt_environment_of i) = jeName i" for i by (simp add: receipt_environment_of_def)
    then show ?thesis using wanted_distinct [OF d] by (auto simp: list_ex_iff)
  qed
  have roll: "append_to_nil (jRollbackActions j) = jRollbackActions j"
    using assms(4) by (cases "jRollbackActions j") (auto simp: append_to_nil_def slice_elems_def)
  show ?thesis using env roll assms(3) by (simp add: ValidateBinding_def r m)
qed

lemma receiptFromJournalAt_wire:
  assumes "receiptFromJournalAt j mechanism t = Inr r" and "wire_stable j"
  shows "wire_receipt r = r"
proof -
  have d: "validateDigest (jChecksum j) = []"
    using assms(1) by (auto simp: receiptFromJournalAt_def split: if_splits)
  have wire: "wire_journal j = j"
    using wire_stable_checksum [OF assms(2) coerceUTF8_digest [OF d]] by simp
  have fixed: "jActivationID (wire_journal j) = jActivationID j" "jNonce (wire_journal j) = jNonce j"
    "jChecksum (wire_journal j) = jChecksum j" "jPolicy (wire_journal j) = jPolicy j"
    "jPlatform (wire_journal j) = jPlatform j" "jMode (wire_journal j) = jMode j"
    "jSessionIdentity (wire_journal j) = jSessionIdentity j" "jBinary (wire_journal j) = jBinary j"
    "jListener (wire_journal j) = jListener j" "jRollbackActions (wire_journal j) = jRollbackActions j"
    "jEnvironment (wire_journal j) = jEnvironment j"
    using wire by simp_all
  have env: "map wire_receipt_environment (map receipt_environment_of es) = map receipt_environment_of es"
    if "map wire_journal_environment es = es" for es
  proof -
    have "wire_receipt_environment (receipt_environment_of e) = receipt_environment_of (wire_journal_environment e)" for e
      by (simp add: wire_receipt_environment_def receipt_environment_of_def wire_journal_environment_def)
    then have "map wire_receipt_environment (map receipt_environment_of es) =
        map receipt_environment_of (map wire_journal_environment es)" by simp
    then show ?thesis using that by simp
  qed
  have roll: "wire_rollback (append_to_nil xs) = append_to_nil xs" if "wire_rollback xs = xs" for xs
    using that by (cases xs) (auto simp: wire_rollback_def append_to_nil_def slice_elems_def)
  have p: "coerceUTF8 (pDigest (jPolicy j)) = pDigest (jPolicy j)"
    using arg_cong [OF fixed(4), of pDigest] by (simp add: wire_journal_def)
  have lit: "coerceUTF8 t = t" if "t \<in> {''proxy/v1alpha1'', ''active'', '''', ''process_environment'',
      ''launchctl_user_environment'', ''systemd_user_environment''}" for t
    by (rule coerceUTF8_ascii) (use that in \<open>auto\<close>)
  have m: "coerceUTF8 mechanism = mechanism"
    by (rule lit) (use assms(1) in \<open>auto simp: receiptFromJournalAt_def Let_def Receipt_Validate_def split: if_splits\<close>)
  have r: "r = \<lparr>
          rSchemaVersion = SchemaVersion, rActivationID = jActivationID j, rNonce = jNonce j,
          rGeneration = jGeneration j, rOwnerUID = jOwnerUID j, rJournalDigest = jChecksum j,
          rPolicyDigest = pDigest (jPolicy j), rPlatform = jPlatform j, rMode = jMode j,
          rSessionIdentity = jSessionIdentity j, rBinary = jBinary j, rListener = jListener j,
          rPublicationMechanism = mechanism,
          rEnvironment = map receipt_environment_of (jEnvironment j),
          rRollbackSummary = append_to_nil (jRollbackActions j), rActivatedAt = t,
          rState = ''active'', rChecksum = ''''\<rparr>"
    using assms(1) by (auto simp: receiptFromJournalAt_def Let_def split: if_splits)
  show ?thesis using fixed p m env roll [of "jRollbackActions j"] lit
    by (simp add: r wire_journal_def wire_receipt_def SchemaVersion_def)
qed

lemma writeReceipt_weak:
  assumes "wire_receipt r = r"
  shows "wp (writeReceipt sha s r)
     (\<lambda>r' w'. receipt_stamped sha r r' \<and> receipt_at sha s (w_files w') \<in> {Inr r', Inl [ErrInvalidState]} \<and>
        (\<exists>n. wrote (pathReceipt (stPaths s)) (Some n) w w'))
     (\<lambda>e w'. quiet w w' \<or> (\<exists>n r'. receipt_stamped sha r r' \<and>
        receipt_at sha s (w_files w') \<in> {Inr r', Inl [ErrInvalidState]} \<and>
        wrote (pathReceipt (stPaths s)) (Some n) w w')) w"
proof (cases "receipt_storable sha r")
  case True
  show ?thesis by (rule wp_mono [OF writeReceipt_spec [OF True]]) auto
next
  case False
  then obtain data r' where m: "marshalChecksummed sha receipt_json set_receipt_checksum r = Inr (data, r')"
    and big: "maxRecordSize < length data"
    using assms by (auto simp: receipt_storable_def fits_def split: sum.splits prod.splits)
  have st: "receipt_stamped sha r r'"
    using receipt_sum.marshal_sets [OF m] by (simp add: receipt_stamped_def set_receipt_checksum_def)
  have bad: "receipt_at sha s (w_files w') = Inl [ErrInvalidState]"
    if "wrote (pathReceipt (stPaths s)) (Some (created_node (stUid s) (length data) d)) w w'" for w' d
    using that big by (simp add: wrote_def receipt_at_def stored_created)
  have "wp (atomicWrite (pathReceipt (stPaths s)) (stUid s) data d)
     (\<lambda>_ w'. receipt_at sha s (w_files w') = Inl [ErrInvalidState] \<and> (\<exists>n. wrote (pathReceipt (stPaths s)) (Some n) w w'))
     (\<lambda>_ w'. quiet w w' \<or> receipt_at sha s (w_files w') = Inl [ErrInvalidState] \<and> (\<exists>n. wrote (pathReceipt (stPaths s)) (Some n) w w')) w" for d
    by (rule wp_mono [OF atomicWrite_spec]) (use bad in blast)+
  then show ?thesis unfolding writeReceipt_def m wp_rules sum.case prod.case
    using st by (auto intro: wp_mono)
qed

lemma ValidateBinding_checksum [simp]: "ValidateBinding j (r\<lparr>rChecksum := c\<rparr>) = ValidateBinding j r"
  by (simp add: ValidateBinding_def)

lemma receipt_stamped_binding: "receipt_stamped sha r r' \<Longrightarrow> ValidateBinding j r' = ValidateBinding j r"
  by (metis receipt_stamped_def ValidateBinding_checksum)

text \<open>The record the store derives from a journal, with the state that belongs to it.\<close>

definition receipt_for :: "Journal \<Rightarrow> Receipt \<Rightarrow> Receipt" where
  "receipt_for j r = (if jState j \<noteq> ''active'' then r\<lparr>rState := ''recovery_required''\<rparr> else r)"

lemma wire_receipt_for: "wire_receipt r = r \<Longrightarrow> wire_receipt (receipt_for j r) = receipt_for j r"
proof -
  have "coerceUTF8 ''recovery_required'' = ''recovery_required''" by (rule coerceUTF8_ascii) auto
  moreover assume "wire_receipt r = r"
  moreover have "wire_receipt (r\<lparr>rState := ''recovery_required''\<rparr>) = (wire_receipt r)\<lparr>rState := coerceUTF8 ''recovery_required''\<rparr>"
    by (simp add: wire_receipt_def)
  ultimately show ?thesis by (simp add: receipt_for_def)
qed

lemma receipt_for_binds:
  assumes "Journal_Validate j = []" and "receiptFromJournalAt j mechanism t = Inr r"
    and "t \<le> jUpdatedAt j" and "jRollbackActions j \<noteq> Some []"
  shows "ValidateBinding j (receipt_for j r) = []"
proof -
  have "rState r = ''active''"
    using assms(2) by (auto simp: receiptFromJournalAt_def Let_def split: if_splits)
  then have "r\<lparr>rState := expectedReceiptState j\<rparr> = receipt_for j r"
    by (simp add: receipt_for_def expectedReceiptState_def)
  with receiptFromJournalAt_binds [OF assms] show ?thesis by simp
qed

text \<open>Publishing the receipt of the stored journal keeps the file system consistent.\<close>

definition bound :: "sha256 \<Rightarrow> store \<Rightarrow> Journal \<Rightarrow> files \<Rightarrow> bool" where
  "bound sha s j f \<longleftrightarrow> journal_at sha s f = Inr j \<and> regular_journal sha j \<and>
     (receipt_at sha s f = Inl [ErrInvalidState] \<or> (\<exists>r. receipt_at sha s f = Inr r \<and> ValidateBinding j r = []))"

lemma bound_consistent: "bound sha s j f \<Longrightarrow> consistent sha s f"
  by (auto simp: bound_def consistent_def)

lemma publish_receipt_wp:
  assumes d: "distinct_paths s" and safe: "safe_since sha s w0 w"
    and j: "journal_at sha s (w_files w) = Inr j" and reg: "regular_journal sha j"
    and v: "Journal_Validate j = []"
    and r: "receiptFromJournalAt j mechanism t = Inr r" and t: "t \<le> jUpdatedAt j"
  shows "wp (writeReceipt sha s (receipt_for j r))
     (\<lambda>_ w'. safe_since sha s w0 w' \<and> bound sha s j (w_files w')) (\<lambda>_ w'. safe_since sha s w0 w' \<and>
        journal_at sha s (w_files w') = Inr j) w"
proof -
  have wire: "wire_stable j" and roll: "jRollbackActions j \<noteq> Some []"
    using reg by (simp_all add: regular_journal_def)
  have w: "wire_receipt (receipt_for j r) = receipt_for j r"
    by (rule wire_receipt_for) (rule receiptFromJournalAt_wire [OF r wire])
  have B: "bound sha s j (w_files w')" if "receipt_stamped sha (receipt_for j r) r'"
    "receipt_at sha s (w_files w') \<in> {Inr r', Inl [ErrInvalidState]}" "wrote (pathReceipt (stPaths s)) (Some n) w w'" for r' n w'
    using that receipt_for_binds [OF v r t roll] d j reg
    by (auto simp: bound_def receipt_stamped_binding wrote_def distinct_paths_def journal_file.view_frame)
  have S: "safe_since sha s w0 w'" if "bound sha s j (w_files w')" "wrote p n w w'" for w' p n
    by (rule safe_since_wrote [OF safe that(2) bound_consistent [OF that(1)]])
  have J: "safe_since sha s w0 w' \<and> journal_at sha s (w_files w') = Inr j" if "quiet w w'" for w'
    using safe_since_quiet [OF safe that] at_quiet(1) [OF that] j by simp
  show ?thesis
  proof (rule wp_mono [OF writeReceipt_weak [OF w]], goal_cases)
    case (1 r' w')
    then show ?case using B S by blast
  next
    case (2 e w')
    then show ?case
    proof (elim disjE exE conjE)
      assume "quiet w w'" then show ?thesis by (rule J)
    next
      fix n r' assume a: "receipt_stamped sha (receipt_for j r) r'"
        "receipt_at sha s (w_files w') \<in> {Inr r', Inl [ErrInvalidState]}" "wrote (pathReceipt (stPaths s)) (Some n) w w'"
      show ?thesis using B [OF a] S [OF B [OF a] a(3)] by (simp add: bound_def)
    qed
  qed
qed

lemma journal_stampedD:
  assumes "journal_stamped sha j j'"
  shows "Journal_Validate j' = Journal_Validate j" "jState j' = jState j" "jUpdatedAt j' = jUpdatedAt j"
    "jRollbackActions j' = jRollbackActions j" "jGeneration j' = jGeneration j" "jOwnerUID j' = jOwnerUID j"
    "publicationMechanism j' = publicationMechanism j"
proof -
  obtain c where j': "j' = j\<lparr>jChecksum := c\<rparr>" using assms unfolding journal_stamped_def by blast
  show "Journal_Validate j' = Journal_Validate j" "jState j' = jState j" "jUpdatedAt j' = jUpdatedAt j"
    "jRollbackActions j' = jRollbackActions j" "jGeneration j' = jGeneration j" "jOwnerUID j' = jOwnerUID j"
    "publicationMechanism j' = publicationMechanism j"
    by (simp_all add: j' publicationMechanism_def)
qed

lemma journal_stamped_regular:
  assumes "journal_stamped sha j j'" and "regular_journal sha j"
  shows "regular_journal sha j'"
proof -
  from assms(1) obtain t where "j' = j\<lparr>jChecksum := digest_text sha t\<rparr>"
    by (metis journal_stamped_def checksumRecord_digest)
  then have j': "j' = set_journal_checksum (digest_text sha t) j" by (simp add: set_journal_checksum_def)
  have "(set_journal_checksum c j)\<lparr>jState := st, jUpdatedAt := u\<rparr> =
      set_journal_checksum c (j\<lparr>jState := st, jUpdatedAt := u\<rparr>)" for c st u
    by (simp add: set_journal_checksum_def)
  then have "roomy sha j'" using assms(2) by (simp add: j' roomy_def regular_journal_def journal_sum.marshal_set)
  moreover have "wire_stable j'"
    using wire_stable_checksum [of j "digest_text sha t"] assms(2)
    by (simp add: j' set_journal_checksum_def regular_journal_def wire_stable_def)
  ultimately show ?thesis using assms(2) by (simp add: j' set_journal_checksum_def regular_journal_def)
qed

text \<open>What a successful commit leaves behind.\<close>

definition committed :: "sha256 \<Rightarrow> store \<Rightarrow> Journal \<Rightarrow> files \<Rightarrow> bool" where
  "committed sha s next f \<longleftrightarrow> (\<exists>j. journal_stamped sha next j \<and>
     (if jState next = ''active'' \<or> jState next = ''recovery_required'' then bound sha s j f
      else journal_at sha s f = Inr j \<and> receipt_at sha s f = Inl [ErrNotFound]))"

lemma commit_wp:
  assumes d: "distinct_paths s" and safe: "safe_since sha s w0 w"
    and absent: "w_files w (pathReceipt (stPaths s)) = None"
    and st: "journal_storable sha next" and reg: "regular_journal sha next"
    and v: "Journal_Validate next = []" and t: "activatedAt \<le> jUpdatedAt next"
  shows "wp (commit sha s next mechanism activatedAt)
     (\<lambda>_ w'. safe_since sha s w0 w' \<and> committed sha s next (w_files w')) (\<lambda>_. safe_since sha s w0) w"
  unfolding commit_def wp_bindE
proof (rule journal_file.write_wp [OF st], goal_cases)
  case (1 j' n w')
  have gone: "w_files w' (pathReceipt (stPaths s)) = None"
    using 1(3) d absent by (auto simp: wrote_def distinct_paths_def)
  have reg': "regular_journal sha j'" by (rule journal_stamped_regular [OF 1(1) reg])
  have safe': "safe_since sha s w0 w'"
    by (rule safe_since_wrote [OF safe 1(3)]) (rule consistent_absent [OF 1(2) reg' gone])
  note same = journal_stampedD [OF 1(1)]
  show ?case
  proof (cases "jState j' \<noteq> ''active'' \<and> jState j' \<noteq> ''recovery_required''")
    case True
    then show ?thesis using safe' 1(1,2) gone same(2) by (auto simp: wp_rules committed_def receipt_absent)
  next
    case False
    show ?thesis
    proof (cases "receiptFromJournalAt j' mechanism activatedAt")
      case (Inl e)
      then show ?thesis using False safe' by (auto simp: wp_rules)
    next
      case (Inr r)
      have eq: "(if jState j' = ''recovery_required'' then r\<lparr>rState := ''recovery_required''\<rparr> else r) = receipt_for j' r"
        using False by (auto simp: receipt_for_def)
      have "wp (writeReceipt sha s (receipt_for j' r)) (\<lambda>_ w'. safe_since sha s w0 w' \<and> bound sha s j' (w_files w'))
          (\<lambda>_ w'. safe_since sha s w0 w' \<and> journal_at sha s (w_files w') = Inr j') w'"
        by (rule publish_receipt_wp [OF d safe' 1(2) reg' _ Inr]) (use same v t in simp_all)
      then have "wp (thenE (writeReceipt sha s (receipt_for j' r)) (returnE ()))
          (\<lambda>_ w'. safe_since sha s w0 w' \<and> committed sha s next (w_files w')) (\<lambda>_. safe_since sha s w0) w'"
        unfolding wp_bindE wp_returnE
        by (rule wp_mono) (use False same(2) 1(1) in \<open>auto simp: committed_def\<close>)
      then show ?thesis using False by (auto simp: Inr eq [symmetric])
    qed
  qed
next
  case (2 e w')
  then show ?case by (rule safe_since_quiet [OF safe])
next
  case (3 e j' n w')
  then show ?case using d absent journal_stamped_regular [OF 3(1) reg]
    by (auto intro!: safe_since_wrote [OF safe 3(3)] consistent_absent simp: wrote_def distinct_paths_def)
qed

end
