(* ===== verification/CrashSafety.thy ===== *)
theory CrashSafety
  imports Consistency
begin

text \<open>
  Crash safety of the store: every operation of \<open>internal/proxy/state/store_unix.go\<close>, started in a
  consistent file system, passes through consistent file systems only, whatever system call fails
  and wherever the process is killed.  The operations that touch journal and receipt are walked
  through one by one; the wrappers (lock, reservations) compose.
\<close>

section \<open>Crash safety of the operations\<close>

lemma receipt_frame: "p \<noteq> pathReceipt (stPaths s) \<Longrightarrow> receipt_at sha s (f(p := n)) = receipt_at sha s f"
  by (rule receipt_file.view_frame)

lemma journal_frame: "p \<noteq> pathJournal (stPaths s) \<Longrightarrow> journal_at sha s (f(p := n)) = journal_at sha s f"
  by (rule journal_file.view_frame)

lemma consistent_frame:
  "p \<noteq> pathJournal (stPaths s) \<Longrightarrow> p \<noteq> pathReceipt (stPaths s) \<Longrightarrow>
     consistent sha s (f(p := n)) = consistent sha s f"
  unfolding consistent_def by (simp only: receipt_frame journal_frame not_False_eq_True)

lemma distinct_pathsD:
  assumes "distinct_paths s"
  shows "pathReceipt (stPaths s) \<noteq> pathJournal (stPaths s)" "pathJournal (stPaths s) \<noteq> pathReceipt (stPaths s)"
    "pathLock (stPaths s) \<noteq> pathJournal (stPaths s)" "pathLock (stPaths s) \<noteq> pathReceipt (stPaths s)"
    "pathReservation (stPaths s) \<noteq> pathJournal (stPaths s)" "pathReservation (stPaths s) \<noteq> pathReceipt (stPaths s)"
    "pathLock (stPaths s) \<noteq> pathReservation (stPaths s)" "pathJournal (stPaths s) \<noteq> pathReservation (stPaths s)"
    "pathReceipt (stPaths s) \<noteq> pathReservation (stPaths s)"
  using assms by (auto simp: distinct_paths_def)

lemma safe_since_consistent: "safe_since sha s w0 w \<Longrightarrow> consistent sha s (w_files w)"
  by (simp add: safe_since_def)

text \<open>Removing the receipt of a stored journal.\<close>

lemma remove_receipt_wp:
  assumes d: "distinct_paths s" and safe: "safe_since sha s w0 w" and j: "journal_at sha s (w_files w) = Inr j"
  shows "wp (removeSecureFile (pathReceipt (stPaths s)) (stUid s))
     (\<lambda>_ w'. safe_since sha s w0 w' \<and> journal_at sha s (w_files w') = Inr j \<and> w_files w' (pathReceipt (stPaths s)) = None)
     (\<lambda>_. safe_since sha s w0) w"
proof -
  have gone: "safe_since sha s w0 w' \<and> journal_at sha s (w_files w') = Inr j"
    if "wrote (pathReceipt (stPaths s)) None w w'" for w'
  proof -
    have "journal_at sha s (w_files w') = Inr j" using that j by (simp add: wrote_def journal_frame distinct_pathsD [OF d])
    moreover have "regular_journal sha j" using safe_since_consistent [OF safe] j by (simp add: consistent_def)
    ultimately show ?thesis using that
      by (auto intro!: safe_since_wrote [OF safe] consistent_absent simp: wrote_def)
  qed
  have same: "safe_since sha s w0 w' \<and> journal_at sha s (w_files w') = Inr j" if "quiet w w'" for w'
    using safe_since_quiet [OF safe that] at_quiet(1) [OF that] j by simp
  show ?thesis by (rule wp_mono [OF removeSecureFile_spec]) (use gone same in blast)+
qed

text \<open>
  What \<open>Transition\<close> accepts differs from the stored journal in state, time and checksum only, so it can
  be stored like the stored one.
\<close>

lemma same_regular:
  assumes reg: "regular_journal sha current" and same: "sameActivationIdentity current next" "jGeneration next = jGeneration current"
    and v: "Journal_Validate current = []" "Journal_Validate next = []"
  shows "regular_journal sha next"
proof -
  have ca: "jCA current = None" "jCA next = None"
    using v by (simp_all add: Journal_ValidateD(10))
  have eq: "next = current\<lparr>jState := jState next, jUpdatedAt := jUpdatedAt next, jChecksum := jChecksum next\<rparr>"
    by (rule Journal.equality) (use same ca in \<open>simp_all add: sameActivationIdentity_def\<close>)
  have st: "coerceUTF8 (jState next) = jState next"
    by (rule coerceUTF8_ascii) (use Journal_Validate_states [OF v(2)] in \<open>auto simp: journal_states_def\<close>)
  have W: "(wire_journal current)\<lparr>jChecksum := jChecksum current\<rparr> = current"
    using reg by (simp only: regular_journal_def wire_stable_def)
  have upd: "(wire_journal (current\<lparr>jState := x, jUpdatedAt := t, jChecksum := c\<rparr>))\<lparr>jChecksum := c\<rparr> =
      ((wire_journal current)\<lparr>jChecksum := jChecksum current\<rparr>)\<lparr>jState := coerceUTF8 x, jUpdatedAt := t, jChecksum := c\<rparr>" for x t c
    by (simp add: wire_journal_def)
  have ck: "jChecksum (current\<lparr>jState := x, jUpdatedAt := t, jChecksum := c\<rparr>) = c" for x t c by simp
  have "wire_stable (current\<lparr>jState := jState next, jUpdatedAt := jUpdatedAt next, jChecksum := jChecksum next\<rparr>)"
    using upd [where x = "jState next" and t = "jUpdatedAt next" and c = "jChecksum next"]
    by (simp only: W st wire_stable_def ck)
  then have "wire_stable next" by (simp only: eq [symmetric])
  moreover have room: "(current\<lparr>jState := y, jUpdatedAt := u, jChecksum := c\<rparr>)\<lparr>jState := x, jUpdatedAt := t\<rparr> =
      set_journal_checksum c (current\<lparr>jState := x, jUpdatedAt := t\<rparr>)" for x t y u c
    by (simp add: set_journal_checksum_def)
  have "roomy sha (current\<lparr>jState := jState next, jUpdatedAt := jUpdatedAt next, jChecksum := jChecksum next\<rparr>)"
    using reg unfolding regular_journal_def roomy_def room journal_sum.marshal_set by blast
  then have "roomy sha next" by (simp only: eq [symmetric])
  moreover have "jRollbackActions next \<noteq> Some []"
    using reg same by (simp add: sameActivationIdentity_def regular_journal_def)
  ultimately show ?thesis by (simp add: regular_journal_def)
qed

lemma replace_wp:
  assumes d: "distinct_paths s" and safe: "safe_since sha s w0 w"
    and j: "journal_at sha s (w_files w) = Inr current" and absent: "\<not> c \<Longrightarrow> w_files w (pathReceipt (stPaths s)) = None"
    and vc: "Journal_Validate current = []" and same: "sameActivationIdentity current next" "jGeneration next = jGeneration current"
    and v: "Journal_Validate next = []" and t: "activatedAt \<le> jUpdatedAt next"
  shows "wp (thenE (if c then removeSecureFile (pathReceipt (stPaths s)) (stUid s) else returnE ())
       (commit sha s next mechanism activatedAt))
     (\<lambda>_ w'. safe_since sha s w0 w' \<and> committed sha s next (w_files w')) (\<lambda>_. safe_since sha s w0) w"
proof -
  have "regular_journal sha current" using safe_since_consistent [OF safe] j by (simp add: consistent_def)
  then have reg: "regular_journal sha next" by (rule same_regular [OF _ same vc v])
  have st: "journal_storable sha next" by (rule regular_storable [OF reg Journal_Validate_states [OF v]])
  show ?thesis
  proof (intro wp_bindI wp_ifI wp_returnI)
  assume c
  show "wp (removeSecureFile (pathReceipt (stPaths s)) (stUid s)) (\<lambda>x. wp (commit sha s next mechanism activatedAt)
     (\<lambda>_ w'. safe_since sha s w0 w' \<and> committed sha s next (w_files w')) (\<lambda>_. safe_since sha s w0)) (\<lambda>_. safe_since sha s w0) w"
    by (rule wp_mono [OF remove_receipt_wp [OF d safe j]]) (auto intro: commit_wp [OF d _ _ st reg v t])
next
  assume "\<not> c"
  then show "wp (commit sha s next mechanism activatedAt)
     (\<lambda>_ w'. safe_since sha s w0 w' \<and> committed sha s next (w_files w')) (\<lambda>_. safe_since sha s w0) w"
    by (rule commit_wp [OF d safe absent st reg v t])
  qed
qed

lemma journal_at_valid: "journal_at sha s f = Inr j \<Longrightarrow> Journal_Validate j = []"
  by (auto simp: journal_at_def stored_def journal_check_def split: option.splits if_splits)

lemma read_safe:
  assumes "reads m view" and safe: "safe_since sha s w0 w"
    and ok: "\<And>r w'. safe_since sha s w0 w' \<Longrightarrow> w_files w' = w_files w \<Longrightarrow> view (w_files w') = Inr r \<Longrightarrow> Q r w'"
    and no: "\<And>e w'. safe_since sha s w0 w' \<Longrightarrow> w_files w' = w_files w \<Longrightarrow> io_err e \<or> view (w_files w') = Inl e \<Longrightarrow> E e w'"
  shows "wp m Q E w"
  by (rule wp_mono [OF assms(1) [unfolded reads_def, rule_format]])
    (use safe_since_quiet [OF safe] quiet_files ok no in metis)+

lemmas read_record_safe = read_safe [OF locked_readJournal_reads] read_safe [OF locked_readReceipt_reads]
  read_safe [OF readReservation_reads]

lemma ValidateBinding_activated: "ValidateBinding j r = [] \<Longrightarrow> rActivatedAt r \<le> jUpdatedAt j"
  by (simp add: ValidateBinding_def split: if_splits)

lemma Transition_wp:
  assumes d: "distinct_paths (txStore tx)" and safe: "safe_since sha (txStore tx) w0 w"
  shows "wp (Transition sha tx expected next mechanism)
     (\<lambda>_ w'. safe_since sha (txStore tx) w0 w' \<and> committed sha (txStore tx) next (w_files w'))
     (\<lambda>_. safe_since sha (txStore tx) w0) w"
  unfolding Transition_def
  by (rule replace_wp [OF d] wp_intros read_record_safe | assumption | rule safe |
      (auto dest: ValidateBinding_activated receipt_NotFound journal_at_valid; fail))+

lemma journal_absent: "f (pathJournal (stPaths s)) = None \<Longrightarrow> journal_at sha s f = Inl [ErrNotFound]"
  by (simp add: journal_at_def stored_def)

lemma journal_NotFound:
  "journal_at sha s f = Inl e \<Longrightarrow> errors_Is e ErrNotFound \<Longrightarrow> f (pathJournal (stPaths s)) = None"
  unfolding journal_at_def by (rule stored_NotFound [OF _ _ journal_check_errors])

definition no_records :: "store \<Rightarrow> files \<Rightarrow> bool" where
  "no_records s f \<longleftrightarrow> f (pathJournal (stPaths s)) = None \<and> f (pathReceipt (stPaths s)) = None"

lemma no_records_consistent: "no_records s f \<Longrightarrow> consistent sha s f"
  by (simp add: no_records_def consistent_def journal_absent receipt_absent)

lemma remove_journal_wp:
  assumes d: "distinct_paths s" and safe: "safe_since sha s w0 w" and r: "w_files w (pathReceipt (stPaths s)) = None"
  shows "wp (removeSecureFile (pathJournal (stPaths s)) (stUid s))
     (\<lambda>_ w'. safe_since sha s w0 w' \<and> no_records s (w_files w')) (\<lambda>_. safe_since sha s w0) w"
proof -
  have gone: "safe_since sha s w0 w' \<and> no_records s (w_files w')"
    if "wrote (pathJournal (stPaths s)) None w w'" for w'
  proof -
    have "no_records s (w_files w')" using that r distinct_pathsD [OF d] by (auto simp: wrote_def no_records_def)
    then show ?thesis using safe_since_wrote [OF safe that no_records_consistent] by blast
  qed
  have same: "safe_since sha s w0 w' \<and> w_files w' (pathReceipt (stPaths s)) = None" if "quiet w w'" for w'
    using safe_since_quiet [OF safe that] quiet_files [OF that] r by simp
  show ?thesis
    by (rule wp_mono [OF removeSecureFile_spec]) (use gone same in \<open>auto simp: no_records_def\<close>)
qed

lemma removeRecords_wp:
  assumes d: "distinct_paths s" and safe: "safe_since sha s w0 w" and j: "journal_at sha s (w_files w) = Inr j"
  shows "wp (removeRecords s) (\<lambda>_ w'. safe_since sha s w0 w' \<and> no_records s (w_files w')) (\<lambda>_. safe_since sha s w0) w"
  unfolding removeRecords_def wp_bindE
  by (rule wp_mono [OF remove_receipt_wp [OF d safe j]]) (auto intro: remove_journal_wp [OF d])

lemma Clear_wp:
  assumes d: "distinct_paths (txStore tx)" and safe: "safe_since sha (txStore tx) w0 w"
  shows "wp (Clear sha tx expected)
     (\<lambda>_ w'. safe_since sha (txStore tx) w0 w' \<and> no_records (txStore tx) (w_files w'))
     (\<lambda>_. safe_since sha (txStore tx) w0) w"
  unfolding Clear_def
  by (rule removeRecords_wp [OF d] wp_intros read_record_safe | assumption | rule safe | (auto; fail))+

lemma write_first_journal_wp:
  assumes d: "distinct_paths s" and safe: "safe_since sha s w0 w" and r: "w_files w (pathReceipt (stPaths s)) = None"
    and state: "jState j \<in> set journal_states" and reg: "regular_journal sha j"
  shows "wp (writeJournal sha s j)
     (\<lambda>j' w'. safe_since sha s w0 w' \<and> journal_stamped sha j j' \<and> journal_at sha s (w_files w') = Inr j' \<and>
        w_files w' (pathReceipt (stPaths s)) = None)
     (\<lambda>_. safe_since sha s w0) w"
proof -
  have new: "safe_since sha s w0 w' \<and> w_files w' (pathReceipt (stPaths s)) = None"
    if "journal_stamped sha j j'" "journal_at sha s (w_files w') = Inr j'" "wrote (pathJournal (stPaths s)) (Some n) w w'" for j' w' n
    using safe_since_wrote [OF safe that(3) consistent_absent [OF that(2) journal_stamped_regular [OF that(1) reg]]]
      that(3) r distinct_pathsD [OF d] by (auto simp: wrote_def)
  show ?thesis by (rule journal_file.write_wp [OF regular_storable [OF reg state]]) (use new safe_since_quiet [OF safe] in blast)+
qed

lemma Prepare_wp:
  assumes d: "distinct_paths (txStore tx)" and safe: "safe_since sha (txStore tx) w0 w"
    and reg: "regular_journal sha journal"
  shows "wp (Prepare sha tx journal)
     (\<lambda>_ w'. safe_since sha (txStore tx) w0 w' \<and> (\<exists>j. journal_stamped sha journal j \<and>
        journal_at sha (txStore tx) (w_files w') = Inr j) \<and> w_files w' (pathReceipt (stPaths (txStore tx))) = None)
     (\<lambda>_. safe_since sha (txStore tx) w0) w"
  unfolding Prepare_def
  by (rule wp_mono [OF write_first_journal_wp [OF d _ _ _ reg]] wp_intros read_record_safe | assumption | rule safe
      | (auto dest: receipt_NotFound simp: errors_Join_def journal_states_def; fail))+
lemma reconcileLocked_wp:
  assumes d: "distinct_paths s" and safe: "safe_since sha s w0 w"
  shows "wpa (reconcileLocked sha s) (\<lambda>_ _. safe_since sha s w0) w"
proof -
  have publish: "wp (writeReceipt sha s (if jState j \<noteq> ''active'' then r\<lparr>rState := ''recovery_required''\<rparr> else r))
      Q (\<lambda>_. safe_since sha s w0) w1"
    if "safe_since sha s w0 w1" "journal_at sha s (w_files w1) = Inr j" "receiptFromJournal j m = Inr r"
      and Q: "\<And>r' w'. safe_since sha s w0 w' \<Longrightarrow> Q r' w'" for j r m w1 Q
  proof -
    have reg: "regular_journal sha j" using safe_since_consistent [OF that(1)] that(2) by (simp add: consistent_def)
    have v: "Journal_Validate j = []" by (rule journal_at_valid [OF that(2)])
    show ?thesis
      by (rule wp_mono [OF publish_receipt_wp [OF d that(1,2) reg v that(3) [unfolded receiptFromJournal_def], unfolded receipt_for_def]]) (auto intro: Q)
  qed
  show ?thesis unfolding reconcileLocked_def
    by (rule wp_intros read_record_safe publish | assumption | rule safe | (auto split: sum.split; fail)
        | (split sum.split, intro conjI allI impI))+
qed

section \<open>What the store's wrappers keep\<close>

text \<open>
  The lock and the reservation protocol, seen from an invariant of the world: when the few primitives
  they use keep \<open>P\<close>, then every wrapper keeps \<open>P\<close> if the operation it protects does.
\<close>

locale store_invariant =
  fixes sha :: sha256 and s :: store and P :: "'x world \<Rightarrow> bool"
  assumes lock: "keeps P (lockFile (pathLock (stPaths s)) (stUid s))"
    and unlock: "keeps P unlockFile"
    and reservation_read: "keeps P (readReservation sha s)"
    and reservation_written: "keeps P (writeReservation sha s v)"
    and reservation_removed: "keeps P (removeSecureFile (pathReservation (stPaths s)) (stUid s))"
    and clock: "keeps P nowE"
    and random: "keeps P randomSuffix"
begin

lemmas primitives = lock unlock reservation_read reservation_written reservation_removed clock random

lemma lifecycle_lock: "keepsA P operation \<Longrightarrow> keepsA P (withLifecycleLock s z operation)"
  unfolding withLifecycleLock_def by (intro keeps_intros primitives keepsA_then_join)

lemma owned: "keepsA P operation \<Longrightarrow> keepsA P (withOwnedReservation sha s reservation z operation)"
  unfolding withOwnedReservation_def by (intro keeps_intros primitives lifecycle_lock)

lemma released_on_success:
  assumes "keepsA P operation"
  shows "keepsA P (\<lambda>w. case operation w of ((a, e), w') \<Rightarrow>
       if e \<noteq> [] then ((a, e), w')
       else bindA (removeSecureFile (pathReservation (stPaths s)) (stUid s)) a (\<lambda>_. retA a []) w')"
proof (rule keepsAI, goal_cases)
  case (1 w)
  obtain a e w' where op: "operation w = ((a, e), w')" by (metis prod.exhaust)
  have "P w'" using keepsA_result [OF assms 1] op by blast
  moreover have "keepsA P (bindA (removeSecureFile (pathReservation (stPaths s)) (stUid s)) a (\<lambda>_. retA a []))"
    by (intro keeps_intros primitives)
  ultimately show ?case using keepsAD op by (fastforce simp: wpa_def)
qed

lemma reserved: "keepsA P operation \<Longrightarrow> keepsA P (withReservation sha s reservation z operation)"
  unfolding withReservation_def by (intro owned released_on_success)

lemma finally_reserved: "keepsA P operation \<Longrightarrow> keepsA P (withFinalReservation sha s reservation z operation)"
  unfolding withFinalReservation_def by (intro owned keepsA_then_join primitives)

lemma reserve: "keepsA P (Reserve sha s nonce ttl)"
  unfolding Reserve_def by (intro keeps_intros primitives lifecycle_lock)

lemma cancel: "keepsA P (CancelReservation sha s reservation)"
  unfolding CancelReservation_def by (intro keeps_intros primitives lifecycle_lock)

lemma renew: "keepsA P (RenewReservation sha s reservation ttl)"
  unfolding RenewReservation_def by (intro keeps_intros primitives lifecycle_lock)

lemma internally_reserved: "keepsA P operation \<Longrightarrow> keepsA P (withInternalReservation sha s z operation)"
  unfolding withInternalReservation_def by (intro keeps_intros primitives reserve reserved)

lemma transaction: "(\<And>tx. txStore tx = s \<Longrightarrow> keepsA P (operation tx)) \<Longrightarrow> keepsA P (WithReservation sha s reservation z operation)"
  unfolding WithReservation_def by (rule reserved) simp

lemma semantic: "keepsA P m \<Longrightarrow> keepsA P (joinSemantic m)"
  by (auto simp: keepsA_def wpa_def joinSemantic_def split: prod.splits)

lemma reconcile:
  "keepsA P (reconcileLocked sha s) \<Longrightarrow> keepsA P (Reconcile sha s)"
  "keepsA P (reconcileLocked sha s) \<Longrightarrow> keepsA P (ReconcileReserved sha s reservation)"
  unfolding Reconcile_def ReconcileReserved_def by (intro semantic internally_reserved owned; assumption)+

end

section \<open>Crash safety is such an invariant\<close>

text \<open>
  \<open>crash_safe sha s w0 w\<close>: since \<open>w0\<close> the file system has been consistent, at every point at which the
  process could have been killed.
\<close>

definition crash_safe :: "sha256 \<Rightarrow> store \<Rightarrow> 'x world \<Rightarrow> 'x world \<Rightarrow> bool" where
  "crash_safe sha s w0 w \<longleftrightarrow> distinct_paths s \<and> safe_since sha s w0 w"

lemma keeps_reads: "reads m view \<Longrightarrow> keeps (crash_safe sha s w0) m"
  by (auto simp: keeps_def crash_safe_def intro: read_safe)

lemma keeps_elsewhere:
  assumes "\<And>w. wp m (\<lambda>_ w'. quiet w w' \<or> (\<exists>n. wrote p n w w')) (\<lambda>_ w'. quiet w w' \<or> (\<exists>n. wrote p n w w')) w"
    and "distinct_paths s \<Longrightarrow> p \<noteq> pathJournal (stPaths s) \<and> p \<noteq> pathReceipt (stPaths s)"
  shows "keeps (crash_safe sha s w0) m"
proof (rule keepsI, goal_cases)
  case (1 w)
  then have safe: "safe_since sha s w0 w" and d: "distinct_paths s" by (simp_all add: crash_safe_def)
  have "crash_safe sha s w0 w'" if "quiet w w' \<or> (\<exists>n. wrote p n w w')" for w'
    using that safe_since_quiet [OF safe] safe_since_wrote [OF safe] safe_since_consistent [OF safe] d
      consistent_frame [of p s sha "w_files w"] assms(2) [OF d] by (auto simp: wrote_def crash_safe_def)
  then show ?case by (auto intro: wp_mono [OF assms(1)])
qed

lemma writeReservation_elsewhere:
  "wp (writeReservation sha s v) (\<lambda>_ w'. quiet w w' \<or> (\<exists>n. wrote (pathReservation (stPaths s)) n w w'))
      (\<lambda>_ w'. quiet w w' \<or> (\<exists>n. wrote (pathReservation (stPaths s)) n w w')) w"
proof -
  have "wp (atomicWrite (pathReservation (stPaths s)) (stUid s) data d)
      (\<lambda>_ w'. quiet w w' \<or> (\<exists>n. wrote (pathReservation (stPaths s)) n w w'))
      (\<lambda>_ w'. quiet w w' \<or> (\<exists>n. wrote (pathReservation (stPaths s)) n w w')) w" for w data d
    by (rule wp_mono [OF atomicWrite_spec]) auto
  then show ?thesis by (auto simp: writeReservation_def wp_rules split: sum.split prod.split)
qed

interpretation safe: store_invariant sha s "crash_safe sha s w0" for sha s w0
proof
  show "keeps (crash_safe sha s w0) (lockFile (pathLock (stPaths s)) (stUid s))"
    by (rule keeps_elsewhere [of _ "pathLock (stPaths s)"])
      (auto intro: wp_mono [OF lockFile_spec] dest: distinct_pathsD)
  show "keeps (crash_safe sha s w0) unlockFile"
    by (rule keepsI, rule wp_mono [OF unlockFile_spec]) (auto simp: crash_safe_def intro: safe_since_quiet)
  show "keeps (crash_safe sha s w0) (readReservation sha s)" by (rule keeps_reads [OF readReservation_reads])
  show "keeps (crash_safe sha s w0) (writeReservation sha s v)" for v
    by (rule keeps_elsewhere [OF writeReservation_elsewhere]) (auto dest: distinct_pathsD)
  show "keeps (crash_safe sha s w0) (removeSecureFile (pathReservation (stPaths s)) (stUid s))"
    by (rule keeps_elsewhere [of _ "pathReservation (stPaths s)"])
      (auto intro: wp_mono [OF removeSecureFile_spec] dest: distinct_pathsD)
  show "keeps (crash_safe sha s w0) nowE"
    by (auto simp: keeps_def crash_safe_def safe_since_def intro!: wp_nowE)
  show "keeps (crash_safe sha s w0) randomSuffix"
    by (auto simp: keeps_def crash_safe_def safe_since_def intro!: wp_randomSuffix)
qed

lemma reconcileLocked_crash_safe [keeps_intros]: "keepsA (crash_safe sha s w0) (reconcileLocked sha s)"
  by (rule keepsAI) (auto simp: crash_safe_def intro: wpa_mono [OF reconcileLocked_wp])

lemma Clear_crash_safe: "txStore tx = s \<Longrightarrow> keeps (crash_safe sha s w0) (Clear sha tx expected)"
  by (rule keepsI) (auto simp: crash_safe_def intro: wp_mono [OF Clear_wp])

lemma Transition_crash_safe:
  "txStore tx = s \<Longrightarrow> keeps (crash_safe sha s w0) (Transition sha tx expected next mechanism)"
  by (rule keepsI) (auto simp: crash_safe_def intro: wp_mono [OF Transition_wp])

lemma Prepare_crash_safe:
  "txStore tx = s \<Longrightarrow> regular_journal sha next \<Longrightarrow> keeps (crash_safe sha s w0) (Prepare sha tx next)"
  by (rule keepsI) (auto simp: crash_safe_def intro: wp_mono [OF Prepare_wp])

section \<open>So is the absence of failures\<close>

text \<open>In a calm world no system call fails any more; the process may still be killed at any point.\<close>

definition calm :: "'x world \<Rightarrow> bool" where
  "calm w \<longleftrightarrow> w_io w = []"

lemma calm_primitives [keeps_intros]:
  "keeps calm sysE" "keeps calm (faultE p)" "keeps calm (lookupE p)" "keeps calm (mutateE p n)" "keeps calm euidE"
  "keeps calm nowE" "keeps calm randomSuffix"
  by (auto simp: keeps_def calm_def wp_def sysE_def faultE_def lookupE_def mutateE_def euidE_def nowE_def
      randomSuffix_def Let_def split: list.splits option.splits sum.splits)

lemma calm_validate [keeps_intros]:
  "keeps calm (validateOwnerModeFile n uid)" "keeps calm (validateSecureFile path uid)" "keeps calm syncDirectory"
  unfolding validateOwnerModeFile_def validateSecureFile_def syncDirectory_def by (intro keeps_intros)+

lemma calm_files [keeps_intros]:
  "keeps calm (readSecureFile path uid limit)" "keeps calm (atomicWrite path uid data d)"
  "keeps calm (removeSecureFile path uid)" "keeps calm (lockFile path uid)" "keeps calm unlockFile"
  unfolding readSecureFile_def atomicWrite_def removeSecureFile_def lockFile_def unlockFile_def
  by (intro keeps_intros, simp add: keeps_intros)+

lemma calm_records [keeps_intros]:
  "keeps calm (readRecord decode path uid)" "keeps calm (writeJournal sha s j)" "keeps calm (writeReceipt sha s r)"
  "keeps calm (writeReservation sha s v)"
  unfolding readRecord_def writeJournal_def writeReceipt_def writeReservation_def by (intro keeps_intros)+

lemma calm_reads [keeps_intros]:
  "keeps calm (locked_readJournal sha s)" "keeps calm (locked_readReceipt sha s)" "keeps calm (readReservation sha s)"
  unfolding locked_readJournal_def readJournal_def locked_readReceipt_def readReceipt_def readReservation_def
  by (intro keeps_intros)+

interpretation calm: store_invariant sha s calm for sha s
  by unfold_locales (intro keeps_intros)+

interpretation safe_calm: store_invariant sha s "\<lambda>w. crash_safe sha s w0 w \<and> calm w" for sha s w0
  by unfold_locales (rule keeps_conj; rule safe.primitives calm.primitives)+

lemma calm_transaction [keeps_intros]:
  "keeps calm (Prepare sha tx journal)" "keeps calm (Transition sha tx expected next mechanism)"
  "keeps calm (Clear sha tx expected)" "keepsA calm (reconcileLocked sha s)"
  unfolding Prepare_def Transition_def commit_def Clear_def removeRecords_def reconcileLocked_def
  by (intro keeps_intros)+

section \<open>A world without failures\<close>

lemma calm_sysE: "calm w \<Longrightarrow> sysE w = (Inr (), w)"
  by (simp add: calm_def sysE_def)

lemma bindE_Inr: "m w = (Inr x, w') \<Longrightarrow> bindE m f w = f x w'"
  by (simp add: bindE_def)

lemma bindE_Inl: "m w = (Inl e, w') \<Longrightarrow> bindE m f w = (Inl e, w')"
  by (simp add: bindE_def)

lemma validateSecureFile_calm:
  "calm w \<Longrightarrow> validateSecureFile path uid w =
     (case w_files w path of
        None \<Rightarrow> Inl [NotExist]
      | Some n \<Rightarrow> if secure_node uid n then Inr () else Inl [ErrOwnershipAmbiguous], w)"
  by (auto simp: validateSecureFile_def bindE_def calm_sysE lookupE_def checkE_def failE_def returnE_def
      validateOwnerMode_secure secure_node_def split: option.splits)

lemma readSecureFile_calm:
  "calm w \<Longrightarrow> readSecureFile path uid limit w =
     (case w_files w path of
        None \<Rightarrow> Inl [NotExist]
      | Some n \<Rightarrow> if \<not> secure_node uid n then Inl [ErrOwnershipAmbiguous]
          else if limit < n_size n then Inl [ErrInvalidState] else Inr (n_doc n), w)"
  unfolding readSecureFile_def
  by (auto simp: bindE_def validateSecureFile_calm calm_sysE lookupE_def checkE_def failE_def returnE_def
      validateOwnerMode_secure split: option.splits)

lemma reads_calm:
  assumes "m = bindE (readRecord decode path uid) (\<lambda>r. thenE (checkE (check r)) (returnE r))" and "calm w"
  shows "m w = (stored decode check uid path (w_files w), w)"
  unfolding assms(1) readRecord_def
  by (auto simp: bindE_def tryE_def readSecureFile_calm [OF assms(2)] stored_def checkE_def failE_def returnE_def
      split: option.splits)

lemma locked_readJournal_calm: "calm w \<Longrightarrow> locked_readJournal sha s w = (journal_at sha s (w_files w), w)"
  unfolding journal_at_def
  by (rule reads_calm)
    (auto simp: locked_readJournal_def readJournal_def journal_check_def bindE_def checkE_def returnE_def
      failE_def fun_eq_iff split: prod.splits sum.splits)

lemma locked_readReceipt_calm: "calm w \<Longrightarrow> locked_readReceipt sha s w = (receipt_at sha s (w_files w), w)"
  unfolding receipt_at_def
  by (rule reads_calm)
    (auto simp: locked_readReceipt_def readReceipt_def receipt_check_def bindE_def checkE_def returnE_def
      failE_def fun_eq_iff split: prod.splits sum.splits)

lemma readReservation_calm: "calm w \<Longrightarrow> readReservation sha s w = (reservation_at sha s (w_files w), w)"
  unfolding reservation_at_def
  by (rule reads_calm)
    (auto simp: readReservation_def reservation_check_def bindE_def checkE_def returnE_def
      failE_def fun_eq_iff split: prod.splits sum.splits)

lemma try_read_calm:
  "calm w \<Longrightarrow> Q (journal_at sha s (w_files w)) w \<Longrightarrow> wp (tryE (locked_readJournal sha s)) Q E w"
  "calm w \<Longrightarrow> Q' (receipt_at sha s (w_files w)) w \<Longrightarrow> wp (tryE (locked_readReceipt sha s)) Q' E w"
  by (simp_all add: wp_def tryE_def locked_readJournal_calm locked_readReceipt_calm)

end
