(* ===== verification/Reservations.thy ===== *)
theory Reservations
  imports CrashSafety
begin

text \<open>
  Reservations as fences (\<open>internal/proxy/state/store_unix.go\<close>): an operation runs under a
  reservation only when the reservation file holds exactly that reservation and it is still live, and
  no second reservation can be taken meanwhile.
\<close>

text \<open>Only the lock file may have changed, and nothing outside the file system.\<close>

definition untouched :: "store \<Rightarrow> 'x world \<Rightarrow> 'x world \<Rightarrow> bool" where
  "untouched s w w' \<longleftrightarrow> (\<forall>p. p \<noteq> pathLock (stPaths s) \<longrightarrow> w_files w' p = w_files w p) \<and> w_ext w' = w_ext w \<and>
     w_euid w' = w_euid w"

definition monotone_clock :: "'x world \<Rightarrow> bool" where
  "monotone_clock w \<longleftrightarrow> (\<forall>d\<in>set (w_ticks w). 0 \<le> d)"

text \<open>The latest time the clock will show.\<close>

definition horizon :: "'x world \<Rightarrow> int" where
  "horizon w = w_clock w + sum_list (w_ticks w)"

definition time_passed :: "'x world \<Rightarrow> 'x world \<Rightarrow> bool" where
  "time_passed w w' \<longleftrightarrow> (monotone_clock w \<longrightarrow> monotone_clock w' \<and> w_clock w \<le> w_clock w') \<and>
     horizon w' = horizon w"

lemma untouched_refl [simp]: "untouched s w w"
  by (simp add: untouched_def)

lemma untouched_trans: "untouched s w v \<Longrightarrow> untouched s v u \<Longrightarrow> untouched s w u"
  by (simp add: untouched_def)

lemma time_passed_trans: "time_passed w v \<Longrightarrow> time_passed v u \<Longrightarrow> time_passed w u"
  by (auto simp: time_passed_def)

lemma clock_horizon: "monotone_clock w \<Longrightarrow> time_passed w w' \<Longrightarrow> w_clock w' \<le> horizon w"
proof -
  assume "monotone_clock w" "time_passed w w'"
  then have "horizon w' = horizon w" "\<forall>d\<in>set (w_ticks w'). 0 \<le> d" by (auto simp: time_passed_def monotone_clock_def)
  then show ?thesis using sum_list_nonneg [of "w_ticks w'"] by (auto simp: horizon_def)
qed

lemma quiet_passes: "quiet w v \<Longrightarrow> untouched s w v" "quiet w v \<Longrightarrow> time_passed w v"
  by (simp_all add: quiet_def untouched_def time_passed_def monotone_clock_def horizon_def)

lemma wrote_lock_passes:
  "wrote (pathLock (stPaths s)) n w v \<Longrightarrow> untouched s w v" "wrote p n w v \<Longrightarrow> time_passed w v"
  by (simp_all add: wrote_def untouched_def time_passed_def monotone_clock_def horizon_def)

lemma nowE_wp:
  assumes "\<And>w'. untouched s w w' \<Longrightarrow> time_passed w w' \<Longrightarrow> w_files w' = w_files w \<Longrightarrow> Q (w_clock w') w'"
  shows "wp nowE Q E w"
proof (rule wp_def [THEN iffD2], cases "w_ticks w")
  case Nil
  then show "case nowE w of (Inl e, w') \<Rightarrow> E e w' | (Inr x, w') \<Rightarrow> Q x w'"
    using assms [of w] by (simp add: nowE_def time_passed_def)
next
  case (Cons d ds)
  then show "case nowE w of (Inl e, w') \<Rightarrow> E e w' | (Inr x, w') \<Rightarrow> Q x w'"
    using assms [of "w\<lparr>w_clock := w_clock w + d, w_ticks := ds\<rparr>"]
    by (simp add: nowE_def time_passed_def monotone_clock_def untouched_def horizon_def)
qed

lemma stored_same: "w_files w' p = w_files w p \<Longrightarrow> stored de ch uid p (w_files w') = stored de ch uid p (w_files w)"
  by (simp add: stored_def)

lemma untouched_at:
  assumes "distinct_paths s" and "untouched s w w'"
  shows "journal_at sha s (w_files w') = journal_at sha s (w_files w)"
    "receipt_at sha s (w_files w') = receipt_at sha s (w_files w)"
    "reservation_at sha s (w_files w') = reservation_at sha s (w_files w)"
proof -
  have "w_files w' p = w_files w p" if "pathLock (stPaths s) \<noteq> p" for p
    using assms(2) that by (auto simp: untouched_def)
  note same = this [OF distinct_pathsD(3) [OF assms(1)]] this [OF distinct_pathsD(4) [OF assms(1)]]
    this [OF distinct_pathsD(7) [OF assms(1)]]
  show "journal_at sha s (w_files w') = journal_at sha s (w_files w)"
    "receipt_at sha s (w_files w') = receipt_at sha s (w_files w)"
    "reservation_at sha s (w_files w') = reservation_at sha s (w_files w)"
    unfolding journal_at_def receipt_at_def reservation_at_def by (rule stored_same, rule same)+
qed

lemma withLifecycleLock_wpa:
  assumes "\<And>w1. untouched s w w1 \<Longrightarrow> time_passed w w1 \<Longrightarrow> wpa operation (\<lambda>a e w2. \<forall>w' f. quiet w2 w' \<longrightarrow> Q a (e @ f) w') w1"
    and "\<And>e w'. e \<noteq> [] \<Longrightarrow> untouched s w w' \<Longrightarrow> time_passed w w' \<Longrightarrow> Q z e w'"
  shows "wpa (withLifecycleLock s z operation) Q w"
  unfolding withLifecycleLock_def
proof (rule wpa_bindI, rule wp_mono [OF lockFile_spec], goal_cases)
  case (1 x w1)
  then have u: "untouched s w w1" "time_passed w w1" using quiet_passes wrote_lock_passes by blast+
  obtain a e w2 where op: "operation w1 = ((a, e), w2)" by (metis prod.exhaust)
  obtain r w3 where un: "unlockFile w2 = (r, w3)" by (metis prod.exhaust)
  have "quiet w2 w3" using unlockFile_spec [of w2] un by (auto simp: wp_def split: sum.splits)
  then show ?case using assms(1) [OF u] op un by (simp add: wpa_def errors_Join_def)
next
  case (2 e w1)
  then have "untouched s w w1" "time_passed w w1" "e \<noteq> []" using quiet_passes wrote_lock_passes by (blast, blast, auto)
  then show ?case by (rule assms(2) [rotated 1])
qed

lemma Reservation_at_owner: "reservation_at sha s f = Inr v \<Longrightarrow> vOwnerUID v = stUid s"
  by (auto simp: reservation_at_def stored_def reservation_check_def split: option.splits if_splits)

text \<open>
  What runs under a reservation: the operation runs only when the reservation file holds exactly the
  caller's reservation and it has not expired; otherwise the call fails and nothing has changed.
\<close>

definition ran :: "('x world, 'a) act \<Rightarrow> 'x world \<Rightarrow> 'a \<Rightarrow> err \<Rightarrow> 'x world \<Rightarrow> bool" where
  "ran operation w1 a e w' \<longleftrightarrow> (\<exists>e0 w2 f. operation w1 = ((a, e0), w2) \<and> quiet w2 w' \<and> e = e0 @ f)"

definition guarded ::
    "sha256 \<Rightarrow> store \<Rightarrow> Reservation \<Rightarrow> 'a \<Rightarrow> ('x world, 'a) act \<Rightarrow> 'x world \<Rightarrow> 'a \<Rightarrow> err \<Rightarrow> 'x world \<Rightarrow> bool" where
  "guarded sha s reservation z operation w a e w' \<longleftrightarrow>
     (a = z \<and> e \<noteq> [] \<and> untouched s w w') \<or>
     (\<exists>w1. reservation_at sha s (w_files w) = Inr reservation \<and> w_clock w1 < vExpiresAt reservation \<and>
        untouched s w w1 \<and> time_passed w w1 \<and> ran operation w1 a e w')"

lemma withOwnedReservation_wpa:
  assumes d: "distinct_paths s"
  shows "wpa (withOwnedReservation sha s reservation z operation) (guarded sha s reservation z operation w) w"
  unfolding withOwnedReservation_def
proof (rule withLifecycleLock_wpa, goal_cases)
  case (1 w1)
  note same = untouched_at(3) [OF d 1(1), of sha]
  let ?P = "\<lambda>a e w2. \<forall>w' f. quiet w2 w' \<longrightarrow> guarded sha s reservation z operation w a (e @ f) w'"
  have no: "?P z e w2" if "untouched s w1 w2" "e \<noteq> []" for w2 e
    using untouched_trans [OF untouched_trans [OF 1(1) that(1)] quiet_passes(1)] that(2) by (auto simp: guarded_def)
  have yes: "wpa operation ?P w2"
    if "untouched s w1 w2" "time_passed w1 w2" "w_clock w2 < vExpiresAt reservation"
      "reservation_at sha s (w_files w1) = Inr reservation" for w2
    using untouched_trans [OF 1(1) that(1)] time_passed_trans [OF 1(2) that(2)] that(3,4) same
    by (auto simp: wpa_def guarded_def ran_def split: prod.splits)
  show ?case
  proof (intro wpa_bindI wp_tryI reservation_file.read_wp [of w1 sha s] wpa_case_sumI wpa_ifI wpa_retI nowE_wp [of s], goal_cases)
    case (3 c w2 w3)
    then have "c = reservation" by (auto intro: Reservation.equality)
    with 3 show ?case by (intro yes) (auto intro: untouched_trans time_passed_trans quiet_passes)
  qed (rule no; (blast intro: quiet_passes untouched_trans | simp))+
next
  case (2 e w') then show ?case by (simp add: guarded_def)
qed

lemma reservation_fences:
  assumes "distinct_paths s"
    and "reservation_at sha s (w_files w) \<noteq> Inr reservation \<or> monotone_clock w \<and> vExpiresAt reservation \<le> w_clock w"
  shows "wpa (withOwnedReservation sha s reservation z operation) (\<lambda>a e w'. a = z \<and> e \<noteq> [] \<and> untouched s w w') w"
  by (rule wpa_mono [OF withOwnedReservation_wpa [OF assms(1)]]) (use assms(2) in \<open>auto simp: guarded_def time_passed_def\<close>)

section \<open>Reserving\<close>

text \<open>
  While a live reservation with another nonce is in place, \<open>Reserve\<close> fails and changes nothing; when
  it succeeds, the reservation it returns is the one in the file.
\<close>

lemma Reserve_excludes:
  assumes d: "distinct_paths s" and held: "reservation_at sha s (w_files w) = Inr held" and mono: "monotone_clock w"
    and live: "horizon w < vExpiresAt held" and other: "vNonce held \<noteq> nonce"
  shows "wpa (Reserve sha s nonce ttl) (\<lambda>_ e w'. e \<noteq> [] \<and> untouched s w w') w"
  unfolding Reserve_def
proof (intro wpa_ifI wpa_retI wpa_bindI wpa_LetI nowE_wp [of s] withLifecycleLock_wpa, goal_cases)
  case (2 w1 w2)
  note u = untouched_trans [OF 2(2,5)] and t = time_passed_trans [OF 2(3,6)]
  have at: "reservation_at sha s (w_files w2) = Inr held" using untouched_at(3) [OF d u] held by simp
  let ?P = "\<lambda>_ e w3. \<forall>w' f. quiet w3 w' \<longrightarrow> e @ f \<noteq> [] \<and> untouched s w w'"
  have no: "?P a e w3" if "untouched s w2 w3" "e \<noteq> []" for a :: Reservation and e w3
    using that untouched_trans [OF untouched_trans [OF u] quiet_passes(1)] by auto
  have rd: "wp (readReservation sha s) Q E w2"
    if "\<And>w3. quiet w2 w3 \<Longrightarrow> Q held w3" "\<And>e w3. quiet w2 w3 \<Longrightarrow> io_err e \<Longrightarrow> E e w3" for Q E
    by (rule reservation_file.read_wp) (use that at in auto)
  have live': "w_clock w4 < vExpiresAt held" if "quiet w2 w3" "time_passed w3 w4" for w3 w4
    using clock_horizon [OF mono time_passed_trans [OF t time_passed_trans [OF quiet_passes(2) [OF that(1)] that(2)]]] live by simp
  show ?case
    by (intro wpa_bindI wp_tryI rd wpa_case_sumI wpa_ifI wpa_retI nowE_wp [of s])
      (rule no; (blast intro: quiet_passes untouched_trans | simp) | use live' other in \<open>blast dest: io_err_Is\<close>)+
qed (auto intro: untouched_trans)

section \<open>Results of reserved operations\<close>

text \<open>
  The wrappers change nothing but the lock and the reservation file, so what an operation establishes
  about the rest still holds when the wrapper returns.
\<close>

definition elsewhere :: "store \<Rightarrow> 'x world \<Rightarrow> 'x world \<Rightarrow> bool" where
  "elsewhere s w w' \<longleftrightarrow> (\<forall>p. p \<noteq> pathLock (stPaths s) \<longrightarrow> p \<noteq> pathReservation (stPaths s) \<longrightarrow> w_files w' p = w_files w p) \<and>
     w_ext w' = w_ext w \<and> w_euid w' = w_euid w \<and> (calm w \<longrightarrow> calm w')"

lemma elsewhere_refl [simp]: "elsewhere s w w"
  by (simp add: elsewhere_def)

lemma elsewhere_trans: "elsewhere s w v \<Longrightarrow> elsewhere s v u \<Longrightarrow> elsewhere s w u"
  by (simp add: elsewhere_def)

lemma elsewhere_at:
  assumes "distinct_paths s" and "elsewhere s w w'"
  shows "journal_at sha s (w_files w') = journal_at sha s (w_files w)"
    "receipt_at sha s (w_files w') = receipt_at sha s (w_files w)"
    "no_records s (w_files w') = no_records s (w_files w)"
proof -
  have same: "w_files w' (pathJournal (stPaths s)) = w_files w (pathJournal (stPaths s))"
    "w_files w' (pathReceipt (stPaths s)) = w_files w (pathReceipt (stPaths s))"
    using assms(2) distinct_pathsD [OF assms(1)] by (simp_all add: elsewhere_def)
  show "journal_at sha s (w_files w') = journal_at sha s (w_files w)"
    "receipt_at sha s (w_files w') = receipt_at sha s (w_files w)"
    unfolding journal_at_def receipt_at_def by (rule stored_same, rule same)+
  show "no_records s (w_files w') = no_records s (w_files w)" by (simp add: no_records_def same)
qed

lemma keeps_elsewhere_file:
  assumes "\<And>w. wp m (\<lambda>_ w'. quiet w w' \<or> (\<exists>n. wrote p n w w')) (\<lambda>_ w'. quiet w w' \<or> (\<exists>n. wrote p n w w')) w"
    and "p = pathLock (stPaths s) \<or> p = pathReservation (stPaths s)" and "keeps calm m"
  shows "keeps (elsewhere s w0) m"
proof (rule keepsI, goal_cases)
  case (1 w)
  obtain r w' where run: "m w = (r, w')" by (metis prod.exhaust)
  have "quiet w w' \<or> (\<exists>n. wrote p n w w')" using assms(1) [of w] run by (auto simp: wp_def split: sum.splits)
  moreover have "calm w \<longrightarrow> calm w'" using keeps_result [OF assms(3)] run by blast
  ultimately have "elsewhere s w0 w'" using 1 assms(2) by (auto simp: elsewhere_def quiet_def wrote_def)
  then show ?case by (simp add: wp_def run split: sum.splits)
qed

interpretation elsewhere: store_invariant sha s "elsewhere s w0" for sha s w0
proof
  show "keeps (elsewhere s w0) (lockFile (pathLock (stPaths s)) (stUid s))"
    by (rule keeps_elsewhere_file [of _ "pathLock (stPaths s)"])
      (auto intro: wp_mono [OF lockFile_spec] keeps_intros)
  show "keeps (elsewhere s w0) unlockFile"
    by (rule keeps_elsewhere_file [of _ "pathLock (stPaths s)"]) (auto intro: wp_mono [OF unlockFile_spec] keeps_intros)
  show "keeps (elsewhere s w0) (readReservation sha s)"
    by (rule keeps_elsewhere_file [of _ "pathLock (stPaths s)"])
      (auto intro: reservation_file.read_wp keeps_intros)
  show "keeps (elsewhere s w0) (writeReservation sha s v)" for v
    by (rule keeps_elsewhere_file [OF writeReservation_elsewhere]) (auto intro: keeps_intros)
  show "keeps (elsewhere s w0) (removeSecureFile (pathReservation (stPaths s)) (stUid s))"
    by (rule keeps_elsewhere_file [of _ "pathReservation (stPaths s)"])
      (auto intro: wp_mono [OF removeSecureFile_spec] keeps_intros)
  show "keeps (elsewhere s w0) nowE"
    by (auto simp: keeps_def elsewhere_def calm_def intro!: wp_nowE)
  show "keeps (elsewhere s w0) randomSuffix"
    by (auto simp: keeps_def elsewhere_def calm_def intro!: wp_randomSuffix)
qed

lemma errors_nonempty:
  "lockFile path uid w = (Inl e, w') \<Longrightarrow> e \<noteq> []"
  "removeSecureFile path uid w = (Inl e, w') \<Longrightarrow> e \<noteq> []"
  "randomSuffix w = (Inl e, w') \<Longrightarrow> e \<noteq> []"
  using lockFile_spec [of path uid w] removeSecureFile_spec [of path uid w]
  by (auto simp: wp_def randomSuffix_def Let_def split: list.splits option.splits)

text \<open>
  A postcondition that survives what the wrappers do afterwards: further errors are joined and files
  other than the records change.
\<close>

definition survives :: "store \<Rightarrow> ('a \<Rightarrow> err \<Rightarrow> 'x world \<Rightarrow> bool) \<Rightarrow> bool" where
  "survives s Q \<longleftrightarrow> (\<forall>a e f w w'. Q a e w \<longrightarrow> elsewhere s w w' \<longrightarrow> Q a (e @ f) w')"

lemma survivesD: "survives s Q \<Longrightarrow> Q a e w \<Longrightarrow> elsewhere s w w' \<Longrightarrow> Q a (e @ f) w'"
  by (simp add: survives_def)

lemma withLifecycleLock_post:
  assumes Q: "survives s Q" and op: "\<And>w1. elsewhere s w w1 \<Longrightarrow> wpa operation Q w1"
    and no: "\<And>e w'. e \<noteq> [] \<Longrightarrow> elsewhere s w w' \<Longrightarrow> Q z e w'"
  shows "wpa (withLifecycleLock s z operation) Q w"
proof -
  obtain r w1 where lock: "lockFile (pathLock (stPaths s)) (stUid s) w = (r, w1)" by (metis prod.exhaust)
  have w1: "elsewhere s w w1" using keeps_result [OF elsewhere.lock elsewhere_refl lock] .
  obtain a e w2 where run: "operation w1 = ((a, e), w2)" by (metis prod.exhaust)
  have "Q a e w2" using op [OF w1] run by (simp add: wpa_def)
  moreover obtain u w3 where unlock: "unlockFile w2 = (u, w3)" by (metis prod.exhaust)
  then have "elsewhere s w2 w3" using keeps_result [OF elsewhere.unlock elsewhere_refl] by blast
  ultimately have "Q a (e @ err_of u) w3" using survivesD [OF Q] by blast
  moreover have "Q z x w1" if "r = Inl x" for x
    by (rule no [OF _ w1]) (use errors_nonempty(1) lock that in blast)
  ultimately show ?thesis using lock run unlock
    by (auto simp: withLifecycleLock_def wpa_def bindA_def errors_Join_def split: sum.splits)
qed

lemma withOwnedReservation_post:
  assumes Q: "survives s Q" and op: "\<And>w1. elsewhere s w w1 \<Longrightarrow> wpa operation Q w1"
    and no: "\<And>e w'. e \<noteq> [] \<Longrightarrow> elsewhere s w w' \<Longrightarrow> Q z e w'"
  shows "wpa (withOwnedReservation sha s reservation z operation) Q w"
  unfolding withOwnedReservation_def
proof (rule withLifecycleLock_post [OF Q _ no], goal_cases)
  case (1 w1)
  have rd: "wp (tryE (readReservation sha s)) P E w1" if "\<And>r w2. elsewhere s w w2 \<Longrightarrow> P r w2" for P E
    unfolding wp_tryE by (rule wp_mono [OF keepsD [OF elsewhere.reservation_read 1]]) (auto intro: that)
  have now: "wp nowE P E w2" if "elsewhere s w w2" "\<And>t w3. elsewhere s w w3 \<Longrightarrow> P t w3" for P E w2
    using keepsD [OF elsewhere.clock that(1)] that(2) by (auto simp: wp_def nowE_def split: list.splits)
  show ?case
    by (rule wpa_bindI, rule rd) (auto simp: wp_rules intro!: no now op split: sum.split)
qed auto

lemma withReservation_post:
  assumes Q: "survives s Q" and op: "\<And>w1. elsewhere s w w1 \<Longrightarrow> wpa operation Q w1"
    and no: "\<And>e w'. e \<noteq> [] \<Longrightarrow> elsewhere s w w' \<Longrightarrow> Q z e w'"
  shows "wpa (withReservation sha s reservation z operation) Q w"
    "wpa (withFinalReservation sha s reservation z operation) Q w"
proof -
  have rm: "elsewhere s w' w''" if "removeSecureFile (pathReservation (stPaths s)) (stUid s) w' = (r, w'')" for r w' w''
    using keeps_result [OF elsewhere.reservation_removed elsewhere_refl that] .
  have after: "Q a (e @ f) w''" if "elsewhere s w w1" "operation w1 = ((a, e), w')" "elsewhere s w' w''" for w1 a e f w' w''
    using op [OF that(1)] that(2,3) survivesD [OF Q] by (auto simp: wpa_def)
  have ok: "Q a e w'" "e = [] \<Longrightarrow> elsewhere s w' w'' \<Longrightarrow> Q a f w''" if "elsewhere s w w1" "operation w1 = ((a, e), w')" for w1 a e f w' w''
    using after [OF that elsewhere_refl, of "[]"] after [OF that, of w'' f] by auto
  have release: "wpa (bindA (removeSecureFile (pathReservation (stPaths s)) (stUid s)) a (\<lambda>_. retA a [])) Q w'"
    if "elsewhere s w w1" "operation w1 = ((a, []), w')" for w1 a w'
    by (cases "removeSecureFile (pathReservation (stPaths s)) (stUid s) w'")
      (use ok(2) [OF that _ rm] in \<open>auto simp: wpa_def bindA_def retA_def split: sum.splits\<close>)
  show "wpa (withReservation sha s reservation z operation) Q w"
    unfolding withReservation_def
  proof (rule withOwnedReservation_post [OF Q _ no], goal_cases)
    case (1 w1)
    obtain a e w' where run: "operation w1 = ((a, e), w')" by (metis prod.exhaust)
    then show ?case using ok(1) [OF 1 run] release [OF 1, of a w'] by (cases "e = []") (simp_all add: wpa_def)
  qed
  show "wpa (withFinalReservation sha s reservation z operation) Q w"
    unfolding withFinalReservation_def
  proof (rule withOwnedReservation_post [OF Q _ no], goal_cases)
    case (1 w1)
    obtain a e w' where run: "operation w1 = ((a, e), w')" by (metis prod.exhaust)
    obtain r w'' where gone: "removeSecureFile (pathReservation (stPaths s)) (stUid s) w' = (r, w'')" by (metis prod.exhaust)
    show ?case using after [OF 1 run rm [OF gone]] run gone by (simp add: wpa_def errors_Join_def)
  qed
qed

lemma withInternalReservation_post:
  assumes Q: "survives s Q" and op: "\<And>w1. elsewhere s w w1 \<Longrightarrow> wpa operation Q w1"
    and no: "\<And>e w'. e \<noteq> [] \<Longrightarrow> elsewhere s w w' \<Longrightarrow> Q z e w'"
  shows "wpa (withInternalReservation sha s z operation) Q w"
proof -
  obtain r w1 where rand: "randomSuffix w = (r, w1)" by (metis prod.exhaust)
  have w1: "elsewhere s w w1" using keeps_result [OF elsewhere.random elsewhere_refl rand] .
  show ?thesis
  proof (cases r)
    case (Inl e)
    have "Q z e w1" by (rule no [OF _ w1]) (use errors_nonempty(3) rand Inl in blast)
    then show ?thesis using rand Inl by (simp add: withInternalReservation_def wpa_def bindA_def)
  next
    case (Inr nonce)
    obtain v e w2 where res: "Reserve sha s nonce (30 * time_Second) w1 = ((v, e), w2)" by (metis prod.exhaust)
    have w2: "elsewhere s w w2" using elsewhere_trans [OF w1 keepsA_result [OF elsewhere.reserve elsewhere_refl res]] .
    have "wpa (withReservation sha s v z operation) Q w2"
      by (rule withReservation_post [OF Q]) (use op no elsewhere_trans [OF w2] in blast)+
    then show ?thesis using no [OF _ w2] rand Inr res
      by (auto simp: withInternalReservation_def wpa_def bindA_def ioA_def)
  qed
qed

end
