(* ===== verification/ProxyRecovery.thy ===== *)
theory ProxyRecovery
  imports Reservations
begin

text \<open>
  Recovery (\<open>internal/proxy/state/recovery_unix.go\<close>): stopping the recorded listener after proving its
  identity, restoring the recorded environment by compare-and-set, and clearing or downgrading the
  records.  The platform's environment and listener services have no implementation in the
  repository: they are the parameters \<open>EnvironmentRestorer\<close> and \<open>ListenerController\<close>, which act on
  the part \<open>w_ext\<close> of the world.
\<close>

section \<open>Interfaces\<close>

record CompareAndSetRequest =
  csName :: string
  csExpectedValueDigest :: string
  csActivationMarker :: string
  csPriorPresent :: bool
  csPriorValue :: "string option"

type_synonym CompareAndSetResult = string

definition CASRestored :: CompareAndSetResult where "CASRestored = ''restored''"
definition CASAlreadyRestored :: CompareAndSetResult where "CASAlreadyRestored = ''already_restored''"
definition CASConflict :: CompareAndSetResult where "CASConflict = ''conflict''"

lemma CAS_distinct [simp]:
  "CASConflict \<noteq> CASRestored" "CASConflict \<noteq> CASAlreadyRestored" "CASRestored \<noteq> CASAlreadyRestored"
  by (simp_all add: CASConflict_def CASRestored_def CASAlreadyRestored_def)

record 'x EnvironmentRestorer =
  CompareAndSet :: "CompareAndSetRequest \<Rightarrow> ('x world, CompareAndSetResult) io"

record 'x ListenerController =
  Inspect :: "int \<Rightarrow> ('x world, LiveListenerProof \<times> bool) io"
  Stop :: "LiveListenerProof \<Rightarrow> ('x world, unit) io"

type_synonym RecoveryStatus = string

definition RecoveryNotActive :: RecoveryStatus where "RecoveryNotActive = ''not_active''"
definition RecoveryComplete :: RecoveryStatus where "RecoveryComplete = ''recovered''"
definition RecoveryRequired :: RecoveryStatus where "RecoveryRequired = ''recovery_required''"

record RecoveryResult =
  rrStatus :: RecoveryStatus
  rrListenerEvidence :: string
  rrRestoredEnvironment :: "string list"
  rrConflictedEnvironment :: "string list"
  rrManualRemediation :: "string list"
  rrReceiptRepaired :: bool

definition zero_recovery :: RecoveryResult where
  "zero_recovery = \<lparr>rrStatus = '''', rrListenerEvidence = '''', rrRestoredEnvironment = [],
     rrConflictedEnvironment = [], rrManualRemediation = [], rrReceiptRepaired = False\<rparr>"

record ExpectedRecovery =
  erActivationID :: string
  erGeneration :: int

section \<open>The listener\<close>

definition stopVerified :: "'x ListenerController \<Rightarrow> LiveListenerProof \<Rightarrow> ('x world, string) act" where
  "stopVerified controller expected =
     bindA (Inspect controller (lpPID expected)) ''listener_inspection_failed'' (\<lambda>(current, live).
       if \<not> live then retA ''listener_absent'' []
       else if current \<noteq> expected then retA ''recorded_listener_identity_absent'' []
       else bindA (Stop controller expected) ''listener_stop_failed'' (\<lambda>_.
         bindA (Inspect controller (lpPID expected)) ''listener_stop_unverified'' (\<lambda>(after, live').
           if live' \<and> after = expected
           then retA ''listener_stop_unverified'' [Other ''listener identity remains live after stop'']
           else retA ''listener_stop_verified'' [])))"

definition manualEnvironment :: "string list \<Rightarrow> string list" where
  "manualEnvironment names =
     map (\<lambda>name. ''inspect and manually restore or remove '' @ name @ '' for the recorded OS session'')
       (filter validEnvironmentName names)"

definition manualListener :: "string \<Rightarrow> string list" where
  "manualListener evidence =
     (if evidence = ''listener_inspection_failed'' then
        [''listener identity could not be inspected; do not signal a PID by number; retry recovery after the platform identity service is available'']
      else if evidence = ''listener_stop_failed'' then
        [''the exact listener identity was verified but stop failed; retry recovery; do not signal a PID manually unless every recorded identity field is independently verified'']
      else if evidence = ''listener_stop_unverified'' then
        [''listener stop could not be verified; do not signal a PID by number; inspect process-start, executable, binary, key, nonce, owner, generation, mode, and session identity before any manual action'']
      else [])"

section \<open>The environment\<close>

definition restore_request :: "JournalEnvironment \<Rightarrow> CompareAndSetRequest" where
  "restore_request item = \<lparr>csName = jeName item, csExpectedValueDigest = jeDesiredValueDigest item,
     csActivationMarker = jeActivationMarker item, csPriorPresent = jePriorPresent item,
     csPriorValue = jePriorValue item\<rparr>"

text \<open>The loop over \<open>journal.Environment\<close>; the flag is \<open>environmentOK\<close>.\<close>

fun restoreEnvironment ::
    "'x EnvironmentRestorer \<Rightarrow> JournalEnvironment list \<Rightarrow> RecoveryResult \<Rightarrow> bool \<Rightarrow> ('x world, RecoveryResult \<times> bool) io" where
  "restoreEnvironment environment [] result environmentOK = returnE (result, environmentOK)"
| "restoreEnvironment environment (item # items) result environmentOK =
     bindE (tryE (CompareAndSet environment (restore_request item))) (\<lambda>cas.
       if err_of cas \<noteq> [] \<or> cas = Inr CASConflict \<or> (cas \<noteq> Inr CASRestored \<and> cas \<noteq> Inr CASAlreadyRestored)
       then restoreEnvironment environment items
              (result\<lparr>rrConflictedEnvironment := rrConflictedEnvironment result @ [jeName item]\<rparr>) False
       else restoreEnvironment environment items
              (result\<lparr>rrRestoredEnvironment := rrRestoredEnvironment result @ [jeName item]\<rparr>) environmentOK)"

section \<open>Recovery\<close>

definition recoverFromReceiptOnly ::
    "sha256 \<Rightarrow> store \<Rightarrow> Receipt \<Rightarrow> 'x ListenerController \<Rightarrow> RecoveryResult \<Rightarrow> ('x world, RecoveryResult) act" where
  "recoverFromReceiptOnly sha s receipt listener result =
     bindA (pairA (stopVerified listener (proofFromReceipt receipt))) result (\<lambda>(evidence, stopErr).
       let result1 = result\<lparr>rrListenerEvidence := evidence\<rparr> in
       bindA (writeReceipt sha s (receipt\<lparr>rState := ''recovery_required''\<rparr>)) result1 (\<lambda>_.
         retA (result1\<lparr>rrStatus := RecoveryRequired,
                 rrManualRemediation := manualEnvironment EnvironmentNames @
                   (if stopErr \<noteq> [] then manualListener evidence else [])\<rparr>)
              [ErrRecoveryRequired]))"

text \<open>\<open>expected != nil\<close> and the identity found differs.\<close>

definition unexpected :: "ExpectedRecovery option \<Rightarrow> err + Journal \<Rightarrow> err + Receipt \<Rightarrow> bool" where
  "unexpected expected journal receipt \<longleftrightarrow>
     (case expected of
        None \<Rightarrow> False
      | Some e \<Rightarrow>
          (case (case journal of
                   Inr j \<Rightarrow> (jActivationID j, jGeneration j)
                 | Inl _ \<Rightarrow> (case receipt of
                     Inr r \<Rightarrow> (rActivationID r, rGeneration r)
                   | Inl _ \<Rightarrow> ('''', 0)))
           of (activationID, generation) \<Rightarrow> activationID \<noteq> erActivationID e \<or> generation \<noteq> erGeneration e))"

text \<open>
  The end of \<open>recover\<close>, once the listener was handled and the environment visited: clear the records,
  or record that recovery is still required.
\<close>

definition settleRecovery ::
    "sha256 \<Rightarrow> store \<Rightarrow> Journal \<Rightarrow> string \<Rightarrow> RecoveryResult \<Rightarrow> bool \<Rightarrow> ('x world, RecoveryResult \<times> err) act" where
  "settleRecovery sha s journal mechanism result ok =
     (let tx = \<lparr>txStore = s, txActive = True\<rparr>;
          expected = \<lparr>eaGeneration = jGeneration journal, eaState = jState journal\<rparr> in
      if ok then
        bindA (Clear sha tx expected) (result, []) (\<lambda>_. retA (result\<lparr>rrStatus := RecoveryComplete\<rparr>, []) [])
      else
        bindA (if jState journal \<noteq> ''recovery_required''
               then bindE nowE (\<lambda>now.
                 Transition sha tx expected
                   (journal\<lparr>jState := ''recovery_required'', jUpdatedAt := now\<rparr>) mechanism)
               else returnE ())
          (result, []) (\<lambda>_.
          retA (result\<lparr>rrStatus := RecoveryRequired,
                  rrManualRemediation := rrManualRemediation result @ manualEnvironment (rrConflictedEnvironment result)\<rparr>,
                [ErrRecoveryRequired]) []))"

text \<open>Recovery with an authoritative journal.\<close>

definition recoverFromJournal ::
    "sha256 \<Rightarrow> store \<Rightarrow> 'x EnvironmentRestorer \<Rightarrow> 'x ListenerController \<Rightarrow> Journal \<Rightarrow> string \<Rightarrow> RecoveryResult \<Rightarrow>
       ('x world, RecoveryResult \<times> err) act" where
  "recoverFromJournal sha s environment listener journal mechanism result =
     bindA (pairA (stopVerified listener (proofFromJournal journal))) (result, []) (\<lambda>(evidence, stopErr).
       let result1 = result\<lparr>rrListenerEvidence := evidence,
             rrManualRemediation := rrManualRemediation result @ (if stopErr \<noteq> [] then manualListener evidence else [])\<rparr> in
       bindA (restoreEnvironment environment (jEnvironment journal) result1 True) (result1, []) (\<lambda>(result2, environmentOK).
         settleRecovery sha s journal mechanism result2 (stopErr = [] \<and> environmentOK)))"

definition recoverLocked ::
    "sha256 \<Rightarrow> store \<Rightarrow> 'x EnvironmentRestorer \<Rightarrow> 'x ListenerController \<Rightarrow> ExpectedRecovery option \<Rightarrow>
       ('x world, RecoveryResult \<times> err) act" where
  "recoverLocked sha s environment listener expected =
     bindA (tryE (locked_readJournal sha s)) (zero_recovery, []) (\<lambda>journal.
     bindA (tryE (locked_readReceipt sha s)) (zero_recovery, []) (\<lambda>receipt.
       if ownershipError (err_of journal) \<or> ownershipError (err_of receipt)
       then retA (zero_recovery, []) [ErrOwnershipAmbiguous]
       else if unexpected expected journal receipt then retA (zero_recovery, []) [ErrLifecycleConflict]
       else (case journal of
         Inl journalErr \<Rightarrow> (case receipt of
           Inl receiptErr \<Rightarrow>
             if errors_Is journalErr ErrNotFound \<and> errors_Is receiptErr ErrNotFound
             then retA (zero_recovery\<lparr>rrStatus := RecoveryNotActive\<rparr>, []) []
             else retA (zero_recovery, []) [ErrOwnershipAmbiguous]
         | Inr r \<Rightarrow>
             bindA (pairA (recoverFromReceiptOnly sha s r listener zero_recovery)) (zero_recovery, []) (\<lambda>(result, semanticErr).
               if errors_Is semanticErr ErrRecoveryRequired then retA (result, semanticErr) []
               else retA (result, semanticErr) semanticErr))
       | Inr j \<Rightarrow> (case receipt of
           Inr r \<Rightarrow> bindA (checkE (ValidateBinding j r)) (zero_recovery, []) (\<lambda>_.
             recoverFromJournal sha s environment listener j (rPublicationMechanism r) zero_recovery)
         | Inl _ \<Rightarrow> (case receiptFromJournal j (publicationMechanism j) of
             Inl e \<Rightarrow> retA (zero_recovery, []) e
           | Inr repaired \<Rightarrow>
               let repaired1 = (if jState j \<noteq> ''active'' then repaired\<lparr>rState := ''recovery_required''\<rparr> else repaired) in
               bindA (writeReceipt sha s repaired1) (zero_recovery, []) (\<lambda>_.
                 recoverFromJournal sha s environment listener j (rPublicationMechanism repaired1)
                   (zero_recovery\<lparr>rrReceiptRepaired := True\<rparr>)))))))"

definition Recover ::
    "sha256 \<Rightarrow> store \<Rightarrow> 'x EnvironmentRestorer \<Rightarrow> 'x ListenerController \<Rightarrow> ('x world, RecoveryResult) act" where
  "Recover sha s environment listener =
     joinSemantic (withInternalReservation sha s (zero_recovery, []) (recoverLocked sha s environment listener None))"

definition expectation_ok :: "ExpectedRecovery \<Rightarrow> bool" where
  "expectation_ok expected \<longleftrightarrow> uuidPattern (erActivationID expected) \<and> \<not> erGeneration expected < 1"

definition RecoverExpected ::
    "sha256 \<Rightarrow> store \<Rightarrow> 'x EnvironmentRestorer \<Rightarrow> 'x ListenerController \<Rightarrow> ExpectedRecovery \<Rightarrow> ('x world, RecoveryResult) act" where
  "RecoverExpected sha s environment listener expected =
     (if \<not> expectation_ok expected then retA zero_recovery [ErrInvalidState]
      else joinSemantic (withInternalReservation sha s (zero_recovery, [])
             (recoverLocked sha s environment listener (Some expected))))"

definition RecoverExpectedReserved ::
    "sha256 \<Rightarrow> store \<Rightarrow> Reservation \<Rightarrow> 'x EnvironmentRestorer \<Rightarrow> 'x ListenerController \<Rightarrow> ExpectedRecovery \<Rightarrow>
       ('x world, RecoveryResult) act" where
  "RecoverExpectedReserved sha s reservation environment listener expected =
     (if \<not> expectation_ok expected then retA zero_recovery [ErrInvalidState]
      else joinSemantic (withFinalReservation sha s reservation (zero_recovery, [])
             (recoverLocked sha s environment listener (Some expected))))"

section \<open>External services\<close>

text \<open>
  What the repository relies on of the platform services: they do not touch the state files, and they
  do not disturb the process's own system calls.
\<close>

definition external :: "('x world, 'a) io \<Rightarrow> bool" where
  "external m \<longleftrightarrow> (\<forall>w. w_files (snd (m w)) = w_files w \<and> w_history (snd (m w)) = w_history w \<and>
     w_io (snd (m w)) = w_io w \<and> w_rand (snd (m w)) = w_rand w \<and> w_euid (snd (m w)) = w_euid w)"

definition external_restorer :: "'x EnvironmentRestorer \<Rightarrow> bool" where
  "external_restorer er \<longleftrightarrow> (\<forall>req. external (CompareAndSet er req))"

definition external_controller :: "'x ListenerController \<Rightarrow> bool" where
  "external_controller lc \<longleftrightarrow> (\<forall>pid. external (Inspect lc pid)) \<and> (\<forall>p. external (Stop lc p))"

lemma external_keeps:
  assumes "external m"
  shows "keeps (\<lambda>w. crash_safe sha s w0 w \<and> calm w) m"
proof (rule keepsI, goal_cases)
  case (1 w)
  have "crash_safe sha s w0 (snd (m w)) \<and> calm (snd (m w))"
    using 1 assms by (simp add: external_def crash_safe_def safe_since_def calm_def)
  then show ?case by (simp add: wp_snd)
qed

lemma stopVerified_keeps:
  "external_controller lc \<Longrightarrow> keepsA (\<lambda>w. crash_safe sha s w0 w \<and> calm w) (stopVerified lc expected)"
  unfolding stopVerified_def external_controller_def by (intro keeps_intros external_keeps) blast+

lemma restoreEnvironment_keeps:
  "external_restorer er \<Longrightarrow> keeps (\<lambda>w. crash_safe sha s w0 w \<and> calm w) (restoreEnvironment er items result ok)"
proof (induction items arbitrary: result ok)
  case (Cons item items)
  from Cons.prems have "external (CompareAndSet er (restore_request item))" by (simp add: external_restorer_def)
  then show ?case unfolding restoreEnvironment.simps
    by (intro keeps_intros Cons.IH Cons.prems) (rule external_keeps)
qed (simp add: keeps_intros)

lemma settleRecovery_keeps:
  "keepsA (\<lambda>w. crash_safe sha s w0 w \<and> calm w) (settleRecovery sha s journal mechanism result ok)"
proof -
  have "keeps (\<lambda>w. crash_safe sha s w0 w \<and> calm w) (Clear sha \<lparr>txStore = s, txActive = True\<rparr> expected)" for expected
    by (intro keeps_conj Clear_crash_safe keeps_intros) simp
  moreover have "keeps (\<lambda>w. crash_safe sha s w0 w \<and> calm w) (Transition sha \<lparr>txStore = s, txActive = True\<rparr> expected nx m)"
    for expected nx m
    by (intro keeps_conj Transition_crash_safe keeps_intros) simp
  ultimately show ?thesis
    unfolding settleRecovery_def Let_def by (intro keeps_intros safe_calm.clock)
qed

lemma recoverFromJournal_keeps:
  assumes "external_restorer er" and "external_controller lc"
  shows "keepsA (\<lambda>w. crash_safe sha s w0 w \<and> calm w) (recoverFromJournal sha s er lc journal mechanism result)"
  unfolding recoverFromJournal_def
  by (intro keeps_intros stopVerified_keeps restoreEnvironment_keeps settleRecovery_keeps assms)

lemma publish_keeps:
  assumes "crash_safe sha s w0 w \<and> calm w" and j: "journal_at sha s (w_files w) = Inr j"
    and r: "receiptFromJournal j m = Inr r"
    and Q: "\<And>r' w'. crash_safe sha s w0 w' \<and> calm w' \<Longrightarrow> Q r' w'"
  shows "wp (writeReceipt sha s (receipt_for j r)) Q (\<lambda>_ w'. crash_safe sha s w0 w' \<and> calm w') w"
proof -
  have safe: "safe_since sha s w0 w" and d: "distinct_paths s" and c: "calm w" using assms(1) by (auto simp: crash_safe_def)
  have reg: "regular_journal sha j" using safe_since_consistent [OF safe] j by (simp add: consistent_def)
  have "wp (writeReceipt sha s (receipt_for j r)) (\<lambda>_ w'. safe_since sha s w0 w' \<and> bound sha s j (w_files w'))
      (\<lambda>_ w'. safe_since sha s w0 w' \<and> journal_at sha s (w_files w') = Inr j) w"
    by (rule publish_receipt_wp [OF d safe j reg journal_at_valid [OF j] r [unfolded receiptFromJournal_def]]) simp
  moreover have "wp (writeReceipt sha s (receipt_for j r)) (\<lambda>_. calm) (\<lambda>_. calm) w"
    using keepsD [OF calm_records(3) c] by blast
  ultimately have "wp (writeReceipt sha s (receipt_for j r)) (\<lambda>_ w'. crash_safe sha s w0 w' \<and> calm w') (\<lambda>_ w'. crash_safe sha s w0 w' \<and> calm w') w"
    using d by (auto simp: wp_def crash_safe_def split: prod.splits sum.splits)
  then show ?thesis by (rule wp_mono) (auto intro: Q)
qed

lemma recoverLocked_keeps:
  assumes "external_restorer er" and "external_controller lc"
  shows "keepsA (\<lambda>w. crash_safe sha s w0 w \<and> calm w) (recoverLocked sha s er lc expected)"
proof (rule keepsAI, goal_cases)
  case (1 w)
  then have safe: "safe_since sha s w0 w" and c: "calm w" by (auto simp: crash_safe_def)
  note cons = safe_since_consistent [OF safe]
  note run = keepsAD [OF recoverFromJournal_keeps [OF assms, of sha s w0]]
  show ?case
    unfolding recoverLocked_def receipt_for_def [symmetric]
    by (rule wpa_bindI, rule try_read_calm [OF c], rule wpa_bindI, rule try_read_calm [OF c])
      (use cons in \<open>auto simp: consistent_def wp_rules Let_def 1 intro!: run publish_keeps [OF 1] split: sum.splits\<close>)
qed

lemma Recover_crash_safe:
  assumes "external_restorer er" and "external_controller lc"
  shows "keepsA (\<lambda>w. crash_safe sha s w0 w \<and> calm w) (Recover sha s er lc)"
    "keepsA (\<lambda>w. crash_safe sha s w0 w \<and> calm w) (RecoverExpected sha s er lc expected)"
    "keepsA (\<lambda>w. crash_safe sha s w0 w \<and> calm w) (RecoverExpectedReserved sha s reservation er lc expected)"
  unfolding Recover_def RecoverExpected_def RecoverExpectedReserved_def
  by (intro keeps_intros safe_calm.semantic safe_calm.internally_reserved safe_calm.finally_reserved recoverLocked_keeps assms)+

end
