(* ===== verification/RecoveryResults.thy ===== *)
theory RecoveryResults
  imports ProxyRecovery
begin

text \<open>
  What recovery (\<open>internal/proxy/state/recovery_unix.go\<close>) achieves: when it reports completion every
  recorded variable has its recorded prior value and no record is left; when ownership is ambiguous
  nothing is touched; without a journal the environment is never consulted.
\<close>

section \<open>What recovery reports and what it does\<close>

text \<open>
  \<open>env\<close> reads the session's environment out of the external world.  A restorer honours its contract
  when it changes no other variable, an answer of \<open>restored\<close> or \<open>already_restored\<close> means that the
  variable has its prior value, and a conflict leaves it alone.
\<close>

definition prior_of :: "CompareAndSetRequest \<Rightarrow> string option" where
  "prior_of req = (if csPriorPresent req then csPriorValue req else None)"

definition restorer_contract :: "('x \<Rightarrow> string \<Rightarrow> string option) \<Rightarrow> 'x EnvironmentRestorer \<Rightarrow> bool" where
  "restorer_contract env er \<longleftrightarrow> (\<forall>req w r w'. CompareAndSet er req w = (r, w') \<longrightarrow>
     (\<forall>n. n \<noteq> csName req \<longrightarrow> env (w_ext w') n = env (w_ext w) n) \<and>
     (r = Inr CASRestored \<or> r = Inr CASAlreadyRestored \<longrightarrow> env (w_ext w') (csName req) = prior_of req) \<and>
     (r = Inr CASConflict \<longrightarrow> env (w_ext w') = env (w_ext w)))"

definition prior_value :: "JournalEnvironment \<Rightarrow> string option" where
  "prior_value item = (if jePriorPresent item then jePriorValue item else None)"

lemma restore_request_sel [simp]:
  "csName (restore_request item) = jeName item" "prior_of (restore_request item) = prior_value item"
  by (simp_all add: restore_request_def prior_of_def prior_value_def)

text \<open>Every variable is reported once, as restored or as conflicting, and nothing else is reported.\<close>

lemma restoreEnvironment_accounts:
  "wp (restoreEnvironment er items result ok)
     (\<lambda>(result', ok') _.
        mset (rrRestoredEnvironment result') + mset (rrConflictedEnvironment result') =
          mset (rrRestoredEnvironment result) + mset (rrConflictedEnvironment result) + mset (map jeName items) \<and>
        (ok' \<longrightarrow> ok \<and> rrConflictedEnvironment result' = rrConflictedEnvironment result) \<and>
        rrStatus result' = rrStatus result \<and> rrListenerEvidence result' = rrListenerEvidence result \<and>
        rrManualRemediation result' = rrManualRemediation result)
     (\<lambda>_ _. False) w"
proof (induction items arbitrary: result ok w)
  case (Cons item items)
  show ?case unfolding restoreEnvironment.simps
    by (rule wp_bindI, rule wp_tryI, rule wp_mono [OF wp_eval]) (rule wp_intros | rule wp_mono [OF Cons.IH] | auto; fail)+
qed (simp add: wp_rules)

lemma restoreEnvironment_restores:
  assumes "restorer_contract env er" and "distinct (map jeName items)"
  shows "wp (restoreEnvironment er items result ok)
     (\<lambda>(_, ok') w'. (\<forall>n. n \<notin> set (map jeName items) \<longrightarrow> env (w_ext w') n = env (w_ext w) n) \<and>
        (ok' \<longrightarrow> (\<forall>item\<in>set items. env (w_ext w') (jeName item) = prior_value item)))
     (\<lambda>_ _. False) w"
  using assms(2)
proof (induction items arbitrary: result ok w)
  case (Cons item items)
  obtain r w1 where cas: "CompareAndSet er (restore_request item) w = (r, w1)" by (metis prod.exhaust)
  have frame: "\<forall>n. n \<noteq> jeName item \<longrightarrow> env (w_ext w1) n = env (w_ext w) n"
    and fin: "r = Inr CASRestored \<or> r = Inr CASAlreadyRestored \<Longrightarrow> env (w_ext w1) (jeName item) = prior_value item"
    using assms(1) cas unfolding restorer_contract_def by (metis restore_request_sel)+
  have rest: "wp (restoreEnvironment er items res b)
      (\<lambda>(_, ok') w'. (\<forall>n. n \<notin> set (map jeName items) \<longrightarrow> env (w_ext w') n = env (w_ext w1) n) \<and>
        (ok' \<longrightarrow> b \<and> (\<forall>item\<in>set items. env (w_ext w') (jeName item) = prior_value item)))
      (\<lambda>_ _. False) w1" for res b
  proof -
    have ih: "wp (restoreEnvironment er items res b)
      (\<lambda>(_, ok') w'. (\<forall>n. n \<notin> set (map jeName items) \<longrightarrow> env (w_ext w') n = env (w_ext w1) n) \<and>
        (ok' \<longrightarrow> (\<forall>item\<in>set items. env (w_ext w') (jeName item) = prior_value item))) (\<lambda>_ _. False) w1"
      using Cons.prems by (intro Cons.IH) simp
    show ?thesis
      by (rule wp_mono [OF wp_conj [THEN iffD2, OF conjI [OF ih restoreEnvironment_accounts]]]) auto
  qed
  have fresh: "jeName item \<notin> set (map jeName items)" using Cons.prems by simp
  let ?Q = "\<lambda>(_, ok') w'. (\<forall>n. n \<notin> set (map jeName (item # items)) \<longrightarrow> env (w_ext w') n = env (w_ext w) n) \<and>
        (ok' \<longrightarrow> (\<forall>i\<in>set (item # items). env (w_ext w') (jeName i) = prior_value i))"
  have bad: "wp (restoreEnvironment er items res False) ?Q (\<lambda>_ _. False) w1" for res
    by (rule wp_mono [OF rest]) (use frame in auto)
  have good: "wp (restoreEnvironment er items res b) ?Q (\<lambda>_ _. False) w1"
    if "r = Inr CASRestored \<or> r = Inr CASAlreadyRestored" for res b
    by (rule wp_mono [OF rest]) (use frame fin [OF that] fresh in auto)
  show ?case unfolding restoreEnvironment.simps wp_bindE
    by (rule wp_tryE [THEN iffD2], subst wp_def)
      (use bad good in \<open>auto simp: cas wp_if split: sum.split\<close>)
qed (simp add: wp_rules)

text \<open>The store never acts on the external world.\<close>

definition ext_is :: "'x \<Rightarrow> 'x world \<Rightarrow> bool" where
  "ext_is x w \<longleftrightarrow> w_ext w = x"

lemma ext_primitives [keeps_intros]:
  "keeps (ext_is x) sysE" "keeps (ext_is x) (faultE p)" "keeps (ext_is x) (lookupE p)" "keeps (ext_is x) (mutateE p n)"
  "keeps (ext_is x) euidE" "keeps (ext_is x) nowE" "keeps (ext_is x) randomSuffix"
  by (auto simp: keeps_def ext_is_def wp_def sysE_def faultE_def lookupE_def mutateE_def euidE_def nowE_def
      randomSuffix_def Let_def split: list.splits option.splits sum.splits)

lemma ext_validate [keeps_intros]:
  "keeps (ext_is x) (validateOwnerModeFile n uid)" "keeps (ext_is x) (validateSecureFile path uid)" "keeps (ext_is x) syncDirectory"
  unfolding validateOwnerModeFile_def validateSecureFile_def syncDirectory_def by (intro keeps_intros)+

lemma ext_files [keeps_intros]:
  "keeps (ext_is x) (readSecureFile path uid limit)" "keeps (ext_is x) (atomicWrite path uid data d)"
  "keeps (ext_is x) (removeSecureFile path uid)" "keeps (ext_is x) (lockFile path uid)" "keeps (ext_is x) unlockFile"
  unfolding readSecureFile_def atomicWrite_def removeSecureFile_def lockFile_def unlockFile_def
  by (intro keeps_intros, simp add: keeps_intros)+

lemma ext_records [keeps_intros]:
  "keeps (ext_is x) (readRecord decode path uid)" "keeps (ext_is x) (writeJournal sha s j)"
  "keeps (ext_is x) (writeReceipt sha s r)" "keeps (ext_is x) (writeReservation sha s v)"
  unfolding readRecord_def writeJournal_def writeReceipt_def writeReservation_def by (intro keeps_intros)+

lemma ext_reads [keeps_intros]:
  "keeps (ext_is x) (locked_readJournal sha s)" "keeps (ext_is x) (locked_readReceipt sha s)"
  "keeps (ext_is x) (readReservation sha s)"
  unfolding locked_readJournal_def readJournal_def locked_readReceipt_def readReceipt_def readReservation_def
  by (intro keeps_intros)+

interpretation ext: store_invariant sha s "ext_is x" for sha s x
  by unfold_locales (intro keeps_intros)+

lemma ext_transaction [keeps_intros]:
  "keeps (ext_is x) (Prepare sha tx journal)" "keeps (ext_is x) (Transition sha tx expected next mechanism)"
  "keeps (ext_is x) (Clear sha tx expected)" "keepsA (ext_is x) (reconcileLocked sha s)"
  unfolding Prepare_def Transition_def commit_def Clear_def removeRecords_def reconcileLocked_def
  by (intro keeps_intros)+

lemma Clear_removes:
  assumes "distinct_paths (txStore tx)"
  shows "wp (Clear sha tx expected) (\<lambda>_ w'. no_records (txStore tx) (w_files w') \<and> w_ext w' = w_ext w) (\<lambda>_ _. True) w"
proof -
  have rm: "wp (removeRecords (txStore tx)) (\<lambda>_ w'. no_records (txStore tx) (w_files w')) (\<lambda>_ _. True) w1" for w1 :: "'a world"
    unfolding removeRecords_def
    by (rule wp_bindI, rule wp_mono [OF removeSecureFile_spec], rule wp_mono [OF removeSecureFile_spec])
      (use distinct_pathsD [OF assms] in \<open>auto simp: no_records_def quiet_def wrote_def\<close>)
  have any: "wp m Q (\<lambda>_ _. True) w1" if "\<And>x w2. Q x w2" for m :: "('a world, 'b) io" and Q w1
    by (rule wp_mono [OF wp_eval]) (auto intro: that)
  have "wp (Clear sha tx expected) (\<lambda>_ w'. no_records (txStore tx) (w_files w')) (\<lambda>_ _. True) w"
    unfolding Clear_def
    by (rule wp_intros rm | rule journal_file.read_wp receipt_file.read_wp | (simp; fail))+
  moreover have "wp (Clear sha tx expected) (\<lambda>_. ext_is (w_ext w)) (\<lambda>_. ext_is (w_ext w)) w"
    by (rule keepsD [OF ext_transaction(3)]) (simp add: ext_is_def)
  ultimately show ?thesis by (auto simp: wp_def ext_is_def split: prod.splits sum.splits)
qed

text \<open>What a complete recovery means.\<close>

definition recovered :: "store \<Rightarrow> ('x \<Rightarrow> string \<Rightarrow> string option) \<Rightarrow> Journal \<Rightarrow> RecoveryResult \<Rightarrow> 'x world \<Rightarrow> bool" where
  "recovered s env j result w \<longleftrightarrow> no_records s (w_files w) \<and> rrConflictedEnvironment result = [] \<and>
     mset (rrRestoredEnvironment result) = mset (map jeName (jEnvironment j)) \<and>
     (\<forall>item\<in>set (jEnvironment j). env (w_ext w) (jeName item) = prior_value item)"

lemma recovery_statuses [simp]:
  "RecoveryRequired \<noteq> RecoveryComplete" "RecoveryNotActive \<noteq> RecoveryComplete"
  "rrStatus zero_recovery \<noteq> RecoveryComplete"
  by (simp_all add: RecoveryRequired_def RecoveryNotActive_def RecoveryComplete_def zero_recovery_def)

lemma settleRecovery_post:
  assumes "distinct_paths s" and "rrStatus result \<noteq> RecoveryComplete"
    and "ok \<Longrightarrow> rrConflictedEnvironment result = [] \<and> mset (rrRestoredEnvironment result) = mset (map jeName (jEnvironment j)) \<and>
       (\<forall>item\<in>set (jEnvironment j). env (w_ext w) (jeName item) = prior_value item)"
  shows "wpa (settleRecovery sha s j mechanism result ok)
     (\<lambda>(result', _) _ w'. rrStatus result' = RecoveryComplete \<longrightarrow> recovered s env j result' w') w"
proof (cases ok)
  case True
  have "wp (Clear sha \<lparr>txStore = s, txActive = True\<rparr> x) (\<lambda>_ w'. no_records s (w_files w') \<and> w_ext w' = w_ext w) (\<lambda>_ _. True) w" for x
    using Clear_removes [of "\<lparr>txStore = s, txActive = True\<rparr>" sha x w] assms(1) by simp
  note clear = this
  show ?thesis unfolding settleRecovery_def Let_def
    by (rule wpa_ifI, rule wpa_bindI, rule wp_mono [OF clear])
      (use True assms(2,3) in \<open>auto simp: wp_rules recovered_def\<close>)
next
  case False
  then show ?thesis using assms(2)
    by (auto simp: settleRecovery_def Let_def wpa_def bindA_def retA_def split: prod.splits sum.splits)
qed

lemma recoverFromJournal_post:
  assumes "distinct_paths s" and "rrStatus result \<noteq> RecoveryComplete" and "Journal_Validate j = []"
    and "restorer_contract env er" and "rrRestoredEnvironment result = []" "rrConflictedEnvironment result = []"
  shows "wpa (recoverFromJournal sha s er lc j mechanism result)
     (\<lambda>(result', _) _ w'. rrStatus result' = RecoveryComplete \<longrightarrow> recovered s env j result' w') w"
proof -
  have names: "distinct (map jeName (jEnvironment j))"
    using validateJournalEnvironment_names [OF Journal_ValidateD(14) [OF assms(3)]] by blast
  have env: "wp (restoreEnvironment er (jEnvironment j) res True)
      (\<lambda>(res', ok) w'. wpa (settleRecovery sha s j mechanism res' (c \<and> ok))
         (\<lambda>(result', _) _ w'. rrStatus result' = RecoveryComplete \<longrightarrow> recovered s env j result' w') w')
      (\<lambda>_ _. False) w1"
    if "rrStatus res \<noteq> RecoveryComplete" "rrRestoredEnvironment res = []" "rrConflictedEnvironment res = []" for res w1 c
    by (rule wp_mono [OF wp_conj [THEN iffD2, OF conjI [OF restoreEnvironment_restores [OF assms(4) names] restoreEnvironment_accounts]]])
      (use that in \<open>auto intro!: settleRecovery_post [OF assms(1)]\<close>)
  have stop: "wpa (stopVerified lc p) (\<lambda>_ _ _. True) w1" for p w1
    by (simp add: wpa_def split: prod.splits)
  show ?thesis unfolding recoverFromJournal_def
  proof (rule wpa_bindI, rule wp_pairAI, rule wpa_mono [OF stop], goal_cases)
    case (1 evidence stopErr w1)
    show ?case unfolding prod.case Let_def
      by (rule wpa_bindI, rule wp_mono [OF env [where c = "stopErr = []"]]) (use assms(2,5,6) in auto)
  qed
qed

lemma recoverLocked_post:
  assumes "distinct_paths s" and "restorer_contract env er"
  shows "wpa (recoverLocked sha s er lc expected)
     (\<lambda>(result, _) _ w'. rrStatus result = RecoveryComplete \<longrightarrow>
        (\<exists>j. journal_at sha s (w_files w) = Inr j \<and> recovered s env j result w')) w"
proof -
  have run: "wpa (recoverFromJournal sha s er lc j mechanism result)
      (\<lambda>(result, _) _ w'. rrStatus result = RecoveryComplete \<longrightarrow> recovered s env j result w') w1"
    if "journal_at sha s (w_files w) = Inr j" "rrStatus result \<noteq> RecoveryComplete"
      "rrRestoredEnvironment result = []" "rrConflictedEnvironment result = []" for j mechanism result w1
    by (rule recoverFromJournal_post [OF assms(1) that(2) journal_at_valid [OF that(1)] assms(2) that(3,4)])
  have receipt_only: "wpa (recoverFromReceiptOnly sha s r lc zero_recovery)
      (\<lambda>result _ _. rrStatus result \<noteq> RecoveryComplete) w1" for r w1
    by (auto simp: recoverFromReceiptOnly_def wpa_def bindA_def retA_def pairA_def Let_def zero_recovery_def
        RecoveryRequired_def RecoveryComplete_def split: prod.splits sum.splits)
  have zero: "rrRestoredEnvironment zero_recovery = []" "rrConflictedEnvironment zero_recovery = []"
    by (simp_all add: zero_recovery_def)
  show ?thesis unfolding recoverLocked_def
    by (rule wpa_bindI, rule wp_tryI, rule journal_file.read_wp;
        rule wpa_bindI, rule wp_tryI, rule wp_mono [OF wp_eval])
      (auto simp: wp_rules Let_def zero intro!: run wpa_mono [OF receipt_only] wp_mono [OF wp_eval] split: sum.split)
qed

lemma recovered_survives:
  assumes "distinct_paths s"
  shows "survives s (\<lambda>(result, _) _ w'. rrStatus result = RecoveryComplete \<longrightarrow> (\<exists>j. J j \<and> recovered s env j result w'))"
  unfolding survives_def
proof (intro allI impI, goal_cases)
  case (1 a e f w w')
  show ?case using 1(1) elsewhere_at(3) [OF assms 1(2)] 1(2)
    by (cases a) (auto simp: recovered_def elsewhere_def)
qed

lemma joinSemantic_wpa: "wpa m (\<lambda>(a, _) _ w'. Q a w') w \<Longrightarrow> wpa (joinSemantic m) (\<lambda>a _ w'. Q a w') w"
  by (auto simp: wpa_def joinSemantic_def split: prod.splits)

lemma Recover_post:
  assumes d: "distinct_paths s" and c: "restorer_contract env er"
  shows "wpa (Recover sha s er lc) (\<lambda>result _ w'. rrStatus result = RecoveryComplete \<longrightarrow>
       (\<exists>j. journal_at sha s (w_files w) = Inr j \<and> recovered s env j result w')) w"
    "wpa (RecoverExpected sha s er lc expected) (\<lambda>result _ w'. rrStatus result = RecoveryComplete \<longrightarrow>
       (\<exists>j. journal_at sha s (w_files w) = Inr j \<and> recovered s env j result w')) w"
    "wpa (RecoverExpectedReserved sha s reservation er lc expected) (\<lambda>result _ w'. rrStatus result = RecoveryComplete \<longrightarrow>
       (\<exists>j. journal_at sha s (w_files w) = Inr j \<and> recovered s env j result w')) w"
proof -
  have op: "wpa (recoverLocked sha s er lc ex) (\<lambda>(result, _) _ w'. rrStatus result = RecoveryComplete \<longrightarrow>
       (\<exists>j. journal_at sha s (w_files w) = Inr j \<and> recovered s env j result w')) w1" if "elsewhere s w w1" for ex w1
    using recoverLocked_post [OF d c, of sha lc ex w1] elsewhere_at(1) [OF d that] by simp
  note post = joinSemantic_wpa [OF withInternalReservation_post [OF recovered_survives [OF d] op]]
    joinSemantic_wpa [OF withReservation_post(2) [OF recovered_survives [OF d] op]]
  show "wpa (Recover sha s er lc) (\<lambda>result _ w'. rrStatus result = RecoveryComplete \<longrightarrow>
       (\<exists>j. journal_at sha s (w_files w) = Inr j \<and> recovered s env j result w')) w"
    "wpa (RecoverExpected sha s er lc expected) (\<lambda>result _ w'. rrStatus result = RecoveryComplete \<longrightarrow>
       (\<exists>j. journal_at sha s (w_files w) = Inr j \<and> recovered s env j result w')) w"
    "wpa (RecoverExpectedReserved sha s reservation er lc expected) (\<lambda>result _ w'. rrStatus result = RecoveryComplete \<longrightarrow>
       (\<exists>j. journal_at sha s (w_files w) = Inr j \<and> recovered s env j result w')) w"
    unfolding Recover_def RecoverExpected_def RecoverExpectedReserved_def
    by (intro wpa_ifI wpa_retI post; simp)+
qed

section \<open>Ambiguous ownership\<close>

definition ambiguous :: "sha256 \<Rightarrow> store \<Rightarrow> files \<Rightarrow> bool" where
  "ambiguous sha s f \<longleftrightarrow>
     (case journal_at sha s f of
        Inr j \<Rightarrow> (case receipt_at sha s f of
                    Inr r \<Rightarrow> ValidateBinding j r \<noteq> [] | Inl e \<Rightarrow> ownershipError e)
      | Inl e \<Rightarrow> (case receipt_at sha s f of
                    Inr r \<Rightarrow> ownershipError e
                  | Inl e' \<Rightarrow> \<not> (errors_Is e ErrNotFound \<and> errors_Is e' ErrNotFound)))"

lemma recoverLocked_ambiguous:
  assumes "calm w" and "ambiguous sha s (w_files w)"
  shows "\<exists>e. e \<noteq> [] \<and> recoverLocked sha s er lc expected w = (((zero_recovery, []), e), w)"
proof -
  have "ownershipError e \<Longrightarrow> e \<noteq> []" for e by (auto simp: ownershipError_def)
  then show ?thesis using assms(2)
    unfolding recoverLocked_def ambiguous_def
    by (auto simp: bindA_def tryE_def retA_def checkE_def failE_def locked_readJournal_calm [OF assms(1)]
        locked_readReceipt_calm [OF assms(1)] split: sum.splits)
qed

lemma elsewhere_ext: "elsewhere s w w' \<Longrightarrow> w_ext w' = w_ext w"
  by (simp add: elsewhere_def)

lemma Recover_ambiguous:
  assumes d: "distinct_paths s" and c: "calm w" and a: "ambiguous sha s (w_files w)"
  shows "wpa (Recover sha s er lc)
     (\<lambda>result e w'. e \<noteq> [] \<and> rrStatus result = rrStatus zero_recovery \<and> w_ext w' = w_ext w \<and>
        journal_at sha s (w_files w') = journal_at sha s (w_files w) \<and>
        receipt_at sha s (w_files w') = receipt_at sha s (w_files w)) w"
proof -
  let ?Q = "\<lambda>(result, _::err) e w'. e \<noteq> [] \<and> rrStatus result = rrStatus zero_recovery \<and> w_ext w' = w_ext w \<and>
        journal_at sha s (w_files w') = journal_at sha s (w_files w) \<and>
        receipt_at sha s (w_files w') = receipt_at sha s (w_files w)"
  have Q: "survives s ?Q"
    unfolding survives_def
  proof (intro allI impI, goal_cases)
    case (1 a e f v v')
    then show ?case using elsewhere_at [OF d 1(2)] by (cases a) (auto simp: elsewhere_def)
  qed
  have op: "wpa (recoverLocked sha s er lc None) ?Q w1" if "elsewhere s w w1" for w1
  proof -
    have at: "journal_at sha s (w_files w1) = journal_at sha s (w_files w)" "receipt_at sha s (w_files w1) = receipt_at sha s (w_files w)"
      using elsewhere_at [OF d that] by auto
    have "calm w1" using c that by (simp add: elsewhere_def)
    moreover have "ambiguous sha s (w_files w1)" using a unfolding ambiguous_def at .
    ultimately obtain e where "e \<noteq> []" "recoverLocked sha s er lc None w1 = (((zero_recovery, []), e), w1)"
      using recoverLocked_ambiguous by blast
    then show ?thesis using that at by (simp add: wpa_def elsewhere_def)
  qed
  have "wpa (withInternalReservation sha s (zero_recovery, []) (recoverLocked sha s er lc None)) ?Q w"
  proof (rule withInternalReservation_post [OF Q op], goal_cases)
    case (2 e w')
    then show ?case using elsewhere_at [OF d 2(2)] elsewhere_ext [OF 2(2)] by simp
  qed assumption
  then show ?thesis by (auto simp: Recover_def joinSemantic_def wpa_def errors_Join_def split: prod.splits)
qed

section \<open>Recovery from the receipt alone\<close>

lemma recoverLocked_receipt_only:
  assumes "locked_readJournal sha s w = (Inl e, w1)"
  shows "recoverLocked sha s er lc expected w = recoverLocked sha s er' lc expected w"
  using assms by (simp add: recoverLocked_def bindA_def tryE_def fun_eq_iff split: prod.splits sum.splits)

section \<open>The listener\<close>

lemma stopVerified_never_signals_others:
  assumes "Inspect lc (lpPID expected) w = (Inr (current, live), w')" and "\<not> live \<or> current \<noteq> expected"
  shows "stopVerified lc expected w = ((if live then ''recorded_listener_identity_absent'' else ''listener_absent'', []), w')"
  using assms by (simp add: stopVerified_def bindA_def retA_def)

section \<open>Writing in a world without failures\<close>

definition replaceable :: "int \<Rightarrow> node option \<Rightarrow> bool" where
  "replaceable uid n \<longleftrightarrow> (case n of None \<Rightarrow> True | Some m \<Rightarrow> secure_node uid m)"

definition put_file :: "string \<Rightarrow> node option \<Rightarrow> 'x world \<Rightarrow> 'x world" where
  "put_file path n w = w\<lparr>w_files := (w_files w)(path := n), w_history := w_history w @ [(w_files w)(path := n)]\<rparr>"

lemma put_file_sel [simp]:
  "w_files (put_file path n w) = (w_files w)(path := n)" "calm (put_file path n w) = calm w"
  "w_rand (put_file path n w) = w_rand w" "w_euid (put_file path n w) = w_euid w" "w_ext (put_file path n w) = w_ext w"
  "w_clock (put_file path n w) = w_clock w" "w_ticks (put_file path n w) = w_ticks w"
  by (simp_all add: put_file_def calm_def)

lemma atomicWrite_calm:
  assumes "calm w" and "w_rand w = []" and "w_euid w = uid" and "replaceable uid (w_files w path)"
  shows "atomicWrite path uid data d w = (Inr (), put_file path (Some (created_node uid (length data) d)) w)"
  unfolding atomicWrite_def
  using assms
  by (auto simp: bindE_def tryE_def validateSecureFile_calm replaceable_def randomSuffix_def calm_sysE euidE_def Let_def
      validateOwnerModeFile_def checkE_def returnE_def failE_def faultE_def mutateE_def syncDirectory_def put_file_def [symmetric]
      validateOwnerMode_secure secure_created
      split: option.splits)

lemma removeSecureFile_calm:
  assumes "calm w" and "replaceable uid (w_files w path)"
  shows "removeSecureFile path uid w = (Inr (), if w_files w path = None then w else put_file path None w)"
  unfolding removeSecureFile_def
  using assms
  by (auto simp: bindE_def tryE_def validateSecureFile_calm replaceable_def calm_sysE returnE_def failE_def faultE_def
      mutateE_def syncDirectory_def put_file_def [symmetric] Let_def split: option.splits)

lemma stored_replaceable:
  "stored decode check uid path f = Inr r \<Longrightarrow> replaceable uid (f path)"
  by (auto simp: stored_def replaceable_def split: option.splits if_splits)

lemma removeRecords_calm:
  assumes d: "distinct_paths s" and "calm w" and "replaceable (stUid s) (w_files w (pathReceipt (stPaths s)))"
    and "replaceable (stUid s) (w_files w (pathJournal (stPaths s)))"
  shows "\<exists>w'. removeRecords s w = (Inr (), w')"
  unfolding removeRecords_def
  using assms(2-) distinct_pathsD [OF d]
  by (auto simp: bindE_def removeSecureFile_calm)

lemma Clear_calm:
  assumes "distinct_paths (txStore tx)" and "txActive tx" and c: "calm w"
    and j: "journal_at sha (txStore tx) (w_files w) = Inr j" and r: "receipt_at sha (txStore tx) (w_files w) = Inr r"
    and "ValidateBinding j r = []" and "jGeneration j = eaGeneration expected" "jState j = eaState expected"
  shows "\<exists>w'. Clear sha tx expected w = (Inr (), w')"
proof -
  have "\<exists>w'. removeRecords (txStore tx) w = (Inr (), w')"
    by (rule removeRecords_calm [OF assms(1) c])
      (use j r in \<open>simp_all add: journal_at_def receipt_at_def stored_replaceable\<close>)
  then show ?thesis using assms
    by (simp add: Clear_def bindE_def tryE_def locked_readJournal_calm locked_readReceipt_calm ownershipError_def
        checkE_def returnE_def)
qed

section \<open>Recovery completes\<close>

text \<open>
  Services that work: the recorded listener can be dealt with, and every compare-and-set finds its
  value and restores it.
\<close>

definition working_restorer :: "'x EnvironmentRestorer \<Rightarrow> bool" where
  "working_restorer er \<longleftrightarrow> (\<forall>req w. \<exists>r w'. CompareAndSet er req w = (Inr r, w') \<and> (r = CASRestored \<or> r = CASAlreadyRestored))"

lemma restoreEnvironment_works:
  assumes "working_restorer er" and "external_restorer er"
  shows "\<exists>result' w'. restoreEnvironment er items result ok w = (Inr (result', ok), w') \<and>
     w_files w' = w_files w \<and> (calm w \<longrightarrow> calm w')"
proof (induction items arbitrary: result w)
  case (Cons item items)
  obtain r w1 where cas: "CompareAndSet er (restore_request item) w = (Inr r, w1)" "r = CASRestored \<or> r = CASAlreadyRestored"
    using assms(1) unfolding working_restorer_def by blast
  have same: "w_files w1 = w_files w" "calm w \<longrightarrow> calm w1"
    using assms(2) arg_cong [OF cas(1), of snd] unfolding external_restorer_def external_def calm_def by (metis snd_conv)+
  obtain result' w' where "restoreEnvironment er items (result\<lparr>rrRestoredEnvironment := rrRestoredEnvironment result @ [jeName item]\<rparr>) ok w1
      = (Inr (result', ok), w')" "w_files w' = w_files w1" "calm w1 \<longrightarrow> calm w'"
    using Cons.IH by blast
  then show ?case using cas same CAS_distinct [symmetric] by (auto simp: bindE_def tryE_def)
qed (simp add: returnE_def)

lemma external_undisturbed:
  "external m \<Longrightarrow> keeps (\<lambda>v. w_files v = w_files w0 \<and> (calm w0 \<longrightarrow> calm v)) m"
  by (rule keepsI) (auto simp: wp_snd external_def calm_def)

lemma stopVerified_undisturbed:
  assumes "external_controller lc" and "stopVerified lc p w = (r, w')"
  shows "w_files w' = w_files w \<and> (calm w \<longrightarrow> calm w')"
proof -
  have lc: "external (Inspect lc q)" "external (Stop lc p')" for q p'
    using assms(1) by (simp_all add: external_controller_def)
  have "keepsA (\<lambda>v. w_files v = w_files w \<and> (calm w \<longrightarrow> calm v)) (stopVerified lc p)"
    unfolding stopVerified_def by (intro keeps_intros external_undisturbed lc)
  from keepsA_result [OF this _ assms(2)] show ?thesis by simp
qed

lemma recoverLocked_completes:
  assumes d: "distinct_paths s" and c: "calm w"
    and j: "journal_at sha s (w_files w) = Inr j" and r: "receipt_at sha s (w_files w) = Inr r" and b: "ValidateBinding j r = []"
    and er: "working_restorer er" "external_restorer er" and lc: "external_controller lc"
    and stop: "\<And>v. snd (fst (stopVerified lc (proofFromJournal j) v)) = []"
    and ex: "expected = None \<or> expected = Some \<lparr>erActivationID = jActivationID j, erGeneration = jGeneration j\<rparr>"
  shows "\<exists>result w'. recoverLocked sha s er lc expected w = (((result, []), []), w') \<and> rrStatus result = RecoveryComplete"
proof -
  obtain ev w1 where st: "stopVerified lc (proofFromJournal j) w = ((ev, []), w1)"
    using stop [of w] by (cases "stopVerified lc (proofFromJournal j) w") (metis prod.exhaust fst_conv snd_conv)
  note w1 = stopVerified_undisturbed [OF lc st]
  let ?res = "zero_recovery\<lparr>rrListenerEvidence := ev, rrManualRemediation := rrManualRemediation zero_recovery @ []\<rparr>"
  obtain result w2 where env: "restoreEnvironment er (jEnvironment j) ?res True w1 = (Inr (result, True), w2)"
    and w2: "w_files w2 = w_files w1" "calm w1 \<longrightarrow> calm w2"
    using restoreEnvironment_works [OF er] by blast
  have "\<exists>w3. Clear sha \<lparr>txStore = s, txActive = True\<rparr> \<lparr>eaGeneration = jGeneration j, eaState = jState j\<rparr> w2 = (Inr (), w3)"
    by (rule Clear_calm) (use d c w1 w2 j r b in simp_all)
  then obtain w3 where cl: "Clear sha \<lparr>txStore = s, txActive = True\<rparr> \<lparr>eaGeneration = jGeneration j, eaState = jState j\<rparr> w2 = (Inr (), w3)"
    by blast
  have "recoverFromJournal sha s er lc j m zero_recovery w = (((result\<lparr>rrStatus := RecoveryComplete\<rparr>, []), []), w3)" for m
    using st env cl by (simp add: recoverFromJournal_def bindA_def pairA_def settleRecovery_def retA_def Let_def)
  then show ?thesis using ex
    by (auto simp: recoverLocked_def bindA_def tryE_def locked_readJournal_calm [OF c] locked_readReceipt_calm [OF c]
        j r b ownershipError_def unexpected_def checkE_def returnE_def)
qed

section \<open>A transient failure makes the records ambiguous\<close>

text \<open>
  When reading the journal fails for a reason other than its content, recovery falls back to the
  receipt and rewrites it, although the journal is intact.  The rewritten receipt no longer matches
  the journal: from then on ownership is ambiguous.
\<close>

lemma external_settings:
  "external m \<Longrightarrow> keeps (\<lambda>v. w_files v = f \<and> calm v \<and> w_rand v = [] \<and> w_euid v = u) m"
  by (rule keepsI) (auto simp: wp_snd external_def calm_def)

lemma rewritten_receipt_unbound:
  assumes "jState j = ''active''" and "receipt_stamped sha (r\<lparr>rState := ''recovery_required''\<rparr>) r'"
  shows "ValidateBinding j r' \<noteq> []"
proof -
  have "rState r' = ''recovery_required''"
    using arg_cong [OF conjunct1 [OF assms(2) [unfolded receipt_stamped_def]], of rState] by simp
  then show ?thesis using assms(1) by (simp add: ValidateBinding_def expectedReceiptState_def)
qed

lemma recover_after_read_failure:
  assumes d: "distinct_paths s" and io: "w_io w = [failure]" "outcome_err failure \<noteq> []"
    and set: "w_rand w = []" "w_euid w = stUid s"
    and j: "journal_at sha s (w_files w) = Inr j" and active: "jState j = ''active''"
    and r: "receipt_at sha s (w_files w) = Inr r"
    and enc: "marshalChecksummed sha receipt_json set_receipt_checksum (r\<lparr>rState := ''recovery_required''\<rparr>) = Inr (data, r')"
      "length data \<le> maxRecordSize" "wire_receipt (r\<lparr>rState := ''recovery_required''\<rparr>) = r\<lparr>rState := ''recovery_required''\<rparr>"
    and lc: "external_controller lc"
  shows "\<exists>result sem w'. recoverLocked sha s er lc None w = (((result, sem), []), w') \<and> ambiguous sha s (w_files w')"
proof -
  let ?w1 = "w\<lparr>w_io := []\<rparr>" and ?r = "r\<lparr>rState := ''recovery_required''\<rparr>"
  have c: "calm ?w1" by (simp add: calm_def)
  have rd: "locked_readJournal sha s w = (Inl (outcome_err failure), ?w1)"
    using io outcome_err_cases [OF io(2)]
    by (simp add: locked_readJournal_def readJournal_def readRecord_def readSecureFile_def validateSecureFile_def
        bindE_def tryE_def sysE_def failE_def)
  have no: "\<not> ownershipError (outcome_err failure)"
    using outcome_err_cases [OF io(2)] by (simp add: ownershipError_def)
  have lc': "external (Inspect lc q)" "external (Stop lc p')" for q p'
    using lc by (simp_all add: external_controller_def)
  have keep: "keepsA (\<lambda>v. w_files v = w_files w \<and> calm v \<and> w_rand v = [] \<and> w_euid v = stUid s) (stopVerified lc p)" for p
    unfolding stopVerified_def by (intro keeps_intros external_settings lc')
  obtain ev e w2 where st: "stopVerified lc (proofFromReceipt r) ?w1 = ((ev, e), w2)" by (metis prod.exhaust)
  have w2: "w_files w2 = w_files w \<and> calm w2 \<and> w_rand w2 = [] \<and> w_euid w2 = stUid s"
    by (rule keepsA_result [OF keep _ st]) (use c set in simp)
  have chk: "receipt_check sha (stUid s) r = []" "replaceable (stUid s) (w_files w (pathReceipt (stPaths s)))"
    using r by (auto simp: receipt_at_def stored_def replaceable_def split: option.splits if_splits)
  then have valid: "rOwnerUID ?r = stUid s" "Receipt_Validate ?r = []"
    using Receipt_Validate_state [of r "''recovery_required''"] by (auto simp: receipt_check_def split: if_splits)
  let ?w3 = "put_file (pathReceipt (stPaths s)) (Some (created_node (stUid s) (length data) (empty_doc\<lparr>doc_receipt := Some (wire_receipt r')\<rparr>))) w2"
  have wr: "writeReceipt sha s ?r w2 = (Inr r', ?w3)"
    using valid enc(1) atomicWrite_calm [of w2 "stUid s"] w2 chk(2) by (simp add: writeReceipt_def bindE_def returnE_def checkE_def)
  have "wp (writeReceipt sha s ?r) (\<lambda>x w'. receipt_stamped sha ?r x \<and> receipt_at sha s (w_files w') = Inr x \<and>
      (\<exists>n. wrote (pathReceipt (stPaths s)) (Some n) w2 w')) (\<lambda>_ _. True) w2"
    by (rule wp_mono [OF writeReceipt_spec]) (use enc in \<open>auto simp: receipt_storable_def fits_def\<close>)
  with wr have post: "receipt_stamped sha ?r r'" "receipt_at sha s (w_files ?w3) = Inr r'" by (simp_all add: wp_def)
  have "journal_at sha s (w_files ?w3) = Inr j"
    using j w2 distinct_pathsD [OF d] by (simp add: journal_frame)
  with post rewritten_receipt_unbound [OF active post(1)] have "ambiguous sha s (w_files ?w3)"
    unfolding ambiguous_def by (simp del: put_file_sel)
  moreover have "\<exists>result sem. recoverLocked sha s er lc None w = (((result, sem), []), ?w3)"
    using no st wr by (simp add: recoverLocked_def recoverFromReceiptOnly_def bindA_def tryE_def pairA_def retA_def Let_def rd
        locked_readReceipt_calm [OF c] r ownershipError_def unexpected_def)
  ultimately show ?thesis by blast
qed

end
