(* ===== verification/LiveRecovery.thy ===== *)
theory LiveRecovery
  imports RecoveryResults
begin

text \<open>
  Liveness of recovery (\<open>internal/proxy/state/recovery_unix.go\<close>): in a world whose system calls
  succeed, with no competing reservation and with services that work, the exported \<open>Recover\<close> takes
  its reservation, completes and releases it.
\<close>

section \<open>The wrappers in a world without failures\<close>

lemma lockFile_calm:
  assumes "calm w" and "w_euid w = uid" and "replaceable uid (w_files w path)"
  shows "lockFile path uid w =
     (Inr (), if w_files w path = None then put_file path (Some (created_node uid 0 empty_doc)) w else w)"
proof (cases "w_files w path")
  case None
  then show ?thesis using assms
    by (simp add: lockFile_def bindE_def tryE_def calm_def sysE_def lookupE_def euidE_def Let_def mutateE_def returnE_def
        validateOwnerModeFile_def validateOwnerMode_secure checkE_def put_file_def)
next
  case (Some n)
  then have "secure_node uid n" using assms(3) by (simp add: replaceable_def)
  then show ?thesis using assms Some
    by (simp add: lockFile_def bindE_def tryE_def calm_def sysE_def lookupE_def Let_def returnE_def failE_def
        validateOwnerModeFile_def validateOwnerMode_secure checkE_def) (simp add: secure_node_def)
qed

lemma unlockFile_calm: "calm w \<Longrightarrow> unlockFile w = (Inr (), w)"
  by (simp add: unlockFile_def bindE_def tryE_def calm_sysE checkE_def errors_Join_def returnE_def)

text \<open>A world in which the store's own calls succeed: nothing fails and the clock stands still.\<close>

definition friendly :: "store \<Rightarrow> 'x world \<Rightarrow> bool" where
  "friendly s w \<longleftrightarrow> calm w \<and> w_rand w = [] \<and> w_euid w = stUid s \<and> replaceable (stUid s) (w_files w (pathLock (stPaths s)))"

lemma friendly_lock:
  assumes "friendly s w"
  obtains w1 where "lockFile (pathLock (stPaths s)) (stUid s) w = (Inr (), w1)" "friendly s w1"
    "\<And>p. p \<noteq> pathLock (stPaths s) \<Longrightarrow> w_files w1 p = w_files w p" "w_clock w1 = w_clock w" "w_ticks w1 = w_ticks w"
proof -
  have "lockFile (pathLock (stPaths s)) (stUid s) w = (Inr (), if w_files w (pathLock (stPaths s)) = None
      then put_file (pathLock (stPaths s)) (Some (created_node (stUid s) 0 empty_doc)) w else w)"
    using assms by (intro lockFile_calm) (simp_all add: friendly_def)
  then show thesis
    by (rule that) (use assms in \<open>auto simp: friendly_def replaceable_def secure_created\<close>)
qed

lemma withLifecycleLock_calm:
  assumes "lockFile (pathLock (stPaths s)) (stUid s) w = (Inr (), w1)" and "operation w1 = ((a, []), w2)" and "calm w2"
  shows "withLifecycleLock s z operation w = ((a, []), w2)"
  using assms by (simp add: withLifecycleLock_def bindA_def unlockFile_calm errors_Join_def)

lemma nowE_still: "w_ticks w = [] \<Longrightarrow> nowE w = (Inr (w_clock w), w)"
  by (simp add: nowE_def)

text \<open>A reservation that is taken without a competitor.\<close>

lemma reservation_marshals:
  fixes v :: Reservation
  assumes "formatRFC3339Nano (vExpiresAt v) = Some x" and "int64_ok (vOwnerUID v)" and "coerceUTF8 (vNonce v) = vNonce v"
    and "length (vNonce v) \<le> 128" and "- (10 ^ 11) < vOwnerUID v" "vOwnerUID v < 10 ^ 11"
  obtains data v' where "marshalChecksummed sha reservation_json set_reservation_checksum v = Inr (data, v')"
    "length data \<le> maxRecordSize"
proof -
  let ?kvs = "\<lambda>c. [(''nonce'', JString (vNonce v)), (''ownerUid'', jint (vOwnerUID v)), (''expiresAt'', JString x), (''checksum'', jstr c)]"
  have json: "reservation_json (v\<lparr>vChecksum := c\<rparr>) = Some (?kvs c)" for c
    using assms(1,3) by (simp add: reservation_json_def)
  have ok: "json_ok (JObject (?kvs c))" "json_ok (JObject (without_checksum (?kvs c)))" for c
    using assms(2) by (simp_all add: without_checksum_def del: json_ok.simps(1))
  have uid: "length (formatInt (vOwnerUID v)) \<le> 12"
    using int_digits_length [of "\<bar>vOwnerUID v\<bar>" 10] assms(5,6) by (auto simp: formatInt_def)
  have cost: "json_cost (JObject (?kvs (digest_text sha t))) \<le> maxRecordSize" for t
    using assms(4) uid formatRFC3339Nano_length [OF assms(1)] by (simp add: maxRecordSize_def)
  obtain t where t: "writeCanonical (JObject (without_checksum (?kvs (vChecksum v)))) = Some t"
    using writeCanonical_length [OF ok(2)] by blast
  obtain d where d: "writeCanonical (JObject (?kvs (digest_text sha t))) = Some d" "length d \<le> maxRecordSize"
    using writeCanonical_length [OF ok(1)] cost order_trans by blast
  have "checksumRecord sha (reservation_json v) = Inr (digest_text sha t)"
    using json [of "vChecksum v"] t by (simp add: checksumRecord_def del: writeCanonical.simps)
  then have "marshalChecksummed sha reservation_json set_reservation_checksum v = Inr (d, v\<lparr>vChecksum := digest_text sha t\<rparr>)"
    using d(1) by (simp add: marshalChecksummed_def set_reservation_checksum_def json canonicalJSON_def Let_def del: writeCanonical.simps)
  with d(2) that show thesis by blast
qed

lemma bindA_Inr: "m w = (Inr x, w') \<Longrightarrow> bindA m a f w = f x w'"
  by (simp add: bindA_def)

definition taken :: "store \<Rightarrow> string \<Rightarrow> int \<Rightarrow> 'x world \<Rightarrow> Reservation" where
  "taken s nonce ttl w = \<lparr>vNonce = nonce, vOwnerUID = stUid s, vExpiresAt = w_clock w + ttl, vChecksum = ''''\<rparr>"

lemma writeReservation_friendly:
  assumes "friendly s w" and "reservation_storable sha s v" and "replaceable (stUid s) (w_files w (pathReservation (stPaths s)))"
    and "marshalChecksummed sha reservation_json set_reservation_checksum v = Inr (data, v')" and "distinct_paths s"
  obtains w' where "writeReservation sha s v w = (Inr v', w')" "friendly s w'" "reservation_at sha s (w_files w') = Inr v'"
    "v' = v\<lparr>vChecksum := vChecksum v'\<rparr>"
    "\<And>p. p \<noteq> pathReservation (stPaths s) \<Longrightarrow> w_files w' p = w_files w p" "w_clock w' = w_clock w" "w_ticks w' = w_ticks w"
    "replaceable (stUid s) (w_files w' (pathReservation (stPaths s)))"
proof -
  let ?w = "put_file (pathReservation (stPaths s)) (Some (created_node (stUid s) (length data) (empty_doc\<lparr>doc_reservation := Some (wire_reservation v')\<rparr>))) w"
  have wr: "writeReservation sha s v w = (Inr v', ?w)"
    using assms atomicWrite_calm [of w "stUid s"] by (simp add: writeReservation_def friendly_def bindE_def returnE_def)
  have "wp (writeReservation sha s v) (\<lambda>v' w'. reservation_stamped sha v v' \<and> reservation_at sha s (w_files w') = Inr v' \<and>
        (\<exists>n. wrote (pathReservation (stPaths s)) (Some n) w w')) (\<lambda>_ _. True) w"
    by (rule wp_mono [OF writeReservation_spec [OF assms(2)]]) auto
  with wr have "reservation_stamped sha v v'" "reservation_at sha s (w_files ?w) = Inr v'" by (simp_all add: wp_def)
  then show thesis
    by (intro that [OF wr]) (use assms distinct_pathsD [OF assms(5)] in \<open>auto simp: friendly_def reservation_stamped_def replaceable_def secure_created\<close>)
qed

lemma Reserve_friendly:
  assumes d: "distinct_paths s" and f: "friendly s w" and still: "w_ticks w = []"
    and free: "w_files w (pathReservation (stPaths s)) = None"
    and nonce: "validNonce nonce" "coerceUTF8 nonce = nonce" and ttl: "0 < ttl" "ttl \<le> five_minutes"
    and time: "formatRFC3339Nano (w_clock w + ttl) = Some x" "w_clock w + ttl \<noteq> zero_time"
    and uid: "- (10 ^ 11) < stUid s" "stUid s < 10 ^ 11"
  obtains v w' where "Reserve sha s nonce ttl w = ((v, []), w')" "friendly s w'" "reservation_at sha s (w_files w') = Inr v"
    "vOwnerUID v = stUid s" "vExpiresAt v = w_clock w + ttl"
    "\<And>p. p \<noteq> pathReservation (stPaths s) \<Longrightarrow> p \<noteq> pathLock (stPaths s) \<Longrightarrow> w_files w' p = w_files w p"
    "w_clock w' = w_clock w" "w_ticks w' = []" "replaceable (stUid s) (w_files w' (pathReservation (stPaths s)))"
proof -
  obtain w1 where lock: "lockFile (pathLock (stPaths s)) (stUid s) w = (Inr (), w1)" and w1: "friendly s w1"
    "\<And>p. p \<noteq> pathLock (stPaths s) \<Longrightarrow> w_files w1 p = w_files w p" "w_clock w1 = w_clock w" "w_ticks w1 = w_ticks w"
    using friendly_lock [OF f] by blast
  let ?v = "taken s nonce ttl w"
  have len: "length nonce \<le> 128" using nonce(1) by (simp add: validNonce_def)
  have i64: "int64_ok (stUid s)" using uid by (simp add: int64_ok_def)
  obtain data v' where m: "marshalChecksummed sha reservation_json set_reservation_checksum ?v = Inr (data, v')"
    "length data \<le> maxRecordSize"
    using reservation_marshals [of ?v x sha] time(1) i64 nonce(2) len uid by (auto simp: taken_def)
  have st: "reservation_storable sha s ?v"
    using m nonce time(2) by (simp add: reservation_storable_def taken_def wire_reservation_def fits_def time_IsZero_def coerceUTF8_ascii)
  have no: "w_files w1 (pathReservation (stPaths s)) = None" using w1(2) distinct_pathsD [OF d] free by simp
  obtain w2 where w2: "writeReservation sha s ?v w1 = (Inr v', w2)" "friendly s w2" "reservation_at sha s (w_files w2) = Inr v'"
    "v' = ?v\<lparr>vChecksum := vChecksum v'\<rparr>"
    "\<And>p. p \<noteq> pathReservation (stPaths s) \<Longrightarrow> w_files w2 p = w_files w1 p" "w_clock w2 = w_clock w1" "w_ticks w2 = w_ticks w1"
    "replaceable (stUid s) (w_files w2 (pathReservation (stPaths s)))"
    by (rule writeReservation_friendly [OF w1(1) st _ m(1) d]) (use no in \<open>auto simp: replaceable_def\<close>)
  have rd: "readReservation sha s w1 = (Inl [ErrNotFound], w1)"
    using readReservation_calm [of w1 sha s] w1(1) no by (simp add: friendly_def reservation_at_def stored_def)
  have "Reserve sha s nonce ttl w = ((v', []), w2)"
    unfolding Reserve_def Let_def
    by (use nonce ttl in \<open>simp add: bindA_Inr [of nowE, OF nowE_still [OF still]]\<close>, rule withLifecycleLock_calm [OF lock])
      (use rd w2(1,2) in \<open>simp_all add: tryE_def bindA_def retA_def friendly_def taken_def\<close>)
  moreover have "vOwnerUID v' = stUid s" "vExpiresAt v' = w_clock w + ttl"
    using arg_cong [OF w2(4), of vOwnerUID] arg_cong [OF w2(4), of vExpiresAt] by (simp_all add: taken_def)
  moreover have "w_files w2 p = w_files w p" if "p \<noteq> pathReservation (stPaths s)" "p \<noteq> pathLock (stPaths s)" for p
    using w1(2) w2(5) that by simp
  ultimately show thesis using that w1(3,4) w2(2,3,6-8) still by simp
qed

text \<open>An operation that succeeds and leaves the store's files alone, run under a reservation.\<close>

lemma withReservation_friendly:
  assumes d: "distinct_paths s" and f: "friendly s w" and still: "w_ticks w = []"
    and held: "reservation_at sha s (w_files w) = Inr v" "w_clock w < vExpiresAt v"
    and rep: "replaceable (stUid s) (w_files w (pathReservation (stPaths s)))"
    and op: "\<And>w1. calm w1 \<Longrightarrow> (\<And>p. p \<noteq> pathLock (stPaths s) \<Longrightarrow> w_files w1 p = w_files w p) \<Longrightarrow>
       \<exists>a w2. operation w1 = ((a, []), w2) \<and> P a \<and> calm w2 \<and>
         w_files w2 (pathReservation (stPaths s)) = w_files w1 (pathReservation (stPaths s))"
  shows "\<exists>a w'. withReservation sha s v z operation w = ((a, []), w') \<and> P a"
proof -
  obtain w1 where lock: "lockFile (pathLock (stPaths s)) (stUid s) w = (Inr (), w1)" and w1: "friendly s w1"
    "\<And>p. p \<noteq> pathLock (stPaths s) \<Longrightarrow> w_files w1 p = w_files w p" "w_clock w1 = w_clock w" "w_ticks w1 = w_ticks w"
    using friendly_lock [OF f] by blast
  have c: "calm w1" using w1(1) by (simp add: friendly_def)
  obtain a w2 where run: "operation w1 = ((a, []), w2)" "P a" "calm w2"
    "w_files w2 (pathReservation (stPaths s)) = w_files w1 (pathReservation (stPaths s))"
    using op [OF c w1(2)] by blast
  have same: "w_files w1 (pathReservation (stPaths s)) = w_files w (pathReservation (stPaths s))"
    using w1(2) distinct_pathsD [OF d] by simp
  have rd: "readReservation sha s w1 = (Inr v, w1)"
    using readReservation_calm [OF c, of sha s] held(1) same by (simp add: reservation_at_def stored_def)
  have own: "vOwnerUID v = stUid s" by (rule Reservation_at_owner [OF held(1)])
  obtain w3 where rm: "removeSecureFile (pathReservation (stPaths s)) (stUid s) w2 = (Inr (), w3)" "calm w3"
    using removeSecureFile_calm [of w2 "stUid s" "pathReservation (stPaths s)"] run(3,4) rep same by fastforce
  have "withReservation sha s v z operation w = ((a, []), w3)"
    unfolding withReservation_def withOwnedReservation_def
    by (rule withLifecycleLock_calm [OF lock])
      (use rd own held(2) w1(3,4) still run rm in \<open>simp_all add: bindA_def tryE_def retA_def nowE_still\<close>)
  then show ?thesis using run(2) by blast
qed

section \<open>Recovery leaves the reservation alone\<close>

definition file_is :: "string \<Rightarrow> node option \<Rightarrow> 'x world \<Rightarrow> bool" where
  "file_is p n w \<longleftrightarrow> w_files w p = n"

lemma file_is_change:
  assumes "\<And>w. wp m (\<lambda>_ w'. quiet w w' \<or> (\<exists>n. wrote q n w w')) (\<lambda>_ w'. quiet w w' \<or> (\<exists>n. wrote q n w w')) w" and "q \<noteq> p"
  shows "keeps (file_is p n) m"
  by (rule keepsI, rule wp_mono [OF assms(1)]) (use assms(2) in \<open>auto simp: file_is_def quiet_def wrote_def\<close>)

lemma file_is_files:
  "q \<noteq> p \<Longrightarrow> keeps (file_is p n) (atomicWrite q uid data d)" "q \<noteq> p \<Longrightarrow> keeps (file_is p n) (removeSecureFile q uid)"
  by (rule file_is_change [of _ q]; auto intro: wp_mono [OF atomicWrite_spec] wp_mono [OF removeSecureFile_spec])+

lemma file_is_reads: "reads m view \<Longrightarrow> keeps (file_is p n) m"
  by (auto simp: keeps_def reads_def file_is_def quiet_def intro: wp_mono)

lemma file_is_now: "keeps (file_is p n) nowE"
  by (auto simp: keeps_def file_is_def intro!: wp_nowE)

lemma file_is_records:
  assumes "pathJournal (stPaths s) \<noteq> p" "pathReceipt (stPaths s) \<noteq> p"
  shows "keeps (file_is p n) (locked_readJournal sha s)" "keeps (file_is p n) (locked_readReceipt sha s)"
    "keeps (file_is p n) (writeJournal sha s j)" "keeps (file_is p n) (writeReceipt sha s r)" "keeps (file_is p n) (removeRecords s)"
  unfolding writeJournal_def writeReceipt_def removeRecords_def
  by (intro keeps_intros file_is_files file_is_reads [OF locked_readJournal_reads] file_is_reads [OF locked_readReceipt_reads] assms)+

lemma file_is_transaction:
  assumes "pathJournal (stPaths (txStore tx)) \<noteq> p" "pathReceipt (stPaths (txStore tx)) \<noteq> p"
  shows "keeps (file_is p n) (Transition sha tx expected j mechanism)" "keeps (file_is p n) (Clear sha tx expected)"
  unfolding Transition_def commit_def Clear_def
  by (intro keeps_intros file_is_records file_is_files assms)+

lemma file_is_external: "external m \<Longrightarrow> keeps (file_is p n) m"
  by (rule keepsI) (auto simp: wp_snd external_def file_is_def)

lemma recoverLocked_invariant:
  assumes ext: "\<And>req. keeps P (CompareAndSet er req)" "\<And>q. keeps P (Inspect lc q)" "\<And>x. keeps P (Stop lc x)"
    and reads: "keeps P (locked_readJournal sha s)" "keeps P (locked_readReceipt sha s)" "keeps P nowE"
    and writes: "\<And>r. keeps P (writeReceipt sha s r)"
      "\<And>expected j mechanism. keeps P (Transition sha \<lparr>txStore = s, txActive = True\<rparr> expected j mechanism)"
      "\<And>expected. keeps P (Clear sha \<lparr>txStore = s, txActive = True\<rparr> expected)"
  shows "keepsA P (recoverLocked sha s er lc expected)"
proof -
  have stop: "keepsA P (stopVerified lc x)" for x
    unfolding stopVerified_def by (intro keeps_intros ext)
  have env: "keeps P (restoreEnvironment er items result ok)" for items result ok
    by (induction items arbitrary: result ok) (simp_all add: keeps_intros ext)
  show ?thesis
    unfolding recoverLocked_def recoverFromJournal_def settleRecovery_def recoverFromReceiptOnly_def Let_def
    by (intro keeps_intros reads writes stop env)
qed

lemma recoverLocked_file:
  assumes "external_restorer er" and "external_controller lc" and "pathJournal (stPaths s) \<noteq> p" "pathReceipt (stPaths s) \<noteq> p"
  shows "keepsA (file_is p n) (recoverLocked sha s er lc expected)"
  by (rule recoverLocked_invariant)
    (use assms in \<open>auto simp: external_restorer_def external_controller_def
      intro: file_is_external file_is_records file_is_transaction file_is_now\<close>)

lemma calm_external: "external m \<Longrightarrow> keeps calm m"
  by (rule keepsI) (auto simp: wp_snd external_def calm_def)

lemma recoverLocked_calm:
  assumes "external_restorer er" and "external_controller lc"
  shows "keepsA calm (recoverLocked sha s er lc expected)"
  by (rule recoverLocked_invariant)
    (use assms in \<open>auto simp: external_restorer_def external_controller_def
      intro: calm_external calm_primitives calm_reads calm_records calm_transaction\<close>)

section \<open>Recovery completes\<close>

text \<open>An operation under a reservation the store takes for itself.\<close>

lemma withInternalReservation_friendly:
  assumes d: "distinct_paths s" and f: "friendly s w" and still: "w_ticks w = []"
    and free: "w_files w (pathReservation (stPaths s)) = None"
    and time: "formatRFC3339Nano (w_clock w + 30 * time_Second) = Some x" "w_clock w + 30 * time_Second \<noteq> zero_time"
    and uid: "- (10 ^ 11) < stUid s" "stUid s < 10 ^ 11"
    and op: "\<And>w1. calm w1 \<Longrightarrow> (\<And>p. p \<noteq> pathReservation (stPaths s) \<Longrightarrow> p \<noteq> pathLock (stPaths s) \<Longrightarrow> w_files w1 p = w_files w p) \<Longrightarrow>
       \<exists>a w2. operation w1 = ((a, []), w2) \<and> P a \<and> calm w2 \<and>
         w_files w2 (pathReservation (stPaths s)) = w_files w1 (pathReservation (stPaths s))"
  shows "\<exists>a w'. withInternalReservation sha s z operation w = ((a, []), w') \<and> P a"
proof -
  obtain nonce where nonce: "validNonce nonce" "coerceUTF8 nonce = nonce" and random: "randomSuffix w = (Inr nonce, w)"
  proof
    show "validNonce (hex_digits 32 0)" "coerceUTF8 (hex_digits 32 0) = hex_digits 32 0" by code_simp+
    show "randomSuffix w = (Inr (hex_digits 32 0), w)" using f by (simp add: friendly_def randomSuffix_def)
  qed
  have ttl: "0 < 30 * time_Second" "30 * time_Second \<le> five_minutes" by (simp_all add: time_Second_def five_minutes_def)
  obtain v w1 where res: "Reserve sha s nonce (30 * time_Second) w = ((v, []), w1)"
    and w1: "friendly s w1" "reservation_at sha s (w_files w1) = Inr v" "vExpiresAt v = w_clock w + 30 * time_Second"
      "\<And>p. p \<noteq> pathReservation (stPaths s) \<Longrightarrow> p \<noteq> pathLock (stPaths s) \<Longrightarrow> w_files w1 p = w_files w p"
      "w_clock w1 = w_clock w" "w_ticks w1 = []" "replaceable (stUid s) (w_files w1 (pathReservation (stPaths s)))"
    using Reserve_friendly [OF d f still free nonce ttl time uid, of sha] by blast
  have live: "w_clock w1 < vExpiresAt v" using w1(3,5) ttl by simp
  have "\<exists>a w'. withReservation sha s v z operation w1 = ((a, []), w') \<and> P a"
    by (rule withReservation_friendly [OF d w1(1,6,2) live w1(7)], rule op) (use w1(4) in auto)
  then obtain a w' where run: "withReservation sha s v z operation w1 = ((a, []), w')" "P a" by blast
  have "withInternalReservation sha s z operation w = ((a, []), w')"
    by (simp add: withInternalReservation_def bindA_def ioA_def random res run(1))
  with run(2) show ?thesis by blast
qed

lemma Recover_completes:
  assumes d: "distinct_paths s" and f: "friendly s w" and still: "w_ticks w = []"
    and free: "w_files w (pathReservation (stPaths s)) = None"
    and time: "formatRFC3339Nano (w_clock w + 30 * time_Second) = Some x" "w_clock w + 30 * time_Second \<noteq> zero_time"
    and uid: "- (10 ^ 11) < stUid s" "stUid s < 10 ^ 11"
    and j: "journal_at sha s (w_files w) = Inr j" and r: "receipt_at sha s (w_files w) = Inr r" and b: "ValidateBinding j r = []"
    and er: "working_restorer er" "external_restorer er" and lc: "external_controller lc"
    and stop: "\<And>v. snd (fst (stopVerified lc (proofFromJournal j) v)) = []"
  shows "\<exists>result w'. Recover sha s er lc w = ((result, []), w') \<and> rrStatus result = RecoveryComplete"
proof -
  have "\<exists>a w3. recoverLocked sha s er lc None w2 = ((a, []), w3) \<and> (snd a = [] \<and> rrStatus (fst a) = RecoveryComplete) \<and>
      calm w3 \<and> w_files w3 (pathReservation (stPaths s)) = w_files w2 (pathReservation (stPaths s))"
    if c: "calm w2" and same: "\<And>p. p \<noteq> pathReservation (stPaths s) \<Longrightarrow> p \<noteq> pathLock (stPaths s) \<Longrightarrow> w_files w2 p = w_files w p" for w2
  proof -
    have "journal_at sha s (w_files w2) = Inr j" "receipt_at sha s (w_files w2) = Inr r"
      using j r same distinct_pathsD [OF d] by (simp_all add: journal_at_def receipt_at_def stored_def)
    from recoverLocked_completes [OF d c this b er lc stop] obtain result w3
      where run: "recoverLocked sha s er lc None w2 = (((result, []), []), w3)" and "rrStatus result = RecoveryComplete" by blast
    moreover have "calm w3" by (rule keepsA_result [OF recoverLocked_calm [OF er(2) lc] c run])
    moreover have "file_is (pathReservation (stPaths s)) (w_files w2 (pathReservation (stPaths s))) w3"
      by (rule keepsA_result [OF recoverLocked_file [OF er(2) lc] _ run]) (use distinct_pathsD [OF d] in \<open>auto simp: file_is_def\<close>)
    ultimately show ?thesis by (auto simp: file_is_def)
  qed
  from withInternalReservation_friendly [OF d f still free time uid, where P = "\<lambda>a. snd a = [] \<and> rrStatus (fst a) = RecoveryComplete", OF this]
  obtain a w4 where "withInternalReservation sha s (zero_recovery, []) (recoverLocked sha s er lc None) w = ((a, []), w4)"
    "snd a = []" "rrStatus (fst a) = RecoveryComplete" by blast
  then show ?thesis by (cases a) (auto simp: Recover_def joinSemantic_def errors_Join_def)
qed

end
