(* ===== verification/ProxyPolicy.thy ===== *)
theory ProxyPolicy
  imports ProxyRecords
begin

text \<open>
  Routing policies: the types and validators of \<open>internal/proxycontract/contracts.gen.go\<close> that the
  router relies on.
\<close>

section \<open>The policy contract\<close>

type_synonym Protocol = string
type_synonym DataClass = string
type_synonym DataBoundary = string
type_synonym Capability = string
type_synonym CostClass = string
type_synonym RetryableReason = string

definition ProtocolOpenAIResponses :: Protocol where [go_defs]: "ProtocolOpenAIResponses = ''openai-responses''"
definition ProtocolOpenAIChat :: Protocol where [go_defs]: "ProtocolOpenAIChat = ''openai-chat''"
definition ProtocolAnthropicMessages :: Protocol where [go_defs]: "ProtocolAnthropicMessages = ''anthropic-messages''"

record Endpoint =
  epScheme :: string
  epHostname :: string
  epPort :: int
  epBasePath :: string
  epHostnameAllowlist :: "string list"
  epResolvedAddressPolicy :: string

record Route =
  rtID :: string
  rtDestinationClass :: string
  rtEndpoint :: Endpoint
  rtSourceProtocols :: "Protocol list"
  rtDestinationProtocol :: Protocol
  rtModel :: string
  rtCapabilities :: "Capability list"
  rtAcceptedDataClasses :: "DataClass list"
  rtDataBoundary :: DataBoundary
  rtHealthTimeoutMS :: int
  rtCredentialRef :: string
  rtCostClass :: CostClass

record Alias =
  alRouteIDs :: "string list"
  alDataClass :: DataClass
  alAllowedDestinationBoundaries :: "DataBoundary list"

record RequestLimits =
  rlMaxContextTokens :: int
  rlMaxOutputTokens :: int
  rlTimeoutMS :: int
  rlStreaming :: bool
  rlMaxCostClass :: CostClass

text \<open>Slices that may be nil are options, as the validator tells nil from empty.\<close>

record Fallback =
  fbMaxAttempts :: int
  fbRetryableReasons :: "RetryableReason list option"
  fbAllowedBoundaryTransitions :: "string list option"

text \<open>The aliases are a Go map: an association list with distinct keys.\<close>

record Policy =
  poID :: string
  poVersion :: int
  poWorkspaceID :: string
  poProtocols :: "Protocol list"
  poAliases :: "(string \<times> Alias) list"
  poRoutes :: "Route list"
  poRequestLimits :: RequestLimits
  poFallback :: Fallback
  poContentCapture :: bool

section \<open>Generated validators\<close>

definition validProtocol :: "Protocol \<Rightarrow> bool" where
  "validProtocol v \<longleftrightarrow> v = ProtocolOpenAIResponses \<or> v = ProtocolOpenAIChat \<or> v = ProtocolAnthropicMessages"

definition validDestination :: "string \<Rightarrow> bool" where
  "validDestination v \<longleftrightarrow> v = ''local_node'' \<or> v = ''company'' \<or> v = ''provider'' \<or> v = ''blazn_cloud''"

definition validBoundary :: "DataBoundary \<Rightarrow> bool" where
  "validBoundary v \<longleftrightarrow> v = ''local'' \<or> v = ''company'' \<or> v = ''external''"

definition validCost :: "CostClass \<Rightarrow> bool" where
  "validCost v \<longleftrightarrow> v = ''local'' \<or> v = ''included'' \<or> v = ''metered_low'' \<or> v = ''metered_high''"

definition costRank :: "CostClass \<Rightarrow> int" where
  "costRank v = (if v = ''local'' then 0 else if v = ''included'' then 1 else if v = ''metered_low'' then 2
     else if v = ''metered_high'' then 3 else 99)"

definition validCapability :: "Capability \<Rightarrow> bool" where
  "validCapability v \<longleftrightarrow> v = ''text'' \<or> v = ''tools'' \<or> v = ''structured_output'' \<or> v = ''streaming''"

definition validRetryReason :: "RetryableReason \<Rightarrow> bool" where
  "validRetryReason v \<longleftrightarrow> v = ''connection_failure'' \<or> v = ''timeout_before_first_byte'' \<or> v = ''rate_limited'' \<or>
     v = ''upstream_5xx'' \<or> v = ''model_unavailable'' \<or> v = ''compatible_context_overflow''"

fun duplicateStrings_loop :: "string list \<Rightarrow> string list \<Rightarrow> bool" where
  "duplicateStrings_loop seen [] \<longleftrightarrow> False"
| "duplicateStrings_loop seen (v # vs) \<longleftrightarrow> (if List.member seen v then True else duplicateStrings_loop (v # seen) vs)"

definition duplicateStrings :: "string list \<Rightarrow> bool" where
  "duplicateStrings values = duplicateStrings_loop [] values"

definition validDataClass :: "DataClass \<Rightarrow> bool" where
  "validDataClass v \<longleftrightarrow> v = ''public'' \<or> v = ''company'' \<or> v = ''restricted'' \<or> v = ''local_only''"

definition validAddressPolicy :: "string \<Rightarrow> bool" where
  "validAddressPolicy v \<longleftrightarrow> v = ''loopback_only'' \<or> v = ''authenticated_node_tunnel'' \<or> v = ''public_unicast_only''"

definition validTransition :: "string \<Rightarrow> bool" where
  "validTransition v \<longleftrightarrow> v = ''local_to_company'' \<or> v = ''local_to_external'' \<or> v = ''company_to_external''"

definition transition :: "DataBoundary \<Rightarrow> DataBoundary \<Rightarrow> string" where
  "transition from to = from @ ''_to_'' @ to"

text \<open>
  \<open>^node-route://\<dots>$\<close> and \<open>^workspace-vault://\<dots>$\<close>: after the scheme, segments separated by slashes,
  each beginning and ending with an alphanumeric character.
\<close>

definition is_alnum :: "char \<Rightarrow> bool" where
  [go_defs]: "is_alnum c \<longleftrightarrow> is_lower c \<or> is_upper c \<or> is_digit c"

definition credential_segment :: "string \<Rightarrow> bool" where
  "credential_segment s \<longleftrightarrow> s \<noteq> [] \<and> is_alnum (hd s) \<and> is_alnum (last s) \<and>
     list_all (\<lambda>c. is_alnum c \<or> c \<in> set ''._~-'') s"

definition credentialRefPattern :: "string \<Rightarrow> string \<Rightarrow> bool" where
  "credentialRefPattern scheme v \<longleftrightarrow>
     hasPrefix v scheme \<and> list_all credential_segment (split_on (CHR ''/'') (drop (length scheme) v))"

definition aliasPattern :: "string \<Rightarrow> bool" where
  "aliasPattern v \<longleftrightarrow> 1 \<le> length v \<and> length v \<le> 128 \<and> list_all (\<lambda>c. is_alnum c \<or> c \<in> set ''._:-'') v"

definition hasSuffix :: "string \<Rightarrow> string \<Rightarrow> bool" where
  [go_defs]: "hasSuffix s p \<longleftrightarrow> hasPrefix (rev s) (rev p)"

definition valid_label :: "string \<Rightarrow> bool" where
  "valid_label label \<longleftrightarrow>
     \<not> (length label < 1 \<or> length label > 63 \<or> hd label = CHR ''-'' \<or> last label = CHR ''-'') \<and>
     list_all (\<lambda>c. is_alnum c \<or> c = CHR ''-'') label"

definition validHostname :: "string \<Rightarrow> bool" where
  "validHostname value \<longleftrightarrow>
     \<not> (length value < 1 \<or> length value > 253 \<or> hasPrefix value ''.'' \<or> hasSuffix value ''.'') \<and>
     list_all valid_label (split_on (CHR ''.'') value)"

text \<open>
  \<open>strings.EqualFold\<close> by simple Unicode case folding.  Every call in the sources has an ASCII
  argument, and the only runes outside ASCII that fold to an ASCII letter are the long s and the
  Kelvin sign.
\<close>

definition foldRune :: "nat \<Rightarrow> nat" where
  "foldRune r = (if 65 \<le> r \<and> r \<le> 90 then r + 32 else if r = 383 then 115 else if r = 8490 then 107 else r)"

definition equalFold :: "string \<Rightarrow> string \<Rightarrow> bool" where
  "equalFold s t \<longleftrightarrow> map foldRune (runes s) = map foldRune (runes t)"

definition Endpoint_Validate :: "Endpoint \<Rightarrow> string \<Rightarrow> err" where
  "Endpoint_Validate e class =
     (if (epScheme e \<noteq> ''http'' \<and> epScheme e \<noteq> ''https'') \<or> \<not> validHostname (epHostname e) \<or>
         epPort e < 1 \<or> epPort e > 65535 \<or> length (epBasePath e) > 512 \<or> \<not> hasPrefix (epBasePath e) ''/'' \<or>
         length (epHostnameAllowlist e) < 1 \<or> length (epHostnameAllowlist e) > 16 \<or>
         duplicateStrings (epHostnameAllowlist e) \<or> \<not> validAddressPolicy (epResolvedAddressPolicy e)
      then [Other ''endpoint is invalid'']
      else if \<not> list_all validHostname (epHostnameAllowlist e) then [Other ''endpoint allowlist is invalid'']
      else if \<not> list_ex (\<lambda>hostname. equalFold hostname (epHostname e)) (epHostnameAllowlist e)
      then [Other ''endpoint hostname is not allowlisted'']
      else if (class = ''provider'' \<or> class = ''blazn_cloud'') \<and>
         (epScheme e \<noteq> ''https'' \<or> epResolvedAddressPolicy e \<noteq> ''public_unicast_only'')
      then [Other ''external endpoints require HTTPS public-unicast policy'']
      else if class = ''local_node'' \<and> epResolvedAddressPolicy e \<noteq> ''loopback_only'' \<and>
         epResolvedAddressPolicy e \<noteq> ''authenticated_node_tunnel''
      then [Other ''local endpoint address policy is invalid'']
      else [])"

definition boundary_of_class :: "string \<Rightarrow> DataBoundary" where
  "boundary_of_class class =
     (case map_of [(''local_node'', ''local''), (''company'', ''company''), (''provider'', ''external''),
        (''blazn_cloud'', ''external'')] class of None \<Rightarrow> '''' | Some b \<Rightarrow> b)"

definition Route_Validate :: "Route \<Rightarrow> err" where
  "Route_Validate r =
     (if \<not> uuidPattern (rtID r) \<or> \<not> validDestination (rtDestinationClass r) \<or>
         length (rtSourceProtocols r) < 1 \<or> length (rtSourceProtocols r) > 3 \<or>
         duplicateStrings (rtSourceProtocols r) \<or> \<not> list_all validProtocol (rtSourceProtocols r) \<or>
         (rtDestinationProtocol r \<noteq> ProtocolOpenAIChat \<and> rtDestinationProtocol r \<noteq> ProtocolOpenAIResponses) \<or>
         length (rtModel r) < 1 \<or> length (rtModel r) > 160 \<or> \<not> validBoundary (rtDataBoundary r) \<or>
         rtHealthTimeoutMS r < 100 \<or> rtHealthTimeoutMS r > 30000 \<or> length (rtCredentialRef r) < 1 \<or>
         length (rtCredentialRef r) > 256 \<or> \<not> validCost (rtCostClass r)
      then [Other ''route is invalid'']
      else if rtDestinationClass r = ''local_node'' \<and> \<not> credentialRefPattern ''node-route://'' (rtCredentialRef r)
      then [Other ''route local credential reference is invalid'']
      else if rtDestinationClass r \<noteq> ''local_node'' \<and> \<not> credentialRefPattern ''workspace-vault://'' (rtCredentialRef r)
      then [Other ''route vault credential reference is invalid'']
      else if Endpoint_Validate (rtEndpoint r) (rtDestinationClass r) \<noteq> []
      then Endpoint_Validate (rtEndpoint r) (rtDestinationClass r)
      else if length (rtCapabilities r) < 1 \<or> duplicateStrings (rtCapabilities r) \<or>
         \<not> list_all validCapability (rtCapabilities r) \<or> length (rtAcceptedDataClasses r) < 1 \<or>
         duplicateStrings (rtAcceptedDataClasses r)
      then [Other ''route capabilities or data classes are invalid'']
      else if \<not> list_all validDataClass (rtAcceptedDataClasses r) then [Other ''route data class is invalid'']
      else if rtDataBoundary r \<noteq> boundary_of_class (rtDestinationClass r)
      then [Other ''route destination class and boundary disagree'']
      else [])"

text \<open>The loop that validates the routes and collects them in the map \<open>routes\<close>.\<close>

fun collectRoutes :: "(string \<times> Route) list \<Rightarrow> Route list \<Rightarrow> err + (string \<times> Route) list" where
  "collectRoutes routes [] = Inr routes"
| "collectRoutes routes (route # rest) =
     (if Route_Validate route \<noteq> [] then Inl (Route_Validate route)
      else if map_of routes (rtID route) \<noteq> None then Inl [Other ''policy route IDs must be unique'']
      else collectRoutes ((rtID route, route) # routes) rest)"

text \<open>The loop over \<open>alias.RouteIDs\<close>; \<open>prior\<close> is the route of the previous index.\<close>

fun checkAliasRoutes ::
    "Policy \<Rightarrow> Alias \<Rightarrow> (string \<times> Route) list \<Rightarrow> Route option \<Rightarrow> string list \<Rightarrow> err" where
  "checkAliasRoutes p alias routes prior [] = []"
| "checkAliasRoutes p alias routes prior (rid # rids) =
     (case map_of routes rid of
        None \<Rightarrow> [Other ''alias references unknown route'']
      | Some route \<Rightarrow>
          if \<not> List.member (rtAcceptedDataClasses route) (alDataClass alias) \<or>
             \<not> List.member (alAllowedDestinationBoundaries alias) (rtDataBoundary route) \<or>
             costRank (rtCostClass route) > costRank (rlMaxCostClass (poRequestLimits p))
          then [Other ''alias route violates data-class, boundary, or cost policy'']
          else if (case prior of None \<Rightarrow> False | Some pr \<Rightarrow>
                rtDataBoundary pr \<noteq> rtDataBoundary route \<and>
                \<not> List.member (slice_elems (fbAllowedBoundaryTransitions (poFallback p)))
                    (transition (rtDataBoundary pr) (rtDataBoundary route)))
          then [Other ''alias fallback boundary transition is not allowed'']
          else checkAliasRoutes p alias routes (Some route) rids)"

definition validateAlias :: "Policy \<Rightarrow> (string \<times> Route) list \<Rightarrow> string \<Rightarrow> Alias \<Rightarrow> err" where
  "validateAlias p routes name alias =
     (if \<not> aliasPattern name \<or> length (alRouteIDs alias) < 1 \<or> length (alRouteIDs alias) > 2 \<or>
         duplicateStrings (alRouteIDs alias) \<or> \<not> validDataClass (alDataClass alias) \<or>
         length (alAllowedDestinationBoundaries alias) < 1 \<or>
         duplicateStrings (alAllowedDestinationBoundaries alias)
      then [Other ''alias is invalid'']
      else if \<not> list_all validBoundary (alAllowedDestinationBoundaries alias) then [Other ''alias boundary is invalid'']
      else if alDataClass alias = ''local_only'' \<and> alAllowedDestinationBoundaries alias \<noteq> [''local'']
      then [Other ''alias local_only must remain local'']
      else if checkAliasRoutes p alias routes None (alRouteIDs alias) \<noteq> []
      then checkAliasRoutes p alias routes None (alRouteIDs alias)
      else if \<not> list_all (\<lambda>protocol. list_ex (\<lambda>rid. case map_of routes rid of
             None \<Rightarrow> False | Some r \<Rightarrow> List.member (rtSourceProtocols r) protocol) (alRouteIDs alias)) (poProtocols p)
      then [Other ''alias has no route for enabled protocol'']
      else [])"

fun validateAliases :: "Policy \<Rightarrow> (string \<times> Route) list \<Rightarrow> (string \<times> Alias) list \<Rightarrow> err" where
  "validateAliases p routes [] = []"
| "validateAliases p routes ((name, alias) # rest) =
     (if validateAlias p routes name alias \<noteq> [] then validateAlias p routes name alias
      else validateAliases p routes rest)"

definition Policy_Validate :: "Policy \<Rightarrow> err" where
  "Policy_Validate p =
     (if \<not> uuidPattern (poID p) \<or> \<not> uuidPattern (poWorkspaceID p) \<or> poVersion p < 1
      then [Other ''policy identity is invalid'']
      else if length (poProtocols p) < 1 \<or> duplicateStrings (poProtocols p) \<or> \<not> list_all validProtocol (poProtocols p)
      then [Other ''policy protocols are invalid'']
      else if length (poAliases p) < 1 \<or> length (poRoutes p) < 1 \<or> length (poRoutes p) > 32
      then [Other ''policy routes and aliases must be non-empty and bounded'']
      else (case collectRoutes [] (poRoutes p) of
        Inl e \<Rightarrow> e
      | Inr routes \<Rightarrow>
          if validateAliases p routes (poAliases p) \<noteq> [] then validateAliases p routes (poAliases p)
          else if rlMaxContextTokens (poRequestLimits p) < 1 \<or> rlMaxOutputTokens (poRequestLimits p) < 1 \<or>
             rlTimeoutMS (poRequestLimits p) < 1000 \<or> rlTimeoutMS (poRequestLimits p) > 3600000 \<or>
             \<not> validCost (rlMaxCostClass (poRequestLimits p))
          then [Other ''policy request limits are invalid'']
          else if fbRetryableReasons (poFallback p) = None \<or> fbAllowedBoundaryTransitions (poFallback p) = None \<or>
             fbMaxAttempts (poFallback p) < 1 \<or> fbMaxAttempts (poFallback p) > 2 \<or>
             duplicateStrings (slice_elems (fbRetryableReasons (poFallback p))) \<or>
             \<not> list_all validRetryReason (slice_elems (fbRetryableReasons (poFallback p))) \<or>
             duplicateStrings (slice_elems (fbAllowedBoundaryTransitions (poFallback p))) \<or>
             \<not> list_all validTransition (slice_elems (fbAllowedBoundaryTransitions (poFallback p)))
          then [Other ''policy fallback is invalid'']
          else if poContentCapture p then [Other ''proxy/v1alpha1 forbids content capture'']
          else []))"

end
