(* ===== verification/GoTime.thy ===== *)
theory GoTime
  imports Prelude
begin

text \<open>
  \<open>time.Parse(time.RFC3339, \<dots>)\<close>, \<open>Time.Format(time.RFC3339)\<close> in UTC and \<open>Time.Sub\<close> of the Go
  library, as the contract and the router use them, and the round trip between the two texts.
\<close>

section \<open>Formatting\<close>

definition year_text :: "int \<Rightarrow> string" where
  "year_text y = (if y < 0 then CHR ''-'' # pad 4 (- y) else pad 4 y)"

definition formatRFC3339 :: "instant \<Rightarrow> string" where
  "formatRFC3339 t =
     (let secs = t div 1000000000; days = secs div 86400; sod = secs mod 86400;
          (y, m, d) = civil days
      in year_text y @ ''-'' @ pad 2 m @ ''-'' @ pad 2 d @ ''T'' @
         pad 2 (sod div 3600) @ '':'' @ pad 2 ((sod div 60) mod 60) @ '':'' @ pad 2 (sod mod 60) @ ''Z'')"

text \<open>A \<open>time.Duration\<close> is a 64-bit integer; \<open>Time.Sub\<close> saturates.\<close>

definition time_Sub :: "instant \<Rightarrow> instant \<Rightarrow> int" where
  "time_Sub t u = max (- (2 ^ 63)) (min (2 ^ 63 - 1) (t - u))"

text \<open>\<open>Duration.Milliseconds\<close> truncates towards zero.\<close>

definition Milliseconds :: "int \<Rightarrow> int" where
  "Milliseconds d = (if d < 0 then - ((- d) div 1000000) else d div 1000000)"

section \<open>Parsing\<close>

definition digit_value :: "char \<Rightarrow> int" where
  "digit_value c = of_char c - 48"

text \<open>\<open>getnum\<close>: two digits, or one where the layout does not fix the width.\<close>

definition getnum :: "bool \<Rightarrow> string \<Rightarrow> (int \<times> string) option" where
  "getnum fixed s =
     (case s of
        [] \<Rightarrow> None
      | c # cs \<Rightarrow>
          if \<not> is_digit c then None
          else (case cs of
              [] \<Rightarrow> if fixed then None else Some (digit_value c, cs)
            | c' # cs' \<Rightarrow>
                if is_digit c' then Some (digit_value c * 10 + digit_value c', cs')
                else if fixed then None else Some (digit_value c, cs)))"

definition skip :: "char \<Rightarrow> string \<Rightarrow> string option" where
  "skip c s = (case s of [] \<Rightarrow> None | c' # cs \<Rightarrow> if c' = c then Some cs else None)"

definition get_year :: "string \<Rightarrow> (int \<times> string) option" where
  "get_year s =
     (if length s < 4 \<or> \<not> list_all is_digit (take 4 s) then None
      else Some (digits_value 0 (take 4 s), drop 4 s))"

text \<open>A number of two digits between the given bounds, and what follows it.\<close>

definition get_field :: "bool \<Rightarrow> int \<Rightarrow> int \<Rightarrow> string \<Rightarrow> (int \<times> string) option" where
  "get_field fixed lo hi s =
     (case getnum fixed s of
        None \<Rightarrow> None
      | Some (n, rest) \<Rightarrow> if lo \<le> n \<and> n \<le> hi then Some (n, rest) else None)"

text \<open>
  A fraction of a second may follow although the layout has none: a period or comma and digits, of
  which the first nine count.
\<close>

definition get_fraction :: "string \<Rightarrow> int \<times> string" where
  "get_fraction s =
     (case s of
        c # c' # cs \<Rightarrow>
          if (c = CHR ''.'' \<or> c = CHR '','') \<and> is_digit c' then
            (let digits = takeWhile is_digit (c' # cs); used = take 9 digits
             in (digits_value 0 used * 10 ^ (9 - length used), dropWhile is_digit (c' # cs)))
          else (0, s)
      | _ \<Rightarrow> (0, s))"

text \<open>The zone: \<open>Z\<close>, or a signed offset whose hours and minutes may reach 24 and 60.\<close>

definition get_zone :: "string \<Rightarrow> (int \<times> string) option" where
  "get_zone s =
     (case s of
        [] \<Rightarrow> None
      | c # cs \<Rightarrow>
          if c = CHR ''Z'' then Some (0, cs)
          else if length s < 6 \<or> s ! 3 \<noteq> CHR '':'' then None
          else (case (getnum True (take 2 (drop 1 s)), getnum True (take 2 (drop 4 s))) of
              (Some (hr, _), Some (mm, _)) \<Rightarrow>
                if hr > 24 \<or> mm > 60 then None
                else if c = CHR ''+'' then Some ((hr * 60 + mm) * 60, drop 6 s)
                else if c = CHR ''-'' then Some (- ((hr * 60 + mm) * 60), drop 6 s)
                else None
            | _ \<Rightarrow> None))"

definition parse_clock :: "string \<Rightarrow> (int \<times> int \<times> string) option" where
  "parse_clock s =
     (case get_field False 0 23 s of
        None \<Rightarrow> None
      | Some (hour, s) \<Rightarrow> (case skip (CHR '':'') s of None \<Rightarrow> None | Some s \<Rightarrow>
      (case get_field True 0 59 s of
        None \<Rightarrow> None
      | Some (minute, s) \<Rightarrow> (case skip (CHR '':'') s of None \<Rightarrow> None | Some s \<Rightarrow>
      (case get_field True 0 59 s of
        None \<Rightarrow> None
      | Some (sec, s) \<Rightarrow> (let (nsec, s) = get_fraction s in Some (hour * 3600 + minute * 60 + sec, nsec, s)))))))"

definition parse_date :: "string \<Rightarrow> (int \<times> int \<times> int \<times> string) option" where
  "parse_date s =
     (case get_year s of
        None \<Rightarrow> None
      | Some (year, s) \<Rightarrow> (case skip (CHR ''-'') s of None \<Rightarrow> None | Some s \<Rightarrow>
      (case get_field True 1 12 s of
        None \<Rightarrow> None
      | Some (month, s) \<Rightarrow> (case skip (CHR ''-'') s of None \<Rightarrow> None | Some s \<Rightarrow>
      (case getnum True s of
        None \<Rightarrow> None
      | Some (day, s) \<Rightarrow> (case skip (CHR ''T'') s of None \<Rightarrow> None | Some s \<Rightarrow> Some (year, month, day, s)))))))"

definition parseRFC3339 :: "string \<Rightarrow> instant option" where
  "parseRFC3339 s =
     (case parse_date s of
        None \<Rightarrow> None
      | Some (year, month, day, s) \<Rightarrow> (case parse_clock s of
        None \<Rightarrow> None
      | Some (sod, nsec, s) \<Rightarrow> (case get_zone s of
        None \<Rightarrow> None
      | Some (zone, s) \<Rightarrow>
          if s \<noteq> [] \<or> day < 1 \<or> day > daysIn month year then None
          else Some ((days_of_civil year month day * 86400 + sod - zone) * 1000000000 + nsec))))"

section \<open>Round trip\<close>

lemma int_digits_small: "0 \<le> i \<Longrightarrow> i < 10 \<Longrightarrow> int_digits i = [digit_char i]"
  by (subst int_digits.simps) simp

lemma int_digits_step: "10 \<le> i \<Longrightarrow> int_digits i = int_digits (i div 10) @ [digit_char (i mod 10)]"
  by (subst int_digits.simps) simp

lemma digit_char_zero: "digit_char 0 = CHR ''0''"
  by code_simp

lemma pad2: "0 \<le> i \<Longrightarrow> i < 100 \<Longrightarrow> pad 2 i = [digit_char (i div 10), digit_char (i mod 10)]"
  by (cases "i < 10") (simp_all add: pad_def formatInt_def Let_def int_digits_small int_digits_step digit_char_zero)

lemma pad4: "0 \<le> i \<Longrightarrow> i \<le> 9999 \<Longrightarrow> length (pad 4 i) = 4 \<and> list_all is_digit (pad 4 i) \<and> digits_value 0 (pad 4 i) = i"
proof -
  assume i: "0 \<le> i" "i \<le> 9999"
  have len: "length (int_digits i) \<le> 4" using int_digits_length [of i 3] i by simp
  have zeros: "digits_value 0 (replicate n (CHR ''0'') @ s) = digits_value 0 s" for n s
    by (induction n) auto
  show ?thesis
    using i len int_digits_all [of i] int_digits_value [of i]
    by (auto simp: pad_def formatInt_def Let_def zeros list_all_iff is_digit_def in_range_def)
qed

lemma digit_value_digit_char [simp]: "0 \<le> d \<Longrightarrow> d < 10 \<Longrightarrow> digit_value (digit_char d) = d"
  by (simp add: digit_value_def of_char_digit_char)

lemma getnum_pad2: "0 \<le> i \<Longrightarrow> i < 100 \<Longrightarrow> getnum fixed (pad 2 i @ s) = Some (i, s)"
  by (simp add: pad2 getnum_def is_digit_digit_char)

lemma get_field_pad2: "lo \<le> i \<Longrightarrow> i \<le> hi \<Longrightarrow> 0 \<le> i \<Longrightarrow> i < 100 \<Longrightarrow> get_field fixed lo hi (pad 2 i @ s) = Some (i, s)"
  by (simp add: get_field_def getnum_pad2)

lemma get_year_pad4: "0 \<le> i \<Longrightarrow> i \<le> 9999 \<Longrightarrow> get_year (pad 4 i @ s) = Some (i, s)"
  using pad4 [of i] by (simp add: get_year_def)

lemma skip_Cons [simp]: "skip c (c # s) = Some s"
  by (simp add: skip_def)

lemma seconds_split: "s div 3600 * 3600 + s div 60 mod 60 * 60 + s mod 60 = (s :: int)"
proof -
  have "s div 3600 = s div 60 div 60" using zdiv_zmult2_eq [of 60 s 60] by simp
  moreover have "s div 60 div 60 * 60 + s div 60 mod 60 = s div 60" "s div 60 * 60 + s mod 60 = s"
    by (rule div_mult_mod_eq)+
  ultimately show ?thesis by linarith
qed

lemma parse_formatRFC3339:
  assumes "civil (t div 1000000000 div 86400) = (y, m, d)" and "0 \<le> y" and "y \<le> 9999"
  shows "parseRFC3339 (formatRFC3339 t) = Some (t - t mod 1000000000)"
proof -
  define secs where "secs = t div 1000000000"
  define sod where "sod = secs mod 86400"
  note c = civil_correct [OF assms(1), folded secs_def]
  have d: "d \<le> 31" using c(4) by (simp add: daysIn_def split: if_splits)
  have sod: "0 \<le> sod" "sod < 86400" by (simp_all add: sod_def)
  have "sod div 3600 \<le> 23" "0 \<le> sod div 3600" using sod by simp_all
  then have clock: "parse_clock (pad 2 (sod div 3600) @ CHR '':'' # pad 2 (sod div 60 mod 60) @ CHR '':'' # pad 2 (sod mod 60) @ ''Z'') =
      Some (sod, 0, ''Z'')"
    using seconds_split [of sod] by (simp add: parse_clock_def get_field_pad2 get_fraction_def)
  have "parse_date (formatRFC3339 t) =
      Some (y, m, d, pad 2 (sod div 3600) @ CHR '':'' # pad 2 (sod div 60 mod 60) @ CHR '':'' # pad 2 (sod mod 60) @ ''Z'')"
    using assms c(1-3) d
    by (simp add: formatRFC3339_def Let_def year_text_def parse_date_def get_year_pad4 get_field_pad2 getnum_pad2 sod_def secs_def)
  moreover have "days_of_civil y m d * 86400 + sod = secs" using c(5) by (simp add: sod_def secs_def)
  moreover have "secs * 1000000000 = t - t mod 1000000000" by (simp add: secs_def minus_mod_eq_div_mult)
  ultimately show ?thesis using clock c(3,4) by (simp add: parseRFC3339_def get_zone_def)
qed

end
