(* ===== verification/RouterPolicy.thy ===== *)
theory RouterPolicy
  imports ProxyPolicy GoTime Complex_Main
begin

text \<open>
  Route selection: \<open>internal/proxy/router/policy.go\<close>, the request types of
  \<open>internal/proxycontract/contracts.gen.go\<close> and \<open>internal/proxy/router/openai.go\<close> it reads, and the
  errors of \<open>internal/proxy/router/types.go\<close>.  The lemmas show that the routes selected for a request
  are exactly the admissible ones in the alias's order, that consecutive ones respect the boundary
  transitions, that local-only data never leaves the local boundary, and that external routes are
  HTTPS on public addresses.
\<close>

section \<open>Requests\<close>

text \<open>
  \<open>NormalizedRequest\<close> and its parts.  \<open>json.RawMessage\<close> and pointers that may be nil are options; a
  \<open>float64\<close> read from JSON is finite, hence a rational.
\<close>

record RequestBlock =
  rbRole :: string
  rbType :: string
  rbText :: "string option"
  rbCallID :: "string option"
  rbToolName :: "string option"
  rbArguments :: "string option"
  rbResult :: "string option"

record Tool =
  tlName :: string
  tlDescription :: string
  tlInputSchema :: "(string \<times> json) list option"

record NormalizedLimits =
  nlMaxOutputTokens :: int
  nlDeadlineAt :: string
  nlTemperature :: "rat option"
  nlTopP :: "rat option"
  nlStop :: "string list"

record NormalizedRequest =
  nrLogicalRequestID :: string
  nrProtocol :: Protocol
  nrModelAlias :: string
  nrDataClass :: DataClass
  nrStream :: bool
  nrBlocks :: "RequestBlock list"
  nrTools :: "Tool list option"
  nrToolChoice :: string
  nrResponseSchema :: "(string \<times> json) list option"
  nrLimits :: NormalizedLimits
  nrCapabilitiesRequired :: "Capability list option"

record responsesMetadata =
  rmInstructions :: string
  rmOriginalInput :: string
  rmParallelToolCalls :: "bool option"
  rmStore :: "bool option"
  rmInclude :: "string list"
  rmReasoning :: string
  rmStreamOptions :: string
  rmServiceTier :: string
  rmPromptCacheKey :: string
  rmClientMetadata :: string
  rmReasoningItems :: "string list"

record sourceMetadata =
  smResponses :: "responsesMetadata option"
  smResponseSchemaName :: string
  smResponseSchemaStrict :: bool

record routedRequest =
  rqNormalized :: NormalizedRequest
  rqSource :: sourceMetadata

text \<open>\<open>APIError\<close> of \<open>types.go\<close>; \<open>aeReason\<close> is empty and \<open>aeCause\<close> nil unless set.\<close>

record APIError =
  aeCode :: string
  aeMessage :: string
  aeStatus :: int
  aeRetryable :: bool
  aeReason :: RetryableReason
  aeCause :: err

definition safeError :: "string \<Rightarrow> string \<Rightarrow> int \<Rightarrow> bool \<Rightarrow> APIError" where
  "safeError code message status retryable =
     \<lparr>aeCode = code, aeMessage = message, aeStatus = status, aeRetryable = retryable, aeReason = '''', aeCause = []\<rparr>"

section \<open>Validation of a request\<close>

definition validRole :: "string \<Rightarrow> bool" where
  "validRole v \<longleftrightarrow> v = ''system'' \<or> v = ''developer'' \<or> v = ''user'' \<or> v = ''assistant'' \<or> v = ''tool''"

definition validBlockType :: "string \<Rightarrow> bool" where
  "validBlockType v \<longleftrightarrow> v = ''text'' \<or> v = ''tool_call'' \<or> v = ''tool_result''"

definition validToolChoice :: "string \<Rightarrow> bool" where
  "validToolChoice v \<longleftrightarrow> v = ''none'' \<or> v = ''auto'' \<or> v = ''required''"

text \<open>\<open>p == nil || len(*p) < 1 || len(*p) > n\<close>.\<close>

definition absent_or_outside :: "nat \<Rightarrow> string option \<Rightarrow> bool" where
  "absent_or_outside n v = (case v of None \<Rightarrow> True | Some s \<Rightarrow> length s < 1 \<or> length s > n)"

definition RequestBlock_Validate :: "RequestBlock \<Rightarrow> err" where
  "RequestBlock_Validate b =
     (if \<not> validRole (rbRole b) \<or> \<not> validBlockType (rbType b) then [Other ''request block is invalid'']
      else if rbType b = ''text'' then
        (if rbRole b = ''tool'' \<or> rbText b = None \<or> rbCallID b \<noteq> None \<or> rbToolName b \<noteq> None \<or>
            rbArguments b \<noteq> None \<or> rbResult b \<noteq> None
         then [Other ''text request block union is invalid''] else [])
      else if rbType b = ''tool_call'' then
        (if rbRole b \<noteq> ''assistant'' \<or> absent_or_outside 256 (rbCallID b) \<or> absent_or_outside 128 (rbToolName b) \<or>
            rbArguments b = None \<or> rbText b \<noteq> None \<or> rbResult b \<noteq> None
         then [Other ''tool-call request block union is invalid''] else [])
      else if rbType b = ''tool_result'' then
        (if rbRole b \<noteq> ''tool'' \<or> absent_or_outside 256 (rbCallID b) \<or> rbResult b = None \<or> rbText b \<noteq> None \<or>
            rbToolName b \<noteq> None \<or> rbArguments b \<noteq> None
         then [Other ''tool-result request block union is invalid''] else [])
      else [])"

fun checkBlocks :: "RequestBlock list \<Rightarrow> err" where
  "checkBlocks [] = []"
| "checkBlocks (b # bs) = (if RequestBlock_Validate b \<noteq> [] then RequestBlock_Validate b else checkBlocks bs)"

fun checkTools :: "string list \<Rightarrow> Tool list \<Rightarrow> err" where
  "checkTools toolNames [] = []"
| "checkTools toolNames (tool # tools) =
     (if length (tlName tool) < 1 \<or> length (tlName tool) > 128 \<or> length (tlDescription tool) > 4096 \<or>
         tlInputSchema tool = None \<or> List.member toolNames (tlName tool)
      then [Other ''tool is invalid'']
      else checkTools (tlName tool # toolNames) tools)"

definition NormalizedRequest_Validate :: "NormalizedRequest \<Rightarrow> err" where
  "NormalizedRequest_Validate r =
     (if \<not> uuidPattern (nrLogicalRequestID r) \<or> \<not> validProtocol (nrProtocol r) \<or> length (nrModelAlias r) < 1 \<or>
         length (nrModelAlias r) > 128 \<or> \<not> validDataClass (nrDataClass r) \<or> length (nrBlocks r) < 1 \<or>
         nrTools r = None \<or> nrCapabilitiesRequired r = None \<or>
         (nrToolChoice r \<noteq> '''' \<and> \<not> validToolChoice (nrToolChoice r)) \<or>
         (nrToolChoice r = ''required'' \<and> length (slice_elems (nrTools r)) = 0) \<or>
         nlMaxOutputTokens (nrLimits r) < 1 \<or>
         \<not> list_all validCapability (slice_elems (nrCapabilitiesRequired r)) \<or>
         duplicateStrings (slice_elems (nrCapabilitiesRequired r))
      then [Other ''normalized request is invalid'']
      else if parseRFC3339 (nlDeadlineAt (nrLimits r)) = None then [Other ''normalized request deadline is invalid'']
      else if (case nlTemperature (nrLimits r) of None \<Rightarrow> False | Some t \<Rightarrow> t < 0 \<or> t > 2)
      then [Other ''temperature is invalid'']
      else if (case nlTopP (nrLimits r) of None \<Rightarrow> False | Some t \<Rightarrow> t \<le> 0 \<or> t > 1) then [Other ''topP is invalid'']
      else if length (nlStop (nrLimits r)) > 8 then [Other ''stop list exceeds 8'']
      else if list_ex (\<lambda>v. length v > 512) (nlStop (nrLimits r)) then [Other ''stop value is too long'']
      else if checkBlocks (nrBlocks r) \<noteq> [] then checkBlocks (nrBlocks r)
      else checkTools [] (slice_elems (nrTools r)))"

section \<open>Semantic validation\<close>

fun checkAliasLengths :: "Policy \<Rightarrow> (string \<times> Alias) list \<Rightarrow> err" where
  "checkAliasLengths policy [] = []"
| "checkAliasLengths policy ((name, alias) # rest) =
     (if int (length (alRouteIDs alias)) > fbMaxAttempts (poFallback policy)
      then [Other ''alias has more routes than maxAttempts'']
      else checkAliasLengths policy rest)"

definition checkRouteSemantics :: "Route \<Rightarrow> err" where
  "checkRouteSemantics route =
     (if equalFold (epHostname (rtEndpoint route)) ''localhost''
      then [Other ''route must use an explicit loopback address'']
      else if epBasePath (rtEndpoint route) \<noteq> ''/v1'' then [Other ''route basePath must be /v1 for the POC'']
      else if rtDestinationClass route = ''local_node'' \<and> \<not> hasPrefix (rtCredentialRef route) ''node-route://''
      then [Other ''route local credentialRef must use node-route://'']
      else if (rtDestinationClass route = ''provider'' \<or> rtDestinationClass route = ''blazn_cloud'') \<and>
         \<not> hasPrefix (rtCredentialRef route) ''workspace-vault://''
      then [Other ''route external credentialRef must use workspace-vault://'']
      else if rtDestinationProtocol route = ProtocolAnthropicMessages
      then [Other ''Anthropic destination translation is outside this lane'']
      else [])"

fun checkRoutesSemantics :: "Route list \<Rightarrow> err" where
  "checkRoutesSemantics [] = []"
| "checkRoutesSemantics (route # rest) =
     (if checkRouteSemantics route \<noteq> [] then checkRouteSemantics route else checkRoutesSemantics rest)"

definition validatePolicySemantics :: "Policy \<Rightarrow> err" where
  "validatePolicySemantics policy =
     (if Policy_Validate policy \<noteq> [] then Policy_Validate policy
      else if fbMaxAttempts (poFallback policy) > 2 then [Other ''maximum two attempts are permitted'']
      else if checkAliasLengths policy (poAliases policy) \<noteq> [] then checkAliasLengths policy (poAliases policy)
      else checkRoutesSemantics (poRoutes policy))"

section \<open>The route index\<close>

record routeIndex =
  riPolicy :: Policy
  riByID :: "(string \<times> Route) list"

text \<open>\<open>index.byID[route.ID] = route\<close>: a later route replaces an earlier one.\<close>

definition newRouteIndex :: "Policy \<Rightarrow> err + routeIndex" where
  "newRouteIndex policy =
     (if validatePolicySemantics policy \<noteq> [] then Inl (validatePolicySemantics policy)
      else Inr \<lparr>riPolicy = policy, riByID = fold (\<lambda>route m. (rtID route, route) # m) (poRoutes policy) []\<rparr>)"

text \<open>Reading a Go map at a missing key gives the zero \<open>Route\<close>.\<close>

definition zero_Route :: Route where
  "zero_Route = \<lparr>rtID = '''', rtDestinationClass = '''',
     rtEndpoint = \<lparr>epScheme = '''', epHostname = '''', epPort = 0, epBasePath = '''', epHostnameAllowlist = [],
       epResolvedAddressPolicy = ''''\<rparr>,
     rtSourceProtocols = [], rtDestinationProtocol = '''', rtModel = '''', rtCapabilities = [],
     rtAcceptedDataClasses = [], rtDataBoundary = '''', rtHealthTimeoutMS = 0, rtCredentialRef = '''', rtCostClass = ''''\<rparr>"

definition route_of :: "routeIndex \<Rightarrow> string \<Rightarrow> Route" where
  "route_of r rid = (case map_of (riByID r) rid of None \<Rightarrow> zero_Route | Some route \<Rightarrow> route)"

fun containsProtocol :: "Protocol list \<Rightarrow> Protocol \<Rightarrow> bool" where
  "containsProtocol [] want = False"
| "containsProtocol (value # values) want = (if value = want then True else containsProtocol values want)"

fun containsDataClass :: "DataClass list \<Rightarrow> DataClass \<Rightarrow> bool" where
  "containsDataClass [] want = False"
| "containsDataClass (value # values) want = (if value = want then True else containsDataClass values want)"

fun containsBoundary :: "DataBoundary list \<Rightarrow> DataBoundary \<Rightarrow> bool" where
  "containsBoundary [] want = False"
| "containsBoundary (value # values) want = (if value = want then True else containsBoundary values want)"

text \<open>The set of the capabilities a route has, then the loop over those wanted.\<close>

definition capabilitiesCover :: "Capability list \<Rightarrow> Capability list \<Rightarrow> bool" where
  "capabilitiesCover have want = (let present = fold Set.insert have {} in list_all (\<lambda>capability. capability \<in> present) want)"

text \<open>\<open>len(x) > 0 && string(x) != "null"\<close>.\<close>

definition present_raw :: "string \<Rightarrow> bool" where
  "present_raw raw \<longleftrightarrow> length raw > 0 \<and> raw \<noteq> ''null''"

definition routePreservesRequest :: "Route \<Rightarrow> routedRequest \<Rightarrow> bool" where
  "routePreservesRequest route request =
     (if length (nlStop (nrLimits (rqNormalized request))) > 0 \<and> rtDestinationProtocol route \<noteq> ProtocolOpenAIChat
      then False
      else (case smResponses (rqSource request) of
          None \<Rightarrow> True
        | Some metadata \<Rightarrow>
            (let requiresResponses = length (rmInclude metadata) > 0 \<or> present_raw (rmReasoning metadata) \<or>
               length (rmReasoningItems metadata) > 0 \<or> present_raw (rmStreamOptions metadata) \<or>
               present_raw (rmClientMetadata metadata)
             in \<not> requiresResponses \<or> rtDestinationProtocol route = ProtocolOpenAIResponses)))"

fun collectSelected :: "routeIndex \<Rightarrow> Alias \<Rightarrow> routedRequest \<Rightarrow> Route list \<Rightarrow> string list \<Rightarrow> Route list" where
  "collectSelected r alias request selected [] = selected"
| "collectSelected r alias request selected (rid # rids) =
     (let route = route_of r rid; normalized = rqNormalized request in
      if \<not> containsProtocol (rtSourceProtocols route) (nrProtocol normalized) \<or>
         \<not> containsDataClass (rtAcceptedDataClasses route) (nrDataClass normalized) \<or>
         \<not> containsBoundary (alAllowedDestinationBoundaries alias) (rtDataBoundary route)
      then collectSelected r alias request selected rids
      else if \<not> capabilitiesCover (rtCapabilities route) (slice_elems (nrCapabilitiesRequired normalized)) \<or>
         costRank (rtCostClass route) > costRank (rlMaxCostClass (poRequestLimits (riPolicy r)))
      then collectSelected r alias request selected rids
      else if \<not> routePreservesRequest route request then collectSelected r alias request selected rids
      else collectSelected r alias request (selected @ [route]) rids)"

definition selectRoutesFor :: "routeIndex \<Rightarrow> routedRequest \<Rightarrow> APIError + Route list" where
  "selectRoutesFor r request =
     (let normalized = rqNormalized request; policy = riPolicy r in
      case map_of (poAliases policy) (nrModelAlias normalized) of
        None \<Rightarrow> Inl (safeError ''model_not_found'' ''model alias is not defined by policy'' 404 False)
      | Some alias \<Rightarrow>
          if nrDataClass normalized \<noteq> alDataClass alias
          then Inl (safeError ''policy_denied'' ''request data class does not match the model alias'' 403 False)
          else if nlMaxOutputTokens (nrLimits normalized) > rlMaxOutputTokens (poRequestLimits policy)
          then Inl (safeError ''policy_denied'' ''requested output exceeds policy limit'' 403 False)
          else if nrStream normalized \<and> \<not> rlStreaming (poRequestLimits policy)
          then Inl (safeError ''unsupported_capability'' ''streaming is disabled by policy'' 400 False)
          else (let selected = collectSelected r alias request [] (alRouteIDs alias) in
            if length selected = 0
            then Inl (safeError ''no_compliant_route'' ''no route satisfies policy and request capabilities'' 403 False)
            else if int (length selected) > fbMaxAttempts (poFallback policy)
            then Inr (take (nat (fbMaxAttempts (poFallback policy))) selected)
            else Inr selected))"

definition selectRoutes :: "routeIndex \<Rightarrow> NormalizedRequest \<Rightarrow> APIError + Route list" where
  "selectRoutes r request =
     selectRoutesFor r \<lparr>rqNormalized = request,
       rqSource = \<lparr>smResponses = None, smResponseSchemaName = '''', smResponseSchemaStrict = False\<rparr>\<rparr>"

section \<open>What validation establishes\<close>

lemma contains_iff [simp]:
  "containsProtocol ps p \<longleftrightarrow> p \<in> set ps" "containsDataClass cs c \<longleftrightarrow> c \<in> set cs"
  "containsBoundary bs b \<longleftrightarrow> b \<in> set bs"
  subgoal by (induction ps) auto
  subgoal by (induction cs) auto
  subgoal by (induction bs) auto
  done

lemma capabilitiesCover_iff [simp]: "capabilitiesCover have want \<longleftrightarrow> set want \<subseteq> set have"
proof -
  have "fold Set.insert have {} = set have" by (simp add: union_set_fold [symmetric])
  then show ?thesis by (auto simp: capabilitiesCover_def list_all_iff)
qed

text \<open>The conditions under which a route may serve a request, as one declarative predicate.\<close>

definition admissible :: "Policy \<Rightarrow> Alias \<Rightarrow> routedRequest \<Rightarrow> Route \<Rightarrow> bool" where
  "admissible policy alias request route \<longleftrightarrow>
     nrProtocol (rqNormalized request) \<in> set (rtSourceProtocols route) \<and>
     nrDataClass (rqNormalized request) \<in> set (rtAcceptedDataClasses route) \<and>
     rtDataBoundary route \<in> set (alAllowedDestinationBoundaries alias) \<and>
     set (slice_elems (nrCapabilitiesRequired (rqNormalized request))) \<subseteq> set (rtCapabilities route) \<and>
     costRank (rtCostClass route) \<le> costRank (rlMaxCostClass (poRequestLimits policy)) \<and>
     routePreservesRequest route request"

lemma collectSelected_filter:
  "collectSelected r alias request selected rids =
     selected @ filter (admissible (riPolicy r) alias request) (map (route_of r) rids)"
  by (induction rids arbitrary: selected) (auto simp: Let_def admissible_def not_le)

lemma selectRoutesFor_Inr:
  assumes "selectRoutesFor r request = Inr routes"
  obtains al where "map_of (poAliases (riPolicy r)) (nrModelAlias (rqNormalized request)) = Some al"
    "nrDataClass (rqNormalized request) = alDataClass al"
    "nlMaxOutputTokens (nrLimits (rqNormalized request)) \<le> rlMaxOutputTokens (poRequestLimits (riPolicy r))"
    "nrStream (rqNormalized request) \<longrightarrow> rlStreaming (poRequestLimits (riPolicy r))"
    "routes = take (nat (fbMaxAttempts (poFallback (riPolicy r))))
       (filter (admissible (riPolicy r) al request) (map (route_of r) (alRouteIDs al)))"
    "filter (admissible (riPolicy r) al request) (map (route_of r) (alRouteIDs al)) \<noteq> []"
proof -
  obtain al where eq: "map_of (poAliases (riPolicy r)) (nrModelAlias (rqNormalized request)) = Some al"
    using assms by (auto simp: selectRoutesFor_def Let_def split: option.splits)
  show thesis
    using assms eq by (intro that [of al])
      (auto simp: selectRoutesFor_def Let_def collectSelected_filter split: if_splits)
qed

lemma collectRoutes_Inr:
  assumes "collectRoutes acc rs = Inr routes" "distinct (map fst acc)"
  shows "routes = rev (map (\<lambda>r. (rtID r, r)) rs) @ acc" "distinct (map fst routes)"
    "\<forall>r \<in> set rs. Route_Validate r = []"
  using assms
proof (induction rs arbitrary: acc)
  case (Cons r rs)
  {
    case 1 then show ?case using Cons.IH(1) [of "(rtID r, r) # acc"]
      by (auto split: if_splits simp: map_of_eq_None_iff)
  next
    case 2 then show ?case using Cons.IH(2) [of "(rtID r, r) # acc"]
      by (auto split: if_splits simp: map_of_eq_None_iff)
  next
    case 3 then show ?case using Cons.IH(3) [of "(rtID r, r) # acc"]
      by (auto split: if_splits simp: map_of_eq_None_iff)
  }
qed auto

lemma collectRoutes_Inl: "collectRoutes acc rs \<noteq> Inl []"
  by (induction acc rs rule: collectRoutes.induct) auto

lemma validateAliases_all: "validateAliases p routes as = [] \<Longrightarrow> (name, alias) \<in> set as \<Longrightarrow> validateAlias p routes name alias = []"
  by (induction p routes as rule: validateAliases.induct) (auto split: if_splits)

lemma Policy_Validate_ok:
  assumes "Policy_Validate p = []"
  shows "\<forall>r \<in> set (poRoutes p). Route_Validate r = []" "distinct (map rtID (poRoutes p))"
    "\<forall>(name, alias) \<in> set (poAliases p). validateAlias p (rev (map (\<lambda>r. (rtID r, r)) (poRoutes p))) name alias = []"
    "1 \<le> fbMaxAttempts (poFallback p)" "fbMaxAttempts (poFallback p) \<le> 2"
proof -
  let ?table = "rev (map (\<lambda>r. (rtID r, r)) (poRoutes p))"
  obtain routes where routes: "collectRoutes [] (poRoutes p) = Inr routes"
    using assms collectRoutes_Inl [of "[]" "poRoutes p"]
    by (cases "collectRoutes [] (poRoutes p)") (auto simp: Policy_Validate_def split: if_splits)
  note table = collectRoutes_Inr [OF routes, simplified]
  have facts: "validateAliases p ?table (poAliases p) = []" "distinct (map fst ?table)"
    "\<forall>r \<in> set (poRoutes p). Route_Validate r = []"
    "1 \<le> fbMaxAttempts (poFallback p)" "fbMaxAttempts (poFallback p) \<le> 2"
    using assms routes table by (auto simp: Policy_Validate_def split: if_splits)
  then show "\<forall>r \<in> set (poRoutes p). Route_Validate r = []" "1 \<le> fbMaxAttempts (poFallback p)"
    "fbMaxAttempts (poFallback p) \<le> 2" by auto
  show "distinct (map rtID (poRoutes p))"
    using facts(2) by (simp add: rev_map [symmetric] comp_def)
  show "\<forall>(name, alias) \<in> set (poAliases p). validateAlias p (rev (map (\<lambda>r. (rtID r, r)) (poRoutes p))) name alias = []"
    using validateAliases_all [OF facts(1)] by auto
qed

lemma validatePolicySemantics_ok:
  assumes "validatePolicySemantics p = []"
  shows "Policy_Validate p = []" "checkAliasLengths p (poAliases p) = []" "checkRoutesSemantics (poRoutes p) = []"
  using assms by (auto simp: validatePolicySemantics_def split: if_splits)

lemma fold_table: "fold (\<lambda>route m. (rtID route, route) # m) rs acc = rev (map (\<lambda>r. (rtID r, r)) rs) @ acc"
  by (induction rs arbitrary: acc) auto

lemma newRouteIndex_Inr:
  assumes "newRouteIndex p = Inr r"
  shows "riPolicy r = p" "riByID r = rev (map (\<lambda>r. (rtID r, r)) (poRoutes p))" "validatePolicySemantics p = []"
  using assms by (auto simp: newRouteIndex_def fold_table split: if_splits)

lemma table_lookup: "map_of (rev (map (\<lambda>r. (rtID r, r)) rs)) rid = Some route \<Longrightarrow> route \<in> set rs \<and> rtID route = rid"
  by (auto dest!: map_of_SomeD)

text \<open>A fallback from one route to the next stays inside a boundary or crosses an allowed one.\<close>

definition may_follow :: "Policy \<Rightarrow> Route \<Rightarrow> Route \<Rightarrow> bool" where
  "may_follow p a b \<longleftrightarrow> rtDataBoundary a = rtDataBoundary b \<or>
     transition (rtDataBoundary a) (rtDataBoundary b) \<in> set (slice_elems (fbAllowedBoundaryTransitions (poFallback p)))"

definition entry_of :: "(string \<times> Route) list \<Rightarrow> string \<Rightarrow> Route" where
  "entry_of routes rid = (case map_of routes rid of None \<Rightarrow> zero_Route | Some route \<Rightarrow> route)"

lemma checkAliasRoutes_ok:
  assumes "checkAliasRoutes p al routes prior rids = []"
  shows "\<forall>rid \<in> set rids. map_of routes rid = Some (entry_of routes rid) \<and>
           alDataClass al \<in> set (rtAcceptedDataClasses (entry_of routes rid)) \<and>
           rtDataBoundary (entry_of routes rid) \<in> set (alAllowedDestinationBoundaries al)"
    and "successively (may_follow p) ((case prior of None \<Rightarrow> [] | Some pr \<Rightarrow> [pr]) @ map (entry_of routes) rids)"
  using assms
  by (induction p al routes prior rids rule: checkAliasRoutes.induct)
    (auto simp: may_follow_def entry_of_def split: option.splits if_splits)

lemma validateAlias_ok:
  assumes "validateAlias p routes name al = []"
  shows "checkAliasRoutes p al routes None (alRouteIDs al) = []" "length (alRouteIDs al) \<le> 2"
    "alDataClass al = ''local_only'' \<longrightarrow> alAllowedDestinationBoundaries al = [''local'']"
  using assms by (auto simp: validateAlias_def split: if_splits)

lemma successively_filter_pair: "successively P xs \<Longrightarrow> length xs \<le> 2 \<Longrightarrow> successively P (filter Q xs)"
  by (cases xs; cases "tl xs") auto

lemma successively_take: "successively P xs \<Longrightarrow> successively P (take n xs)"
  by (metis append_take_drop_id successively_append_iff)

lemma selected_alias:
  assumes r: "newRouteIndex p = Inr r" and al: "map_of (poAliases p) name = Some al"
  shows "\<forall>rid \<in> set (alRouteIDs al). route_of r rid \<in> set (poRoutes p) \<and> rtID (route_of r rid) = rid \<and>
       Route_Validate (route_of r rid) = []"
    and "successively (may_follow p) (map (route_of r) (alRouteIDs al))" and "length (alRouteIDs al) \<le> 2"
    and "alDataClass al = ''local_only'' \<longrightarrow> alAllowedDestinationBoundaries al = [''local'']"
proof -
  note index = newRouteIndex_Inr [OF r]
  note policy = Policy_Validate_ok [OF validatePolicySemantics_ok(1) [OF index(3)]]
  have eq: "entry_of (riByID r) = route_of r" by (auto simp: entry_of_def route_of_def fun_eq_iff)
  have ok: "validateAlias p (riByID r) name al = []"
    using policy(3) map_of_SomeD [OF al] index(2) by auto
  note routes = checkAliasRoutes_ok [OF validateAlias_ok(1) [OF ok], unfolded eq, simplified]
  show "successively (may_follow p) (map (route_of r) (alRouteIDs al))" by (rule routes(2))
  show "length (alRouteIDs al) \<le> 2" "alDataClass al = ''local_only'' \<longrightarrow> alAllowedDestinationBoundaries al = [''local'']"
    using validateAlias_ok [OF ok] by auto
  show "\<forall>rid \<in> set (alRouteIDs al). route_of r rid \<in> set (poRoutes p) \<and> rtID (route_of r rid) = rid \<and>
       Route_Validate (route_of r rid) = []"
    using routes(1) policy(1) index(2) table_lookup by metis
qed

lemma selectRoutesFor_sound:
  assumes r: "newRouteIndex p = Inr r" and sel: "selectRoutesFor r request = Inr routes"
  shows "routes \<noteq> [] \<and> int (length routes) \<le> fbMaxAttempts (poFallback p) \<and> length routes \<le> 2 \<and>
    successively (may_follow p) routes \<and>
    (\<exists>al. map_of (poAliases p) (nrModelAlias (rqNormalized request)) = Some al \<and>
       nrDataClass (rqNormalized request) = alDataClass al \<and>
       (\<forall>route \<in> set routes. route \<in> set (poRoutes p) \<and> rtID route \<in> set (alRouteIDs al) \<and>
          Route_Validate route = [] \<and> admissible p al request route))"
proof -
  obtain al where al: "map_of (poAliases p) (nrModelAlias (rqNormalized request)) = Some al"
    "nrDataClass (rqNormalized request) = alDataClass al"
    "routes = take (nat (fbMaxAttempts (poFallback p))) (filter (admissible p al request) (map (route_of r) (alRouteIDs al)))"
    "filter (admissible p al request) (map (route_of r) (alRouteIDs al)) \<noteq> []"
    using sel by (rule selectRoutesFor_Inr) (simp add: newRouteIndex_Inr [OF r])
  note aliased = selected_alias [OF r al(1)]
  have attempts: "1 \<le> fbMaxAttempts (poFallback p)" "fbMaxAttempts (poFallback p) \<le> 2"
    using Policy_Validate_ok [OF validatePolicySemantics_ok(1) [OF newRouteIndex_Inr(3) [OF r]]] by auto
  have "successively (may_follow p) routes"
    unfolding al(3) by (intro successively_take successively_filter_pair aliased(2)) (use aliased(3) in simp)
  moreover have "\<forall>route \<in> set routes. route \<in> set (poRoutes p) \<and> rtID route \<in> set (alRouteIDs al) \<and>
      Route_Validate route = [] \<and> admissible p al request route"
    using aliased(1) unfolding al(3) by (auto dest!: in_set_takeD)
  moreover have "routes \<noteq> []" using al(3,4) attempts by auto
  moreover have "int (length routes) \<le> fbMaxAttempts (poFallback p)" "length routes \<le> 2"
    using al(3) attempts by auto
  ultimately show ?thesis using al(1,2) by blast
qed

lemma Route_Validate_ok:
  assumes "Route_Validate route = []"
  shows "Endpoint_Validate (rtEndpoint route) (rtDestinationClass route) = []"
    "rtDataBoundary route = boundary_of_class (rtDestinationClass route)" "validDestination (rtDestinationClass route)"
  using assms by (auto simp: Route_Validate_def split: if_splits)

lemma boundary_local_iff: "validDestination c \<Longrightarrow> boundary_of_class c = ''local'' \<longleftrightarrow> c = ''local_node''"
  by (auto simp: validDestination_def boundary_of_class_def)

lemma Endpoint_Validate_local:
  "Endpoint_Validate e ''local_node'' = [] \<Longrightarrow>
     epResolvedAddressPolicy e = ''loopback_only'' \<or> epResolvedAddressPolicy e = ''authenticated_node_tunnel''"
  by (auto simp: Endpoint_Validate_def split: if_splits)

lemma selected_local:
  assumes "newRouteIndex p = Inr r" "selectRoutesFor r request = Inr routes"
    "nrDataClass (rqNormalized request) = ''local_only''" "route \<in> set routes"
  shows "rtDataBoundary route = ''local'' \<and> rtDestinationClass route = ''local_node'' \<and>
    (epResolvedAddressPolicy (rtEndpoint route) = ''loopback_only'' \<or>
     epResolvedAddressPolicy (rtEndpoint route) = ''authenticated_node_tunnel'')"
proof -
  obtain al where al: "map_of (poAliases p) (nrModelAlias (rqNormalized request)) = Some al"
    "alDataClass al = ''local_only''" "Route_Validate route = []" "admissible p al request route"
    using selectRoutesFor_sound [OF assms(1,2)] assms(3,4) by auto
  have "rtDataBoundary route = ''local''"
    using al(4) selected_alias(4) [OF assms(1) al(1)] al(2) by (auto simp: admissible_def)
  with Route_Validate_ok [OF al(3)] boundary_local_iff Endpoint_Validate_local show ?thesis by metis
qed

lemma selected_external:
  assumes "newRouteIndex p = Inr r" "selectRoutesFor r request = Inr routes"
    "route \<in> set routes" "rtDataBoundary route = ''external''"
  shows "epScheme (rtEndpoint route) = ''https'' \<and>
    epResolvedAddressPolicy (rtEndpoint route) = ''public_unicast_only'' \<and>
    hasPrefix (rtCredentialRef route) ''workspace-vault://''"
proof -
  have ok: "Route_Validate route = []"
    using selectRoutesFor_sound [OF assms(1,2)] assms(3) by auto
  have "rtDestinationClass route = ''provider'' \<or> rtDestinationClass route = ''blazn_cloud''"
    using Route_Validate_ok [OF ok] assms(4) by (auto simp: validDestination_def boundary_of_class_def)
  with ok Route_Validate_ok(1) [OF ok] show ?thesis
    by (auto simp: Endpoint_Validate_def Route_Validate_def credentialRefPattern_def split: if_splits)
qed

end
