(* ===== verification/RouterSecurity.thy ===== *)
theory RouterSecurity
  imports RouterPolicy
begin

text \<open>
  Endpoint security: \<open>internal/proxy/router/security.go\<close>.  Addresses are \<open>netip.Addr\<close> values over
  machine words with the predicates of the standard library; resolution, pinned dialling, redirect
  checks, listener authentication and credential stripping follow.  The lemmas give the accepted
  IPv4 addresses as ranges, show that every dialled address was validated, that a chain of redirects
  stays on the validated endpoint, when the listener credential is accepted, and what headers
  remain after stripping.
\<close>

section \<open>Addresses\<close>

text \<open>\<open>netip.Addr\<close>: the zero value, an IPv4 address, or an IPv6 address with its zone.\<close>

datatype netip_Addr = NoAddr | IPv4 "32 word" | IPv6 "128 word" string

definition Addr_Is4In6 :: "netip_Addr \<Rightarrow> bool" where
  "Addr_Is4In6 ip = (case ip of IPv6 a zone \<Rightarrow> drop_bit 32 a = 65535 | _ \<Rightarrow> False)"

definition Addr_Unmap :: "netip_Addr \<Rightarrow> netip_Addr" where
  "Addr_Unmap ip = (case ip of
       IPv6 a zone \<Rightarrow> if drop_bit 32 a = 65535 then IPv4 (ucast a) else ip
     | _ \<Rightarrow> ip)"

definition Addr_IsUnspecified :: "netip_Addr \<Rightarrow> bool" where
  "Addr_IsUnspecified ip \<longleftrightarrow> ip = IPv4 0 \<or> ip = IPv6 0 ''''"

definition Addr_IsMulticast :: "netip_Addr \<Rightarrow> bool" where
  "Addr_IsMulticast ip = (case ip of
       NoAddr \<Rightarrow> False | IPv4 a \<Rightarrow> drop_bit 28 a = 14 | IPv6 a zone \<Rightarrow> drop_bit 120 a = 255)"

definition Addr_IsLinkLocalUnicast :: "netip_Addr \<Rightarrow> bool" where
  "Addr_IsLinkLocalUnicast ip = (case ip of
       NoAddr \<Rightarrow> False | IPv4 a \<Rightarrow> drop_bit 16 a = 43518 | IPv6 a zone \<Rightarrow> drop_bit 118 a = 1018)"

definition Addr_IsLinkLocalMulticast :: "netip_Addr \<Rightarrow> bool" where
  "Addr_IsLinkLocalMulticast ip = (case ip of
       NoAddr \<Rightarrow> False | IPv4 a \<Rightarrow> drop_bit 8 a = 14680064
     | IPv6 a zone \<Rightarrow> drop_bit 120 a = 255 \<and> take_bit 4 (drop_bit 112 a) = 2)"

definition Addr_IsLoopback :: "netip_Addr \<Rightarrow> bool" where
  "Addr_IsLoopback ip = (case ip of
       NoAddr \<Rightarrow> False | IPv4 a \<Rightarrow> drop_bit 24 a = 127 | IPv6 a zone \<Rightarrow> a = 1)"

definition Addr_IsPrivate :: "netip_Addr \<Rightarrow> bool" where
  "Addr_IsPrivate ip = (case ip of
       NoAddr \<Rightarrow> False
     | IPv4 a \<Rightarrow> drop_bit 24 a = 10 \<or> drop_bit 20 a = 2753 \<or> drop_bit 16 a = 49320
     | IPv6 a zone \<Rightarrow> drop_bit 121 a = 126)"

text \<open>
  \<open>netip.Prefix\<close> and \<open>Contains\<close>: the families must agree and an address with a zone is in no prefix.
\<close>

datatype netip_Prefix = Prefix4 "32 word" nat | Prefix6 "128 word" nat

fun Prefix_Contains :: "netip_Prefix \<Rightarrow> netip_Addr \<Rightarrow> bool" where
  "Prefix_Contains (Prefix4 p bits) (IPv4 a) \<longleftrightarrow> drop_bit (32 - bits) a = drop_bit (32 - bits) p"
| "Prefix_Contains (Prefix6 p bits) (IPv6 a zone) \<longleftrightarrow> zone = '''' \<and> drop_bit (128 - bits) a = drop_bit (128 - bits) p"
| "Prefix_Contains _ _ \<longleftrightarrow> False"

definition ipv4 :: "nat \<Rightarrow> nat \<Rightarrow> nat \<Rightarrow> nat \<Rightarrow> 32 word" where
  "ipv4 a b c d = of_nat (((a * 256 + b) * 256 + c) * 256 + d)"

definition nonPublicPrefixes :: "netip_Prefix list" where
  "nonPublicPrefixes =
     [Prefix4 (ipv4 0 0 0 0) 8, Prefix4 (ipv4 100 64 0 0) 10, Prefix4 (ipv4 127 0 0 0) 8, Prefix4 (ipv4 169 254 0 0) 16,
      Prefix4 (ipv4 192 0 0 0) 24, Prefix4 (ipv4 192 0 2 0) 24, Prefix4 (ipv4 198 18 0 0) 15,
      Prefix4 (ipv4 198 51 100 0) 24, Prefix4 (ipv4 203 0 113 0) 24, Prefix4 (ipv4 224 0 0 0) 4,
      Prefix4 (ipv4 240 0 0 0) 4, Prefix6 0 128, Prefix6 1 128, Prefix6 (push_bit 112 0x0100) 64,
      Prefix6 (push_bit 96 0x20010db8) 32, Prefix6 (push_bit 112 0xfc00) 7, Prefix6 (push_bit 112 0xfe80) 10,
      Prefix6 (push_bit 112 0xff00) 8]"

definition isNonPublicAddress :: "netip_Addr \<Rightarrow> bool" where
  "isNonPublicAddress address = list_ex (\<lambda>parsed. Prefix_Contains parsed address) nonPublicPrefixes"

definition validateAddress :: "string \<Rightarrow> netip_Addr \<Rightarrow> err" where
  "validateAddress policy address =
     (if address = NoAddr \<or> Addr_IsUnspecified address \<or> Addr_IsMulticast address \<or>
         Addr_IsLinkLocalUnicast address \<or> Addr_IsLinkLocalMulticast address
      then [Other ''endpoint resolved to a forbidden address'']
      else if policy = ''loopback_only'' then
        (if \<not> Addr_IsLoopback address then [Other ''local endpoint did not resolve to loopback''] else [])
      else if policy = ''authenticated_node_tunnel'' then
        (if \<not> Addr_IsLoopback address then [Other ''POC node tunnel must terminate on loopback''] else [])
      else if policy = ''public_unicast_only'' then
        (if Addr_IsLoopback address \<or> Addr_IsPrivate address \<or> isNonPublicAddress address
         then [Other ''external endpoint resolved to a non-public address''] else [])
      else [Other ''unknown resolved address policy''])"

section \<open>Resolution and dialling\<close>

record net_URL =
  urlScheme :: string
  urlHostname :: string
  urlPort :: string
  urlPath :: string
  urlUser :: "string option"

text \<open>The dialler of the transport is the list of pinned addresses with the port they are dialled at.\<close>

record ResolvedEndpoint =
  reURL :: net_URL
  reAddresses :: "netip_Addr list"
  reTransport :: "netip_Addr list \<times> string"

fun validateAddresses :: "string \<Rightarrow> netip_Addr list \<Rightarrow> err" where
  "validateAddresses policy [] = []"
| "validateAddresses policy (address # rest) =
     (if validateAddress policy (Addr_Unmap address) \<noteq> [] then validateAddress policy (Addr_Unmap address)
      else validateAddresses policy rest)"

type_synonym DNSResolver = "string \<Rightarrow> err + netip_Addr list"

definition Resolve :: "DNSResolver \<Rightarrow> Route \<Rightarrow> err + ResolvedEndpoint" where
  "Resolve dns route =
     (let endpoint = rtEndpoint route in
      case dns (epHostname endpoint) of
        Inl e \<Rightarrow> Inl (Other ''resolve endpoint'' # e)
      | Inr addresses \<Rightarrow>
          if addresses = [] then Inl [Other ''resolve endpoint'']
          else if validateAddresses (epResolvedAddressPolicy endpoint) addresses \<noteq> []
          then Inl (validateAddresses (epResolvedAddressPolicy endpoint) addresses)
          else Inr \<lparr>reURL = \<lparr>urlScheme = epScheme endpoint, urlHostname = epHostname endpoint,
                       urlPort = formatInt (epPort endpoint), urlPath = epBasePath endpoint, urlUser = None\<rparr>,
                    reAddresses = addresses, reTransport = (addresses, formatInt (epPort endpoint))\<rparr>)"

text \<open>
  The \<open>DialContext\<close> of the transport: the pinned addresses in turn, whatever host the request names.
  The second component of the result lists the addresses that were dialled.
\<close>

fun dialPinned :: "(netip_Addr \<Rightarrow> string \<Rightarrow> err + 'conn) \<Rightarrow> string \<Rightarrow> err \<Rightarrow> netip_Addr list \<Rightarrow>
    (err + 'conn) \<times> netip_Addr list" where
  "dialPinned dial port lastErr [] = (Inl lastErr, [])"
| "dialPinned dial port lastErr (address # rest) =
     (case dial address port of
        Inr connection \<Rightarrow> (Inr connection, [address])
      | Inl e \<Rightarrow> (let (r, tried) = dialPinned dial port e rest in (r, address # tried)))"

definition Transport_DialContext ::
    "(netip_Addr \<Rightarrow> string \<Rightarrow> err + 'conn) \<Rightarrow> netip_Addr list \<times> string \<Rightarrow> string \<Rightarrow> (err + 'conn) \<times> netip_Addr list" where
  "Transport_DialContext dial transport host = dialPinned dial (snd transport) [] (fst transport)"

section \<open>Redirects\<close>

definition trimRightSlash :: "string \<Rightarrow> string" where
  "trimRightSlash s = rev (dropWhile (\<lambda>c. c = CHR ''/'') (rev s))"

definition redirectPolicy :: "Route \<Rightarrow> net_URL \<Rightarrow> nat \<Rightarrow> err" where
  "redirectPolicy route target via =
     (if via \<ge> 3 then [Other ''redirect limit exceeded'']
      else (let port = (if urlPort target = '''' then
                (if urlScheme target = ''https'' then ''443'' else if urlScheme target = ''http'' then ''80'' else '''')
              else urlPort target);
              trimmed = trimRightSlash (epBasePath (rtEndpoint route)) in
         if urlScheme target \<noteq> epScheme (rtEndpoint route) \<or>
            \<not> equalFold (urlHostname target) (epHostname (rtEndpoint route)) \<or>
            port \<noteq> formatInt (epPort (rtEndpoint route))
         then [Other ''redirect leaves the validated route'']
         else if urlUser target \<noteq> None then [Other ''redirect URL userinfo is forbidden'']
         else if urlPath target \<noteq> trimmed \<and> \<not> hasPrefix (urlPath target) (trimmed @ ''/'')
         then [Other ''redirect leaves the validated route base path'']
         else []))"

text \<open>\<open>http.Client\<close> follows a chain of redirects, asking \<open>CheckRedirect\<close> before each.\<close>

fun followRedirects :: "Route \<Rightarrow> nat \<Rightarrow> net_URL list \<Rightarrow> err + net_URL list" where
  "followRedirects route via [] = Inr []"
| "followRedirects route via (target # rest) =
     (if redirectPolicy route target via \<noteq> [] then Inl (redirectPolicy route target via)
      else (case followRedirects route (Suc via) rest of Inl e \<Rightarrow> Inl e | Inr us \<Rightarrow> Inr (target # us)))"

section \<open>Listener credentials\<close>

text \<open>\<open>http.Header\<close>: a map from keys to lists of values, as an association list with distinct keys.\<close>

type_synonym http_Header = "(string \<times> string list) list"

definition is_tchar :: "char \<Rightarrow> bool" where
  "is_tchar c \<longleftrightarrow> is_alnum c \<or> c \<in> set ''!#$%&*+-.^_`|~'' \<or> byte c = 39"

definition upperByte :: "char \<Rightarrow> char" where
  "upperByte c = (if is_lower c then char_of (byte c - 32) else c)"

definition lowerByte :: "char \<Rightarrow> char" where
  "lowerByte c = (if is_upper c then char_of (byte c + 32) else c)"

fun canonicalize :: "bool \<Rightarrow> string \<Rightarrow> string" where
  "canonicalize upper [] = []"
| "canonicalize upper (c # cs) = (if upper then upperByte c else lowerByte c) # canonicalize (c = CHR ''-'') cs"

text \<open>\<open>textproto.CanonicalMIMEHeaderKey\<close>: a key that is not a token is left as it is.\<close>

definition CanonicalHeaderKey :: "string \<Rightarrow> string" where
  "CanonicalHeaderKey s = (if s \<noteq> [] \<and> list_all is_tchar s then canonicalize True s else s)"

definition Header_Values :: "http_Header \<Rightarrow> string \<Rightarrow> string list" where
  "Header_Values h key = (case map_of h (CanonicalHeaderKey key) of None \<Rightarrow> [] | Some vs \<Rightarrow> vs)"

definition Header_Del :: "http_Header \<Rightarrow> string \<Rightarrow> http_Header" where
  "Header_Del h key = filter (\<lambda>(k, vs). k \<noteq> CanonicalHeaderKey key) h"

definition Header_Set :: "http_Header \<Rightarrow> string \<Rightarrow> string \<Rightarrow> http_Header" where
  "Header_Set h key value = (CanonicalHeaderKey key, [value]) # Header_Del h key"

text \<open>
  \<open>strings.ToLower(s) == t\<close> for an ASCII text \<open>t\<close>: besides the ASCII capitals only the Kelvin sign and
  the dotted capital I have an ASCII lower case.
\<close>

definition lowerRune :: "nat \<Rightarrow> nat" where
  "lowerRune r = (if 65 \<le> r \<and> r \<le> 90 then r + 32 else if r = 8490 then 107 else if r = 304 then 105 else r)"

definition lowersTo :: "string \<Rightarrow> string \<Rightarrow> bool" where
  "lowersTo s t \<longleftrightarrow> map lowerRune (runes s) = map of_char t"

definition credential_header :: "string \<Rightarrow> bool" where
  "credential_header name \<longleftrightarrow>
     lowersTo name ''authorization'' \<or> lowersTo name ''proxy-authorization'' \<or> lowersTo name ''x-api-key''"

definition stripCredentialHeaders :: "http_Header \<Rightarrow> http_Header" where
  "stripCredentialHeaders header =
     fold (\<lambda>name h. if credential_header name then Header_Del h name else h) (map fst header) header"

definition authenticateAndStrip :: "http_Header \<Rightarrow> string \<Rightarrow> bool \<times> http_Header" where
  "authenticateAndStrip header listenerToken =
     (let authorization = Header_Values header ''Authorization''; apiKeys = Header_Values header ''x-api-key'';
          source = (if length authorization = 1 \<and> length apiKeys = 0 then
              (case cut_at (CHR '' '') (hd authorization) of
                 Some (scheme, rest) \<Rightarrow> if equalFold scheme ''Bearer'' \<and> rest \<noteq> '''' then Some rest else None
               | None \<Rightarrow> None)
            else if length authorization = 0 \<and> length apiKeys = 1 \<and> hd apiKeys \<noteq> '''' then Some (hd apiKeys)
            else None);
          valid = (case source of None \<Rightarrow> False | Some sourceCredential \<Rightarrow> listenerToken \<noteq> '''' \<and> sourceCredential = listenerToken)
      in (valid, stripCredentialHeaders header))"

definition BearerCredentialAdapter_Apply :: "http_Header \<Rightarrow> Route \<Rightarrow> string \<Rightarrow> err + http_Header" where
  "BearerCredentialAdapter_Apply header route credential =
     (if credential = '''' then Inl [Other ''destination credential is empty'']
      else Inr (Header_Set header ''Authorization'' (''Bearer '' @ credential)))"

section \<open>The address ranges that are accepted\<close>

lemma drop_bit_eq_unat: "drop_bit n (a :: 'a::len word) = k \<longleftrightarrow> unat a div 2 ^ n = unat k"
  unfolding word_unat_eq_iff unat_drop_bit_eq by (simp add: drop_bit_eq_div)

lemma div_eq_range: "0 < m \<Longrightarrow> n div m = c \<longleftrightarrow> c * m \<le> n \<and> n < c * m + (m :: nat)"
  by (metis div_nat_eqI div_times_less_eq_dividend dividend_less_div_times mult.commute mult_Suc_right add.commute)

text \<open>The special-purpose IPv4 blocks, as half-open ranges of addresses read as numbers.\<close>

definition reserved4 :: "(nat \<times> nat) list" where
  "reserved4 =
     [(0, 0x01000000), (0x64400000, 0x64800000), (0x7f000000, 0x80000000), (0xa9fe0000, 0xa9ff0000),
      (0xc0000000, 0xc0000100), (0xc0000200, 0xc0000300), (0xc6120000, 0xc6140000), (0xc6336400, 0xc6336500),
      (0xcb007100, 0xcb007200), (0xe0000000, 0xf0000000), (0xf0000000, 0x100000000)]"

definition private4 :: "(nat \<times> nat) list" where
  "private4 = [(0x0a000000, 0x0b000000), (0xac100000, 0xac200000), (0xc0a80000, 0xc0a90000)]"

definition in_ranges :: "(nat \<times> nat) list \<Rightarrow> nat \<Rightarrow> bool" where
  "in_ranges rs n \<longleftrightarrow> list_ex (\<lambda>(lo, hi). lo \<le> n \<and> n < hi) rs"

lemmas addr_defs = Addr_IsUnspecified_def Addr_IsMulticast_def Addr_IsLinkLocalUnicast_def
  Addr_IsLinkLocalMulticast_def Addr_IsLoopback_def Addr_IsPrivate_def

lemma drop_bit_eq_range:
  "drop_bit n (a :: 'a::len word) = k \<longleftrightarrow> unat k * 2 ^ n \<le> unat a \<and> unat a < unat k * 2 ^ n + 2 ^ n"
  unfolding drop_bit_eq_unat by (rule div_eq_range) simp

lemma unat_drop_ipv4: "unat (drop_bit n (ipv4 a b c d)) = (((a * 256 + b) * 256 + c) * 256 + d) mod 2 ^ 32 div 2 ^ n"
  unfolding unat_drop_bit_eq ipv4_def unat_of_nat by (simp add: drop_bit_eq_div)

lemma isNonPublicAddress4: "isNonPublicAddress (IPv4 a) \<longleftrightarrow> in_ranges reserved4 (unat a)"
  by (simp add: isNonPublicAddress_def nonPublicPrefixes_def drop_bit_eq_range unat_drop_ipv4 in_ranges_def reserved4_def)

lemma Addr_IsPrivate4: "Addr_IsPrivate (IPv4 a) \<longleftrightarrow> in_ranges private4 (unat a)"
  by (simp add: addr_defs drop_bit_eq_range in_ranges_def private4_def)

lemma forbidden4:
  "Addr_IsUnspecified (IPv4 a) \<or> Addr_IsMulticast (IPv4 a) \<or> Addr_IsLinkLocalUnicast (IPv4 a) \<or>
     Addr_IsLinkLocalMulticast (IPv4 a) \<or> Addr_IsLoopback (IPv4 a) \<Longrightarrow> in_ranges reserved4 (unat a)"
  by (elim disjE) (simp_all add: addr_defs drop_bit_eq_range in_ranges_def reserved4_def)

lemma validateAddress4:
  "validateAddress ''public_unicast_only'' (IPv4 a) = [] \<longleftrightarrow> \<not> in_ranges (reserved4 @ private4) (unat a)"
  using forbidden4 [of a] by (auto simp: validateAddress_def isNonPublicAddress4 Addr_IsPrivate4 in_ranges_def)

section \<open>What a connection reaches\<close>

lemma validateAddress_loopback:
  assumes "validateAddress policy a = []" "policy = ''loopback_only'' \<or> policy = ''authenticated_node_tunnel''"
  shows "Addr_IsLoopback a"
  using assms by (auto simp: validateAddress_def split: if_splits)

lemma validateAddresses_iff: "validateAddresses policy as = [] \<longleftrightarrow> (\<forall>a \<in> set as. validateAddress policy (Addr_Unmap a) = [])"
  by (induction as) auto

lemma Resolve_Inr:
  assumes "Resolve dns route = Inr res"
  shows "reAddresses res \<noteq> []" "reTransport res = (reAddresses res, formatInt (epPort (rtEndpoint route)))"
    "\<forall>a \<in> set (reAddresses res). validateAddress (epResolvedAddressPolicy (rtEndpoint route)) (Addr_Unmap a) = []"
    "urlScheme (reURL res) = epScheme (rtEndpoint route)" "urlHostname (reURL res) = epHostname (rtEndpoint route)"
  using assms by (auto simp: Resolve_def Let_def validateAddresses_iff split: sum.splits if_splits)

lemma dialPinned_tried: "set (snd (dialPinned dial port e as)) \<subseteq> set as"
  by (induction as arbitrary: e) (fastforce simp: case_prod_unfold Let_def split: sum.splits)+

lemma dialPinned_connects:
  "fst (dialPinned dial port e as) = Inr c \<Longrightarrow> \<exists>a \<in> set as. dial a port = Inr c"
  by (induction as arbitrary: e) (fastforce simp: case_prod_unfold Let_def split: sum.splits)+

lemma dialled_validated:
  assumes "Resolve dns route = Inr res" "a \<in> set (snd (Transport_DialContext dial (reTransport res) host))"
  shows "validateAddress (epResolvedAddressPolicy (rtEndpoint route)) (Addr_Unmap a) = []"
  using assms Resolve_Inr [OF assms(1)] dialPinned_tried by (fastforce simp: Transport_DialContext_def)

lemma redirectPolicy_ok:
  assumes "redirectPolicy route target via = []"
  shows "via < 3" "urlScheme target = epScheme (rtEndpoint route)"
    "equalFold (urlHostname target) (epHostname (rtEndpoint route))" "urlUser target = None"
    "urlPath target = trimRightSlash (epBasePath (rtEndpoint route)) \<or>
     hasPrefix (urlPath target) (trimRightSlash (epBasePath (rtEndpoint route)) @ ''/'')"
    "urlPort target \<noteq> '''' \<Longrightarrow> urlPort target = formatInt (epPort (rtEndpoint route))"
  using assms by (auto simp: redirectPolicy_def Let_def split: if_splits)

lemma followRedirects_Cons:
  "followRedirects route via (t # ts) = Inr us \<longleftrightarrow>
     redirectPolicy route t via = [] \<and> (\<exists>vs. followRedirects route (Suc via) ts = Inr vs \<and> us = t # vs)"
  by (auto split: sum.splits)

lemma followRedirects_ok:
  "followRedirects route via targets = Inr us \<Longrightarrow>
     us = targets \<and> (targets \<noteq> [] \<longrightarrow> via + length targets \<le> 3) \<and> (\<forall>u \<in> set targets. \<exists>v. redirectPolicy route u v = [])"
proof (induction targets arbitrary: via us)
  case (Cons t ts)
  then obtain vs where step: "redirectPolicy route t via = []" "followRedirects route (Suc via) ts = Inr vs" "us = t # vs"
    unfolding followRedirects_Cons by blast
  then show ?case using Cons.IH [OF step(2)] redirectPolicy_ok(1) [OF step(1)] by (cases ts) auto
qed simp

section \<open>What stripping leaves\<close>

lemma strip_fold:
  "fold (\<lambda>name h. if credential_header name then Header_Del h name else h) names h =
     filter (\<lambda>(k, vs). \<forall>name \<in> set names. credential_header name \<longrightarrow> k \<noteq> CanonicalHeaderKey name) h"
  by (induction names arbitrary: h) (auto simp: Header_Del_def intro!: filter_cong)

text \<open>The server stores every header under its canonical key.\<close>

definition canonical_keys :: "http_Header \<Rightarrow> bool" where
  "canonical_keys h \<longleftrightarrow> list_all (\<lambda>(k, vs). CanonicalHeaderKey k = k) h"

lemma stripCredentialHeaders_canonical:
  assumes "canonical_keys h"
  shows "stripCredentialHeaders h = filter (\<lambda>(k, vs). \<not> credential_header k) h"
  unfolding stripCredentialHeaders_def strip_fold
proof (rule filter_cong [OF refl])
  fix x assume x: "x \<in> set h"
  have can: "CanonicalHeaderKey k = k" if "(k, vs) \<in> set h" for k vs
    using assms that by (auto simp: canonical_keys_def list_all_iff)
  show "(case x of (k, vs) \<Rightarrow> \<forall>name \<in> set (map fst h). credential_header name \<longrightarrow> k \<noteq> CanonicalHeaderKey name) =
      (case x of (k, vs) \<Rightarrow> \<not> credential_header k)"
    using x can by (auto split: prod.splits)
qed

lemma authenticate_iff:
  "fst (authenticateAndStrip h tok) \<longleftrightarrow> tok \<noteq> '''' \<and>
     ((\<exists>scheme. Header_Values h ''Authorization'' = [scheme @ CHR '' '' # tok] \<and> CHR '' '' \<notin> set scheme \<and>
         equalFold scheme ''Bearer'' \<and> Header_Values h ''x-api-key'' = []) \<or>
      (Header_Values h ''Authorization'' = [] \<and> Header_Values h ''x-api-key'' = [tok]))"
proof -
  have cut: "cut_at c (s @ c # t) = Some (s, t)" if "c \<notin> set s" for c s t
    using that by (induction s) auto
  show ?thesis
    by (auto simp: authenticateAndStrip_def Let_def cut length_Suc_conv dest: cut_at_Some split: option.splits if_splits prod.splits)
qed

end
