(* ===== verification/RouterEvents.thy ===== *)
theory RouterEvents
  imports RouterSecurity
begin

text \<open>
  Audit events: \<open>Event\<close> with its validator in \<open>internal/proxycontract/contracts.gen.go\<close>, and \<open>emit\<close>,
  \<open>newUUID\<close> and \<open>reasonForError\<close> of \<open>internal/proxy/router/handler.go\<close>.  The lemmas show that the
  random identifiers always have the shape of a UUID, and exactly when an event is delivered rather
  than silently dropped.
\<close>

section \<open>Events\<close>

definition digestPattern :: "string \<Rightarrow> bool" where
  "digestPattern v = match_classes (map (\<lambda>c c'. c' = c) ''sha256:'' @ replicate 64 is_lower_hex) v"

record Usage =
  usInputTokens :: int
  usOutputTokens :: int

record Event =
  evEventID :: string
  evCursor :: string
  evTimestamp :: string
  evType :: string
  evActivationID :: string
  evLogicalRequestID :: string
  evAttempt :: int
  evProtocol :: Protocol
  evModelAlias :: string
  evPolicy :: PolicyIdentity
  evRouteID :: string
  evDestinationClass :: string
  evOutcome :: string
  evReasonCode :: string
  evLatencyMS :: int
  evUsage :: "Usage option"

definition validEventType :: "string \<Rightarrow> bool" where
  "validEventType v \<longleftrightarrow> v = ''request_started'' \<or> v = ''route_selected'' \<or> v = ''attempt_finished'' \<or>
     v = ''request_finished'' \<or> v = ''request_cancelled''"

definition validOutcome :: "string \<Rightarrow> bool" where
  "validOutcome v \<longleftrightarrow> v = ''success'' \<or> v = ''failed'' \<or> v = ''cancelled'' \<or> v = ''fallback''"

definition validFailureEventReason :: "string \<Rightarrow> bool" where
  "validFailureEventReason v \<longleftrightarrow> v = ''connection_failure'' \<or> v = ''timeout_before_first_byte'' \<or> v = ''rate_limited'' \<or>
     v = ''upstream_5xx'' \<or> v = ''model_unavailable'' \<or> v = ''compatible_context_overflow'' \<or>
     v = ''unsupported_capability'' \<or> v = ''authentication_failed'' \<or> v = ''policy_denied''"

definition validEventReason :: "string \<Rightarrow> bool" where
  "validEventReason v \<longleftrightarrow> v = ''none'' \<or> v = ''connection_failure'' \<or> v = ''timeout_before_first_byte'' \<or>
     v = ''rate_limited'' \<or> v = ''upstream_5xx'' \<or> v = ''model_unavailable'' \<or> v = ''compatible_context_overflow'' \<or>
     v = ''unsupported_capability'' \<or> v = ''authentication_failed'' \<or> v = ''policy_denied'' \<or> v = ''cancelled'' \<or>
     v = ''fallback_selected''"

definition negative_usage :: "Usage option \<Rightarrow> bool" where
  "negative_usage u = (case u of None \<Rightarrow> False | Some v \<Rightarrow> usInputTokens v < 0 \<or> usOutputTokens v < 0)"

text \<open>The \<open>switch\<close> over the type of an event.\<close>

definition event_semantics :: "Event \<Rightarrow> err" where
  "event_semantics e =
     (if evType e = ''request_started'' then
        (if evOutcome e \<noteq> ''success'' \<or> evReasonCode e \<noteq> ''none'' \<or> evUsage e \<noteq> None
         then [Other ''request_started event semantics are invalid''] else [])
      else if evType e = ''route_selected'' then
        (if evUsage e \<noteq> None \<or>
            \<not> ((evOutcome e = ''success'' \<and> evReasonCode e = ''none'') \<or>
               (evOutcome e = ''fallback'' \<and> evReasonCode e = ''fallback_selected''))
         then [Other ''route_selected event semantics are invalid''] else [])
      else if evType e = ''attempt_finished'' \<or> evType e = ''request_finished'' then
        (if \<not> ((evOutcome e = ''success'' \<and> evReasonCode e = ''none'') \<or>
               (evOutcome e = ''failed'' \<and> validFailureEventReason (evReasonCode e)))
         then [Other ''finished event semantics are invalid''] else [])
      else if evType e = ''request_cancelled'' then
        (if evOutcome e \<noteq> ''cancelled'' \<or> evReasonCode e \<noteq> ''cancelled'' \<or> evUsage e \<noteq> None
         then [Other ''request_cancelled event semantics are invalid''] else [])
      else [])"

definition Event_Validate :: "Event \<Rightarrow> err" where
  "Event_Validate e =
     (if \<not> uuidPattern (evEventID e) \<or> length (evCursor e) < 1 \<or> length (evCursor e) > 128 \<or>
         \<not> uuidPattern (evActivationID e) \<or> \<not> uuidPattern (evLogicalRequestID e) \<or> \<not> uuidPattern (evRouteID e) \<or>
         evAttempt e < 1 \<or> evAttempt e > 2 \<or> \<not> validProtocol (evProtocol e) \<or>
         \<not> validDestination (evDestinationClass e) \<or> \<not> validEventType (evType e) \<or> \<not> validOutcome (evOutcome e) \<or>
         length (evModelAlias e) < 1 \<or> length (evModelAlias e) > 128 \<or> \<not> validEventReason (evReasonCode e) \<or>
         evLatencyMS e < 0
      then [Other ''proxy event is invalid'']
      else if \<not> uuidPattern (pID (evPolicy e)) \<or> pVersion (evPolicy e) < 1 \<or> \<not> digestPattern (pDigest (evPolicy e))
      then [Other ''proxy event policy identity is invalid'']
      else if parseRFC3339 (evTimestamp e) = None then [Other ''proxy event timestamp is invalid'']
      else if negative_usage (evUsage e) then [Other ''proxy event usage is invalid'']
      else event_semantics e)"

section \<open>Random identifiers\<close>

unbundle bit_operations_syntax

text \<open>Sixteen random bytes with the version and the variant forced, written in hexadecimal.\<close>

definition versioned :: "8 word list \<Rightarrow> 8 word list" where
  "versioned raw = raw[6 := (raw ! 6 AND 0x0f) OR 0x40, 8 := (raw ! 8 AND 0x3f) OR 0x80]"

definition hex_byte :: "8 word \<Rightarrow> string" where
  "hex_byte b = [hex_char (uint b div 16), hex_char (uint b mod 16)]"

definition hex_encode :: "8 word list \<Rightarrow> string" where
  "hex_encode raw = concat (map hex_byte raw)"

definition newUUID :: "8 word list \<Rightarrow> string" where
  "newUUID raw =
     (let raw' = versioned raw in
      hex_encode (take 4 raw') @ ''-'' @ hex_encode (take 2 (drop 4 raw')) @ ''-'' @
      hex_encode (take 2 (drop 6 raw')) @ ''-'' @ hex_encode (take 2 (drop 8 raw')) @ ''-'' @
      hex_encode (take 6 (drop 10 raw')))"

section \<open>The handler\<close>

text \<open>
  What the handler shares and touches: the cursor of \<open>atomic.Uint64\<close>, the events its sink received,
  the clock as it will be read, the random bytes to come, and everything outside.
\<close>

record 'x hworld =
  hwCursor :: "64 word"
  hwEvents :: "Event list"
  hwClock :: instant
  hwTicks :: "int list"
  hwRand :: "8 word list list"
  hwExt :: 'x

definition now :: "'x hworld \<Rightarrow> instant \<times> 'x hworld" where
  "now w =
     (case hwTicks w of
        [] \<Rightarrow> (hwClock w, w)
      | t # ts \<Rightarrow> (hwClock w + t, w\<lparr>hwClock := hwClock w + t, hwTicks := ts\<rparr>))"

definition sixteen :: "8 word list \<Rightarrow> 8 word list" where
  "sixteen bs = take 16 (bs @ replicate 16 0)"

definition uuidH :: "'x hworld \<Rightarrow> string \<times> 'x hworld" where
  "uuidH w =
     (case hwRand w of
        [] \<Rightarrow> (newUUID (replicate 16 0), w)
      | bs # rest \<Rightarrow> (newUUID (sixteen bs), w\<lparr>hwRand := rest\<rparr>))"

text \<open>The part of \<open>Config\<close> events are built from.\<close>

record audit =
  auPolicy :: Policy
  auPolicyDigest :: string
  auActivationID :: string

definition emit ::
    "audit \<Rightarrow> NormalizedRequest \<Rightarrow> Route \<Rightarrow> int \<Rightarrow> string \<Rightarrow> string \<Rightarrow> string \<Rightarrow> int \<Rightarrow> Usage option \<Rightarrow>
       'x hworld \<Rightarrow> 'x hworld" where
  "emit c request route attempt eventType outcome reason latency usage w =
     (let cursor = hwCursor w + 1; w1 = w\<lparr>hwCursor := cursor\<rparr>;
          (eventID, w2) = uuidH w1; (t, w3) = now w2;
          event = \<lparr>evEventID = eventID, evCursor = formatInt (uint cursor), evTimestamp = formatRFC3339 t,
            evType = eventType, evActivationID = auActivationID c, evLogicalRequestID = nrLogicalRequestID request,
            evAttempt = attempt, evProtocol = nrProtocol request, evModelAlias = nrModelAlias request,
            evPolicy = \<lparr>pID = poID (auPolicy c), pVersion = poVersion (auPolicy c), pDigest = auPolicyDigest c\<rparr>,
            evRouteID = rtID route, evDestinationClass = rtDestinationClass route, evOutcome = outcome,
            evReasonCode = reason, evLatencyMS = max 0 (Milliseconds latency), evUsage = usage\<rparr>
      in if Event_Validate event = [] then w3\<lparr>hwEvents := hwEvents w3 @ [event]\<rparr> else w3)"

text \<open>
  Errors of the handler: an \<open>APIError\<close> that \<open>errors.As\<close> finds, an \<open>anthropic.Error\<close> with its code,
  message and status, or any other error.
\<close>

text \<open>What \<open>ctx.Err()\<close> can be.\<close>

datatype ctx_error = Canceled | DeadlineExceeded

datatype go_error = ApiErr APIError | AnthropicErr string string int | PlainErr err

definition reason_of_code :: "string \<Rightarrow> string" where
  "reason_of_code code =
     (if code = ''cancelled'' then ''cancelled''
      else if code = ''authentication_failed'' \<or> code = ''credential_unavailable'' then ''authentication_failed''
      else if code = ''connection_failure'' then ''connection_failure''
      else if code = ''timeout_before_first_byte'' then ''timeout_before_first_byte''
      else if code = ''rate_limited'' then ''rate_limited''
      else if code = ''upstream_5xx'' then ''upstream_5xx''
      else if code = ''model_unavailable'' then ''model_unavailable''
      else if code = ''context_overflow'' then ''compatible_context_overflow''
      else if code = ''unsupported_capability'' then ''unsupported_capability''
      else ''policy_denied'')"

definition reasonForError :: "go_error \<Rightarrow> string" where
  "reasonForError err = (case err of ApiErr api \<Rightarrow> reason_of_code (aeCode api) | _ \<Rightarrow> ''policy_denied'')"

section \<open>Identifiers are UUIDs\<close>

lemma uint_nibble: "drop_bit 4 w = k \<Longrightarrow> uint (w :: 8 word) div 16 = int (unat k)"
proof -
  assume "drop_bit 4 w = k"
  then have "unat w div 16 = unat k" using drop_bit_eq_unat [of 4 w k] by simp
  then have "int (unat w) div int 16 = int (unat k)" by (simp only: zdiv_int [symmetric])
  then show ?thesis by simp
qed

lemma version_nibble: "uint ((b AND 0x0f) OR (0x40 :: 8 word)) div 16 = 4"
proof -
  have "drop_bit 4 ((b AND 0x0f) OR 0x40) = (4 :: 8 word)"
    by (simp add: drop_bit_or drop_bit_and)
  from uint_nibble [OF this] show ?thesis by simp
qed

lemma variant_nibble: "uint ((b AND 0x3f) OR (0x80 :: 8 word)) div 16 \<in> {8, 9, 10, 11}"
proof -
  have "unat (take_bit 2 (drop_bit 4 b) :: 8 word) < 4"
    using take_bit_nat_less_exp [of 2 "unat (drop_bit 4 b)"] by (simp only: unsigned_take_bit_eq) simp
  then have "take_bit 2 (drop_bit 4 b) \<in> {0, 1, 2, 3 :: 8 word}"
    unfolding insert_iff empty_iff word_unat_eq_iff by simp arith
  moreover have "drop_bit 4 ((b AND 0x3f) OR 0x80) = (take_bit 2 (drop_bit 4 b) OR 8 :: 8 word)"
    by (simp add: drop_bit_or drop_bit_and take_bit_eq_mask mask_eq_exp_minus_1)
  ultimately have "drop_bit 4 ((b AND 0x3f) OR 0x80) \<in> {8, 9, 10, 11 :: 8 word}" by auto
  then show ?thesis by (elim insertE emptyE) (drule uint_nibble, simp)+
qed

lemma length_versioned [simp]: "length (versioned raw) = length raw"
  by (simp add: versioned_def)

lemma hex_chars:
  "0 \<le> d \<Longrightarrow> d < 16 \<Longrightarrow> is_any_hex (hex_char d)"
  "in_range 49 53 (hex_char 4)" "d \<in> {8, 9, 10, 11} \<Longrightarrow> hex_char d \<in> set ''89abAB''"
proof -
  show "is_any_hex (hex_char d)" if "0 \<le> d" "d < 16"
    using hex_char_lower [OF that] by (auto simp: go_defs)
  have "hex_char 4 = CHR ''4''" "hex_char 8 = CHR ''8''" "hex_char 9 = CHR ''9''" "hex_char 10 = CHR ''a''" "hex_char 11 = CHR ''b''"
    by code_simp+
  then show "in_range 49 53 (hex_char 4)" "d \<in> {8, 9, 10, 11} \<Longrightarrow> hex_char d \<in> set ''89abAB''"
    by (auto simp: in_range_def)
qed

lemma hex_byte_any: "list_all is_any_hex (hex_byte b)"
proof -
  have "uint b < 256" using uint_lt2p [of b] by simp
  moreover have "0 \<le> uint b" by simp
  ultimately have "uint b div 16 < 16" "0 \<le> uint b div 16" by linarith+
  then show ?thesis by (simp add: hex_byte_def hex_chars(1))
qed

lemma hex_encode_any [simp]: "list_all is_any_hex (hex_encode raw)" "length (hex_encode raw) = 2 * length raw"
  by (induction raw) (use hex_byte_any in \<open>auto simp: hex_encode_def hex_byte_def\<close>)

lemma match_classes_append:
  "length cs = length s \<Longrightarrow> match_classes (cs @ ds) (s @ t) \<longleftrightarrow> match_classes cs s \<and> match_classes ds t"
  by (auto simp: match_classes_def)

lemma match_classes_Cons [simp]: "match_classes (p # cs) (c # s) \<longleftrightarrow> p c \<and> match_classes cs s"
  by (auto simp: match_classes_def)

lemma match_classes_replicate [simp]: "match_classes (replicate n p) s \<longleftrightarrow> length s = n \<and> list_all p s"
proof (induction n arbitrary: s)
  case (Suc n)
  then show ?case by (cases s) (auto simp: match_classes_def)
qed (auto simp: match_classes_def)

lemma newUUID_pattern: "length raw = 16 \<Longrightarrow> uuidPattern (newUUID raw)"
proof -
  assume len: "length raw = 16"
  define raw' where "raw' = versioned raw"
  have len': "length raw' = 16" by (simp add: raw'_def len)
  have at: "raw' ! 6 = (raw ! 6 AND 0x0f) OR 0x40" "raw' ! 8 = (raw ! 8 AND 0x3f) OR 0x80"
    by (simp_all add: raw'_def versioned_def len)
  have two: "\<exists>y. hex_encode (take 2 (drop n raw')) = hex_char (uint (raw' ! n) div 16) # y \<and> length y = 3 \<and> list_all is_any_hex y"
    if "n < 15" for n
    using that len' hex_byte_any [of "raw' ! n"] hex_byte_any [of "raw' ! Suc n"]
    by (simp add: numeral_2_eq_2 take_Suc_conv_app_nth hex_encode_def hex_byte_def nth_drop)
  obtain y6 y8 where y: "hex_encode (take 2 (drop 6 raw')) = hex_char (uint (raw' ! 6) div 16) # y6" "length y6 = 3"
      "list_all is_any_hex y6" "hex_encode (take 2 (drop 8 raw')) = hex_char (uint (raw' ! 8) div 16) # y8" "length y8 = 3"
      "list_all is_any_hex y8"
    using two [of 6] two [of 8] by auto
  have "in_range 49 53 (hex_char (uint (raw' ! 6) div 16))" "hex_char (uint (raw' ! 8) div 16) \<in> set ''89abAB''"
    unfolding at using hex_chars(2) hex_chars(3) [OF variant_nibble] version_nibble [of "raw ! 6"] by simp_all
  then show ?thesis
    unfolding newUUID_def uuidPattern_def uuid_classes_def raw'_def [symmetric] Let_def
    using len' y by (simp add: match_classes_append)
qed

section \<open>When an event is delivered\<close>

text \<open>The clock stays within the years that \<open>time.RFC3339\<close> can express, at every reading to come.\<close>

definition stampable :: "instant \<Rightarrow> bool" where
  "stampable t \<longleftrightarrow> 0 \<le> fst (civil (t div 1000000000 div 86400)) \<and> fst (civil (t div 1000000000 div 86400)) \<le> 9999"

fun readings_ok :: "instant \<Rightarrow> int list \<Rightarrow> bool" where
  "readings_ok t [] \<longleftrightarrow> stampable t"
| "readings_ok t (d # ds) \<longleftrightarrow> stampable t \<and> readings_ok (t + d) ds"

definition clock_ok :: "'x hworld \<Rightarrow> bool" where
  "clock_ok w \<longleftrightarrow> readings_ok (hwClock w) (hwTicks w)"

definition audit_ready :: "audit \<Rightarrow> NormalizedRequest \<Rightarrow> bool" where
  "audit_ready c request \<longleftrightarrow> uuidPattern (auActivationID c) \<and> uuidPattern (poID (auPolicy c)) \<and>
     1 \<le> poVersion (auPolicy c) \<and> digestPattern (auPolicyDigest c) \<and> uuidPattern (nrLogicalRequestID request) \<and>
     validProtocol (nrProtocol request) \<and> 1 \<le> length (nrModelAlias request) \<and> length (nrModelAlias request) \<le> 128"

definition route_ready :: "Route \<Rightarrow> bool" where
  "route_ready route \<longleftrightarrow> uuidPattern (rtID route) \<and> validDestination (rtDestinationClass route)"

definition recordable :: "string \<Rightarrow> string \<Rightarrow> string \<Rightarrow> Usage option \<Rightarrow> bool" where
  "recordable eventType outcome reason usage \<longleftrightarrow> \<not> negative_usage usage \<and>
     (eventType = ''request_started'' \<and> outcome = ''success'' \<and> reason = ''none'' \<and> usage = None \<or>
      eventType = ''route_selected'' \<and> usage = None \<and>
        (outcome = ''success'' \<and> reason = ''none'' \<or> outcome = ''fallback'' \<and> reason = ''fallback_selected'') \<or>
      (eventType = ''attempt_finished'' \<or> eventType = ''request_finished'') \<and>
        (outcome = ''success'' \<and> reason = ''none'' \<or> outcome = ''failed'' \<and> validFailureEventReason reason) \<or>
      eventType = ''request_cancelled'' \<and> outcome = ''cancelled'' \<and> reason = ''cancelled'' \<and> usage = None)"

lemma parse_stampable: "stampable t \<Longrightarrow> parseRFC3339 (formatRFC3339 t) \<noteq> None"
  using parse_formatRFC3339 [of t] by (cases "civil (t div 1000000000 div 86400)") (simp add: stampable_def)

lemma readings_ok_first: "readings_ok t ds \<Longrightarrow> stampable t"
  by (cases ds) auto

lemma now_ok:
  assumes "clock_ok w"
  shows "stampable (fst (now w))" "clock_ok (snd (now w))"
    "hwEvents (snd (now w)) = hwEvents w" "hwCursor (snd (now w)) = hwCursor w" "hwExt (snd (now w)) = hwExt w"
  using assms by (auto simp: now_def clock_ok_def readings_ok_first split: list.splits)

lemma uuidH_ok:
  "uuidPattern (fst (uuidH w))" "clock_ok (snd (uuidH w)) = clock_ok w" "hwEvents (snd (uuidH w)) = hwEvents w"
  "hwCursor (snd (uuidH w)) = hwCursor w" "hwExt (snd (uuidH w)) = hwExt w"
  by (auto simp: uuidH_def clock_ok_def sixteen_def newUUID_pattern split: list.splits)

lemma cursor_text: "1 \<le> length (formatInt (uint (c :: 64 word)))" "length (formatInt (uint c)) \<le> 128"
proof -
  have "uint c < 2 ^ 64" using uint_lt2p [of c] by simp
  then have "uint c < 10 ^ Suc 19" by simp
  moreover have nn: "0 \<le> uint c" by simp
  ultimately have "length (int_digits (uint c)) \<le> 20" using int_digits_length [of "uint c" 19] by simp
  then show "1 \<le> length (formatInt (uint c))" "length (formatInt (uint c)) \<le> 128"
    using int_digits_all [OF nn] nn by (auto simp: formatInt_def Suc_le_eq)
qed

lemma recordable_parts:
  assumes "recordable eventType outcome reason usage"
  shows "validEventType eventType" "validOutcome outcome" "validEventReason reason" "\<not> negative_usage usage"
  using assms
  by (auto simp: recordable_def validEventType_def validOutcome_def validEventReason_def validFailureEventReason_def)

lemma event_semantics_recordable:
  assumes "validEventType (evType e)" and "\<not> negative_usage (evUsage e)"
  shows "event_semantics e = [] \<longleftrightarrow> recordable (evType e) (evOutcome e) (evReasonCode e) (evUsage e)"
  using assms by (auto simp: event_semantics_def recordable_def validEventType_def)

text \<open>The event \<open>emit\<close> builds; the rest of the world after it was built.\<close>

lemma emit_delivery:
  assumes "audit_ready c request" and "route_ready route" and "attempt = 1 \<or> attempt = 2" and "clock_ok w"
    and w'_def: "w' = emit c request route attempt eventType outcome reason latency usage w"
  shows "clock_ok w' \<and> hwCursor w' = hwCursor w + 1 \<and> hwExt w' = hwExt w \<and>
    (if recordable eventType outcome reason usage
     then \<exists>e. hwEvents w' = hwEvents w @ [e] \<and> evType e = eventType \<and> evOutcome e = outcome \<and> evReasonCode e = reason \<and>
            evRouteID e = rtID route \<and> evAttempt e = attempt \<and> evUsage e = usage
     else hwEvents w' = hwEvents w)"
proof -
  define w1 where "w1 = w\<lparr>hwCursor := hwCursor w + 1\<rparr>"
  obtain eid w2 where u: "uuidH w1 = (eid, w2)" by (metis prod.exhaust)
  obtain t w3 where n: "now w2 = (t, w3)" by (metis prod.exhaust)
  have 1: "clock_ok w1" "hwEvents w1 = hwEvents w" "hwCursor w1 = hwCursor w + 1" "hwExt w1 = hwExt w"
    using assms(4) by (simp_all add: w1_def clock_ok_def)
  have 2: "clock_ok w2" "hwEvents w2 = hwEvents w" "hwCursor w2 = hwCursor w + 1" "hwExt w2 = hwExt w" "uuidPattern eid"
    using uuidH_ok [of w1] 1 by (simp_all add: u)
  have 3: "stampable t" "clock_ok w3" "hwEvents w3 = hwEvents w" "hwCursor w3 = hwCursor w + 1" "hwExt w3 = hwExt w"
    using now_ok [OF 2(1)] 2 by (simp_all add: n)
  define e where "e = \<lparr>evEventID = eid, evCursor = formatInt (uint (hwCursor w + 1)), evTimestamp = formatRFC3339 t,
            evType = eventType, evActivationID = auActivationID c, evLogicalRequestID = nrLogicalRequestID request,
            evAttempt = attempt, evProtocol = nrProtocol request, evModelAlias = nrModelAlias request,
            evPolicy = \<lparr>pID = poID (auPolicy c), pVersion = poVersion (auPolicy c), pDigest = auPolicyDigest c\<rparr>,
            evRouteID = rtID route, evDestinationClass = rtDestinationClass route, evOutcome = outcome,
            evReasonCode = reason, evLatencyMS = max 0 (Milliseconds latency), evUsage = usage\<rparr>"
  have w': "w' = (if Event_Validate e = [] then w3\<lparr>hwEvents := hwEvents w3 @ [e]\<rparr> else w3)"
    unfolding w'_def emit_def Let_def by (simp add: w1_def [symmetric] u n e_def)
  have sel: "evType e = eventType" "evOutcome e = outcome" "evReasonCode e = reason" "evUsage e = usage" by (simp_all add: e_def)
  have "Event_Validate e =
      (if \<not> validEventType eventType \<or> \<not> validOutcome outcome \<or> \<not> validEventReason reason then [Other ''proxy event is invalid'']
       else if negative_usage usage then [Other ''proxy event usage is invalid''] else event_semantics e)"
    using assms(1-3) 2(5) parse_stampable [OF 3(1)] cursor_text [of "hwCursor w + 1"]
    unfolding Event_Validate_def audit_ready_def route_ready_def by (auto simp: e_def not_less)
  then have "Event_Validate e = [] \<longleftrightarrow> recordable eventType outcome reason usage"
    using recordable_parts [of eventType outcome reason usage] event_semantics_recordable [of e] unfolding sel by auto
  then show ?thesis using 3 unfolding w' by (auto simp: clock_ok_def e_def)
qed

text \<open>Every cursor that was used belongs to an event that was delivered.\<close>

definition complete :: "'x hworld \<Rightarrow> 'x hworld \<Rightarrow> bool" where
  "complete w w' \<longleftrightarrow> (\<exists>es. hwEvents w' = hwEvents w @ es \<and> hwCursor w' = hwCursor w + of_nat (length es))"

lemma complete_refl [simp]: "complete w w"
  by (simp add: complete_def)

lemma complete_trans: "complete u v \<Longrightarrow> complete v w \<Longrightarrow> complete u w"
  by (fastforce simp: complete_def)

end
