(* ===== verification/ActivationStore.thy ===== *)
theory ActivationStore
  imports LiveRecovery RouterEvents
begin

text \<open>
  How the activation service drives the store: \<open>PersistentStore\<close> of
  \<open>internal/proxy/activation/service.go\<close> with its scope leases, random identities and the publication
  transaction.  The publication is a callback that acts outside the store and may panic; contexts
  contribute only their errors, which the store reads from the world.  The lemmas show that the
  journal of an activation is durable before its publication runs and stays durable until the
  activation is complete or nothing was published.
\<close>

section \<open>Random identities\<close>

text \<open>\<open>rand.Read\<close> of \<open>k\<close> bytes: the next random number of the world, as bytes.\<close>

definition bytes_of :: "nat \<Rightarrow> int \<Rightarrow> 8 word list" where
  "bytes_of k n = map (\<lambda>i. word_of_int (n div 256 ^ (k - 1 - i))) [0..<k]"

definition readRandom :: "nat \<Rightarrow> ('x world, 8 word list) io" where
  "readRandom k = (\<lambda>w. case w_rand w of
     [] \<Rightarrow> (Inr (bytes_of k 0), w)
   | r # rs \<Rightarrow> (let w' = w\<lparr>w_rand := rs\<rparr> in
       (case r of None \<Rightarrow> (Inl [Other ''rand.Read''], w') | Some n \<Rightarrow> (Inr (bytes_of k n), w'))))"

text \<open>\<open>base64.RawURLEncoding\<close>: three bytes become four characters, no padding.\<close>

definition base64_alphabet :: string where
  "base64_alphabet = ''ABCDEFGHIJKLMNOPQRSTUVWXYZabcdefghijklmnopqrstuvwxyz0123456789-_''"

definition base64_char :: "nat \<Rightarrow> char" where
  "base64_char v = base64_alphabet ! (v mod 64)"

fun rawURLEncode :: "8 word list \<Rightarrow> string" where
  "rawURLEncode (a # b # c # rest) =
     (let v = unat a * 65536 + unat b * 256 + unat c in
      [base64_char (v div 262144), base64_char (v div 4096), base64_char (v div 64), base64_char v] @ rawURLEncode rest)"
| "rawURLEncode [a, b] =
     (let v = unat a * 65536 + unat b * 256 in
      [base64_char (v div 262144), base64_char (v div 4096), base64_char (v div 64)])"
| "rawURLEncode [a] =
     (let v = unat a * 65536 in [base64_char (v div 262144), base64_char (v div 4096)])"
| "rawURLEncode [] = []"

definition identityText :: "8 word list \<Rightarrow> string" where
  "identityText identity =
     (let encoded = hex_encode (identity[6 := (identity ! 6 AND 0x0f) OR 0x40, 8 := (identity ! 8 AND 0x3f) OR 0x80]) in
      take 8 encoded @ ''-'' @ take 4 (drop 8 encoded) @ ''-'' @ take 4 (drop 12 encoded) @ ''-'' @
      take 4 (drop 16 encoded) @ ''-'' @ take 12 (drop 20 encoded))"

definition randomIdentity :: "('x world, string \<times> string) io" where
  "randomIdentity =
     bindE (readRandom 16) (\<lambda>identity. bindE (readRandom 24) (\<lambda>nonce.
       returnE (identityText identity, rawURLEncode nonce)))"

section \<open>Publication\<close>

text \<open>A call that returns an error value or panics.\<close>

datatype attempt = Returned err | Panicked

type_synonym 'x publish_call = "'x world \<Rightarrow> attempt \<times> 'x world"

definition cancelUnconsumedReservation :: "bool \<Rightarrow> ('x world, unit) act \<Rightarrow> ('x world, unit) act" where
  "cancelUnconsumedReservation consumed operation = (if consumed then retA () [] else operation)"

text \<open>
  The copies of the journal the transaction works with.  The checksum the writers put into the
  caller's struct is replaced by every later write.
\<close>

definition with_state :: "string \<Rightarrow> Journal \<Rightarrow> Journal" where
  "with_state st j = j\<lparr>jState := st, jUpdatedAt := jUpdatedAt j + 1\<rparr>"

definition expecting :: "Journal \<Rightarrow> string \<Rightarrow> ExpectedActivation" where
  "expecting journal st = \<lparr>eaGeneration = jGeneration journal, eaState = st\<rparr>"

text \<open>\<open>publish()\<close> and the transition to active; a panic becomes an error in the deferred function.\<close>

definition publishAndCommit ::
    "sha256 \<Rightarrow> ActivationTransaction \<Rightarrow> Journal \<Rightarrow> Journal \<Rightarrow> string \<Rightarrow> 'x publish_call \<Rightarrow> ('x world, unit) io" where
  "publishAndCommit sha tx journal publishing mechanism publish = (\<lambda>w.
     case publish w of
       (Panicked, w1) \<Rightarrow> (Inl [Other ''proxy publication panicked''], w1)
     | (Returned e, w1) \<Rightarrow>
         if e \<noteq> [] then (Inl e, w1)
         else Transition sha tx (expecting journal ''publishing'') (with_state ''active'' publishing) mechanism w1)"

text \<open>The deferred function of the callback.\<close>

definition settlePublication ::
    "sha256 \<Rightarrow> ActivationTransaction \<Rightarrow> Journal \<Rightarrow> Journal \<Rightarrow> string \<Rightarrow> err \<Rightarrow> ('x world, unit) io" where
  "settlePublication sha tx journal publishing mechanism callbackErr =
     (if callbackErr = [] then returnE ()
      else if errors_Is callbackErr ErrEnvironmentChanged then
        bindE (tryE (Clear sha tx (expecting journal ''publishing''))) (\<lambda>clear.
          if err_of clear \<noteq> [] then failE (errors_Join [[ErrRecoveryRequired], callbackErr, err_of clear])
          else failE callbackErr)
      else
        bindE (tryE (Transition sha tx (expecting journal ''publishing'') (with_state ''recovery_required'' publishing) mechanism))
          (\<lambda>transition. failE (errors_Join [callbackErr, err_of transition])))"

text \<open>The callback of \<open>WithReservation\<close>; its value is the flag \<open>prepared\<close>.\<close>

definition activationCallback ::
    "sha256 \<Rightarrow> Journal \<Rightarrow> string \<Rightarrow> 'x publish_call \<Rightarrow> ActivationTransaction \<Rightarrow> ('x world, bool) act" where
  "activationCallback sha journal mechanism publish tx =
     bindA (Prepare sha tx journal) False (\<lambda>_.
       let publishing = with_state ''publishing'' journal in
       bindA (Transition sha tx (expecting journal ''prepared'') publishing '''') True (\<lambda>_.
         bindA (tryE (publishAndCommit sha tx journal publishing mechanism publish)) True (\<lambda>published.
           bindA (settlePublication sha tx journal publishing mechanism (err_of published)) True (\<lambda>_. retA True []))))"

definition Activate ::
    "sha256 \<Rightarrow> store \<Rightarrow> Journal \<Rightarrow> string \<Rightarrow> 'x publish_call \<Rightarrow> ('x world, unit) act" where
  "Activate sha s journal mechanism publish =
     bindA (pairA (Reserve sha s (jNonce journal) (30 * time_Second))) () (\<lambda>(reservation, reserveErr).
       if reserveErr \<noteq> [] then
         retA () (if errors_Is reserveErr ErrLifecycleConflict then errors_Join [[ErrActivationRace], reserveErr] else reserveErr)
       else bindA (pairA (WithReservation sha s reservation False (activationCallback sha journal mechanism publish))) () (\<lambda>(prepared, err).
         bindA (pairA (cancelUnconsumedReservation (err = []) (CancelReservation sha s reservation))) () (\<lambda>(_, cancelErr).
           retA () (errors_Join [if \<not> prepared \<and> errors_Is err ErrLifecycleConflict then errors_Join [[ErrActivationRace], err] else err,
             cancelErr]))))"

section \<open>Scope leases\<close>

record ScopeLease =
  slReservation :: Reservation
  slActivationID :: string
  slGeneration :: int

definition AcquireScope :: "sha256 \<Rightarrow> store \<Rightarrow> string \<Rightarrow> int \<Rightarrow> ('x world, ScopeLease option) act" where
  "AcquireScope sha s activationID generation =
     bindA randomIdentity None (\<lambda>(_, nonce).
       bindA (ioA (Reserve sha s nonce (120 * time_Second))) None (\<lambda>reservation.
         bindA (pairA (ReconcileReserved sha s reservation)) None (\<lambda>(current, reconcileErr).
           if reconcileErr \<noteq> [] \<or> rcState current \<noteq> ReconciliationActive \<or> rcActivationID current \<noteq> activationID \<or>
              rcGeneration current \<noteq> generation
           then bindA (pairA (cancelUnconsumedReservation False (CancelReservation sha s reservation))) None (\<lambda>(_, cancelErr).
             retA None (errors_Join [errors_Join [[ErrLifecycleConflict], reconcileErr], cancelErr]))
           else retA (Some \<lparr>slReservation = reservation, slActivationID = activationID, slGeneration = generation\<rparr>) [])))"

text \<open>\<open>RenewScope\<close> changes the lease in place: the new lease is its value.\<close>

definition RenewScope :: "sha256 \<Rightarrow> store \<Rightarrow> ScopeLease \<Rightarrow> ('x world, ScopeLease) act" where
  "RenewScope sha s lease =
     bindA (pairA (RenewReservation sha s (slReservation lease) (120 * time_Second))) lease (\<lambda>(next, err).
       retA (if err = [] then lease\<lparr>slReservation := next\<rparr> else lease) err)"

definition RecoverScope ::
    "sha256 \<Rightarrow> store \<Rightarrow> ScopeLease \<Rightarrow> 'x EnvironmentRestorer \<Rightarrow> 'x ListenerController \<Rightarrow> ('x world, RecoveryResult) act" where
  "RecoverScope sha s lease environment listener =
     RecoverExpectedReserved sha s (slReservation lease) environment listener
       \<lparr>erActivationID = slActivationID lease, erGeneration = slGeneration lease\<rparr>"


section \<open>Identities are valid\<close>

lemma length_bytes_of [simp]: "length (bytes_of k n) = k"
  by (simp add: bytes_of_def)

lemma length_hex_encode [simp]: "length (hex_encode raw) = 2 * length raw"
  by (induction raw) (simp_all add: hex_encode_def hex_byte_def)

lemma hex_encode_append: "hex_encode (xs @ ys) = hex_encode xs @ hex_encode ys"
  by (simp add: hex_encode_def)

lemma take_hex_encode: "take (2 * n) (hex_encode raw) = hex_encode (take n raw)"
proof (induction n arbitrary: raw)
  case (Suc n)
  then show ?case by (cases raw) (simp_all add: hex_encode_def hex_byte_def)
qed (simp add: hex_encode_def)

lemma drop_hex_encode: "drop (2 * n) (hex_encode raw) = hex_encode (drop n raw)"
proof (induction n arbitrary: raw)
  case (Suc n)
  then show ?case by (cases raw) (simp_all add: hex_encode_def hex_byte_def)
qed simp

lemma identityText_UUID: "length raw = 16 \<Longrightarrow> identityText raw = newUUID raw"
  using take_hex_encode [of 4 "versioned raw"] take_hex_encode [of 2 "drop 4 (versioned raw)"]
    take_hex_encode [of 2 "drop 6 (versioned raw)"] take_hex_encode [of 2 "drop 8 (versioned raw)"]
    take_hex_encode [of 6 "drop 10 (versioned raw)"] drop_hex_encode [of 4 "versioned raw"]
    drop_hex_encode [of 6 "versioned raw"] drop_hex_encode [of 8 "versioned raw"] drop_hex_encode [of 10 "versioned raw"]
  by (simp add: identityText_def newUUID_def Let_def versioned_def)

lemma base64_valid:
  "is_lower (base64_char v) \<or> is_upper (base64_char v) \<or> is_digit (base64_char v) \<or>
     base64_char v = CHR ''_'' \<or> base64_char v = CHR ''-''"
proof -
  have all: "\<forall>c\<in>set base64_alphabet. is_lower c \<or> is_upper c \<or> is_digit c \<or> c = CHR ''_'' \<or> c = CHR ''-''"
    by code_simp
  have "length base64_alphabet = 64" by code_simp
  then have "base64_char v \<in> set base64_alphabet" by (simp add: base64_char_def)
  with all show ?thesis by blast
qed

lemma rawURLEncode_chars:
  "list_all (\<lambda>c. is_lower c \<or> is_upper c \<or> is_digit c \<or> c = CHR ''_'' \<or> c = CHR ''-'') (rawURLEncode bs)"
  by (induction bs rule: rawURLEncode.induct) (simp_all add: Let_def base64_valid)

lemma length_rawURLEncode: "length (rawURLEncode bs) = (4 * length bs + 2) div 3"
  by (induction bs rule: rawURLEncode.induct) (simp_all add: Let_def)

lemma nonce_valid: "validNonce (rawURLEncode (bytes_of 24 n))"
  using rawURLEncode_chars by (simp add: validNonce_def length_rawURLEncode)

lemma wp_readRandom:
  assumes "\<And>n rs. Q (bytes_of k n) (w\<lparr>w_rand := rs\<rparr>)" and "\<And>rs. E [Other ''rand.Read''] (w\<lparr>w_rand := rs\<rparr>)"
  shows "wp (readRandom k) Q E w"
proof (cases "w_rand w")
  case Nil
  then have "w\<lparr>w_rand := []\<rparr> = w" by simp
  with assms(1) [of 0 "[]"] Nil show ?thesis by (simp add: wp_def readRandom_def)
next
  case (Cons r rs)
  with assms show ?thesis by (cases r) (simp_all add: wp_def readRandom_def Let_def)
qed

lemma wp_randomIdentity:
  assumes "\<And>activationID nonce rs. uuidPattern activationID \<Longrightarrow> validNonce nonce \<Longrightarrow> Q (activationID, nonce) (w\<lparr>w_rand := rs\<rparr>)"
    and "\<And>rs. E [Other ''rand.Read''] (w\<lparr>w_rand := rs\<rparr>)"
  shows "wp randomIdentity Q E w"
  unfolding randomIdentity_def
  by (intro wp_intros wp_readRandom)
    (auto simp: identityText_UUID newUUID_pattern nonce_valid intro: assms)


section \<open>Errors of the store\<close>

text \<open>
  The store never reports that the environment changed or that an activation race was lost: these two
  errors come from the publication and from \<open>Activate\<close> itself.
\<close>

definition foreign :: "err \<Rightarrow> bool" where
  "foreign e \<longleftrightarrow> \<not> errors_Is e ErrEnvironmentChanged \<and> \<not> errors_Is e ErrActivationRace"

definition silent :: "('w, 'a) io \<Rightarrow> bool" where
  "silent m \<longleftrightarrow> (\<forall>w. wp m (\<lambda>_ _. True) (\<lambda>e _. foreign e \<and> e \<noteq> []) w)"

lemma foreign_simps [simp]:
  "foreign []" "foreign (e @ f) \<longleftrightarrow> foreign e \<and> foreign f" "foreign [Other m]" "foreign [ErrInvalidState]"
  "foreign [ErrLifecycleConflict]" "foreign [ErrOwnershipAmbiguous]" "foreign [ErrNotFound]" "foreign [NotExist]"
  "foreign [sentinel.DeadlineExceeded]" "foreign [sentinel.Canceled]" "foreign [ErrRecoveryRequired]"
  by (auto simp: foreign_def)

lemma foreign_Join [simp]: "foreign (errors_Join es) \<longleftrightarrow> list_all foreign es"
  by (induction es) (auto simp: errors_Join_def)

lemma foreign_io: "io_err e \<Longrightarrow> foreign e"
  by (auto simp: io_err_def)

lemma foreign_plain: "plain e \<Longrightarrow> foreign e"
  by (auto simp: plain_def)

lemma silentD:
  "silent m \<Longrightarrow> m w = (Inl e, w') \<Longrightarrow> foreign e" "silent m \<Longrightarrow> m w = (Inl e, w') \<Longrightarrow> e \<noteq> []"
  by (auto simp: silent_def wp_def split: prod.splits dest: spec [of _ w])

lemma silent_intros:
  "silent (returnE x)" "foreign e \<Longrightarrow> e \<noteq> [] \<Longrightarrow> silent (failE e)" "foreign e \<Longrightarrow> silent (checkE e)"
  "silent m \<Longrightarrow> (\<And>x. silent (f x)) \<Longrightarrow> silent (bindE m f)"
  "silent a \<Longrightarrow> silent b \<Longrightarrow> silent (if c then a else b)" "(\<And>x. silent (f x)) \<Longrightarrow> silent (Let x f)"
  "silent m \<Longrightarrow> (\<And>x. silent (g x)) \<Longrightarrow> silent (case r of None \<Rightarrow> m | Some x \<Rightarrow> g x)"
  "(\<And>x y. silent (h x y)) \<Longrightarrow> silent (case p of (x, y) \<Rightarrow> h x y)"
  by (auto simp: silent_def wp_rules intro: wp_mono split: option.splits prod.splits)

lemma silent_try:
  assumes "silent m" and "\<And>x. silent (f (Inr x))" and "\<And>e. foreign e \<Longrightarrow> e \<noteq> [] \<Longrightarrow> silent (f (Inl e))"
  shows "silent (bindE (tryE m) f)"
  unfolding silent_def wp_bindE wp_tryE
  by (intro allI, rule wp_mono [OF assms(1) [unfolded silent_def, rule_format]]) (use assms(2,3) in \<open>auto simp: silent_def\<close>)

lemma silent_unlock: "silent unlockFile"
proof -
  have "silent sysE"
    unfolding silent_def by (auto intro!: wp_sysE simp: foreign_io)
  then show ?thesis
    unfolding unlockFile_def by (intro silent_try silent_intros(3)) simp_all
qed

lemma silent_files:
  "silent (readSecureFile path uid limit)" "silent (atomicWrite path uid data d)" "silent (removeSecureFile path uid)"
  "silent (lockFile path uid)" "silent unlockFile" "silent nowE" "silent randomSuffix"
  unfolding silent_def
  by (intro allI, rule wp_mono [OF readSecureFile_spec] wp_mono [OF atomicWrite_spec] wp_mono [OF removeSecureFile_spec]
      wp_mono [OF lockFile_spec] silent_unlock [unfolded silent_def, rule_format] wp_nowE wp_randomSuffix;
      auto simp: foreign_def io_err_def)+

lemma foreign_verify: "foreign (verifyChecksum sha obj c)"
  using verifyChecksum_errors [of sha obj c] by (auto simp: foreign_def)

lemma silent_records:
  "silent (locked_readJournal sha s)" "silent (locked_readReceipt sha s)" "silent (readReservation sha s)"
  unfolding locked_readJournal_def readJournal_def locked_readReceipt_def readReceipt_def readReservation_def readRecord_def
  by (intro silent_intros silent_files silent_try foreign_verify foreign_plain [OF plain_Validate(1)] foreign_plain [OF plain_Validate(2)]
      | simp split: option.split add: silent_intros)+

lemma foreign_marshal: "marshalChecksummed sha json set_sum r = Inl e \<Longrightarrow> foreign e \<and> e \<noteq> []"
  by (auto simp: marshalChecksummed_def checksumRecord_def canonicalJSON_def Let_def split: option.splits sum.splits if_splits)

lemma silent_writes:
  "silent (writeJournal sha s j)" "silent (writeReceipt sha s r)" "silent (writeReservation sha s v)"
  unfolding writeJournal_def writeReceipt_def writeReservation_def
  by (auto dest: foreign_marshal intro!: silent_intros silent_files foreign_plain [OF plain_Validate(1)] foreign_plain [OF plain_Validate(2)]
      split: sum.split)


lemma foreign_binding: "foreign (ValidateBinding j r)"
  by (simp add: ValidateBinding_def)

lemma foreign_receipt: "receiptFromJournalAt j m t = Inl e \<Longrightarrow> foreign e \<and> e \<noteq> []"
  using foreign_plain [OF plain_Validate(2)]
  by (auto simp: receiptFromJournalAt_def Let_def split: if_splits)

lemma silent_transaction:
  "silent (Prepare sha tx j)" "silent (Transition sha tx expected j mechanism)" "silent (Clear sha tx expected)"
  unfolding Prepare_def Transition_def commit_def Clear_def removeRecords_def Let_def
  by (rule silent_try silent_records silent_writes silent_files silent_intros foreign_binding foreign_plain [OF plain_Validate(1)]
      | (auto simp: foreign_receipt silent_intros foreign_binding split: sum.split; fail) | (split sum.split, intro conjI allI impI))+

section \<open>The transaction under a reservation\<close>

text \<open>
  An operation under a reservation either is not run, and the call fails with an error of the store,
  or it runs in a world that differs from the caller's only in lock and reservation, and errors of the
  store may follow its own.
\<close>

definition wrapped ::
    "store \<Rightarrow> 'a \<Rightarrow> ('x world, 'a) act \<Rightarrow> 'x world \<Rightarrow> 'a \<Rightarrow> err \<Rightarrow> 'x world \<Rightarrow> bool" where
  "wrapped s z operation w a e w' \<longleftrightarrow>
     (a = z \<and> e \<noteq> [] \<and> foreign e \<and> elsewhere s w w') \<or>
     (\<exists>w1 e0 w2 f. elsewhere s w w1 \<and> operation w1 = ((a, e0), w2) \<and> elsewhere s w2 w' \<and> e = e0 @ f \<and> foreign f)"

lemma wrapped_locked:
  assumes "\<And>w1 a e w2. elsewhere s w w1 \<Longrightarrow> inner w1 = ((a, e), w2) \<Longrightarrow> wrapped s z operation w1 a e w2"
    and "withLifecycleLock s z inner w = ((a, e), w')"
  shows "wrapped s z operation w a e w'"
proof -
  obtain r w1 where lock: "lockFile (pathLock (stPaths s)) (stUid s) w = (r, w1)" by (rule prod.exhaust)
  have w1: "elsewhere s w w1" using keeps_result [OF elsewhere.lock elsewhere_refl lock] .
  show ?thesis
  proof (cases r)
    case (Inl e0)
    then have "a = z" "e = e0" "w' = w1" using assms(2) lock by (simp_all add: withLifecycleLock_def bindA_def)
    moreover have "foreign e0" "e0 \<noteq> []"
      using silentD(1) [OF silent_files(4)] errors_nonempty(1) lock Inl by blast+
    ultimately show ?thesis using w1 by (simp add: wrapped_def)
  next
    case (Inr u)
    obtain a1 e1 w2 where run: "inner w1 = ((a1, e1), w2)" by (metis prod.exhaust)
    obtain q w3 where un: "unlockFile w2 = (q, w3)" by (rule prod.exhaust)
    have w3: "elsewhere s w2 w3" using keeps_result [OF elsewhere.unlock elsewhere_refl un] .
    have f: "foreign (err_of q)" using silentD(1) [OF silent_files(5)] un by (cases q) auto
    have res: "a = a1" "e = e1 @ err_of q" "w' = w3"
      using assms(2) lock Inr run un by (simp_all add: withLifecycleLock_def bindA_def errors_Join_def)
    from assms(1) [OF w1 run] show ?thesis
      unfolding wrapped_def res using elsewhere_trans [OF w1] elsewhere_trans [OF _ w3] f by fastforce
  qed
qed

lemma wrapped_owned:
  assumes "withOwnedReservation sha s reservation z operation w = ((a, e), w')"
  shows "wrapped s z operation w a e w'"
proof (rule wrapped_locked [OF _ assms [unfolded withOwnedReservation_def]], goal_cases)
  case (1 w1 a e w2)
  obtain r v where rd: "readReservation sha s w1 = (r, v)" by (rule prod.exhaust)
  have v: "elsewhere s w1 v" using keeps_result [OF elsewhere.reservation_read elsewhere_refl rd] .
  obtain q v' where tm: "nowE v = (q, v')" by (rule prod.exhaust)
  then obtain t where q: "q = Inr t" by (auto simp: nowE_def split: list.splits)
  have v': "elsewhere s w1 v'" using elsewhere_trans [OF v keeps_result [OF elsewhere.clock elsewhere_refl tm]] .
  have self: "wrapped s z operation w1 a e w2" if "elsewhere s w1 u" "operation u = ((a, e), w2)" for u
    unfolding wrapped_def using that by (intro disjI2 exI [of _ u] exI [of _ e] exI [of _ w2] exI [of _ "[]"]) simp
  have no: "wrapped s z operation w1 z [ErrLifecycleConflict] u" if "elsewhere s w1 u" for u
    using that by (simp add: wrapped_def)
  show ?case using 1(2) rd tm q no [OF v] no [OF v'] self [OF v']
    by (auto simp: bindA_def tryE_def retA_def split: sum.splits if_splits)
qed

lemma wrapped_reserved:
  assumes "withReservation sha s reservation z operation w = ((a, e), w')"
  shows "wrapped s z operation w a e w'"
proof -
  let ?inner = "\<lambda>w. case operation w of ((a, e), w') \<Rightarrow> if e \<noteq> [] then ((a, e), w')
     else bindA (removeSecureFile (pathReservation (stPaths s)) (stUid s)) a (\<lambda>_. retA a []) w'"
  have step: "\<exists>e0 w3 f'. operation w1 = ((a, e0), w3) \<and> elsewhere s w3 w2 \<and> e = e0 @ f' \<and> foreign f'"
    if run: "?inner w1 = ((a, e), w2)" for w1 a e w2
  proof -
    obtain a0 e0 w3 where op: "operation w1 = ((a0, e0), w3)" by (metis prod.exhaust)
    obtain r w4 where rm: "removeSecureFile (pathReservation (stPaths s)) (stUid s) w3 = (r, w4)" by (rule prod.exhaust)
    have "elsewhere s w3 w4" using keeps_result [OF elsewhere.reservation_removed elsewhere_refl rm] .
    moreover have "foreign x" if "r = Inl x" for x using silentD(1) [OF silent_files(3)] rm that by blast
    ultimately show ?thesis using run op rm by (auto simp: bindA_def retA_def split: if_splits sum.splits)
  qed
  have "wrapped s z ?inner w a e w'" by (rule wrapped_owned [OF assms [unfolded withReservation_def]])
  then consider (skip) "a = z" "e \<noteq> []" "foreign e" "elsewhere s w w'"
    | (ran) w1 e1 w2 f where "elsewhere s w w1" "?inner w1 = ((a, e1), w2)" "elsewhere s w2 w'" "e = e1 @ f" "foreign f"
    unfolding wrapped_def by (elim disjE exE conjE) blast+
  then show ?thesis
  proof cases
    case skip
    then show ?thesis by (simp add: wrapped_def)
  next
    case ran
    obtain e0 w3 f' where op: "operation w1 = ((a, e0), w3)" "elsewhere s w3 w2" "e1 = e0 @ f'" "foreign f'"
      using step [OF ran(2)] by (elim exE conjE)
    show ?thesis unfolding wrapped_def
      by (intro disjI2 exI [of _ w1] exI [of _ e0] exI [of _ w3] exI [of _ "f' @ f"])
        (use ran(1,3,4,5) op elsewhere_trans [OF op(2)] in simp)
  qed
qed


section \<open>Durable evidence\<close>

text \<open>The journal on disk is a journal of this activation, in whatever state.\<close>

definition journaled :: "sha256 \<Rightarrow> store \<Rightarrow> Journal \<Rightarrow> files \<Rightarrow> bool" where
  "journaled sha s j f \<longleftrightarrow> (\<exists>j'. journal_at sha s f = Inr j' \<and> regular_journal sha j' \<and> sameActivationIdentity j j' \<and>
     jGeneration j' = jGeneration j)"

lemma sameIdentity_trans:
  "sameActivationIdentity i j \<Longrightarrow> sameActivationIdentity j k \<Longrightarrow> sameActivationIdentity i k"
  by (simp add: sameActivationIdentity_def)

lemma sameIdentity_stamped:
  assumes "journal_stamped sha j j'"
  shows "sameActivationIdentity j j'" "jGeneration j' = jGeneration j"
proof -
  obtain c where j': "j' = j\<lparr>jChecksum := c\<rparr>" using assms unfolding journal_stamped_def by blast
  show "sameActivationIdentity j j'" "jGeneration j' = jGeneration j" by (simp_all add: j' sameActivationIdentity_def)
qed

lemma with_state_same [simp]:
  "sameActivationIdentity j (with_state st j)" "jGeneration (with_state st j) = jGeneration j" "jState (with_state st j) = st"
  by (simp_all add: with_state_def sameActivationIdentity_def)

lemma keeps_at_journal:
  assumes "\<And>n. keeps (file_is (pathJournal (stPaths s)) n) m"
  shows "keeps (\<lambda>w. journaled sha s j (w_files w)) m"
proof (rule keepsI, goal_cases)
  case (1 w)
  have same: "journaled sha s j (w_files w')" if "w_files w' (pathJournal (stPaths s)) = w_files w (pathJournal (stPaths s))" for w'
    using 1 that by (simp add: journaled_def journal_at_def stored_def)
  have "wp m (\<lambda>_. file_is (pathJournal (stPaths s)) (w_files w (pathJournal (stPaths s))))
      (\<lambda>_. file_is (pathJournal (stPaths s)) (w_files w (pathJournal (stPaths s)))) w"
    by (rule keepsD [OF assms]) (simp add: file_is_def)
  then show ?case by (rule wp_mono) (auto simp: file_is_def intro: same)
qed

lemma held_files:
  assumes "distinct_paths s"
  shows "keeps (\<lambda>w. journaled sha s j (w_files w)) (removeSecureFile (pathReceipt (stPaths s)) (stUid s))"
    "keeps (\<lambda>w. journaled sha s j (w_files w)) (writeReceipt sha s r)"
    "keeps (\<lambda>w. journaled sha s j (w_files w)) (locked_readJournal sha s)"
    "keeps (\<lambda>w. journaled sha s j (w_files w)) (locked_readReceipt sha s)"
  unfolding writeReceipt_def
  by (intro keeps_at_journal keeps_intros file_is_files file_is_reads [OF locked_readJournal_reads]
      file_is_reads [OF locked_readReceipt_reads] distinct_pathsD(1) [OF assms])+

lemma held_write:
  assumes "regular_journal sha next" and "Journal_Validate next = []" and "sameActivationIdentity j next" "jGeneration next = jGeneration j"
  shows "keeps (\<lambda>w. journaled sha s j (w_files w)) (writeJournal sha s next)"
proof (rule keepsI, goal_cases)
  case (1 w)
  have st: "journal_storable sha next" by (rule regular_storable [OF assms(1) Journal_Validate_states [OF assms(2)]])
  have new: "journaled sha s j (w_files w')" if "journal_stamped sha next j'" "journal_at sha s (w_files w') = Inr j'" for j' w'
    unfolding journaled_def using that sameIdentity_stamped [OF that(1)] assms(3,4) sameIdentity_trans journal_stamped_regular [OF that(1) assms(1)]
    by (metis)
  show ?case by (rule journal_file.write_wp [OF st]) (use new 1 in \<open>auto simp: quiet_def\<close>)
qed

lemma held_commit:
  assumes "distinct_paths s" "regular_journal sha next" "Journal_Validate next = []" "sameActivationIdentity j next" "jGeneration next = jGeneration j"
  shows "keeps (\<lambda>w. journaled sha s j (w_files w)) (commit sha s next mechanism t)"
  unfolding commit_def by (intro keeps_intros held_files [OF assms(1)] held_write [OF assms(2-)])

text \<open>Whatever becomes of a transition, the journal of the activation stays on disk.\<close>

lemma Transition_held:
  assumes d: "distinct_paths (txStore tx)" and h: "journaled sha (txStore tx) j (w_files w)"
  shows "wp (Transition sha tx expected next mechanism)
     (\<lambda>_ w'. journaled sha (txStore tx) j (w_files w')) (\<lambda>_ w'. journaled sha (txStore tx) j (w_files w')) w"
proof -
  obtain cur where cur: "journal_at sha (txStore tx) (w_files w) = Inr cur" "regular_journal sha cur"
    "sameActivationIdentity j cur" "jGeneration cur = jGeneration j"
    using h by (auto simp: journaled_def)
  let ?H = "\<lambda>w. journaled sha (txStore tx) j (w_files w)"
  have rest: "keeps ?H (bindE (tryE (locked_readReceipt sha (txStore tx))) (\<lambda>receipt. f receipt))"
    if "\<And>x. keeps ?H (f x)" for f :: "err + Receipt \<Rightarrow> ('a world, unit) io"
    by (intro keeps_intros held_files(4) [OF d] that)
  have commit: "keeps ?H (commit sha (txStore tx) next m t)"
    if "Journal_Validate next = []" "sameActivationIdentity cur next" "jGeneration next = jGeneration cur" for m t
    by (rule held_commit [OF d same_regular [OF cur(2) that(2,3) journal_at_valid [OF cur(1)] that(1)] that(1)])
      (use sameIdentity_trans [OF cur(3) that(2)] cur(4) that(3) in auto)
  show ?thesis unfolding Transition_def
  proof (intro wp_ifI wp_failI wp_bindI journal_file.read_wp wp_checkI, goal_cases)
    case (4 r w1)
    then have r: "r = cur" and h1: "?H w1" using cur(1) h by (auto simp: quiet_def)
    show ?case
      by (subst wp_bindE [symmetric], rule keepsD [OF rest h1], unfold Let_def,
          intro keeps_intros held_files [OF d] commit) (use 4 r in auto)
  qed (use h in \<open>auto simp: quiet_def\<close>)
qed


section \<open>Activation\<close>

text \<open>
  A publication acts outside the store, and reports that the environment changed only when it changed
  nothing itself, as the comment on \<open>Environment.Publish\<close> demands.
\<close>

definition external_publication :: "'x publish_call \<Rightarrow> bool" where
  "external_publication publish \<longleftrightarrow> (\<forall>w. let w' = snd (publish w) in w_files w' = w_files w \<and> w_history w' = w_history w \<and>
     w_io w' = w_io w \<and> w_rand w' = w_rand w \<and> w_euid w' = w_euid w)"

definition atomic_publication :: "'x publish_call \<Rightarrow> bool" where
  "atomic_publication publish \<longleftrightarrow> (\<forall>w e w'. publish w = (Returned e, w') \<longrightarrow> errors_Is e ErrEnvironmentChanged \<longrightarrow>
     w_ext w' = w_ext w)"

definition activated :: "sha256 \<Rightarrow> store \<Rightarrow> Journal \<Rightarrow> files \<Rightarrow> bool" where
  "activated sha s j f \<longleftrightarrow> (\<exists>j'. bound sha s j' f \<and> jState j' = ''active'' \<and> sameActivationIdentity j j' \<and>
     jGeneration j' = jGeneration j)"

text \<open>What an activation leaves behind, given the external world it started from.\<close>

definition accounted :: "sha256 \<Rightarrow> store \<Rightarrow> Journal \<Rightarrow> 'x \<Rightarrow> err \<Rightarrow> 'x world \<Rightarrow> bool" where
  "accounted sha s j x e w \<longleftrightarrow>
     (e = [] \<longrightarrow> activated sha s j (w_files w)) \<and>
     (w_ext w \<noteq> x \<longrightarrow> journaled sha s j (w_files w)) \<and>
     (errors_Is e ErrEnvironmentChanged \<and> \<not> errors_Is e ErrRecoveryRequired \<longrightarrow> no_records s (w_files w))"

lemma accounted_elsewhere:
  assumes "distinct_paths s" and "accounted sha s j x e w" and "elsewhere s w w'" and "foreign f"
  shows "accounted sha s j x (e @ f) w'"
  using assms(2-) elsewhere_at(1,2) [OF assms(1,3), of sha] elsewhere_at(3) [OF assms(1,3)]
  by (auto simp: accounted_def activated_def journaled_def bound_def elsewhere_def foreign_def)

lemma accounted_store_error: "foreign e \<Longrightarrow> e \<noteq> [] \<Longrightarrow> accounted sha s j (w_ext w) e w"
  by (simp add: accounted_def foreign_def)

lemma wp_ext:
  assumes "\<And>x. keeps (ext_is x) m" and "wp m Q E w"
  shows "wp m (\<lambda>a w'. Q a w' \<and> w_ext w' = w_ext w) (\<lambda>e w'. E e w' \<and> w_ext w' = w_ext w) w"
  using assms(2) keepsD [OF assms(1), of "w_ext w" w] by (auto simp: wp_def ext_is_def split: prod.splits sum.splits)

lemma wp_silent:
  assumes "silent m" and "wp m Q E w"
  shows "wp m Q (\<lambda>e w'. E e w' \<and> foreign e \<and> e \<noteq> []) w"
  using assms(1) [unfolded silent_def, rule_format, of w] assms(2) by (auto simp: wp_def split: prod.splits sum.splits)

lemma committed_held:
  assumes "committed sha s next f" and "safe_since sha s w0 w" "w_files w = f"
    and "sameActivationIdentity j next" "jGeneration next = jGeneration j"
  shows "journaled sha s j f" "jState next = ''active'' \<Longrightarrow> activated sha s j f"
proof -
  obtain j' where j': "journal_stamped sha next j'" "journal_at sha s f = Inr j'"
      "jState next = ''active'' \<Longrightarrow> bound sha s j' f"
    using assms(1) by (auto simp: committed_def bound_def split: if_splits)
  note same = sameIdentity_stamped [OF j'(1)] sameIdentity_trans [OF assms(4)]
  have "regular_journal sha j'"
    using safe_since_consistent [OF assms(2)] j'(2) assms(3) by (simp add: consistent_def)
  then show "journaled sha s j f" using j'(2) same assms(5) by (auto simp: journaled_def)
  show "jState next = ''active'' \<Longrightarrow> activated sha s j f"
    using j'(3) same assms(5) journal_stampedD(2) [OF j'(1)] by (auto simp: activated_def)
qed


text \<open>The publication with the transition to active, once the publishing journal is on disk.\<close>

lemma publishAndCommit_wp:
  assumes d: "distinct_paths (txStore tx)" and safe: "safe_since sha (txStore tx) w0 w" and h: "journaled sha (txStore tx) j (w_files w)"
    and same: "sameActivationIdentity j publishing" "jGeneration publishing = jGeneration j"
    and out: "external_publication publish" and atomic: "atomic_publication publish"
  shows "wp (publishAndCommit sha tx j publishing mechanism publish)
     (\<lambda>_ w'. activated sha (txStore tx) j (w_files w'))
     (\<lambda>e w'. safe_since sha (txStore tx) w0 w' \<and> journaled sha (txStore tx) j (w_files w') \<and> e \<noteq> [] \<and>
        (errors_Is e ErrEnvironmentChanged \<longrightarrow> w_ext w' = w_ext w)) w"
proof -
  obtain r w1 where p: "publish w = (r, w1)" by (rule prod.exhaust)
  have w1: "w_files w1 = w_files w" "w_history w1 = w_history w"
    using out p by (auto simp: external_publication_def Let_def dest: spec [of _ w])
  have safe1: "safe_since sha (txStore tx) w0 w1" using safe w1 by (simp add: safe_since_def)
  let ?n = "with_state ''active'' publishing"
  have nx: "sameActivationIdentity j ?n" "jGeneration ?n = jGeneration j"
    using sameIdentity_trans [OF same(1) with_state_same(1)] same(2) by simp_all
  have h1: "journaled sha (txStore tx) j (w_files w1)" using h w1 by simp
  note both = wp_conj [THEN iffD2, OF conjI [OF wp_silent [OF silent_transaction(2) Transition_wp [OF d safe1]] Transition_held [OF d h1]]]
  have tr: "wp (Transition sha tx x ?n mechanism) (\<lambda>_ w'. activated sha (txStore tx) j (w_files w'))
      (\<lambda>e w'. safe_since sha (txStore tx) w0 w' \<and> journaled sha (txStore tx) j (w_files w') \<and> e \<noteq> [] \<and>
        (errors_Is e ErrEnvironmentChanged \<longrightarrow> w_ext w' = w_ext w)) w1" for x
    by (rule wp_mono [OF both]) (use committed_held(2) [OF _ _ refl nx] in \<open>auto simp: foreign_def\<close>)
  show ?thesis
  proof (cases r)
    case Panicked
    then show ?thesis using p safe1 h w1 by (simp add: wp_def publishAndCommit_def)
  next
    case (Returned e)
    show ?thesis
    proof (cases "e = []")
      case True
      then show ?thesis using tr p Returned by (simp add: wp_def publishAndCommit_def)
    next
      case False
      moreover have "errors_Is e ErrEnvironmentChanged \<longrightarrow> w_ext w1 = w_ext w"
        using atomic p Returned unfolding atomic_publication_def by blast
      ultimately show ?thesis using p Returned safe1 h w1 by (simp add: wp_def publishAndCommit_def)
    qed
  qed
qed

lemma settlePublication_wp:
  assumes d: "distinct_paths (txStore tx)" and safe: "safe_since sha (txStore tx) w0 w" and h: "journaled sha (txStore tx) j (w_files w)"
    and e: "e \<noteq> []" and ext: "errors_Is e ErrEnvironmentChanged \<longrightarrow> w_ext w = x"
  shows "wp (settlePublication sha tx j publishing mechanism e) (\<lambda>_ _. False) (\<lambda>e w'. accounted sha (txStore tx) j x e w') w"
proof (cases "errors_Is e ErrEnvironmentChanged")
  case True
  note clear = wp_ext [OF ext_transaction(3) wp_silent [OF silent_transaction(3) Clear_wp [OF d safe]]]
  show ?thesis using True e ext unfolding settlePublication_def
    by (auto intro!: wp_intros wp_mono [OF clear] simp: accounted_def errors_Join_def)
next
  case False
  note tr = wp_silent [OF silent_transaction(2) Transition_held [OF d h]]
  show ?thesis using False e unfolding settlePublication_def
    by (auto intro!: wp_intros wp_mono [OF tr] simp: accounted_def errors_Join_def foreign_def)
qed


lemma prepared_held:
  assumes "journal_stamped sha j j'" and "journal_at sha s f = Inr j'" and "regular_journal sha j"
  shows "journaled sha s j f"
  using assms sameIdentity_stamped [OF assms(1)] journal_stamped_regular by (auto simp: journaled_def)

text \<open>The steps up to the publication: they leave the external world alone, and the journal is on disk.\<close>

lemma publishing_wp:
  assumes d: "distinct_paths (txStore tx)" and safe: "safe_since sha (txStore tx) w0 w" and reg: "regular_journal sha j"
  shows "wp (thenE (Prepare sha tx j) (Transition sha tx expected (with_state ''publishing'' j) mechanism))
     (\<lambda>_ w'. safe_since sha (txStore tx) w0 w' \<and> journaled sha (txStore tx) j (w_files w') \<and>
        committed sha (txStore tx) (with_state ''publishing'' j) (w_files w') \<and> w_ext w' = w_ext w)
     (\<lambda>e w'. foreign e \<and> e \<noteq> [] \<and> w_ext w' = w_ext w) w"
proof (rule wp_bindI, rule wp_mono [OF wp_ext [OF ext_transaction(1) wp_silent [OF silent_transaction(1) Prepare_wp [OF d safe reg]]]], goal_cases)
  case (1 x w1)
  then have safe1: "safe_since sha (txStore tx) w0 w1" and e1: "w_ext w1 = w_ext w" by auto
  show ?case
    by (rule wp_mono [OF wp_ext [OF ext_transaction(2) wp_silent [OF silent_transaction(2) Transition_wp [OF d safe1]]]])
      (use e1 committed_held(1) [OF _ _ refl with_state_same(1,2)] in auto)
qed auto

lemma activationCallback_wpa:
  assumes d: "distinct_paths (txStore tx)" and safe: "safe_since sha (txStore tx) w0 w" and reg: "regular_journal sha j"
    and out: "external_publication publish" and atomic: "atomic_publication publish"
  shows "wpa (activationCallback sha j mechanism publish tx) (\<lambda>_ e w'. accounted sha (txStore tx) j (w_ext w) e w') w"
proof -
  let ?A = "\<lambda>e w'. accounted sha (txStore tx) j (w_ext w) e w'"
  let ?pub = "with_state ''publishing'' j"
  let ?rest = "bindA (tryE (publishAndCommit sha tx j ?pub mechanism publish)) True (\<lambda>published.
      bindA (settlePublication sha tx j ?pub mechanism (err_of published)) True (\<lambda>_. retA True []))"
  have rest: "wpa ?rest (\<lambda>_. ?A) w1"
    if "safe_since sha (txStore tx) w0 w1" "journaled sha (txStore tx) j (w_files w1)" "w_ext w1 = w_ext w" for w1
  proof (rule wpa_bindI, rule wp_tryI,
      rule wp_mono [OF publishAndCommit_wp [OF d that(1,2) with_state_same(1,2) out atomic]], goal_cases)
    case (1 x w2)
    then obtain j' where "bound sha (txStore tx) j' (w_files w2)" "sameActivationIdentity j j'" "jGeneration j' = jGeneration j"
      by (auto simp: activated_def)
    then have "journaled sha (txStore tx) j (w_files w2)" by (auto simp: journaled_def bound_def)
    then show ?case using 1 by (auto simp: settlePublication_def accounted_def wp_rules)
  next
    case (2 e w2)
    then show ?case using that(3)
      by (intro wpa_bindI wp_mono [OF settlePublication_wp [OF d, where x = "w_ext w"]]) auto
  qed
  have bad: "?A e w'" if "foreign e" "e \<noteq> []" "w_ext w' = w_ext w" for e w'
    using accounted_store_error [OF that(1,2), of sha "txStore tx" j w'] that(3) by simp
  have "wp (thenE (Prepare sha tx j) (Transition sha tx (expecting j ''prepared'') ?pub '''')) (\<lambda>_. wpa ?rest (\<lambda>_. ?A)) (\<lambda>e w'. ?A e w') w"
    by (rule wp_mono [OF publishing_wp [OF d safe reg]]) (auto intro: rest bad)
  then show ?thesis unfolding activationCallback_def Let_def wp_bindE
    by (intro wpa_bindI) (rule wp_mono, assumption, auto intro: wpa_bindI)
qed

text \<open>
  Activation as a whole: success means that the journal is active and its receipt bound to it; the
  external world differs only when the journal of the activation is on disk; a changed environment
  without the demand for recovery means that no record is left.
\<close>

lemma wpa_pairI: "(\<And>a e w'. m w = ((a, e), w') \<Longrightarrow> Q (a, e) w') \<Longrightarrow> wp (pairA m) Q E w"
  by (auto simp: wp_def pairA_def split: prod.splits)

lemma foreign_locked:
  assumes "\<And>w. wpa m (\<lambda>_ e _. foreign e) w"
  shows "wpa (withLifecycleLock s z m) (\<lambda>_ e _. foreign e) w"
proof -
  have "foreign (err_of r)" if "unlockFile w2 = (r, w3)" for r w2 and w3 :: "'a world"
    using silentD(1) [OF silent_files(5)] that by (cases r) auto
  then show ?thesis unfolding withLifecycleLock_def
    using assms silentD(1) [OF silent_files(4)] by (fastforce simp: wpa_def bindA_def split: prod.splits sum.splits)
qed

lemma silent_wp:
  "silent m \<Longrightarrow> (\<And>x w. Q x w) \<Longrightarrow> (\<And>e w. foreign e \<Longrightarrow> E e w) \<Longrightarrow> wp m Q E w"
  by (rule wp_mono [of m "\<lambda>_ _. True" "\<lambda>e _. foreign e \<and> e \<noteq> []"]) (auto simp: silent_def)

lemma reservation_errors:
  "wpa (Reserve sha s nonce ttl) (\<lambda>_ e _. foreign e) w" "wpa (CancelReservation sha s reservation) (\<lambda>_ e _. foreign e) w"
  unfolding Reserve_def CancelReservation_def Let_def
  by (intro wpa_ifI wpa_retI wpa_bindI wpa_actI foreign_locked silent_wp silent_files silent_records silent_writes wp_tryI wpa_case_sumI; auto)+

lemma consistent_elsewhere:
  assumes "distinct_paths s" and "elsewhere s w w'"
  shows "consistent sha s (w_files w') = consistent sha s (w_files w)"
  unfolding consistent_def elsewhere_at(1,2) [OF assms] ..

lemma Activate_accounted:
  assumes d: "distinct_paths s" and c: "consistent sha s (w_files w)" and reg: "regular_journal sha j"
    and out: "external_publication publish" and atomic: "atomic_publication publish"
  shows "wpa (Activate sha s j mechanism publish) (\<lambda>_ e w'. accounted sha s j (w_ext w) e w') w"
  unfolding Activate_def
proof (rule wpa_bindI, rule wpa_pairI, goal_cases)
  case (1 v e w1)
  have w1: "elsewhere s w w1" using keepsA_result [OF elsewhere.reserve elsewhere_refl 1] .
  have e: "foreign e" using reservation_errors(1) [of sha s "jNonce j" "30 * time_Second" w] 1 by (simp add: wpa_def)
  have x1: "w_ext w1 = w_ext w" using w1 by (simp add: elsewhere_def)
  have safe1: "safe_since sha s w1 w1"
    using c consistent_elsewhere [OF d w1] by (simp add: safe_since_def)
  show ?case
  proof (cases "e = []")
    case False
    then show ?thesis using e x1
      by (auto simp: wp_rules errors_Join_def accounted_def foreign_def)
  next
    case True
    show ?thesis unfolding prod.case
    proof (rule wpa_ifI, use True in blast, rule wpa_bindI, rule wpa_pairI, goal_cases)
      case (1 prepared e1 w2)
      note 1 = 1(2)
      have acc: "accounted sha s j (w_ext w) e1 w2"
        using wrapped_reserved [OF 1 [unfolded WithReservation_def]] unfolding wrapped_def
      proof (elim disjE exE conjE)
        assume "foreign e1" "e1 \<noteq> []" "elsewhere s w1 w2"
        then show ?thesis using x1 by (simp add: accounted_def foreign_def elsewhere_def)
      next
        fix w3 e0 w4 f
        assume run: "elsewhere s w1 w3" "activationCallback sha j mechanism publish \<lparr>txStore = s, txActive = True\<rparr> w3 = ((prepared, e0), w4)"
          and after: "elsewhere s w4 w2" "e1 = e0 @ f" "foreign f"
        have safe3: "safe_since sha s w3 w3"
          using safe1 consistent_elsewhere [OF d run(1)] by (simp add: safe_since_def)
        have "accounted sha s j (w_ext w3) e0 w4"
          using activationCallback_wpa [of "\<lparr>txStore = s, txActive = True\<rparr>" sha w3 w3 j publish mechanism] d safe3 reg out atomic run(2)
          by (simp add: wpa_def)
        then show ?thesis using accounted_elsewhere [OF d _ after(1,3)] after(2) run(1) x1 by (simp add: elsewhere_def)
      qed
      show ?case unfolding prod.case
      proof (intro wpa_bindI, rule wpa_pairI, goal_cases)
        case (1 u e2 w3)
        have w3: "elsewhere s w2 w3 \<and> foreign e2"
        proof (cases "e1 = []")
          case True
          then show ?thesis using 1 by (simp add: cancelUnconsumedReservation_def retA_def)
        next
          case False
          then have run: "CancelReservation sha s v w2 = ((u, e2), w3)" using 1 by (simp add: cancelUnconsumedReservation_def)
          show ?thesis using keepsA_result [OF elsewhere.cancel elsewhere_refl run] reservation_errors(2) [of sha s v w2] run
            by (simp add: wpa_def)
        qed
        then have "accounted sha s j (w_ext w) (e1 @ e2) w3" using accounted_elsewhere [OF d acc] by blast
        then show ?case by (auto simp: wp_rules errors_Join_def accounted_def)
      qed
    qed
  qed
qed


section \<open>Activation and crashes\<close>

lemma publication_crash_safe:
  assumes "txStore tx = s" and "external_publication publish"
  shows "keeps (crash_safe sha s w0) (publishAndCommit sha tx j publishing mechanism publish)"
proof (rule keepsI, goal_cases)
  case (1 w)
  have "crash_safe sha s w0 (snd (publish w))"
    using 1 assms(2) by (simp add: external_publication_def Let_def crash_safe_def safe_since_def)
  then show ?case using keeps_result [OF Transition_crash_safe [OF assms(1)]]
    by (fastforce simp: wp_def publishAndCommit_def split: prod.splits attempt.splits sum.splits)
qed

lemma settlement_crash_safe:
  "txStore tx = s \<Longrightarrow> keeps (crash_safe sha s w0) (settlePublication sha tx j publishing mechanism e)"
  unfolding settlePublication_def by (intro keeps_intros Clear_crash_safe Transition_crash_safe)

lemma Activate_crash_safe:
  assumes "regular_journal sha j" and "external_publication publish"
  shows "keepsA (crash_safe sha s w0) (Activate sha s j mechanism publish)"
proof -
  have "keepsA (crash_safe sha s w0) (activationCallback sha j mechanism publish tx)" if "txStore tx = s" for tx
    unfolding activationCallback_def Let_def
    by (intro keeps_intros Prepare_crash_safe Transition_crash_safe publication_crash_safe settlement_crash_safe that assms)
  then show ?thesis
    unfolding Activate_def cancelUnconsumedReservation_def
    by (intro keeps_intros safe.reserve safe.transaction safe.cancel)
qed

text \<open>The random source is no part of the store.\<close>

lemma random_crash_safe: "keeps (crash_safe sha s w0) randomIdentity"
  by (rule keepsI, rule wp_randomIdentity) (simp_all add: crash_safe_def safe_since_def)

lemma scopes_crash_safe:
  "keepsA (crash_safe sha s w0) (AcquireScope sha s activationID generation)"
  "keepsA (crash_safe sha s w0) (RenewScope sha s lease)"
  unfolding AcquireScope_def RenewScope_def cancelUnconsumedReservation_def
  by (intro keeps_intros random_crash_safe safe.reserve safe.cancel safe.renew safe.reconcile)+

section \<open>The journal is written first\<close>

text \<open>
  The publication is called in no other world than one whose disk holds the journal of the activation
  in state publishing: two publications that agree there give the same activation.
\<close>

definition publishing_on_disk :: "sha256 \<Rightarrow> store \<Rightarrow> Journal \<Rightarrow> files \<Rightarrow> bool" where
  "publishing_on_disk sha s j f \<longleftrightarrow> (\<exists>j'. journal_at sha s f = Inr j' \<and> jState j' = ''publishing'' \<and> sameActivationIdentity j j')"

lemma bindA_cong: "wp m (\<lambda>x w'. f x w' = g x w') (\<lambda>_ _. True) w \<Longrightarrow> bindA m a f w = bindA m a g w"
  by (auto simp: wp_def bindA_def split: prod.splits sum.splits)

lemma publishAndCommit_cong:
  "publish w = publish' w \<Longrightarrow> publishAndCommit sha tx j publishing mechanism publish w = publishAndCommit sha tx j publishing mechanism publish' w"
  by (simp add: publishAndCommit_def)

lemma activationCallback_cong:
  assumes d: "distinct_paths (txStore tx)" and safe: "safe_since sha (txStore tx) w0 w" and reg: "regular_journal sha j"
    and same: "\<And>v. publishing_on_disk sha (txStore tx) j (w_files v) \<Longrightarrow> publish v = publish' v"
  shows "activationCallback sha j mechanism publish tx w = activationCallback sha j mechanism publish' tx w"
proof -
  let ?pub = "with_state ''publishing'' j"
  let ?rest = "\<lambda>p. bindA (tryE (publishAndCommit sha tx j ?pub mechanism p)) True (\<lambda>published.
      bindA (settlePublication sha tx j ?pub mechanism (err_of published)) True (\<lambda>_. retA True []))"
  have agree: "?rest publish v = ?rest publish' v" if "publish v = publish' v" for v
    using publishAndCommit_cong [of publish v publish', OF that] by (simp add: bindA_def tryE_def)
  have "wp (thenE (Prepare sha tx j) (Transition sha tx (expecting j ''prepared'') ?pub ''''))
      (\<lambda>_ v. ?rest publish v = ?rest publish' v) (\<lambda>_ _. True) w"
  proof (rule wp_mono [OF publishing_wp [OF d safe reg]], goal_cases)
    case (1 x w')
    then obtain j' where j': "journal_stamped sha ?pub j'" "journal_at sha (txStore tx) (w_files w') = Inr j'"
      by (auto simp: committed_def split: if_splits)
    have "publishing_on_disk sha (txStore tx) j (w_files w')"
      unfolding publishing_on_disk_def
      using j'(2) sameIdentity_trans [OF with_state_same(1) sameIdentity_stamped(1) [OF j'(1)]] journal_stampedD(2) [OF j'(1)] by simp
    then show ?case by (intro agree same)
  qed simp
  then have "wp (Prepare sha tx j) (\<lambda>x v. bindA (Transition sha tx (expecting j ''prepared'') ?pub '''') True (\<lambda>_. ?rest publish) v =
      bindA (Transition sha tx (expecting j ''prepared'') ?pub '''') True (\<lambda>_. ?rest publish') v) (\<lambda>_ _. True) w"
    unfolding wp_bindE by (rule wp_mono) (rule bindA_cong, assumption, simp)
  then show ?thesis unfolding activationCallback_def Let_def by (rule bindA_cong)
qed

lemma withLifecycleLock_cong:
  assumes "\<And>w1. elsewhere s w w1 \<Longrightarrow> operation w1 = operation' w1"
  shows "withLifecycleLock s z operation w = withLifecycleLock s z operation' w"
  unfolding withLifecycleLock_def
  by (rule bindA_cong, rule wp_mono [OF keepsD [OF elsewhere.lock elsewhere_refl]]) (simp_all add: assms)

lemma withOwnedReservation_cong:
  assumes "\<And>w1. elsewhere s w w1 \<Longrightarrow> operation w1 = operation' w1"
  shows "withOwnedReservation sha s reservation z operation w = withOwnedReservation sha s reservation z operation' w"
  unfolding withOwnedReservation_def
proof (rule withLifecycleLock_cong, rule bindA_cong, rule wp_tryI,
    rule wp_mono [OF keepsD [OF elsewhere.reservation_read]], assumption, goal_cases)
  case (1 w1 c w2)
  have "bindA nowE z (\<lambda>t. if b t then retA z e else operation) w2 = bindA nowE z (\<lambda>t. if b t then retA z e else operation') w2" for b e
    by (rule bindA_cong, rule wp_mono [OF keepsD [OF elsewhere.clock 1(2)]]) (simp_all add: assms)
  then show ?case by simp
qed simp_all

lemma Activate_cong:
  assumes d: "distinct_paths s" and c: "consistent sha s (w_files w)" and reg: "regular_journal sha j"
    and same: "\<And>v. publishing_on_disk sha s j (w_files v) \<Longrightarrow> publish v = publish' v"
  shows "Activate sha s j mechanism publish w = Activate sha s j mechanism publish' w"
proof -
  have call: "activationCallback sha j mechanism publish \<lparr>txStore = s, txActive = True\<rparr> v =
      activationCallback sha j mechanism publish' \<lparr>txStore = s, txActive = True\<rparr> v" if "elsewhere s w v" for v
  proof (rule activationCallback_cong [OF _ _ reg])
    show "safe_since sha (txStore \<lparr>txStore = s, txActive = True\<rparr>) v v"
      using c consistent_elsewhere [OF d that] by (simp add: safe_since_def)
  qed (use d same in simp_all)
  have "WithReservation sha s v False (activationCallback sha j mechanism publish) w1 =
      WithReservation sha s v False (activationCallback sha j mechanism publish') w1" if "elsewhere s w w1" for v w1
    unfolding WithReservation_def withReservation_def
    by (rule withOwnedReservation_cong) (simp add: call elsewhere_trans [OF that])
  then have "pairA (WithReservation sha s v False (activationCallback sha j mechanism publish)) w1 =
      pairA (WithReservation sha s v False (activationCallback sha j mechanism publish')) w1" if "elsewhere s w w1" for v w1
    using that by (simp add: pairA_def)
  then have "bindA (pairA (WithReservation sha s v False (activationCallback sha j mechanism publish))) () f w1 =
      bindA (pairA (WithReservation sha s v False (activationCallback sha j mechanism publish'))) () f w1" if "elsewhere s w w1" for v w1 f
    using that by (simp add: bindA_def)
  then show ?thesis unfolding Activate_def
    by (intro bindA_cong wp_pairAI wpa_mono [OF keepsAD [OF elsewhere.reserve elsewhere_refl]]) simp
qed

end
