(* ===== verification/StoreMachine.thy ===== *)
theory StoreMachine
  imports RecoveryResults ActivationStore
begin

text \<open>
  The lifecycle of the store across calls, crashes and restarts: an inductive relation of the calls
  the package \<open>internal/proxy/state\<close> exports and of the activation transaction over it, the worlds that calls and kills can reach, and the
  invariant that their records are consistent.
\<close>

section \<open>The store as a state machine\<close>

text \<open>
  What a process can do with the store: one call of an exported operation, with any arguments and
  any answers of the operating system.  A new journal must be regular; recovery is called with
  services that act outside the store, in a world whose system calls do not fail.
\<close>

inductive store_call :: "sha256 \<Rightarrow> store \<Rightarrow> 'x world \<Rightarrow> 'x world \<Rightarrow> bool" for sha s where
  prepare: "regular_journal sha j \<Longrightarrow>
     WithReservation sha s reservation () (\<lambda>tx. actE (Prepare sha tx j)) w = (r, w') \<Longrightarrow> store_call sha s w w'"
| transition: "WithReservation sha s reservation () (\<lambda>tx. actE (Transition sha tx expected j mechanism)) w = (r, w') \<Longrightarrow>
     store_call sha s w w'"
| clear: "WithReservation sha s reservation () (\<lambda>tx. actE (Clear sha tx expected)) w = (r, w') \<Longrightarrow> store_call sha s w w'"
| reserve: "Reserve sha s nonce ttl w = (rv, w') \<Longrightarrow> store_call sha s w w'"
| renew: "RenewReservation sha s reservation ttl w = (rv, w') \<Longrightarrow> store_call sha s w w'"
| cancel: "CancelReservation sha s reservation w = (r, w') \<Longrightarrow> store_call sha s w w'"
| reconcile: "Reconcile sha s w = (rc, w') \<Longrightarrow> store_call sha s w w'"
| reconcile_reserved: "ReconcileReserved sha s reservation w = (rc, w') \<Longrightarrow> store_call sha s w w'"
| recover: "external_restorer er \<Longrightarrow> external_controller lc \<Longrightarrow> calm w \<Longrightarrow>
     Recover sha s er lc w = (res, w') \<Longrightarrow> store_call sha s w w'"
| recover_expected: "external_restorer er \<Longrightarrow> external_controller lc \<Longrightarrow> calm w \<Longrightarrow>
     RecoverExpected sha s er lc ex w = (res, w') \<Longrightarrow> store_call sha s w w'"
| activate: "regular_journal sha j \<Longrightarrow> external_publication publish \<Longrightarrow>
     Activate sha s j mechanism publish w = (r, w') \<Longrightarrow> store_call sha s w w'"
| acquire_scope: "AcquireScope sha s activationID generation w = (l, w') \<Longrightarrow> store_call sha s w w'"
| renew_scope: "RenewScope sha s lease w = (l', w') \<Longrightarrow> store_call sha s w w'"
| recover_scope: "external_restorer er \<Longrightarrow> external_controller lc \<Longrightarrow> calm w \<Longrightarrow>
     RecoverScope sha s lease er lc w = (res, w') \<Longrightarrow> store_call sha s w w'"

text \<open>
  The worlds of a machine that starts without records.  After a call, or when the process is killed
  after any single change of the file system that the call made, another process may start, in
  which everything but the file system is new.
\<close>

inductive reachable :: "sha256 \<Rightarrow> store \<Rightarrow> 'x world \<Rightarrow> bool" for sha s where
  initial: "no_records s (w_files w) \<Longrightarrow> reachable sha s w"
| call: "reachable sha s w \<Longrightarrow> store_call sha s w w' \<Longrightarrow> reachable sha s w'"
| killed: "reachable sha s w \<Longrightarrow> store_call sha s w w1 \<Longrightarrow> w_history w1 = w_history w @ new \<Longrightarrow>
     w_files w' \<in> set (w_files w # new) \<Longrightarrow> reachable sha s w'"

lemma store_call_safe:
  assumes "store_call sha s w w'" and "distinct_paths s" and "consistent sha s (w_files w)"
  shows "crash_safe sha s w w'"
  using assms(1)
proof cases
  have start: "crash_safe sha s w w" using assms by (simp add: crash_safe_def safe_since_refl)
  have act: "keeps P m \<Longrightarrow> keepsA P (actE m)" for P and m :: "('x world, unit) io"
    unfolding actE_def by (intro keeps_intros)
  {
    case prepare
    show ?thesis
      by (rule keepsA_result [OF safe.transaction [OF act [OF Prepare_crash_safe]] start prepare(2)]) (use prepare(1) in auto)
  next
    case transition
    show ?thesis
      by (rule keepsA_result [OF safe.transaction [OF act [OF Transition_crash_safe]] start transition]) auto
  next
    case clear
    show ?thesis by (rule keepsA_result [OF safe.transaction [OF act [OF Clear_crash_safe]] start clear]) auto
  next
    case reserve
    show ?thesis by (rule keepsA_result [OF safe.reserve start reserve])
  next
    case renew
    show ?thesis by (rule keepsA_result [OF safe.renew start renew])
  next
    case cancel
    show ?thesis by (rule keepsA_result [OF safe.cancel start cancel])
  next
    case reconcile
    show ?thesis by (rule keepsA_result [OF safe.reconcile(1) [OF reconcileLocked_crash_safe] start reconcile])
  next
    case reconcile_reserved
    show ?thesis by (rule keepsA_result [OF safe.reconcile(2) [OF reconcileLocked_crash_safe] start reconcile_reserved])
  next
    case recover
    show ?thesis
      using keepsA_result [OF Recover_crash_safe(1) [OF recover(1,2)] _ recover(4)] start recover(3) by blast
  next
    case recover_expected
    show ?thesis
      using keepsA_result [OF Recover_crash_safe(2) [OF recover_expected(1,2)] _ recover_expected(4)] start recover_expected(3) by blast
  next
    case activate
    show ?thesis by (rule keepsA_result [OF Activate_crash_safe [OF activate(1,2)] start activate(3)])
  next
    case acquire_scope
    show ?thesis by (rule keepsA_result [OF scopes_crash_safe(1) start acquire_scope])
  next
    case renew_scope
    show ?thesis by (rule keepsA_result [OF scopes_crash_safe(2) start renew_scope])
  next
    case recover_scope
    show ?thesis
      using keepsA_result [OF Recover_crash_safe(3) [OF recover_scope(1,2)] _ recover_scope(4) [unfolded RecoverScope_def]] start recover_scope(3)
      by blast
  }
qed

lemma reachable_consistent:
  assumes "distinct_paths s" and "reachable sha s w"
  shows "consistent sha s (w_files w)"
  using assms(2)
proof induction
  case (initial w)
  then show ?case by (rule no_records_consistent)
next
  case (call w w')
  then show ?case using store_call_safe [OF _ assms(1)] by (auto simp: crash_safe_def safe_since_def)
next
  case (killed w w1 new w')
  then have "list_all (consistent sha s) new"
    using store_call_safe [OF killed(2) assms(1)] by (auto simp: crash_safe_def safe_since_def)
  with killed show ?case by (auto simp: list_all_iff)
qed

end
