(* ===== verification/SampleStore.thy ===== *)
theory SampleStore
  imports StoreMachine LiveRecovery
begin

text \<open>
  A concrete store with an active activation: a journal, the receipt bound to it and a reservation,
  under a hash function that maps everything to zero.  The properties are applied to it.
\<close>

section \<open>Records\<close>

definition zero_sha :: sha256 where "zero_sha = (\<lambda>_. 0)"

definition zero_digest :: string where "zero_digest = ''sha256:'' @ replicate 64 (CHR ''0'')"

definition sample_store :: store where
  "sample_store = \<lparr>stPaths = \<lparr>pathLock = ''/s/lifecycle.lock'', pathReservation = ''/s/reservation.json'',
     pathJournal = ''/s/journal.json'', pathReceipt = ''/s/receipt.json''\<rparr>, stUid = 1000\<rparr>"

definition sample_environment :: "string \<Rightarrow> string option \<Rightarrow> JournalEnvironment" where
  "sample_environment name prior = \<lparr>jeName = name, jePriorPresent = prior \<noteq> None, jePriorValue = prior,
     jeDesiredValueDigest = zero_digest, jeActivationMarker = ''marker-0123456789'',
     jeRollbackAction = (if prior = None then ''remove_blazn_value'' else ''restore_prior_value'')\<rparr>"

definition sample_journal :: "string \<Rightarrow> Journal" where
  "sample_journal state = \<lparr>jSchemaVersion = ''proxy/v1alpha1'',
     jActivationID = ''00000000-0000-4000-8000-000000000000'', jNonce = replicate 43 (CHR ''n''), jGeneration = 1,
     jState = state, jOwnerUID = 1000, jPlatform = ''linux'', jMode = ''session'', jSessionIdentity = ''session'',
     jPolicy = \<lparr>pID = ''00000000-0000-4000-8000-000000000001'', pVersion = 1, pDigest = zero_digest\<rparr>,
     jBinary = \<lparr>bPath = ''/bin/blazn'', bDigest = zero_digest\<rparr>,
     jListener = \<lparr>lPID = 42, lProcessStartIdentity = ''start'', lExecutableIdentity = ''exe'',
       lAddress = ''127.0.0.1:4000'', lListenerKeyFingerprint = zero_digest\<rparr>,
     jEnvironment = [sample_environment ''OPENAI_BASE_URL'' (Some ''http://old''), sample_environment ''OPENAI_API_KEY'' None,
       sample_environment ''ANTHROPIC_BASE_URL'' None, sample_environment ''ANTHROPIC_API_KEY'' None,
       sample_environment ''ANTHROPIC_AUTH_TOKEN'' None],
     jCA = None,
     jRollbackActions = Some [\<lparr>raOrdinal = 1, raOperation = ''restore_environment'', raTarget = ''environment''\<rparr>,
       \<lparr>raOrdinal = 2, raOperation = ''stop_listener'', raTarget = ''listener''\<rparr>],
     jCreatedAt = 0, jUpdatedAt = 0, jChecksum = zero_digest\<rparr>"

lemma zero_digest_text: "digest_text zero_sha t = zero_digest"
  unfolding digest_text_def zero_sha_def hex256_def zero_digest_def by code_simp

lemma sample_ascii:
  "coerceUTF8 zero_digest = zero_digest" "coerceUTF8 (replicate n (CHR ''n'')) = replicate n (CHR ''n'')"
  by (rule coerceUTF8_ascii, simp add: zero_digest_def list_all_iff)+

lemma sample_valid: "state \<in> set journal_states \<Longrightarrow> Journal_Validate (sample_journal state) = []"
  by (simp add: journal_states_def, elim disjE; hypsubst, code_simp)

lemma sample_wire: "state \<in> set journal_states \<Longrightarrow> wire_journal (sample_journal state) = sample_journal state"
  by (auto simp: wire_defs sample_journal_def sample_environment_def sample_ascii coerceUTF8_ascii journal_states_def)

text \<open>The encoded size, whatever the state and the times.\<close>

lemma fits_bounded:
  assumes "\<And>t kvs. json_of (set_sum (digest_text sha t) r) = Some kvs \<Longrightarrow> json_ok (JObject kvs) \<and> json_cost (JObject kvs) \<le> maxRecordSize"
  shows "fits (marshalChecksummed sha json_of set_sum r)"
proof -
  have "length t \<le> maxRecordSize"
    if "checksumRecord sha (json_of r) = Inr c" "json_of (set_sum c r) = Some kvs" "writeCanonical (JObject kvs) = Some t" for c kvs t
    using writeCanonical_length [of "JObject kvs"] checksumRecord_digest [OF that(1)] assms that(2,3) by fastforce
  then show ?thesis
    by (auto simp: fits_def marshalChecksummed_def canonicalJSON_def Let_def simp del: writeCanonical.simps split: sum.splits option.splits)
qed

lemma sample_lengths: "length zero_digest = 71"
  by (simp add: zero_digest_def)

lemma sample_roomy:
  assumes "st \<in> set journal_states"
    and "journal_json (set_journal_checksum (digest_text sha x) ((sample_journal st0)\<lparr>jState := st, jUpdatedAt := t\<rparr>)) = Some kvs"
  shows "json_ok (JObject kvs) \<and> json_cost (JObject kvs) \<le> maxRecordSize"
proof -
  obtain u v where u: "formatRFC3339Nano t = Some u" and v: "formatRFC3339Nano 0 = Some v"
    using assms(2) by (auto simp: journal_json_def sample_journal_def set_journal_checksum_def split: option.splits)
  have st: "length (coerceUTF8 st) \<le> 17" using assms(1) by (auto simp: journal_states_def coerceUTF8_ascii)
  have len: "length (formatInt 1) \<le> 1" "length (formatInt 2) \<le> 1" "length (formatInt 42) \<le> 2" "length (formatInt 1000) \<le> 4"
    by code_simp+
  show ?thesis using assms(2) formatRFC3339Nano_length [OF u] formatRFC3339Nano_length [OF v] st len
    by (auto simp: journal_json_def sample_journal_def set_journal_checksum_def u v policy_json_def binary_json_def
        listener_json_def journal_environment_json_def rollback_json_def sample_environment_def sample_ascii coerceUTF8_ascii
        sample_lengths maxRecordSize_def int64_ok_def simp del: json_ok.simps(1))
qed

lemma sample_regular:
  assumes "st \<in> set journal_states"
  shows "regular_journal zero_sha (sample_journal st)"
proof -
  have "roomy zero_sha (sample_journal st)"
    unfolding roomy_def by (intro ballI allI fits_bounded) (rule sample_roomy)
  moreover have "wire_stable (sample_journal st)" using sample_wire [OF assms] by (simp add: wire_stable_def)
  ultimately show ?thesis by (simp add: regular_journal_def sample_journal_def)
qed

definition sample_receipt :: Receipt where
  "sample_receipt =
     (case receiptFromJournal (sample_journal ''active'') ''systemd_user_environment'' of
        Inr r \<Rightarrow> r\<lparr>rChecksum := zero_digest\<rparr> | Inl _ \<Rightarrow> undefined)"

definition sample_reservation :: Reservation where
  "sample_reservation = \<lparr>vNonce = replicate 43 (CHR ''n''), vOwnerUID = 1000, vExpiresAt = 60000000000, vChecksum = zero_digest\<rparr>"

definition sample_files :: files where
  "sample_files = (\<lambda>_. None)
     (''/s/reservation.json'' := Some (created_node 1000 300 (empty_doc\<lparr>doc_reservation := Some sample_reservation\<rparr>)),
      ''/s/journal.json'' := Some (created_node 1000 3000 (empty_doc\<lparr>doc_journal := Some (sample_journal ''active'')\<rparr>)),
      ''/s/receipt.json'' := Some (created_node 1000 2500 (empty_doc\<lparr>doc_receipt := Some sample_receipt\<rparr>)))"

text \<open>The external part of the sample world is the session's environment.\<close>

definition sample_world :: "(string \<Rightarrow> string option) world" where
  "sample_world = \<lparr>w_files = sample_files, w_history = [], w_euid = 1000, w_io = [], w_clock = 1000000000, w_ticks = [],
     w_rand = [], w_ext = (\<lambda>name. Some ''http://127.0.0.1:4000'')\<rparr>"

lemma sample_receipt_eq: "receiptFromJournal (sample_journal ''active'') ''systemd_user_environment'' = Inr (sample_receipt\<lparr>rChecksum := ''''\<rparr>)"
  "rChecksum sample_receipt = zero_digest"
  unfolding sample_receipt_def by code_simp+

lemma sample_receipt_fields:
  "sample_receipt = (let j = sample_journal ''active'' in \<lparr>
          rSchemaVersion = SchemaVersion, rActivationID = jActivationID j, rNonce = jNonce j,
          rGeneration = jGeneration j, rOwnerUID = jOwnerUID j, rJournalDigest = jChecksum j,
          rPolicyDigest = pDigest (jPolicy j), rPlatform = jPlatform j, rMode = jMode j,
          rSessionIdentity = jSessionIdentity j, rBinary = jBinary j, rListener = jListener j,
          rPublicationMechanism = ''systemd_user_environment'',
          rEnvironment = map receipt_environment_of (jEnvironment j),
          rRollbackSummary = append_to_nil (jRollbackActions j), rActivatedAt = jUpdatedAt j,
          rState = ''active'', rChecksum = zero_digest\<rparr>)"
proof -
  have "sample_receipt = (sample_receipt\<lparr>rChecksum := ''''\<rparr>)\<lparr>rChecksum := zero_digest\<rparr>"
    using sample_receipt_eq(2) by simp
  also have "sample_receipt\<lparr>rChecksum := ''''\<rparr> = (let j = sample_journal ''active'' in \<lparr>
          rSchemaVersion = SchemaVersion, rActivationID = jActivationID j, rNonce = jNonce j,
          rGeneration = jGeneration j, rOwnerUID = jOwnerUID j, rJournalDigest = jChecksum j,
          rPolicyDigest = pDigest (jPolicy j), rPlatform = jPlatform j, rMode = jMode j,
          rSessionIdentity = jSessionIdentity j, rBinary = jBinary j, rListener = jListener j,
          rPublicationMechanism = ''systemd_user_environment'',
          rEnvironment = map receipt_environment_of (jEnvironment j),
          rRollbackSummary = append_to_nil (jRollbackActions j), rActivatedAt = jUpdatedAt j,
          rState = ''active'', rChecksum = ''''\<rparr>)"
    using sample_receipt_eq(1) by (auto simp: receiptFromJournal_def receiptFromJournalAt_def Let_def split: if_splits)
  finally show ?thesis by (simp add: Let_def)
qed

lemma verify_zero: "json_ok (JObject kvs) \<Longrightarrow> verifyChecksum zero_sha (Some kvs) zero_digest = []"
proof -
  assume "json_ok (JObject kvs)"
  then have "json_ok (JObject (without_checksum kvs))" by (auto simp: without_checksum_def)
  from writeCanonical_length [OF this] show ?thesis
    by (auto simp: verifyChecksum_def checksumRecord_def zero_digest_text simp del: writeCanonical.simps)
qed

lemma sample_json:
  "\<exists>kvs. journal_json (sample_journal ''active'') = Some kvs \<and> json_ok (JObject kvs)"
  "\<exists>kvs. receipt_json sample_receipt = Some kvs \<and> json_ok (JObject kvs)"
  "\<exists>kvs. reservation_json sample_reservation = Some kvs \<and> json_ok (JObject kvs)"
proof -
  have v: "formatRFC3339Nano 0 = Some ''1970-01-01T00:00:00Z''" "formatRFC3339Nano 60000000000 = Some ''1970-01-01T00:01:00Z''"
    by code_simp+
  note defs = policy_json_def binary_json_def listener_json_def journal_environment_json_def receipt_environment_json_def
    rollback_json_def int64_ok_def
  show "\<exists>kvs. journal_json (sample_journal ''active'') = Some kvs \<and> json_ok (JObject kvs)"
    by (simp add: journal_json_def sample_journal_def sample_environment_def v defs del: json_ok.simps(1))
  show "\<exists>kvs. receipt_json sample_receipt = Some kvs \<and> json_ok (JObject kvs)"
    by (simp add: sample_receipt_fields receipt_json_def sample_journal_def v defs append_to_nil_def slice_elems_def del: json_ok.simps(1))
  show "\<exists>kvs. reservation_json sample_reservation = Some kvs \<and> json_ok (JObject kvs)"
    by (simp add: reservation_json_def sample_reservation_def v defs del: json_ok.simps(1))
qed

lemma sample_checks:
  "journal_check zero_sha 1000 (sample_journal ''active'') = []"
  "receipt_check zero_sha 1000 sample_receipt = []"
  "reservation_check zero_sha 1000 sample_reservation = []"
proof -
  have "Receipt_Validate sample_receipt = []" "rOwnerUID sample_receipt = 1000" by code_simp+
  moreover have "Journal_Validate (sample_journal ''active'') = []" by (rule sample_valid) (simp add: journal_states_def)
  moreover have "validNonce (vNonce sample_reservation)" by code_simp
  ultimately show "journal_check zero_sha 1000 (sample_journal ''active'') = []"
    "receipt_check zero_sha 1000 sample_receipt = []" "reservation_check zero_sha 1000 sample_reservation = []"
    using sample_json verify_zero sample_receipt_eq(2)
    by (auto simp: journal_check_def receipt_check_def reservation_check_def sample_reservation_def time_IsZero_def zero_time_def
        sample_journal_def)
qed

lemma sample_at:
  "journal_at zero_sha sample_store sample_files = Inr (sample_journal ''active'')"
  "receipt_at zero_sha sample_store sample_files = Inr sample_receipt"
  "reservation_at zero_sha sample_store sample_files = Inr sample_reservation"
  using sample_checks
  by (simp_all add: journal_at_def receipt_at_def reservation_at_def stored_def sample_store_def sample_files_def
      maxRecordSize_def created_node_def empty_doc_def secure_node_def)

lemma sample_bound: "ValidateBinding (sample_journal ''active'') sample_receipt = []"
  by code_simp

lemma sample_consistent: "consistent zero_sha sample_store sample_files"
  using sample_at sample_bound sample_regular [of "''active''"] by (simp add: consistent_def journal_states_def)

lemma sample_distinct: "distinct_paths sample_store"
  by (simp add: distinct_paths_def sample_store_def)

section \<open>Services\<close>

definition sample_restorer :: "(string \<Rightarrow> string option) EnvironmentRestorer" where
  "sample_restorer = \<lparr>CompareAndSet = (\<lambda>req w. (Inr CASRestored, w\<lparr>w_ext := (w_ext w)(csName req := prior_of req)\<rparr>))\<rparr>"

definition sample_controller :: "(string \<Rightarrow> string option) ListenerController" where
  "sample_controller = \<lparr>Inspect = (\<lambda>pid w. (Inr (proofFromJournal (sample_journal ''active''), False), w)),
     Stop = (\<lambda>proof w. (Inr (), w))\<rparr>"

lemma sample_services:
  "restorer_contract (\<lambda>x. x) sample_restorer" "working_restorer sample_restorer" "external_restorer sample_restorer"
  "external_controller sample_controller" "stopVerified sample_controller p v = ((''listener_absent'', []), v)"
  by (auto simp: restorer_contract_def working_restorer_def external_restorer_def external_controller_def external_def
      sample_restorer_def sample_controller_def CASRestored_def CASConflict_def stopVerified_def bindA_def retA_def)

section \<open>Worlds\<close>

lemma sample_calm: "calm sample_world" "w_files sample_world = sample_files"
  by (simp_all add: calm_def sample_world_def)

text \<open>The same store with no reservation in place.\<close>

definition free_world :: "(string \<Rightarrow> string option) world" where
  "free_world = sample_world\<lparr>w_files := sample_files(''/s/reservation.json'' := None)\<rparr>"

lemma free_at:
  "journal_at zero_sha sample_store (w_files free_world) = Inr (sample_journal ''active'')"
  "receipt_at zero_sha sample_store (w_files free_world) = Inr sample_receipt"
  using sample_at by (simp_all add: free_world_def journal_at_def receipt_at_def stored_def sample_store_def)

lemma free_friendly: "friendly sample_store free_world" "w_ticks free_world = []"
  "w_files free_world (pathReservation (stPaths sample_store)) = None"
  by (simp_all add: friendly_def free_world_def sample_world_def calm_def sample_store_def replaceable_def sample_files_def)

lemma free_recovers:
  "\<exists>result w'. Recover zero_sha sample_store sample_restorer sample_controller free_world = ((result, []), w') \<and>
     rrStatus result = RecoveryComplete"
proof (rule Recover_completes [OF sample_distinct free_friendly _ _ _ _ free_at sample_bound])
  show "formatRFC3339Nano (w_clock free_world + 30 * time_Second) = Some ''1970-01-01T00:00:31Z''" by code_simp
qed (simp_all add: free_world_def sample_world_def zero_time_def time_Second_def sample_store_def sample_services)

section \<open>Writing the sample records\<close>

lemma marshal_bounded:
  assumes "json_of r = Some kvs" and "json_ok (JObject kvs)"
    and "\<And>t. \<exists>kvs'. json_of (set_sum (digest_text sha t) r) = Some kvs' \<and> json_ok (JObject kvs') \<and> json_cost (JObject kvs') \<le> maxRecordSize"
  shows "\<exists>data r'. marshalChecksummed sha json_of set_sum r = Inr (data, r') \<and> length data \<le> maxRecordSize"
proof -
  have "json_ok (JObject (without_checksum kvs))" using assms(2) by (auto simp: without_checksum_def)
  then obtain t where t: "writeCanonical (JObject (without_checksum kvs)) = Some t" using writeCanonical_length by blast
  obtain kvs' where k: "json_of (set_sum (digest_text sha t) r) = Some kvs'" "json_ok (JObject kvs')" "json_cost (JObject kvs') \<le> maxRecordSize"
    using assms(3) by blast
  obtain d where d: "writeCanonical (JObject kvs') = Some d" "length d \<le> json_cost (JObject kvs')"
    using writeCanonical_length [OF k(2)] by blast
  have "marshalChecksummed sha json_of set_sum r = Inr (d, set_sum (digest_text sha t) r)"
    using assms(1) t k(1) d(1)
    by (simp add: marshalChecksummed_def checksumRecord_def canonicalJSON_def Let_def del: writeCanonical.simps)
  with d(2) k(3) show ?thesis by auto
qed

lemma formatInt_samples [simp]:
  "formatInt 1 = ''1''" "formatInt 2 = ''2''" "formatInt 42 = ''42''" "formatInt 1000 = ''1000''"
  by code_simp+

lemma sample_receipt_marshals:
  "\<exists>data r'. marshalChecksummed zero_sha receipt_json set_receipt_checksum (sample_receipt\<lparr>rState := ''recovery_required''\<rparr>) = Inr (data, r') \<and>
     length data \<le> maxRecordSize"
proof -
  let ?r = "sample_receipt\<lparr>rState := ''recovery_required''\<rparr>"
  obtain v where v: "formatRFC3339Nano 0 = Some v" "length v \<le> 120"
  proof -
    have "formatRFC3339Nano 0 = Some ''1970-01-01T00:00:00Z''" by code_simp
    then show thesis using that formatRFC3339Nano_length by blast
  qed
  have ints: "json_ok (jint 1)" "json_ok (jint 2)" "json_ok (jint 42)" "json_ok (jint 1000)"
    by (rule json_ok_int, simp add: int64_ok_def)+
  have ok: "\<exists>kvs. receipt_json (set_receipt_checksum c ?r) = Some kvs \<and> json_ok (JObject kvs) \<and>
      (length (coerceUTF8 c) \<le> 71 \<longrightarrow> json_cost (JObject kvs) \<le> maxRecordSize)" for c
    using v ints by (simp add: sample_receipt_fields receipt_json_def set_receipt_checksum_def sample_journal_def sample_environment_def
        binary_json_def listener_json_def receipt_environment_json_def rollback_json_def append_to_nil_def slice_elems_def
        receipt_environment_of_def SchemaVersion_def sample_ascii coerceUTF8_ascii sample_lengths maxRecordSize_def
        del: json_ok.simps(1) formatInt_samples) (simp add: maxRecordSize_def)
  obtain kvs where kvs: "receipt_json ?r = Some kvs" "json_ok (JObject kvs)"
    using ok [of "rChecksum ?r"] by (auto simp: set_receipt_checksum_def)
  show ?thesis
    by (rule marshal_bounded [where kvs = kvs]) (use kvs ok [of "digest_text zero_sha _"] in auto)
qed

lemma sample_journal_writes:
  "\<exists>j' w'. writeJournal zero_sha sample_store (sample_journal ''active'') sample_world = (Inr j', w')"
proof -
  obtain kvs where kvs: "journal_json (sample_journal ''active'') = Some kvs" "json_ok (JObject kvs)" using sample_json(1) by blast
  have st: "''active'' \<in> set journal_states" by (simp add: journal_states_def)
  have same: "sample_journal ''active'' = (sample_journal ''active'')\<lparr>jState := ''active'', jUpdatedAt := 0\<rparr>"
    by (simp add: sample_journal_def)
  have "\<exists>kvs'. journal_json (set_journal_checksum (digest_text zero_sha t) (sample_journal ''active'')) = Some kvs' \<and>
      json_ok (JObject kvs') \<and> json_cost (JObject kvs') \<le> maxRecordSize" for t
  proof -
    obtain kvs' where k: "journal_json (set_journal_checksum (digest_text zero_sha t) (sample_journal ''active'')) = Some kvs'"
      using kvs(1) by (auto simp: journal_json_def set_journal_checksum_def split: option.splits)
    then show ?thesis using sample_roomy [OF st, where sha = zero_sha and x = t and t = 0 and ?st0.0 = "''active''" and kvs = kvs'] same by simp
  qed
  then obtain data j' where m: "marshalChecksummed zero_sha journal_json set_journal_checksum (sample_journal ''active'') = Inr (data, j')"
    using marshal_bounded [of journal_json, OF kvs] by blast
  have "jOwnerUID (sample_journal ''active'') = stUid sample_store" by (simp add: sample_journal_def sample_store_def)
  moreover have "Journal_Validate (sample_journal ''active'') = []" by (rule sample_valid [OF st])
  moreover obtain w' where "atomicWrite (pathJournal (stPaths sample_store)) (stUid sample_store) data
      (empty_doc\<lparr>doc_journal := Some (wire_journal j')\<rparr>) sample_world = (Inr (), w')"
    using atomicWrite_calm [OF sample_calm(1), of "stUid sample_store" "pathJournal (stPaths sample_store)" data]
    by (auto simp: sample_world_def sample_store_def replaceable_def sample_files_def)
  ultimately show ?thesis using m by (simp add: writeJournal_def bindE_def returnE_def checkE_def)
qed

end
