(* ===== verification/GoJson.thy ===== *)
theory GoJson
  imports RouterPolicy "HOL-Library.AList"
begin

text \<open>
  The parts of Go's \<open>encoding/json\<close> the router relies on, on bytes.  Reading works on raw texts: a
  value is scanned, cut out, and decoded by a decoder for the type it is stored in, which gets the
  old content of the variable as Go's decoder does.  Writing is \<open>json.Marshal\<close> with its HTML
  escapes.  Conversion between decimal text and \<open>float64\<close> is a parameter.
\<close>

section \<open>Scanning\<close>

text \<open>\<open>strings.TrimSpace\<close>, on the runes of the text with the bytes they are made of.\<close>

function runeChunks :: "string \<Rightarrow> (nat \<times> string) list" where
  "runeChunks s = (if s = [] then [] else
     (fst (decodeRune s), take (snd (decodeRune s)) s) # runeChunks (drop (snd (decodeRune s)) s))"
  by pat_completeness auto
termination
  by (relation "measure length") (use decodeRune_shrinks in auto)

declare runeChunks.simps [simp del]

definition is_space :: "nat \<Rightarrow> bool" where
  "is_space r \<longleftrightarrow> (9 \<le> r \<and> r \<le> 13) \<or> r = 32 \<or> r = 133 \<or> r = 160 \<or> r = 5760 \<or> (8192 \<le> r \<and> r \<le> 8202) \<or> r = 8232 \<or> r = 8233 \<or>
     r = 8239 \<or> r = 8287 \<or> r = 12288"

definition trimSpace :: "string \<Rightarrow> string" where
  "trimSpace s = concat (map snd
     (rev (dropWhile (\<lambda>c. is_space (fst c)) (rev (dropWhile (\<lambda>c. is_space (fst c)) (runeChunks s))))))"

text \<open>Code equations for texts in ASCII, told from the bits of their characters.\<close>

definition ascii :: "char \<Rightarrow> bool" where
  "ascii c \<longleftrightarrow> \<not> digit7 c"

lemma ascii_byte: "ascii c \<longleftrightarrow> byte c < 128"
  by (cases c) (simp add: ascii_def of_char_Char)

lemma all_ascii: "list_all ascii s \<longleftrightarrow> list_all (\<lambda>c. byte c < 128) s"
  by (simp add: list_all_iff ascii_byte)

lemma control_bits [code_unfold]: "byte c < 32 \<longleftrightarrow> \<not> digit7 c \<and> \<not> digit6 c \<and> \<not> digit5 c"
  by (cases c) (auto simp: of_char_Char)

lemma coerceUTF8_code [code]: "coerceUTF8 s = (if list_all ascii s then s else concat (map encodeRune (runes s)))"
  using coerceUTF8_ascii [of s] by (simp add: coerceUTF8_def all_ascii)

lemma runes_code [code]:
  "runes s = (if list_all ascii s then map byte s else fst (decodeRune s) # runes (drop (snd (decodeRune s)) s))"
  using runes_ascii [of s] runes.simps [of s] by (cases "s = []") (simp_all add: all_ascii)

lemma runeChunks_ascii: "list_all ascii s \<Longrightarrow> runeChunks s = map (\<lambda>c. (byte c, [c])) s"
proof (induction s)
  case (Cons c s)
  then show ?case by (subst runeChunks.simps) (simp add: ascii_byte)
qed (simp add: runeChunks.simps)

lemma char_byte: "byte c = n \<longleftrightarrow> n < 256 \<and> c = char_of n"
  using of_char_eq_iff [of c "char_of n", where 'a = nat] by auto

definition space_char :: "char \<Rightarrow> bool" where
  "space_char c \<longleftrightarrow> List.member [CHR '' '', CHR 9, CHR 10, CHR 11, CHR 12, CHR 13] c"

lemma space_char: "ascii c \<Longrightarrow> is_space (byte c) \<longleftrightarrow> space_char c"
proof -
  assume "ascii c"
  then have "byte c < 128" by (simp add: ascii_byte)
  then have "is_space (byte c) \<longleftrightarrow> byte c = 32 \<or> byte c = 9 \<or> byte c = 10 \<or> byte c = 11 \<or> byte c = 12 \<or> byte c = 13"
    by (auto simp: is_space_def)
  also have "\<dots> \<longleftrightarrow> space_char c" by (simp add: char_byte space_char_def) (simp add: char_of_def bit_simps)
  finally show ?thesis .
qed

lemma trimSpace_code [code]:
  "trimSpace s = (if list_all ascii s then rev (dropWhile space_char (rev (dropWhile space_char s)))
     else concat (map snd (rev (dropWhile (\<lambda>c. is_space (fst c)) (rev (dropWhile (\<lambda>c. is_space (fst c)) (runeChunks s)))))))"
proof (cases "list_all ascii s")
  case True
  have drop: "list_all ascii t \<Longrightarrow> dropWhile (\<lambda>c. is_space (fst c)) (map (\<lambda>c. (byte c, [c])) t) = map (\<lambda>c. (byte c, [c])) (dropWhile space_char t)" for t
    by (induction t) (auto simp: space_char)
  have rest: "list_all ascii (rev (dropWhile space_char s))"
    using True by (auto simp: list_all_iff dest: set_dropWhileD)
  have single: "concat (map (snd \<circ> (\<lambda>c. (byte c, [c]))) t) = t" for t by (induction t) auto
  show ?thesis
    using True by (simp add: trimSpace_def runeChunks_ascii drop rev_map drop [OF rest] single)
qed (simp add: trimSpace_def)

lemma is_digit_code [code]: "is_digit c \<longleftrightarrow> List.member ''0123456789'' c"
proof -
  have between: "48 \<le> n \<and> n \<le> 57 \<longleftrightarrow> n = 48 \<or> n = 49 \<or> n = 50 \<or> n = 51 \<or> n = 52 \<or> n = 53 \<or> n = 54 \<or> n = 55 \<or> n = 56 \<or> n = 57" for n :: nat
    by presburger
  have "is_digit c \<longleftrightarrow> byte c = 48 \<or> byte c = 49 \<or> byte c = 50 \<or> byte c = 51 \<or> byte c = 52 \<or> byte c = 53 \<or> byte c = 54 \<or>
      byte c = 55 \<or> byte c = 56 \<or> byte c = 57"
    using between [of "byte c"] by (simp add: go_defs)
  also have "\<dots> \<longleftrightarrow> List.member ''0123456789'' c" by (simp add: char_byte) (simp add: char_of_def bit_simps)
  finally show ?thesis .
qed

text \<open>\<open>strings.Contains\<close>.\<close>

fun contains_list :: "'a list \<Rightarrow> 'a list \<Rightarrow> bool" where
  "contains_list p [] \<longleftrightarrow> p = []"
| "contains_list p (x # xs) \<longleftrightarrow> take (length p) (x # xs) = p \<or> contains_list p xs"

definition is_ws :: "char \<Rightarrow> bool" where
  "is_ws c \<longleftrightarrow> c = CHR '' '' \<or> c = CHR 9 \<or> c = CHR 10 \<or> c = CHR 13"

definition skipWs :: "string \<Rightarrow> string" where
  "skipWs s = dropWhile is_ws s"

definition escapable :: "char \<Rightarrow> bool" where
  "escapable c \<longleftrightarrow> c \<in> {CHR 34, CHR 92, CHR ''/'', CHR ''b'', CHR ''f'', CHR ''n'', CHR ''r'', CHR ''t''}"

text \<open>The text of a string up to its closing quote, and what follows; \<open>CHR 34\<close> is the quote.\<close>

fun stringBody :: "string \<Rightarrow> (string \<times> string) option" where
  "stringBody [] = None"
| "stringBody (c # s) =
     (if c = CHR 34 then Some ([], s)
      else if byte c < 32 then None
      else if c = CHR 92 then
        (case s of
           e # t \<Rightarrow>
             if escapable e then map_option (\<lambda>(b, r). (c # e # b, r)) (stringBody t)
             else if e = CHR ''u'' \<and> length t \<ge> 4 \<and> list_all is_any_hex (take 4 t)
             then map_option (\<lambda>(b, r). (c # e # b, r)) (stringBody t)
             else None
         | [] \<Rightarrow> None)
      else map_option (\<lambda>(b, r). (c # b, r)) (stringBody s))"

definition hex_val :: "char \<Rightarrow> nat" where
  "hex_val c = (if is_digit c then byte c - 48 else if in_range 97 102 c then byte c - 87 else byte c - 55)"

definition hex4 :: "string \<Rightarrow> nat" where
  "hex4 s = fold (\<lambda>c n. 16 * n + hex_val c) (take 4 s) 0"

definition is_surrogate :: "nat \<Rightarrow> bool" where
  "is_surrogate r \<longleftrightarrow> 55296 \<le> r \<and> r \<le> 57343"

text \<open>\<open>utf16.DecodeRune\<close>.\<close>

definition decodePair :: "nat \<Rightarrow> nat \<Rightarrow> nat option" where
  "decodePair a b =
     (if 55296 \<le> a \<and> a \<le> 56319 \<and> 56320 \<le> b \<and> b \<le> 57343
      then Some ((a - 55296) * 1024 + (b - 56320) + 65536) else None)"

definition simpleEscape :: "char \<Rightarrow> char" where
  "simpleEscape c = (if c = CHR ''b'' then CHR 8 else if c = CHR ''f'' then CHR 12 else if c = CHR ''n'' then CHR 10
     else if c = CHR ''r'' then CHR 13 else if c = CHR ''t'' then CHR 9 else c)"

fun unescape :: "string \<Rightarrow> string" where
  "unescape (c # e # s) =
     (if c \<noteq> CHR 92 then c # unescape (e # s)
      else if e \<noteq> CHR ''u'' then simpleEscape e # unescape s
      else (let r = hex4 s; t = drop 4 s in
        if \<not> is_surrogate r then encodeRune r @ unescape t
        else if hasPrefix t [CHR 92, CHR ''u''] \<and> decodePair r (hex4 (drop 2 t)) \<noteq> None
        then encodeRune (the (decodePair r (hex4 (drop 2 t)))) @ unescape (drop 6 t)
        else encodeRune rune_error @ unescape t))"
| "unescape s = s"

definition scanString :: "string \<Rightarrow> (string \<times> string) option" where
  "scanString s = map_option (\<lambda>(b, r). (unescape (coerceUTF8 b), r)) (stringBody s)"

definition scanDigits :: "string \<Rightarrow> string option" where
  "scanDigits s = (case s of c # t \<Rightarrow> if is_digit c then Some (dropWhile is_digit t) else None | [] \<Rightarrow> None)"

definition scanFraction :: "string \<Rightarrow> string option" where
  "scanFraction s = (case s of c # t \<Rightarrow> if c = CHR ''.'' then scanDigits t else Some s | [] \<Rightarrow> Some s)"

definition scanExponent :: "string \<Rightarrow> string option" where
  "scanExponent s =
     (case s of
        c # t \<Rightarrow> if c = CHR ''e'' \<or> c = CHR ''E''
          then (case t of d # u \<Rightarrow> scanDigits (if d = CHR ''+'' \<or> d = CHR ''-'' then u else t) | [] \<Rightarrow> None)
          else Some s
      | [] \<Rightarrow> Some s)"

definition scanNumber :: "string \<Rightarrow> string option" where
  "scanNumber s =
     (let body = (case s of c # t \<Rightarrow> if c = CHR ''-'' then t else s | [] \<Rightarrow> s);
          whole = (case body of c # t \<Rightarrow> if c = CHR ''0'' then Some t else scanDigits body | [] \<Rightarrow> None)
      in Option.bind whole (\<lambda>r. Option.bind (scanFraction r) scanExponent))"

text \<open>
  The elements of an array and the members of an object, each as its raw text, given a scanner of
  values that returns a raw text and the rest; \<open>n\<close> bounds their number.
\<close>

fun elements :: "(string \<Rightarrow> (string \<times> string) option) \<Rightarrow> nat \<Rightarrow> string \<Rightarrow> (string list \<times> string) option" where
  "elements scan 0 s = None"
| "elements scan (Suc n) s =
     (case scan s of
        None \<Rightarrow> None
      | Some (raw, rest) \<Rightarrow>
          (case skipWs rest of
             c # t \<Rightarrow> if c = CHR '']'' then Some ([raw], t)
               else if c = CHR '','' then map_option (\<lambda>(raws, r). (raw # raws, r)) (elements scan n t)
               else None
           | [] \<Rightarrow> None))"

definition memberKey :: "string \<Rightarrow> (string \<times> string) option" where
  "memberKey s =
     (case skipWs s of
        c # t \<Rightarrow> if c = CHR 34 then
            (case scanString t of
               None \<Rightarrow> None
             | Some (key, r) \<Rightarrow> (case skipWs r of d # u \<Rightarrow> if d = CHR '':'' then Some (key, u) else None | [] \<Rightarrow> None))
          else None
      | [] \<Rightarrow> None)"

fun members_of :: "(string \<Rightarrow> (string \<times> string) option) \<Rightarrow> nat \<Rightarrow> string \<Rightarrow> ((string \<times> string) list \<times> string) option" where
  "members_of scan 0 s = None"
| "members_of scan (Suc n) s =
     (case memberKey s of
        None \<Rightarrow> None
      | Some (key, u) \<Rightarrow> (case scan u of
          None \<Rightarrow> None
        | Some (raw, rest) \<Rightarrow>
            (case skipWs rest of
               c # t \<Rightarrow> if c = CHR ''}'' then Some ([(key, raw)], t)
                 else if c = CHR '','' then map_option (\<lambda>(ms, r). ((key, raw) # ms, r)) (members_of scan n t)
                 else None
             | [] \<Rightarrow> None)))"

definition scanArray :: "(string \<Rightarrow> (string \<times> string) option) \<Rightarrow> string \<Rightarrow> (string list \<times> string) option" where
  "scanArray scan s =
     (case skipWs s of c # t \<Rightarrow> if c = CHR '']'' then Some ([], t) else elements scan (length s) s | [] \<Rightarrow> None)"

definition scanObject :: "(string \<Rightarrow> (string \<times> string) option) \<Rightarrow> string \<Rightarrow> ((string \<times> string) list \<times> string) option" where
  "scanObject scan s =
     (case skipWs s of c # t \<Rightarrow> if c = CHR ''}'' then Some ([], t) else members_of scan (length s) s | [] \<Rightarrow> None)"

definition scanScalar :: "string \<Rightarrow> string option" where
  "scanScalar s =
     (if hasPrefix s ''null'' then Some (drop 4 s) else if hasPrefix s ''true'' then Some (drop 4 s)
      else if hasPrefix s ''false'' then Some (drop 5 s)
      else if hasPrefix s [CHR 34] then map_option snd (scanString (tl s))
      else scanNumber s)"

text \<open>One value, with at most the given nesting of arrays and objects.\<close>

function scanValue :: "int \<Rightarrow> string \<Rightarrow> (string \<times> string) option" where
  "scanValue depth s =
     (let t = skipWs s;
          rest = (if hasPrefix t ''['' then
                    (if depth \<le> 0 then None else map_option snd (scanArray (\<lambda>u. scanValue (depth - 1) u) (tl t)))
                  else if hasPrefix t ''{'' then
                    (if depth \<le> 0 then None else map_option snd (scanObject (\<lambda>u. scanValue (depth - 1) u) (tl t)))
                  else scanScalar t)
      in map_option (\<lambda>r. (take (length t - length r) t, r)) rest)"
  by pat_completeness auto
termination
  by (relation "measure (\<lambda>(depth, s). nat depth)") auto

declare scanValue.simps [simp del]

definition maxNestingDepth :: int where
  "maxNestingDepth = 10000"

text \<open>The raw text of the only value of a document.\<close>

definition document :: "string \<Rightarrow> string option" where
  "document s = (case scanValue maxNestingDepth s of Some (raw, rest) \<Rightarrow> if skipWs rest = [] then Some raw else None | None \<Rightarrow> None)"

definition json_Valid :: "string \<Rightarrow> bool" where
  "json_Valid s \<longleftrightarrow> document s \<noteq> None"

definition rawElements :: "string \<Rightarrow> string list option" where
  "rawElements raw =
     (if hasPrefix raw ''['' then map_option fst (scanArray (scanValue maxNestingDepth) (tl raw)) else None)"

definition rawMembers :: "string \<Rightarrow> (string \<times> string) list option" where
  "rawMembers raw =
     (if hasPrefix raw ''{'' then map_option fst (scanObject (scanValue maxNestingDepth) (tl raw)) else None)"

section \<open>Decoding\<close>

text \<open>
  A decoder gets the raw text of a value and the old content of the variable, and returns the new
  content, or \<open>None\<close> for an error.  A \<open>null\<close> leaves scalars and structs alone, and clears pointers,
  slices and maps.
\<close>

type_synonym 'a decoder = "string \<Rightarrow> 'a \<Rightarrow> 'a option"

text \<open>\<open>strconv.ParseFloat\<close> with its range check, and the text \<open>json.Marshal\<close> writes for a \<open>float64\<close>.\<close>

record Floats =
  flParse :: "string \<Rightarrow> rat option"
  flText :: "rat \<Rightarrow> string"

definition is_number :: "string \<Rightarrow> bool" where
  "is_number raw \<longleftrightarrow> raw \<noteq> [] \<and> (is_digit (hd raw) \<or> hd raw = CHR ''-'')"

definition dString :: "string decoder" where
  "dString raw old =
     (if raw = ''null'' then Some old else if hasPrefix raw [CHR 34] then map_option fst (scanString (tl raw)) else None)"

definition dBool :: "bool decoder" where
  "dBool raw old =
     (if raw = ''null'' then Some old else if raw = ''true'' then Some True else if raw = ''false'' then Some False else None)"

definition dInt :: "int decoder" where
  "dInt raw old = (if raw = ''null'' then Some old else if is_number raw then parseInt64 raw else None)"

definition dFloat :: "Floats \<Rightarrow> rat decoder" where
  "dFloat F raw old = (if raw = ''null'' then Some old else if is_number raw then flParse F raw else None)"

definition dRaw :: "string decoder" where
  "dRaw raw old = Some raw"

definition dPtr :: "'a decoder \<Rightarrow> 'a \<Rightarrow> 'a option decoder" where
  "dPtr d zero raw old =
     (if raw = ''null'' then Some None
      else map_option Some (d raw (case old of None \<Rightarrow> zero | Some v \<Rightarrow> v)))"

fun decodeElements :: "'a decoder \<Rightarrow> 'a \<Rightarrow> string list \<Rightarrow> 'a list \<Rightarrow> 'a list option" where
  "decodeElements d zero [] old = Some []"
| "decodeElements d zero (raw # raws) old =
     Option.bind (d raw (case old of [] \<Rightarrow> zero | v # _ \<Rightarrow> v))
       (\<lambda>v. map_option (Cons v) (decodeElements d zero raws (tl old)))"

definition dSlice :: "'a decoder \<Rightarrow> 'a \<Rightarrow> 'a list decoder" where
  "dSlice d zero raw old =
     (if raw = ''null'' then Some [] else Option.bind (rawElements raw) (\<lambda>raws. decodeElements d zero raws old))"

text \<open>
  The field of a struct for a member: the exact name, else the first that is equal up to case.  A
  strict decoder refuses other members.
\<close>

definition field_of :: "(string \<times> 'r decoder) list \<Rightarrow> string \<Rightarrow> 'r decoder option" where
  "field_of fds key =
     (case map_of fds key of
        Some d \<Rightarrow> Some d
      | None \<Rightarrow> map_option snd (find (\<lambda>f. equalFold (fst f) key) fds))"

fun decodeMembers :: "bool \<Rightarrow> (string \<times> 'r decoder) list \<Rightarrow> (string \<times> string) list \<Rightarrow> 'r \<Rightarrow> 'r option" where
  "decodeMembers strict fds [] r = Some r"
| "decodeMembers strict fds ((key, raw) # ms) r =
     (case field_of fds key of
        None \<Rightarrow> if strict then None else decodeMembers strict fds ms r
      | Some d \<Rightarrow> Option.bind (d raw r) (decodeMembers strict fds ms))"

definition dStruct :: "bool \<Rightarrow> (string \<times> 'r decoder) list \<Rightarrow> 'r decoder" where
  "dStruct strict fds raw old =
     (if raw = ''null'' then Some old
      else Option.bind (rawMembers raw) (\<lambda>ms. decodeMembers strict fds ms old))"

definition fld :: "'a decoder \<Rightarrow> ('r \<Rightarrow> 'a) \<Rightarrow> (('a \<Rightarrow> 'a) \<Rightarrow> 'r \<Rightarrow> 'r) \<Rightarrow> 'r decoder" where
  "fld d get upd raw r = map_option (\<lambda>v. upd (\<lambda>_. v) r) (d raw (get r))"

text \<open>Maps are association lists with distinct keys.\<close>

definition map_set :: "'k \<Rightarrow> 'v \<Rightarrow> ('k \<times> 'v) list \<Rightarrow> ('k \<times> 'v) list" where
  "map_set k v m = AList.update k v m"

definition lookup_or :: "'v \<Rightarrow> ('k \<times> 'v) list \<Rightarrow> 'k \<Rightarrow> 'v" where
  "lookup_or zero m k = (case map_of m k of None \<Rightarrow> zero | Some v \<Rightarrow> v)"

fun decodeMap :: "(string \<Rightarrow> 'v option) \<Rightarrow> (string \<times> string) list \<Rightarrow> (string \<times> 'v) list \<Rightarrow> (string \<times> 'v) list option" where
  "decodeMap d [] m = Some m"
| "decodeMap d ((key, raw) # ms) m = Option.bind (d raw) (\<lambda>v. decodeMap d ms (map_set key v m))"

definition dMap :: "(string \<Rightarrow> 'v option) \<Rightarrow> (string \<times> 'v) list option decoder" where
  "dMap d raw old =
     (if raw = ''null'' then Some None
      else Option.bind (rawMembers raw) (\<lambda>ms. map_option Some (decodeMap d ms (case old of None \<Rightarrow> [] | Some m \<Rightarrow> m))))"

text \<open>A value of type \<open>any\<close>: numbers become \<open>float64\<close> and are kept as the text they are written as.\<close>

function anyValue :: "Floats \<Rightarrow> int \<Rightarrow> string \<Rightarrow> json option" where
  "anyValue F depth raw =
     (if raw = ''null'' then Some JNull
      else if raw = ''true'' then Some (JBool True) else if raw = ''false'' then Some (JBool False)
      else if hasPrefix raw [CHR 34] then map_option (\<lambda>p. JString (fst p)) (scanString (tl raw))
      else if is_number raw then map_option (\<lambda>q. JNumber (flText F q)) (flParse F raw)
      else if depth \<le> 0 then None
      else (case rawElements raw of
          Some raws \<Rightarrow> map_option JArray (all_some (map (\<lambda>r. anyValue F (depth - 1) r) raws))
        | None \<Rightarrow> Option.bind (rawMembers raw) (\<lambda>ms. map_option JObject (decodeMap (\<lambda>r. anyValue F (depth - 1) r) ms []))))"
  by pat_completeness auto
termination
  by (relation "measure (\<lambda>(F, depth, raw). nat depth)") auto

declare anyValue.simps [simp del]

definition dAnyMap :: "Floats \<Rightarrow> (string \<times> json) list option decoder" where
  "dAnyMap F = dMap (anyValue F maxNestingDepth)"

text \<open>
  \<open>json.Unmarshal\<close>, and the decoder that reads one value and then wants the end of the input: both
  refuse a text that is not one value before anything is stored.
\<close>

definition unmarshal :: "'a decoder \<Rightarrow> 'a \<Rightarrow> string \<Rightarrow> 'a option" where
  "unmarshal d zero text = Option.bind (document text) (\<lambda>raw. d raw zero)"

section \<open>Writing\<close>

text \<open>
  What is handed to \<open>json.Marshal\<close>: numbers as their text, objects with their members in the order
  they are written, and raw messages.
\<close>

datatype goval = VNull | VBool bool | VString string | VNumber string | VArray "goval list"
  | VObject "(string \<times> goval) list" | VRaw string

text \<open>A map writes its members by key.\<close>

definition vmap :: "(string \<times> goval) list \<Rightarrow> goval" where
  "vmap kvs = VObject (sort_key fst kvs)"

definition vint :: "int \<Rightarrow> goval" where
  "vint i = VNumber (formatInt i)"

fun vany :: "json \<Rightarrow> goval" where
  "vany JNull = VNull"
| "vany (JBool b) = VBool b"
| "vany (JString s) = VString s"
| "vany (JNumber n) = VNumber n"
| "vany (JArray vs) = VArray (map vany vs)"
| "vany (JObject kvs) = vmap (map (\<lambda>(k, v). (k, vany v)) kvs)"

definition htmlRune :: "nat \<Rightarrow> string" where
  "htmlRune r = (if r = 34 \<or> r = 92 then [CHR 92, char_of r]
     else if r = 8 then [CHR 92, CHR ''b''] else if r = 12 then [CHR 92, CHR ''f'']
     else if r = 10 then [CHR 92, CHR ''n''] else if r = 13 then [CHR 92, CHR ''r''] else if r = 9 then [CHR 92, CHR ''t'']
     else if r < 32 \<or> r = 60 \<or> r = 62 \<or> r = 38 \<or> r = 8232 \<or> r = 8233
     then [CHR 92, CHR ''u''] @ hex_digits 4 (int r)
     else encodeRune r)"

text \<open>A byte that is not part of valid UTF-8 is written as an escape, the replacement character is not.\<close>

function quoteRunes :: "string \<Rightarrow> string" where
  "quoteRunes s =
     (if s = [] then []
      else (if decodeRune s = (rune_error, 1) then [CHR 92, CHR ''u''] @ ''fffd'' else htmlRune (fst (decodeRune s))) @
           quoteRunes (drop (snd (decodeRune s)) s))"
  by pat_completeness auto
termination
  by (relation "measure length") (use decodeRune_shrinks in auto)

declare quoteRunes.simps [simp del]

text \<open>A character that is written as itself, told from its bits: a code equation for evaluation.\<close>

definition plain_char :: "char \<Rightarrow> bool" where
  "plain_char c \<longleftrightarrow> ascii c \<and> (digit5 c \<or> digit6 c) \<and> \<not> List.member [CHR 34, CHR 92, CHR ''<'', CHR ''>'', CHR ''&''] c"
lemma high_char: "digit5 c \<or> digit6 c \<Longrightarrow> 32 \<le> (of_char c :: nat)"
  by (cases c) (auto simp add: of_char_Char)
lemma quoteRunes_plain: "plain_char c \<Longrightarrow> quoteRunes (c # s) = c # quoteRunes s"
proof -
  assume c: "plain_char c"
  then have b: "(of_char c :: nat) < 128" "32 \<le> (of_char c :: nat)" using ascii_byte [of c] high_char by (auto simp: plain_char_def)
  have d: "decodeRune (c # s) = (of_char c, 1)" using b by simp
  have inj: "(of_char c :: nat) = of_char d \<longleftrightarrow> c = d" for d by (rule of_char_eq_iff)
  have ne: "byte c \<noteq> 34" "byte c \<noteq> 92" "byte c \<noteq> 60" "byte c \<noteq> 62" "byte c \<noteq> 38"
    using c inj [of "CHR 34"] inj [of "CHR 92"] inj [of "CHR ''<''"] inj [of "CHR ''>''"] inj [of "CHR ''&''"]
    by (simp_all add: plain_char_def)
  have "htmlRune (of_char c) = [c]" using b ne by (simp add: htmlRune_def encodeRune_def)
  then show ?thesis using d b by (subst quoteRunes.simps) simp
qed

lemma quoteRunes_code [code]:
  "quoteRunes s = (case s of [] \<Rightarrow> [] | c # t \<Rightarrow>
     if plain_char c then c # quoteRunes t
     else (if decodeRune s = (rune_error, 1) then [CHR 92, CHR ''u''] @ ''fffd'' else htmlRune (fst (decodeRune s))) @
       quoteRunes (drop (snd (decodeRune s)) s))"
proof (cases s)
  case (Cons c t)
  then show ?thesis using quoteRunes_plain [of c t] quoteRunes.simps [of s] by (simp del: decodeRune.simps)
qed (simp add: quoteRunes.simps)
definition quoteHTML :: "string \<Rightarrow> string" where
  "quoteHTML s = [CHR 34] @ quoteRunes s @ [CHR 34]"

text \<open>\<open>json.Compact\<close> on a valid text, and the same with HTML escapes as \<open>json.Marshal\<close> does for a raw message.\<close>

fun compactText :: "bool \<Rightarrow> bool \<Rightarrow> string \<Rightarrow> string" where
  "compactText esc inside [] = []"
| "compactText esc inside (c # s) =
     (if esc \<and> c \<in> {CHR ''<'', CHR ''>'', CHR ''&''} then [CHR 92, CHR ''u''] @ hex_digits 4 (of_char c) @ compactText esc inside s
      else if esc \<and> byte c = 226 \<and> length s \<ge> 2 \<and> byte (s ! 0) = 128 \<and> (byte (s ! 1) = 168 \<or> byte (s ! 1) = 169)
      then [CHR 92, CHR ''u''] @ hex_digits 4 (8232 + (of_char (s ! 1) - 168)) @ compactText esc inside (drop 2 s)
      else if inside \<and> c = CHR 92 then (case s of e # t \<Rightarrow> c # e # compactText esc inside t | [] \<Rightarrow> [c])
      else if c = CHR 34 then c # compactText esc (\<not> inside) s
      else if \<not> inside \<and> is_ws c then compactText esc inside s
      else c # compactText esc inside s)"

definition json_Compact :: "string \<Rightarrow> string option" where
  "json_Compact raw = map_option (compactText False False) (document raw)"

fun marshal :: "goval \<Rightarrow> string option" where
  "marshal VNull = Some ''null''"
| "marshal (VBool b) = Some (if b then ''true'' else ''false'')"
| "marshal (VString s) = Some (quoteHTML s)"
| "marshal (VNumber n) = Some n"
| "marshal (VRaw raw) = (if raw = [] then Some ''null'' else map_option (compactText True False) (document raw))"
| "marshal (VArray vs) = map_option (\<lambda>ps. ''['' @ join_with '','' ps @ '']'') (all_some (map (\<lambda>v. marshal v) vs))"
| "marshal (VObject kvs) =
     map_option (\<lambda>ps. ''{'' @ join_with '','' ps @ ''}'')
       (all_some (map (\<lambda>kv. map_option (\<lambda>t. quoteHTML (fst kv) @ '':'' @ t) (marshal (snd kv))) kvs))"


end
