(* ===== verification/OpenAIRequests.thy ===== *)
theory OpenAIRequests
  imports GoJson RouterEvents
begin

text \<open>
  Requests of the OpenAI protocols: \<open>internal/proxy/router/openai.go\<close>.  A Chat or Responses body is
  decoded strictly, checked against the supported subset, and normalised; what a Responses client sent
  beyond the normal form is kept beside it.
\<close>

section \<open>The bodies\<close>

record chatToolCall =
  ccID :: string
  ccType :: string
  ccName :: string
  ccArguments :: string

record chatMessage =
  cmRole :: string
  cmContent :: string
  cmToolCallID :: string
  cmToolCalls :: "chatToolCall list"

record chatTool =
  ctType :: string
  ctName :: string
  ctDescription :: string
  ctParameters :: "(string \<times> json) list option"

record chatRequest =
  crModel :: string
  crMessages :: "chatMessage list"
  crStream :: bool
  crMaxTokens :: int
  crMaxCompletionTokens :: int
  crTemperature :: "rat option"
  crTopP :: "rat option"
  crStop :: string
  crTools :: "chatTool list"
  crToolChoice :: string
  crResponseFormat :: string
  crStreamOptions :: string

record responseTool =
  reType :: string
  reName :: string
  reDescription :: string
  reParameters :: "(string \<times> json) list option"

record responsesRequest =
  rsModel :: string
  rsInstructions :: string
  rsInput :: string
  rsStream :: bool
  rsMaxOutputTokens :: int
  rsTemperature :: "rat option"
  rsTopP :: "rat option"
  rsTools :: "responseTool list"
  rsToolChoice :: string
  rsText :: string
  rsParallelToolCalls :: "bool option"
  rsStore :: "bool option"
  rsInclude :: "string list"
  rsReasoning :: string
  rsStreamOptions :: string
  rsServiceTier :: string
  rsPromptCacheKey :: string
  rsClientMetadata :: string

record responseInput =
  inType :: string
  inRole :: string
  inContent :: string
  inCallID :: string
  inName :: string
  inArguments :: string
  inOutput :: string
  inID :: string
  inSummary :: string
  inEncryptedContent :: string
  inStatus :: string

text \<open>The structs as decoders: the fields by their JSON names, nested structs on the same record.\<close>

definition zero_chatToolCall :: chatToolCall where
  "zero_chatToolCall = \<lparr>ccID = '''', ccType = '''', ccName = '''', ccArguments = ''''\<rparr>"

definition dChatToolCall :: "bool \<Rightarrow> chatToolCall decoder" where
  "dChatToolCall strict = dStruct strict
     [(''id'', fld dString ccID ccID_update), (''type'', fld dString ccType ccType_update),
      (''function'', dStruct strict
         [(''name'', fld dString ccName ccName_update), (''arguments'', fld dRaw ccArguments ccArguments_update)])]"

definition zero_chatMessage :: chatMessage where
  "zero_chatMessage = \<lparr>cmRole = '''', cmContent = '''', cmToolCallID = '''', cmToolCalls = []\<rparr>"

definition dChatMessage :: "chatMessage decoder" where
  "dChatMessage = dStruct True
     [(''role'', fld dString cmRole cmRole_update), (''content'', fld dRaw cmContent cmContent_update),
      (''tool_call_id'', fld dString cmToolCallID cmToolCallID_update),
      (''tool_calls'', fld (dSlice (dChatToolCall True) zero_chatToolCall) cmToolCalls cmToolCalls_update)]"

definition zero_chatTool :: chatTool where
  "zero_chatTool = \<lparr>ctType = '''', ctName = '''', ctDescription = '''', ctParameters = None\<rparr>"

definition dChatTool :: "Floats \<Rightarrow> chatTool decoder" where
  "dChatTool F = dStruct True
     [(''type'', fld dString ctType ctType_update),
      (''function'', dStruct True
         [(''name'', fld dString ctName ctName_update), (''description'', fld dString ctDescription ctDescription_update),
          (''parameters'', fld (dAnyMap F) ctParameters ctParameters_update)])]"

definition zero_chatRequest :: chatRequest where
  "zero_chatRequest = \<lparr>crModel = '''', crMessages = [], crStream = False, crMaxTokens = 0, crMaxCompletionTokens = 0,
     crTemperature = None, crTopP = None, crStop = '''', crTools = [], crToolChoice = '''', crResponseFormat = '''',
     crStreamOptions = ''''\<rparr>"

definition dChatRequest :: "Floats \<Rightarrow> chatRequest decoder" where
  "dChatRequest F = dStruct True
     [(''model'', fld dString crModel crModel_update),
      (''messages'', fld (dSlice dChatMessage zero_chatMessage) crMessages crMessages_update),
      (''stream'', fld dBool crStream crStream_update),
      (''max_tokens'', fld dInt crMaxTokens crMaxTokens_update),
      (''max_completion_tokens'', fld dInt crMaxCompletionTokens crMaxCompletionTokens_update),
      (''temperature'', fld (dPtr (dFloat F) 0) crTemperature crTemperature_update),
      (''top_p'', fld (dPtr (dFloat F) 0) crTopP crTopP_update),
      (''stop'', fld dRaw crStop crStop_update),
      (''tools'', fld (dSlice (dChatTool F) zero_chatTool) crTools crTools_update),
      (''tool_choice'', fld dRaw crToolChoice crToolChoice_update),
      (''response_format'', fld dRaw crResponseFormat crResponseFormat_update),
      (''stream_options'', fld dRaw crStreamOptions crStreamOptions_update)]"

definition zero_responseTool :: responseTool where
  "zero_responseTool = \<lparr>reType = '''', reName = '''', reDescription = '''', reParameters = None\<rparr>"

definition dResponseTool :: "Floats \<Rightarrow> responseTool decoder" where
  "dResponseTool F = dStruct True
     [(''type'', fld dString reType reType_update), (''name'', fld dString reName reName_update),
      (''description'', fld dString reDescription reDescription_update),
      (''parameters'', fld (dAnyMap F) reParameters reParameters_update)]"

definition zero_responsesRequest :: responsesRequest where
  "zero_responsesRequest = \<lparr>rsModel = '''', rsInstructions = '''', rsInput = '''', rsStream = False, rsMaxOutputTokens = 0,
     rsTemperature = None, rsTopP = None, rsTools = [], rsToolChoice = '''', rsText = '''', rsParallelToolCalls = None,
     rsStore = None, rsInclude = [], rsReasoning = '''', rsStreamOptions = '''', rsServiceTier = '''',
     rsPromptCacheKey = '''', rsClientMetadata = ''''\<rparr>"

definition dResponsesRequest :: "Floats \<Rightarrow> responsesRequest decoder" where
  "dResponsesRequest F = dStruct True
     [(''model'', fld dString rsModel rsModel_update), (''instructions'', fld dString rsInstructions rsInstructions_update),
      (''input'', fld dRaw rsInput rsInput_update), (''stream'', fld dBool rsStream rsStream_update),
      (''max_output_tokens'', fld dInt rsMaxOutputTokens rsMaxOutputTokens_update),
      (''temperature'', fld (dPtr (dFloat F) 0) rsTemperature rsTemperature_update),
      (''top_p'', fld (dPtr (dFloat F) 0) rsTopP rsTopP_update),
      (''tools'', fld (dSlice (dResponseTool F) zero_responseTool) rsTools rsTools_update),
      (''tool_choice'', fld dRaw rsToolChoice rsToolChoice_update), (''text'', fld dRaw rsText rsText_update),
      (''parallel_tool_calls'', fld (dPtr dBool False) rsParallelToolCalls rsParallelToolCalls_update),
      (''store'', fld (dPtr dBool False) rsStore rsStore_update),
      (''include'', fld (dSlice dString '''') rsInclude rsInclude_update),
      (''reasoning'', fld dRaw rsReasoning rsReasoning_update),
      (''stream_options'', fld dRaw rsStreamOptions rsStreamOptions_update),
      (''service_tier'', fld dString rsServiceTier rsServiceTier_update),
      (''prompt_cache_key'', fld dString rsPromptCacheKey rsPromptCacheKey_update),
      (''client_metadata'', fld dRaw rsClientMetadata rsClientMetadata_update)]"

definition zero_responseInput :: responseInput where
  "zero_responseInput = \<lparr>inType = '''', inRole = '''', inContent = '''', inCallID = '''', inName = '''', inArguments = '''',
     inOutput = '''', inID = '''', inSummary = '''', inEncryptedContent = '''', inStatus = ''''\<rparr>"

definition dResponseInput :: "responseInput decoder" where
  "dResponseInput = dStruct True
     [(''type'', fld dString inType inType_update), (''role'', fld dString inRole inRole_update),
      (''content'', fld dRaw inContent inContent_update), (''call_id'', fld dString inCallID inCallID_update),
      (''name'', fld dString inName inName_update), (''arguments'', fld dRaw inArguments inArguments_update),
      (''output'', fld dRaw inOutput inOutput_update), (''id'', fld dString inID inID_update),
      (''summary'', fld dRaw inSummary inSummary_update),
      (''encrypted_content'', fld dString inEncryptedContent inEncryptedContent_update),
      (''status'', fld dString inStatus inStatus_update)]"

section \<open>Raw members\<close>

definition unsupported :: "string \<Rightarrow> APIError" where
  "unsupported message = safeError ''unsupported_capability'' message 400 False"

definition invalid_request :: "string \<Rightarrow> APIError" where
  "invalid_request message = safeError ''invalid_request'' message 400 False"

definition absent_raw :: "string \<Rightarrow> bool" where
  "absent_raw raw \<longleftrightarrow> length raw = 0 \<or> raw = ''null''"

definition decodeStrictJSON :: "'a decoder \<Rightarrow> 'a \<Rightarrow> string \<Rightarrow> 'a option" where
  "decodeStrictJSON d zero body = unmarshal d zero body"

definition rawText :: "string \<Rightarrow> string option" where
  "rawText raw = (if length raw = 0 then Some '''' else unmarshal dString '''' raw)"

definition dPart :: "(string \<times> string) decoder" where
  "dPart = dStruct True [(''type'', fld dString fst apfst), (''text'', fld dString snd apsnd)]"

definition rawTexts :: "string \<Rightarrow> string list \<Rightarrow> string list option" where
  "rawTexts raw allowedTypes =
     (case rawText raw of
        Some text \<Rightarrow> Some [text]
      | None \<Rightarrow> (case decodeStrictJSON (dSlice dPart ('''', '''')) [] raw of
          None \<Rightarrow> None
        | Some parts \<Rightarrow>
            if length parts = 0 \<or> \<not> list_all (\<lambda>part. List.member allowedTypes (fst part)) parts then None
            else Some (map snd parts)))"

definition normalizeJSONValue :: "string \<Rightarrow> string" where
  "normalizeJSONValue raw =
     (if length raw = 0 then ''null''
      else (case unmarshal dString '''' raw of
          Some text \<Rightarrow> if json_Valid text then text else raw
        | None \<Rightarrow> raw))"

definition rawContentValue :: "string \<Rightarrow> string option" where
  "rawContentValue raw =
     (if length raw = 0 \<or> document raw = None then None else Some (normalizeJSONValue raw))"

definition parseStop :: "string \<Rightarrow> APIError + string list" where
  "parseStop raw =
     (if absent_raw raw then Inr []
      else (case unmarshal dString '''' raw of
          Some one \<Rightarrow> Inr [one]
        | None \<Rightarrow> (case unmarshal (dSlice dString '''') [] raw of
            Some many \<Rightarrow> Inr many
          | None \<Rightarrow> Inl (invalid_request ''stop must be a string or string array''))))"

definition validateStreamOptions :: "bool \<Rightarrow> string \<Rightarrow> APIError option" where
  "validateStreamOptions stream raw =
     (if absent_raw raw then None
      else if \<not> stream then Some (invalid_request ''stream_options requires streaming'')
      else (case decodeStrictJSON (dStruct True [(''include_usage'', dBool)]) False raw of
          Some True \<Rightarrow> None
        | _ \<Rightarrow> Some (unsupported ''only stream_options.include_usage=true is supported'')))"

definition parseToolChoice :: "string \<Rightarrow> APIError + string" where
  "parseToolChoice raw =
     (if absent_raw raw then Inr ''auto''
      else (case unmarshal dString '''' raw of
          None \<Rightarrow> Inl (unsupported ''named tool choice is unsupported'')
        | Some value \<Rightarrow>
            if value = ''none'' \<or> value = ''auto'' \<or> value = ''required'' then Inr value
            else Inl (unsupported ''tool choice is unsupported'')))"

record schemaFormat =
  sfType :: string
  sfName :: string
  sfSchema :: "(string \<times> json) list option"
  sfStrict :: bool

definition zero_schemaFormat :: schemaFormat where
  "zero_schemaFormat = \<lparr>sfType = '''', sfName = '''', sfSchema = None, sfStrict = False\<rparr>"

definition dChatFormat :: "Floats \<Rightarrow> schemaFormat decoder" where
  "dChatFormat F = dStruct True
     [(''type'', fld dString sfType sfType_update),
      (''json_schema'', dStruct True
         [(''name'', fld dString sfName sfName_update), (''schema'', fld (dAnyMap F) sfSchema sfSchema_update),
          (''strict'', fld dBool sfStrict sfStrict_update)])]"

definition dTextFormat :: "Floats \<Rightarrow> schemaFormat decoder" where
  "dTextFormat F = dStruct True
     [(''format'', dStruct True
         [(''type'', fld dString sfType sfType_update), (''name'', fld dString sfName sfName_update),
          (''schema'', fld (dAnyMap F) sfSchema sfSchema_update), (''strict'', fld dBool sfStrict sfStrict_update)])]"

definition parseChatResponseFormat :: "Floats \<Rightarrow> string \<Rightarrow> APIError + (string \<times> json) list option" where
  "parseChatResponseFormat F raw =
     (if absent_raw raw then Inr None
      else (case decodeStrictJSON (dChatFormat F) zero_schemaFormat raw of
          None \<Rightarrow> Inl (unsupported ''response_format is unsupported'')
        | Some value \<Rightarrow>
            if sfType value = ''text'' then Inr None
            else if sfType value \<noteq> ''json_schema'' \<or> sfSchema value = None
            then Inl (unsupported ''only json_schema response format is supported'')
            else Inr (sfSchema value)))"

definition parseResponsesText :: "Floats \<Rightarrow> string \<Rightarrow> APIError + (string \<times> json) list option" where
  "parseResponsesText F raw =
     (if absent_raw raw then Inr None
      else (case decodeStrictJSON (dTextFormat F) zero_schemaFormat raw of
          None \<Rightarrow> Inl (unsupported ''Responses text format is unsupported'')
        | Some value \<Rightarrow>
            if sfType value = ''text'' \<or> sfType value = '''' then Inr None
            else if sfType value \<noteq> ''json_schema'' \<or> sfSchema value = None
            then Inl (unsupported ''only json_schema text format is supported'')
            else Inr (sfSchema value)))"

definition inspectSchema :: "schemaFormat decoder \<Rightarrow> string \<Rightarrow> string \<Rightarrow> APIError + (string \<times> bool)" where
  "inspectSchema d message raw =
     (if absent_raw raw then Inr ('''', False)
      else (case decodeStrictJSON d zero_schemaFormat raw of
          None \<Rightarrow> Inl (unsupported message)
        | Some value \<Rightarrow>
            if sfType value \<noteq> ''json_schema'' then Inr ('''', False)
            else if sfName value = '''' then Inl (invalid_request ''json_schema name is required'')
            else Inr (sfName value, sfStrict value)))"

definition inspectChatSchema :: "Floats \<Rightarrow> string \<Rightarrow> APIError + (string \<times> bool)" where
  "inspectChatSchema F raw = inspectSchema (dChatFormat F) ''response_format is unsupported'' raw"

definition inspectResponsesSchema :: "Floats \<Rightarrow> string \<Rightarrow> APIError + (string \<times> bool)" where
  "inspectResponsesSchema F raw = inspectSchema (dTextFormat F) ''Responses text format is unsupported'' raw"

section \<open>Normalisation\<close>

definition bindS :: "'e + 'a \<Rightarrow> ('a \<Rightarrow> 'e + 'b) \<Rightarrow> 'e + 'b" where
  "bindS x f = (case x of Inl e \<Rightarrow> Inl e | Inr v \<Rightarrow> f v)"

text \<open>A loop that appends what each element gives, up to the first error.\<close>

fun collect :: "('a \<Rightarrow> 'e + 'b list) \<Rightarrow> 'a list \<Rightarrow> 'e + 'b list" where
  "collect f [] = Inr []"
| "collect f (x # xs) = bindS (f x) (\<lambda>ys. bindS (collect f xs) (\<lambda>zs. Inr (ys @ zs)))"

definition text_block :: "string \<Rightarrow> string \<Rightarrow> RequestBlock" where
  "text_block role text = \<lparr>rbRole = role, rbType = ''text'', rbText = Some text, rbCallID = None, rbToolName = None,
     rbArguments = None, rbResult = None\<rparr>"

definition call_block :: "string \<Rightarrow> string \<Rightarrow> string \<Rightarrow> RequestBlock" where
  "call_block callID name arguments = \<lparr>rbRole = ''assistant'', rbType = ''tool_call'', rbText = None, rbCallID = Some callID,
     rbToolName = Some name, rbArguments = Some arguments, rbResult = None\<rparr>"

definition result_block :: "string \<Rightarrow> string \<Rightarrow> RequestBlock" where
  "result_block callID result = \<lparr>rbRole = ''tool'', rbType = ''tool_result'', rbText = None, rbCallID = Some callID,
     rbToolName = None, rbArguments = None, rbResult = Some result\<rparr>"

definition callBlock :: "chatToolCall \<Rightarrow> APIError + RequestBlock list" where
  "callBlock call =
     (if ccType call \<noteq> ''function'' then Inl (unsupported ''only function tool calls are supported'')
      else Inr [call_block (ccID call) (ccName call) (normalizeJSONValue (ccArguments call))])"

definition messageBlocks :: "chatMessage \<Rightarrow> APIError + RequestBlock list" where
  "messageBlocks message =
     (if length (cmToolCalls message) > 0 then
        (if cmRole message \<noteq> ''assistant'' then Inl (unsupported ''tool calls require an assistant message'')
         else bindS
           (if length (cmContent message) > 0 \<and> cmContent message \<noteq> ''null'' then
              (case rawTexts (cmContent message) [''text''] of
                 None \<Rightarrow> Inl (unsupported ''multimodal assistant tool content is unsupported'')
               | Some texts \<Rightarrow> Inr (map (text_block ''assistant'') texts))
            else Inr [])
           (\<lambda>texts. bindS (collect callBlock (cmToolCalls message)) (\<lambda>calls. Inr (texts @ calls))))
      else if cmRole message = ''tool'' then
        (case rawContentValue (cmContent message) of
           None \<Rightarrow> Inl (unsupported ''tool result must be text or JSON'')
         | Some result \<Rightarrow> Inr [result_block (cmToolCallID message) result])
      else (case rawTexts (cmContent message) [''text''] of
           None \<Rightarrow> Inl (unsupported ''multimodal message content is unsupported'')
         | Some texts \<Rightarrow> Inr (map (text_block (cmRole message)) texts)))"

definition normalizeTool :: "string \<Rightarrow> Tool \<Rightarrow> APIError + Tool list" where
  "normalizeTool kind tool =
     (if kind \<noteq> ''function'' then Inl (unsupported ''only function tools are supported'') else Inr [tool])"

definition chatToolOf :: "chatTool \<Rightarrow> APIError + Tool list" where
  "chatToolOf tool = normalizeTool (ctType tool)
     \<lparr>tlName = ctName tool, tlDescription = ctDescription tool, tlInputSchema = ctParameters tool\<rparr>"

definition responseToolOf :: "responseTool \<Rightarrow> APIError + Tool list" where
  "responseToolOf tool = normalizeTool (reType tool)
     \<lparr>tlName = reName tool, tlDescription = reDescription tool, tlInputSchema = reParameters tool\<rparr>"

definition requiredCapabilities :: "Tool list \<Rightarrow> (string \<times> json) list option \<Rightarrow> bool \<Rightarrow> Capability list" where
  "requiredCapabilities tools responseSchema stream =
     [''text''] @ (if length tools > 0 then [''tools''] else []) @
     (if responseSchema \<noteq> None then [''structured_output''] else []) @ (if stream then [''streaming''] else [])"

text \<open>\<open>now.Add(time.Duration(ms) * time.Millisecond).UTC().Format(time.RFC3339)\<close> with the product at 64 bits.\<close>

definition wrap64 :: "int \<Rightarrow> int" where
  "wrap64 i = (i + 2 ^ 63) mod 2 ^ 64 - 2 ^ 63"

definition deadlineAt :: "instant \<Rightarrow> int \<Rightarrow> string" where
  "deadlineAt t timeoutMS = formatRFC3339 (t + wrap64 (timeoutMS * 1000000))"

text \<open>What is known of a request before it gets its identifier.\<close>

definition chatParts ::
    "Floats \<Rightarrow> string \<Rightarrow> Policy \<Rightarrow> instant \<Rightarrow> APIError + (string \<Rightarrow> NormalizedRequest)" where
  "chatParts F body policy t =
     (case decodeStrictJSON (dChatRequest F) zero_chatRequest body of
        None \<Rightarrow> Inl (invalid_request ''invalid OpenAI Chat request'')
      | Some source \<Rightarrow> (case map_of (poAliases policy) (crModel source) of
          None \<Rightarrow> Inl (safeError ''model_not_found'' ''model alias is not defined by policy'' 404 False)
        | Some alias \<Rightarrow>
            if length (crMessages source) = 0 then Inl (invalid_request ''messages must not be empty'')
            else if crMaxTokens source > 0 \<and> crMaxCompletionTokens source > 0
            then Inl (invalid_request ''max_tokens and max_completion_tokens are mutually exclusive'')
            else (case validateStreamOptions (crStream source) (crStreamOptions source) of
                Some e \<Rightarrow> Inl e
              | None \<Rightarrow>
                  (let maxOutput1 = (if crMaxCompletionTokens source = 0 then crMaxTokens source else crMaxCompletionTokens source);
                       maxOutput = (if maxOutput1 = 0 then rlMaxOutputTokens (poRequestLimits policy) else maxOutput1)
                   in bindS (collect messageBlocks (crMessages source)) (\<lambda>blocks.
                      bindS (collect chatToolOf (crTools source)) (\<lambda>tools.
                      bindS (parseToolChoice (crToolChoice source)) (\<lambda>choice.
                      bindS (parseChatResponseFormat F (crResponseFormat source)) (\<lambda>responseSchema.
                      bindS (parseStop (crStop source)) (\<lambda>stop.
                      Inr (\<lambda>requestID. \<lparr>nrLogicalRequestID = requestID, nrProtocol = ProtocolOpenAIChat, nrModelAlias = crModel source,
                        nrDataClass = alDataClass alias, nrStream = crStream source, nrBlocks = blocks, nrTools = Some tools,
                        nrToolChoice = choice, nrResponseSchema = responseSchema,
                        nrLimits = \<lparr>nlMaxOutputTokens = maxOutput,
                          nlDeadlineAt = deadlineAt t (rlTimeoutMS (poRequestLimits policy)),
                          nlTemperature = crTemperature source, nlTopP = crTopP source, nlStop = stop\<rparr>,
                        nrCapabilitiesRequired = Some (requiredCapabilities tools responseSchema (crStream source))\<rparr>))))))))))"

definition checkNormalized ::
    "string \<Rightarrow> (APIError + (string \<Rightarrow> NormalizedRequest)) \<Rightarrow> 'x hworld \<Rightarrow> (APIError + NormalizedRequest) \<times> 'x hworld" where
  "checkNormalized message parts w =
     (case parts of
        Inl e \<Rightarrow> (Inl e, w)
      | Inr mk \<Rightarrow> (let (requestID, w1) = uuidH w; request = mk requestID in
          (if NormalizedRequest_Validate request \<noteq> [] then Inl (invalid_request message) else Inr request, w1)))"

definition normalizeChat ::
    "Floats \<Rightarrow> string \<Rightarrow> Policy \<Rightarrow> instant \<Rightarrow> 'x hworld \<Rightarrow> (APIError + NormalizedRequest) \<times> 'x hworld" where
  "normalizeChat F body policy t w =
     checkNormalized ''request is outside the supported Chat subset'' (chatParts F body policy t) w"

definition inputBlocks :: "responseInput \<Rightarrow> APIError + RequestBlock list" where
  "inputBlocks input =
     (if inStatus input \<noteq> '''' \<and> inStatus input \<noteq> ''completed''
      then Inl (unsupported ''only completed historical Responses items are supported'')
      else if inType input = '''' \<or> inType input = ''message'' then
        (case rawTexts (inContent input) [''input_text'', ''output_text''] of
           None \<Rightarrow> Inl (unsupported ''multimodal Responses content is unsupported'')
         | Some texts \<Rightarrow> Inr (map (text_block (inRole input)) texts))
      else if inType input = ''function_call'' then
        Inr [call_block (inCallID input) (inName input) (normalizeJSONValue (inArguments input))]
      else if inType input = ''function_call_output'' then
        Inr [result_block (inCallID input) (normalizeJSONValue (inOutput input))]
      else if inType input = ''reasoning'' then
        (if inID input = '''' then Inl (unsupported ''reasoning item requires an id'') else Inr [])
      else Inl (unsupported ''Responses input item type is unsupported''))"

definition responsesBlocks :: "responsesRequest \<Rightarrow> APIError + RequestBlock list" where
  "responsesBlocks source =
     (let developer = (if rsInstructions source \<noteq> '''' then [text_block ''developer'' (rsInstructions source)] else [])
      in if length (rsInput source) = 0 then Inl (invalid_request ''input is required'')
         else (case rawText (rsInput source) of
             Some text \<Rightarrow> Inr (developer @ [text_block ''user'' text])
           | None \<Rightarrow> (case decodeStrictJSON (dSlice dResponseInput zero_responseInput) [] (rsInput source) of
               None \<Rightarrow> Inl (unsupported ''Responses input type is unsupported'')
             | Some inputs \<Rightarrow> bindS (collect inputBlocks inputs) (\<lambda>blocks. Inr (developer @ blocks)))))"

definition responsesParts ::
    "Floats \<Rightarrow> string \<Rightarrow> Policy \<Rightarrow> instant \<Rightarrow> APIError + (string \<Rightarrow> NormalizedRequest)" where
  "responsesParts F body policy t =
     (case decodeStrictJSON (dResponsesRequest F) zero_responsesRequest body of
        None \<Rightarrow> Inl (invalid_request ''invalid OpenAI Responses request'')
      | Some source \<Rightarrow> (case map_of (poAliases policy) (rsModel source) of
          None \<Rightarrow> Inl (safeError ''model_not_found'' ''model alias is not defined by policy'' 404 False)
        | Some alias \<Rightarrow>
            bindS (responsesBlocks source) (\<lambda>blocks.
            bindS (collect responseToolOf (rsTools source)) (\<lambda>tools.
            bindS (parseToolChoice (rsToolChoice source)) (\<lambda>choice.
            bindS (parseResponsesText F (rsText source)) (\<lambda>responseSchema.
            (let maxOutput = (if rsMaxOutputTokens source = 0 then rlMaxOutputTokens (poRequestLimits policy)
                  else rsMaxOutputTokens source)
             in Inr (\<lambda>requestID. \<lparr>nrLogicalRequestID = requestID, nrProtocol = ProtocolOpenAIResponses, nrModelAlias = rsModel source,
                  nrDataClass = alDataClass alias, nrStream = rsStream source, nrBlocks = blocks, nrTools = Some tools,
                  nrToolChoice = choice, nrResponseSchema = responseSchema,
                  nrLimits = \<lparr>nlMaxOutputTokens = maxOutput,
                    nlDeadlineAt = deadlineAt t (rlTimeoutMS (poRequestLimits policy)),
                    nlTemperature = rsTemperature source, nlTopP = rsTopP source, nlStop = []\<rparr>,
                  nrCapabilitiesRequired = Some (requiredCapabilities tools responseSchema (rsStream source))\<rparr>)))))))) "

definition normalizeResponses ::
    "Floats \<Rightarrow> string \<Rightarrow> Policy \<Rightarrow> instant \<Rightarrow> 'x hworld \<Rightarrow> (APIError + NormalizedRequest) \<times> 'x hworld" where
  "normalizeResponses F body policy t w =
     checkNormalized ''request is outside the supported Responses subset'' (responsesParts F body policy t) w"

section \<open>What a Responses client sent beyond the normal form\<close>

definition checkReasoning :: "string \<Rightarrow> APIError option" where
  "checkReasoning raw =
     (if absent_raw raw then None
      else (case decodeStrictJSON (dStruct True [(''effort'', fld dString fst apfst), (''summary'', fld dString snd apsnd)]) ('''', '''') raw of
          None \<Rightarrow> Some (unsupported ''Responses reasoning options are unsupported'')
        | Some (effort, summary) \<Rightarrow>
            if \<not> oneOf effort ['''', ''none'', ''minimal'', ''low'', ''medium'', ''high'', ''xhigh'']
            then Some (unsupported ''Responses reasoning effort is unsupported'')
            else if \<not> oneOf summary ['''', ''auto'', ''concise'', ''detailed'']
            then Some (unsupported ''Responses reasoning summary is unsupported'')
            else None))"

definition checkClientMetadata :: "string \<Rightarrow> APIError option" where
  "checkClientMetadata raw =
     (if absent_raw raw then None
      else (case decodeStrictJSON (dMap (\<lambda>r. dString r '''')) None raw of
          None \<Rightarrow> Some (unsupported ''client_metadata must be a small string map'')
        | Some m \<Rightarrow>
            if length (slice_elems m) > 16 then Some (unsupported ''client_metadata must be a small string map'')
            else if list_ex (\<lambda>(key, item). length key > 64 \<or> length item > 512) (slice_elems m)
            then Some (invalid_request ''client_metadata entry is too long'')
            else None))"

definition metadataProblem :: "responsesRequest \<Rightarrow> APIError option" where
  "metadataProblem source =
     (if rsStore source = Some True then Some (unsupported ''store=true is forbidden by the proxy data-retention policy'')
      else if \<not> list_all (\<lambda>item. item = ''reasoning.encrypted_content'') (rsInclude source)
      then Some (unsupported ''Responses include value is unsupported'')
      else if checkReasoning (rsReasoning source) \<noteq> None then checkReasoning (rsReasoning source)
      else if \<not> absent_raw (rsStreamOptions source) \<and>
         decodeStrictJSON (dStruct True [(''include_obfuscation'', dBool)]) False (rsStreamOptions source) = None
      then Some (unsupported ''Responses stream_options are unsupported'')
      else if \<not> oneOf (rsServiceTier source) ['''', ''auto'', ''default'']
      then Some (unsupported ''Responses service_tier is unsupported'')
      else if length (rsPromptCacheKey source) > 256 then Some (invalid_request ''prompt_cache_key is too long'')
      else checkClientMetadata (rsClientMetadata source))"

definition inspectResponsesMetadata :: "responsesRequest \<Rightarrow> APIError + responsesMetadata" where
  "inspectResponsesMetadata source =
     (case metadataProblem source of
        Some e \<Rightarrow> Inl e
      | None \<Rightarrow> Inr \<lparr>rmInstructions = rsInstructions source, rmOriginalInput = rsInput source,
          rmParallelToolCalls = rsParallelToolCalls source, rmStore = rsStore source, rmInclude = rsInclude source,
          rmReasoning = rsReasoning source, rmStreamOptions = rsStreamOptions source, rmServiceTier = rsServiceTier source,
          rmPromptCacheKey = rsPromptCacheKey source, rmClientMetadata = rsClientMetadata source, rmReasoningItems = []\<rparr>)"

definition reasoningItem :: "string \<Rightarrow> APIError + string list" where
  "reasoningItem item =
     (case unmarshal (dStruct False [(''type'', dString)]) '''' item of
        None \<Rightarrow> Inr []
      | Some kind \<Rightarrow>
          if kind \<noteq> ''reasoning'' then Inr []
          else if decodeStrictJSON dResponseInput zero_responseInput item = None
          then Inl (unsupported ''reasoning input item is unsupported'')
          else Inr [item])"

definition extractReasoningItems :: "string \<Rightarrow> APIError + string list" where
  "extractReasoningItems raw =
     (if length raw = 0 then Inr []
      else (case unmarshal (dSlice dRaw '''') [] raw of
          None \<Rightarrow> Inr []
        | Some inputs \<Rightarrow> collect reasoningItem inputs))"

section \<open>Incoming requests\<close>

definition maxRequestBytes :: nat where
  "maxRequestBytes = 8 * 1024 * 1024"

text \<open>
  \<open>io.ReadAll(io.LimitReader(body, maxRequestBytes+1))\<close> on what the client sends: \<open>Inl\<close> when the body
  fails to be read before that many bytes.
\<close>

definition readLimited :: "err + string \<Rightarrow> go_error + string" where
  "readLimited body =
     (case body of
        Inl e \<Rightarrow> Inl (PlainErr e)
      | Inr raw \<Rightarrow>
          if length (take (Suc maxRequestBytes) raw) > maxRequestBytes
          then Inl (ApiErr (safeError ''invalid_request'' ''request exceeds the body limit'' 413 False))
          else Inr raw)"

text \<open>For evaluation: lengths are compared as integers.\<close>

lemma readLimited_code [code]:
  "readLimited body =
     (case body of
        Inl e \<Rightarrow> Inl (PlainErr e)
      | Inr raw \<Rightarrow>
          if int (length raw) \<le> 8388608 then Inr raw
          else Inl (ApiErr (safeError ''invalid_request'' ''request exceeds the body limit'' 413 False)))"
  by (simp add: readLimited_def maxRequestBytes_def split: sum.split)

definition normalizeChatIncoming ::
    "Floats \<Rightarrow> err + string \<Rightarrow> Policy \<Rightarrow> instant \<Rightarrow> 'x hworld \<Rightarrow> (go_error + routedRequest) \<times> 'x hworld" where
  "normalizeChatIncoming F body policy t w =
     (case readLimited body of
        Inl e \<Rightarrow> (Inl e, w)
      | Inr raw \<Rightarrow> (case normalizeChat F raw policy t w of
          (Inl e, w1) \<Rightarrow> (Inl (ApiErr e), w1)
        | (Inr normalized, w1) \<Rightarrow>
            (case decodeStrictJSON (dChatRequest F) zero_chatRequest raw of
               None \<Rightarrow> Inl (ApiErr (invalid_request ''invalid OpenAI Chat request''))
             | Some source \<Rightarrow> (case inspectChatSchema F (crResponseFormat source) of
                 Inl e \<Rightarrow> Inl (ApiErr e)
               | Inr (name, strict) \<Rightarrow>
                   Inr \<lparr>rqNormalized = normalized,
                        rqSource = \<lparr>smResponses = None, smResponseSchemaName = name, smResponseSchemaStrict = strict\<rparr>\<rparr>), w1)))"

definition responsesSource :: "Floats \<Rightarrow> string \<Rightarrow> APIError + sourceMetadata" where
  "responsesSource F raw =
     (case decodeStrictJSON (dResponsesRequest F) zero_responsesRequest raw of
        None \<Rightarrow> Inl (invalid_request ''invalid OpenAI Responses request'')
      | Some source \<Rightarrow>
          bindS (inspectResponsesMetadata source) (\<lambda>metadata.
          bindS (inspectResponsesSchema F (rsText source)) (\<lambda>(name, strict).
          bindS (extractReasoningItems (rsInput source)) (\<lambda>items.
          Inr \<lparr>smResponses = Some (metadata\<lparr>rmReasoningItems := items\<rparr>), smResponseSchemaName = name,
               smResponseSchemaStrict = strict\<rparr>))))"

definition normalizeResponsesIncoming ::
    "Floats \<Rightarrow> err + string \<Rightarrow> Policy \<Rightarrow> instant \<Rightarrow> 'x hworld \<Rightarrow> (go_error + routedRequest) \<times> 'x hworld" where
  "normalizeResponsesIncoming F body policy t w =
     (case readLimited body of
        Inl e \<Rightarrow> (Inl e, w)
      | Inr raw \<Rightarrow> (case normalizeResponses F raw policy t w of
          (Inl e, w1) \<Rightarrow> (Inl (ApiErr e), w1)
        | (Inr normalized, w1) \<Rightarrow>
            (case responsesSource F raw of
               Inl e \<Rightarrow> Inl (ApiErr e)
             | Inr source \<Rightarrow> Inr \<lparr>rqNormalized = normalized, rqSource = source\<rparr>, w1)))"


end
