(* ===== verification/ContractResponses.thy ===== *)
theory ContractResponses
  imports RouterEvents
begin

text \<open>
  Normalised responses and stream events of \<open>internal/proxycontract/contracts.gen.go\<close>, with their
  validators.
\<close>

record ResponseBlock =
  sbType :: string
  sbText :: "string option"
  sbCallID :: "string option"
  sbToolName :: "string option"
  sbArguments :: "string option"

record NormalizedResponse =
  nsLogicalRequestID :: string
  nsModelAlias :: string
  nsRouteID :: string
  nsBlocks :: "ResponseBlock list option"
  nsFinishReason :: string
  nsUsage :: Usage

record NormalizedError =
  neCode :: string
  neRetryClass :: string
  neSafeMessage :: string
  neUpstreamStatus :: int

record NormalizedStreamEvent =
  seLogicalRequestID :: string
  seSequence :: int
  seType :: string
  seText :: "string option"
  seCallID :: "string option"
  seToolName :: "string option"
  seArgumentsDelta :: "string option"
  seUsage :: "Usage option"
  seFinishReason :: "string option"
  seError :: "NormalizedError option"

definition validFinish :: "string \<Rightarrow> bool" where
  "validFinish v \<longleftrightarrow> v = ''stop'' \<or> v = ''length'' \<or> v = ''tool_call'' \<or> v = ''content_filter'' \<or> v = ''cancelled''"

definition validStreamType :: "string \<Rightarrow> bool" where
  "validStreamType v \<longleftrightarrow> v = ''response_start'' \<or> v = ''text_delta'' \<or> v = ''tool_call_start'' \<or>
     v = ''tool_arguments_delta'' \<or> v = ''usage'' \<or> v = ''response_end'' \<or> v = ''error''"

definition validRetryClass :: "string \<Rightarrow> bool" where
  "validRetryClass v \<longleftrightarrow> v = ''never'' \<or> v = ''before_first_byte_only''"

definition validErrorCode :: "string \<Rightarrow> bool" where
  "validErrorCode v \<longleftrightarrow> List.member [''invalid_request'', ''unsupported_capability'', ''authentication_failed'',
     ''policy_denied'', ''context_overflow'', ''rate_limited'', ''model_unavailable'', ''upstream_5xx'',
     ''connection_failure'', ''timeout_before_first_byte'', ''cancelled'', ''internal_error''] v"

definition NormalizedError_Validate :: "NormalizedError \<Rightarrow> err" where
  "NormalizedError_Validate e =
     (if \<not> validErrorCode (neCode e) \<or> \<not> validRetryClass (neRetryClass e) \<or> length (neSafeMessage e) < 1 \<or>
         length (neSafeMessage e) > 512 \<or>
         (neUpstreamStatus e \<noteq> 0 \<and> (neUpstreamStatus e < 100 \<or> neUpstreamStatus e > 599))
      then [Other ''normalized error is invalid''] else [])"

definition ResponseBlock_Validate :: "ResponseBlock \<Rightarrow> err" where
  "ResponseBlock_Validate b =
     (if sbType b = ''text'' then
        (if sbText b = None \<or> sbCallID b \<noteq> None \<or> sbToolName b \<noteq> None \<or> sbArguments b \<noteq> None
         then [Other ''text response block union is invalid''] else [])
      else if sbType b = ''tool_call'' then
        (if absent_or_outside 256 (sbCallID b) \<or> absent_or_outside 128 (sbToolName b) \<or> sbArguments b = None \<or>
            sbText b \<noteq> None
         then [Other ''tool-call response block union is invalid''] else [])
      else [Other ''response block is invalid''])"

fun checkResponseBlocks :: "ResponseBlock list \<Rightarrow> err" where
  "checkResponseBlocks [] = []"
| "checkResponseBlocks (b # bs) =
     (if ResponseBlock_Validate b \<noteq> [] then ResponseBlock_Validate b else checkResponseBlocks bs)"

definition NormalizedResponse_Validate :: "NormalizedResponse \<Rightarrow> err" where
  "NormalizedResponse_Validate r =
     (if \<not> uuidPattern (nsLogicalRequestID r) \<or> length (nsModelAlias r) < 1 \<or> length (nsModelAlias r) > 128 \<or>
         \<not> uuidPattern (nsRouteID r) \<or> nsBlocks r = None \<or> \<not> validFinish (nsFinishReason r) \<or>
         usInputTokens (nsUsage r) < 0 \<or> usOutputTokens (nsUsage r) < 0
      then [Other ''normalized response is invalid'']
      else checkResponseBlocks (slice_elems (nsBlocks r)))"

text \<open>\<open>p != nil && (len(*p) < 1 || len(*p) > n)\<close>.\<close>

definition present_outside :: "nat \<Rightarrow> string option \<Rightarrow> bool" where
  "present_outside n v = (case v of None \<Rightarrow> False | Some s \<Rightarrow> length s < 1 \<or> length s > n)"

text \<open>The \<open>switch\<close> over the type: which members a stream event must and must not have.\<close>

definition stream_union :: "NormalizedStreamEvent \<Rightarrow> err" where
  "stream_union e =
     (if seType e = ''response_start'' then
        (if seText e \<noteq> None \<or> seCallID e \<noteq> None \<or> seToolName e \<noteq> None \<or> seArgumentsDelta e \<noteq> None \<or>
            seFinishReason e \<noteq> None \<or> seError e \<noteq> None
         then [Other ''response_start union is invalid''] else [])
      else if seType e = ''text_delta'' then
        (if seText e = None \<or> seCallID e \<noteq> None \<or> seToolName e \<noteq> None \<or> seArgumentsDelta e \<noteq> None \<or>
            seUsage e \<noteq> None \<or> seFinishReason e \<noteq> None \<or> seError e \<noteq> None
         then [Other ''text_delta union is invalid''] else [])
      else if seType e = ''tool_call_start'' then
        (if seCallID e = None \<or> seToolName e = None \<or> seText e \<noteq> None \<or> seArgumentsDelta e \<noteq> None \<or>
            seUsage e \<noteq> None \<or> seFinishReason e \<noteq> None \<or> seError e \<noteq> None
         then [Other ''tool_call_start union is invalid''] else [])
      else if seType e = ''tool_arguments_delta'' then
        (if seCallID e = None \<or> seArgumentsDelta e = None \<or> seText e \<noteq> None \<or> seToolName e \<noteq> None \<or>
            seUsage e \<noteq> None \<or> seFinishReason e \<noteq> None \<or> seError e \<noteq> None
         then [Other ''tool_arguments_delta union is invalid''] else [])
      else if seType e = ''usage'' then
        (if seUsage e = None \<or> seText e \<noteq> None \<or> seCallID e \<noteq> None \<or> seToolName e \<noteq> None \<or>
            seArgumentsDelta e \<noteq> None \<or> seFinishReason e \<noteq> None \<or> seError e \<noteq> None
         then [Other ''usage union is invalid''] else [])
      else if seType e = ''response_end'' then
        (if seFinishReason e = None \<or> seText e \<noteq> None \<or> seCallID e \<noteq> None \<or> seToolName e \<noteq> None \<or>
            seArgumentsDelta e \<noteq> None \<or> seUsage e \<noteq> None \<or> seError e \<noteq> None
         then [Other ''response_end union is invalid''] else [])
      else if seType e = ''error'' then
        (if seError e = None \<or> seText e \<noteq> None \<or> seCallID e \<noteq> None \<or> seToolName e \<noteq> None \<or>
            seArgumentsDelta e \<noteq> None \<or> seUsage e \<noteq> None \<or> seFinishReason e \<noteq> None
         then [Other ''error union is invalid''] else [])
      else [])"

definition NormalizedStreamEvent_Validate :: "NormalizedStreamEvent \<Rightarrow> err" where
  "NormalizedStreamEvent_Validate e =
     (if \<not> uuidPattern (seLogicalRequestID e) \<or> seSequence e < 0 \<or> \<not> validStreamType (seType e)
      then [Other ''normalized stream event is invalid'']
      else if negative_usage (seUsage e) then [Other ''stream usage is invalid'']
      else if (case seFinishReason e of None \<Rightarrow> False | Some f \<Rightarrow> \<not> validFinish f)
      then [Other ''stream finish reason is invalid'']
      else (case (case seError e of None \<Rightarrow> [] | Some x \<Rightarrow> NormalizedError_Validate x) of
          x # xs \<Rightarrow> x # xs
        | [] \<Rightarrow>
            if present_outside 256 (seCallID e) then [Other ''stream callId is invalid'']
            else if present_outside 128 (seToolName e) then [Other ''stream toolName is invalid'']
            else stream_union e))"

text \<open>
  Each type of stream event fixes which members are present: text, callId, toolName, argumentsDelta,
  usage, finishReason and error, in this order.
\<close>

definition members :: "NormalizedStreamEvent \<Rightarrow> bool list" where
  "members e = [seText e \<noteq> None, seCallID e \<noteq> None, seToolName e \<noteq> None, seArgumentsDelta e \<noteq> None, seUsage e \<noteq> None,
     seFinishReason e \<noteq> None, seError e \<noteq> None]"

definition members_of_type :: "string \<Rightarrow> bool list list" where
  "members_of_type ty =
     (if ty = ''response_start''
      then [[False, False, False, False, False, False, False], [False, False, False, False, True, False, False]]
      else if ty = ''text_delta'' then [[True, False, False, False, False, False, False]]
      else if ty = ''tool_call_start'' then [[False, True, True, False, False, False, False]]
      else if ty = ''tool_arguments_delta'' then [[False, True, False, True, False, False, False]]
      else if ty = ''usage'' then [[False, False, False, False, True, False, False]]
      else if ty = ''response_end'' then [[False, False, False, False, False, True, False]]
      else if ty = ''error'' then [[False, False, False, False, False, False, True]] else [])"

lemma stream_union_members:
  assumes "validStreamType (seType e)"
  shows "stream_union e = [] \<longleftrightarrow> members e \<in> set (members_of_type (seType e))"
  using assms unfolding validStreamType_def
  by (elim disjE) (auto simp: stream_union_def members_of_type_def members_def)

end
