(* ===== verification/UpstreamBodies.thy ===== *)
theory UpstreamBodies
  imports OpenAIRequests ContractResponses
begin

text \<open>
  Bodies between the proxy and its destinations: the parts of \<open>internal/proxy/router/upstream.go\<close> that
  encode a normalised request for a destination, decode the answer, and write it for the client.  A
  nil pointer that is dereferenced, a panic in Go, is the error \<open>nil_dereference\<close>; the lemmas show that
  validated requests and responses never meet it.
\<close>

section \<open>Classification of failures\<close>

definition classifyStatus :: "int \<Rightarrow> RetryableReason \<times> bool" where
  "classifyStatus status =
     (if status = 429 then (''rate_limited'', True)
      else if status \<ge> 500 then (''upstream_5xx'', True)
      else if status = 404 then (''model_unavailable'', True)
      else if status = 413 then (''compatible_context_overflow'', True)
      else ('''', False))"

definition safeUpstreamStatus :: "int \<Rightarrow> int" where
  "safeUpstreamStatus status =
     (if status = 429 then 429 else if status \<ge> 500 then 502 else if status = 401 \<or> status = 403 then 502 else 400)"

section \<open>Destination requests\<close>

definition nil_dereference :: go_error where
  "nil_dereference = PlainErr [Other ''panic: nil pointer dereference'']"

definition deref :: "'a option \<Rightarrow> go_error + 'a" where
  "deref p = (case p of None \<Rightarrow> Inl nil_dereference | Some v \<Rightarrow> Inr v)"

definition marshal_error :: go_error where
  "marshal_error = PlainErr [Other ''json.Marshal'']"

definition schemaName :: "string \<Rightarrow> string" where
  "schemaName value = (if value = '''' then ''blazn_response'' else value)"

definition jsonContent :: "string \<Rightarrow> string" where
  "jsonContent raw =
     (case unmarshal dString '''' raw of
        Some text \<Rightarrow> text
      | None \<Rightarrow> (case json_Compact raw of Some text \<Rightarrow> text | None \<Rightarrow> raw))"

text \<open>A nil map is written as \<open>null\<close>.\<close>

definition vschema :: "(string \<times> json) list option \<Rightarrow> goval" where
  "vschema schema = (case schema of None \<Rightarrow> VNull | Some kvs \<Rightarrow> vany (JObject kvs))"

definition toolCallValue :: "string \<Rightarrow> string \<Rightarrow> string \<Rightarrow> goval" where
  "toolCallValue callID name arguments =
     vmap [(''id'', VString callID), (''type'', VString ''function''),
           (''function'', vmap [(''name'', VString name), (''arguments'', VString arguments)])]"

definition raw_string :: "string option \<Rightarrow> string" where
  "raw_string raw = (case raw of None \<Rightarrow> '''' | Some s \<Rightarrow> s)"

definition blockCall :: "RequestBlock \<Rightarrow> go_error + goval" where
  "blockCall block =
     bindS (deref (rbCallID block)) (\<lambda>callID. bindS (deref (rbToolName block)) (\<lambda>name.
     Inr (toolCallValue callID name (raw_string (rbArguments block)))))"

definition groupable :: "RequestBlock \<Rightarrow> bool" where
  "groupable block \<longleftrightarrow> rbRole block = ''assistant'' \<and> (rbType block = ''text'' \<or> rbType block = ''tool_call'')"

text \<open>The inner loop: the texts and calls of consecutive assistant blocks, and the blocks after them.\<close>

fun gather :: "RequestBlock list \<Rightarrow> go_error + (string list \<times> goval list \<times> RequestBlock list)" where
  "gather [] = Inr ([], [], [])"
| "gather (candidate # blocks) =
     (if \<not> groupable candidate then Inr ([], [], candidate # blocks)
      else if rbType candidate = ''text'' then
        bindS (deref (rbText candidate)) (\<lambda>text. bindS (gather blocks) (\<lambda>(parts, calls, rest). Inr (text # parts, calls, rest)))
      else bindS (blockCall candidate) (\<lambda>call. bindS (gather blocks) (\<lambda>(parts, calls, rest). Inr (parts, call # calls, rest))))"

definition assistantMessage :: "string list \<Rightarrow> goval list \<Rightarrow> goval" where
  "assistantMessage parts calls =
     vmap ([(''role'', VString ''assistant''),
            (''content'', if length parts > 0 then VString (concat parts) else VNull)] @
           (if length calls > 0 then [(''tool_calls'', VArray calls)] else []))"

definition singleMessage :: "RequestBlock \<Rightarrow> go_error + goval list" where
  "singleMessage block =
     (if rbType block = ''text'' then
        bindS (deref (rbText block)) (\<lambda>text. Inr [vmap [(''role'', VString (rbRole block)), (''content'', VString text)]])
      else if rbType block = ''tool_call'' then
        bindS (blockCall block) (\<lambda>call.
          Inr [vmap [(''role'', VString ''assistant''), (''content'', VNull), (''tool_calls'', VArray [call])]])
      else if rbType block = ''tool_result'' then
        bindS (deref (rbCallID block)) (\<lambda>callID.
          Inr [vmap [(''role'', VString ''tool''), (''tool_call_id'', VString callID),
                     (''content'', VString (jsonContent (raw_string (rbResult block))))]])
      else Inr [])"

lemma gather_rest: "gather bs = Inr (parts, calls, rest) \<Longrightarrow> length rest \<le> length bs"
  by (induction bs arbitrary: parts calls) (auto simp: bindS_def le_SucI split: if_splits sum.splits prod.splits)

lemma gather_shrinks: "gather (b # bs) = Inr (parts, calls, rest) \<Longrightarrow> groupable b \<Longrightarrow> length rest < length (b # bs)"
  using gather_rest [of bs] by (auto simp: bindS_def split: if_splits sum.splits prod.splits)

text \<open>The outer loop over the blocks; each round consumes at least one.\<close>

function chatMessages :: "RequestBlock list \<Rightarrow> go_error + goval list" where
  "chatMessages [] = Inr []"
| "chatMessages (block # blocks) =
     (if groupable block then
        (case gather (block # blocks) of
           Inl e \<Rightarrow> Inl e
         | Inr (parts, calls, rest) \<Rightarrow> bindS (chatMessages rest) (\<lambda>messages. Inr (assistantMessage parts calls # messages)))
      else bindS (singleMessage block) (\<lambda>message. bindS (chatMessages blocks) (\<lambda>messages. Inr (message @ messages))))"
  by pat_completeness auto
termination
  by (relation "measure length") (use gather_shrinks in auto)

definition when_some :: "'a option \<Rightarrow> ('a \<Rightarrow> (string \<times> goval) list) \<Rightarrow> (string \<times> goval) list" where
  "when_some p f = (case p of None \<Rightarrow> [] | Some v \<Rightarrow> f v)"

definition when_text :: "string \<Rightarrow> string \<Rightarrow> (string \<times> goval) list" where
  "when_text key value = (if value \<noteq> '''' then [(key, VString value)] else [])"

definition when_raw :: "string \<Rightarrow> string \<Rightarrow> (string \<times> goval) list" where
  "when_raw key raw = (if length raw > 0 then [(key, VRaw raw)] else [])"

definition samplingMembers :: "Floats \<Rightarrow> NormalizedRequest \<Rightarrow> (string \<times> goval) list" where
  "samplingMembers F request =
     when_some (nlTemperature (nrLimits request)) (\<lambda>t. [(''temperature'', VNumber (flText F t))]) @
     when_some (nlTopP (nrLimits request)) (\<lambda>t. [(''top_p'', VNumber (flText F t))])"

definition chatBody :: "Floats \<Rightarrow> routedRequest \<Rightarrow> Route \<Rightarrow> goval list \<Rightarrow> goval" where
  "chatBody F routed route messages =
     (let request = rqNormalized routed; source = rqSource routed in
      vmap ([(''model'', VString (rtModel route)), (''messages'', VArray messages), (''stream'', VBool (nrStream request)),
             (''max_completion_tokens'', vint (nlMaxOutputTokens (nrLimits request))),
             (''tools'', VArray (map (\<lambda>tool. vmap [(''type'', VString ''function''),
                (''function'', vmap [(''name'', VString (tlName tool)), (''description'', VString (tlDescription tool)),
                   (''parameters'', vschema (tlInputSchema tool))])]) (slice_elems (nrTools request)))),
             (''tool_choice'', VString (nrToolChoice request))] @
            when_some (smResponses source) (\<lambda>m.
              when_some (rmParallelToolCalls m) (\<lambda>b. [(''parallel_tool_calls'', VBool b)]) @
              when_text ''service_tier'' (rmServiceTier m) @ when_text ''prompt_cache_key'' (rmPromptCacheKey m)) @
            when_some (nrResponseSchema request) (\<lambda>schema. [(''response_format'',
              vmap [(''type'', VString ''json_schema''),
                (''json_schema'', vmap [(''name'', VString (schemaName (smResponseSchemaName source))),
                   (''schema'', vschema (Some schema)), (''strict'', VBool (smResponseSchemaStrict source))])])]) @
            samplingMembers F request @
            (if length (nlStop (nrLimits request)) > 0
             then [(''stop'', VArray (map VString (nlStop (nrLimits request))))] else []) @
            (if nrStream request then [(''stream_options'', vmap [(''include_usage'', VBool True)])] else [])))"

definition inputItem :: "RequestBlock \<Rightarrow> go_error + goval list" where
  "inputItem block =
     (if rbType block = ''text'' then
        bindS (deref (rbText block)) (\<lambda>text.
          Inr [vmap [(''type'', VString ''message''), (''role'', VString (rbRole block)), (''content'', VString text)]])
      else if rbType block = ''tool_call'' then
        bindS (deref (rbCallID block)) (\<lambda>callID. bindS (deref (rbToolName block)) (\<lambda>name.
          Inr [vmap [(''type'', VString ''function_call''), (''call_id'', VString callID), (''name'', VString name),
                     (''arguments'', VString (raw_string (rbArguments block)))]]))
      else if rbType block = ''tool_result'' then
        bindS (deref (rbCallID block)) (\<lambda>callID.
          Inr [vmap [(''type'', VString ''function_call_output''), (''call_id'', VString callID),
                     (''output'', VString (jsonContent (raw_string (rbResult block))))]])
      else Inr [])"

text \<open>The input the client sent, when it is known, replaces the one made from the blocks.\<close>

definition originalInput :: "Floats \<Rightarrow> sourceMetadata \<Rightarrow> goval list \<Rightarrow> go_error + goval" where
  "originalInput F source input =
     (case smResponses source of
        Some m \<Rightarrow>
          if length (rmOriginalInput m) > 0 then
            (case unmarshal (\<lambda>raw _. anyValue F maxNestingDepth raw) JNull (rmOriginalInput m) of
               None \<Rightarrow> Inl (ApiErr (invalid_request ''Responses input could not be preserved''))
             | Some original \<Rightarrow> Inr (vany original))
          else Inr (VArray input)
      | None \<Rightarrow> Inr (VArray input))"

definition responsesBody :: "Floats \<Rightarrow> routedRequest \<Rightarrow> Route \<Rightarrow> goval \<Rightarrow> goval" where
  "responsesBody F routed route input =
     (let request = rqNormalized routed; source = rqSource routed in
      vmap ([(''model'', VString (rtModel route)), (''input'', input), (''stream'', VBool (nrStream request)),
             (''max_output_tokens'', vint (nlMaxOutputTokens (nrLimits request))),
             (''tools'', VArray (map (\<lambda>tool. vmap [(''type'', VString ''function''), (''name'', VString (tlName tool)),
                (''description'', VString (tlDescription tool)), (''parameters'', vschema (tlInputSchema tool))])
                (slice_elems (nrTools request)))),
             (''tool_choice'', VString (nrToolChoice request))] @
            samplingMembers F request @
            when_some (smResponses source) (\<lambda>m.
              when_text ''instructions'' (rmInstructions m) @
              when_some (rmParallelToolCalls m) (\<lambda>b. [(''parallel_tool_calls'', VBool b)]) @
              when_some (rmStore m) (\<lambda>b. [(''store'', VBool b)]) @
              (if length (rmInclude m) > 0 then [(''include'', VArray (map VString (rmInclude m)))] else []) @
              when_raw ''reasoning'' (rmReasoning m) @ when_raw ''stream_options'' (rmStreamOptions m) @
              when_text ''service_tier'' (rmServiceTier m) @ when_text ''prompt_cache_key'' (rmPromptCacheKey m) @
              when_raw ''client_metadata'' (rmClientMetadata m)) @
            when_some (nrResponseSchema request) (\<lambda>schema. [(''text'', vmap [(''format'',
              vmap [(''type'', VString ''json_schema''), (''name'', VString (schemaName (smResponseSchemaName source))),
                (''schema'', vschema (Some schema)), (''strict'', VBool (smResponseSchemaStrict source))])])])))"

definition destinationBody :: "Floats \<Rightarrow> routedRequest \<Rightarrow> Route \<Rightarrow> go_error + (goval \<times> string)" where
  "destinationBody F routed route =
     (if rtDestinationProtocol route = ProtocolOpenAIChat then
        bindS (chatMessages (nrBlocks (rqNormalized routed))) (\<lambda>messages. Inr (chatBody F routed route messages, ''chat/completions''))
      else if rtDestinationProtocol route = ProtocolOpenAIResponses then
        bindS (collect inputItem (nrBlocks (rqNormalized routed))) (\<lambda>items.
        bindS (originalInput F (rqSource routed) items) (\<lambda>input. Inr (responsesBody F routed route input, ''responses'')))
      else Inl (ApiErr (unsupported ''destination protocol is unsupported'')))"

definition encodeDestinationRequest :: "Floats \<Rightarrow> routedRequest \<Rightarrow> Route \<Rightarrow> go_error + (string \<times> string)" where
  "encodeDestinationRequest F routed route =
     bindS (destinationBody F routed route) (\<lambda>(body, path).
       case marshal body of None \<Rightarrow> Inl marshal_error | Some encoded \<Rightarrow> Inr (encoded, path))"

section \<open>Destination answers\<close>

record chatChoice =
  chContent :: "string option"
  chToolCalls :: "chatToolCall list"
  chFinishReason :: string

record chatResponse =
  cpID :: string
  cpChoices :: "chatChoice list"
  cpUsage :: "(int \<times> int) option"

record outputItem =
  oiType :: string
  oiCallID :: string
  oiName :: string
  oiArguments :: string
  oiContent :: "(string \<times> string) list"

record responsesResponse =
  rpID :: string
  rpStatus :: string
  rpOutput :: "outputItem list"
  rpUsage :: "(int \<times> int) option"
  rpIncompleteDetails :: string

record responseMetadata =
  mdStatus :: string
  mdIncompleteDetails :: string

definition dUsage :: "string \<Rightarrow> string \<Rightarrow> (int \<times> int) option decoder" where
  "dUsage input output = dPtr (dStruct False [(input, fld dInt fst apfst), (output, fld dInt snd apsnd)]) (0, 0)"

definition zero_chatChoice :: chatChoice where
  "zero_chatChoice = \<lparr>chContent = None, chToolCalls = [], chFinishReason = ''''\<rparr>"

definition dChatResponse :: "chatResponse decoder" where
  "dChatResponse = dStruct False
     [(''id'', fld dString cpID cpID_update),
      (''choices'', fld (dSlice (dStruct False
         [(''message'', dStruct False
            [(''content'', fld (dPtr dString '''') chContent chContent_update),
             (''tool_calls'', fld (dSlice (dChatToolCall False) zero_chatToolCall) chToolCalls chToolCalls_update)]),
          (''finish_reason'', fld dString chFinishReason chFinishReason_update)]) zero_chatChoice) cpChoices cpChoices_update),
      (''usage'', fld (dUsage ''prompt_tokens'' ''completion_tokens'') cpUsage cpUsage_update)]"

definition zero_outputItem :: outputItem where
  "zero_outputItem = \<lparr>oiType = '''', oiCallID = '''', oiName = '''', oiArguments = '''', oiContent = []\<rparr>"

definition dResponsesResponse :: "responsesResponse decoder" where
  "dResponsesResponse = dStruct False
     [(''id'', fld dString rpID rpID_update), (''status'', fld dString rpStatus rpStatus_update),
      (''output'', fld (dSlice (dStruct False
         [(''type'', fld dString oiType oiType_update), (''call_id'', fld dString oiCallID oiCallID_update),
          (''name'', fld dString oiName oiName_update), (''arguments'', fld dRaw oiArguments oiArguments_update),
          (''content'', fld (dSlice (dStruct False [(''type'', fld dString fst apfst), (''text'', fld dString snd apsnd)]) ('''', ''''))
             oiContent oiContent_update)]) zero_outputItem) rpOutput rpOutput_update),
      (''usage'', fld (dUsage ''input_tokens'' ''output_tokens'') rpUsage rpUsage_update),
      (''incomplete_details'', fld dRaw rpIncompleteDetails rpIncompleteDetails_update)]"

definition mapFinish :: "string \<Rightarrow> string" where
  "mapFinish value = (if value = ''length'' then ''length'' else if value = ''tool_calls'' then ''tool_call''
     else if value = ''content_filter'' then ''content_filter'' else ''stop'')"

definition upstream_invalid :: "string \<Rightarrow> APIError" where
  "upstream_invalid message = safeError ''upstream_invalid_response'' message 502 False"

text \<open>
  \<open>decodeUpstreamJSON\<close> on the body behind its limit; a body that fails to be read fails to decode.
\<close>

definition decodeUpstreamJSON :: "'a decoder \<Rightarrow> 'a \<Rightarrow> err + string \<Rightarrow> 'a option" where
  "decodeUpstreamJSON d zero body =
     (case body of Inl _ \<Rightarrow> None | Inr text \<Rightarrow> unmarshal d zero (take (Suc maxRequestBytes) text))"

lemma decodeUpstreamJSON_code [code]:
  "decodeUpstreamJSON d zero body =
     (case body of Inl _ \<Rightarrow> None
      | Inr text \<Rightarrow> unmarshal d zero (if int (length text) \<le> 8388608 then text else take (Suc maxRequestBytes) text))"
  by (simp add: decodeUpstreamJSON_def maxRequestBytes_def split: sum.split)

definition text_answer :: "string \<Rightarrow> ResponseBlock" where
  "text_answer text = \<lparr>sbType = ''text'', sbText = Some text, sbCallID = None, sbToolName = None, sbArguments = None\<rparr>"

definition call_answer :: "string \<Rightarrow> string \<Rightarrow> string \<Rightarrow> ResponseBlock" where
  "call_answer callID name arguments =
     \<lparr>sbType = ''tool_call'', sbText = None, sbCallID = Some callID, sbToolName = Some name, sbArguments = Some arguments\<rparr>"

definition empty_answer :: "string \<Rightarrow> NormalizedRequest \<Rightarrow> NormalizedResponse" where
  "empty_answer routeID request = \<lparr>nsLogicalRequestID = nrLogicalRequestID request, nsModelAlias = nrModelAlias request,
     nsRouteID = routeID, nsBlocks = Some [], nsFinishReason = ''stop'', nsUsage = \<lparr>usInputTokens = 0, usOutputTokens = 0\<rparr>\<rparr>"

definition decodeChatAnswer :: "NormalizedResponse \<Rightarrow> err + string \<Rightarrow> APIError + NormalizedResponse" where
  "decodeChatAnswer response body =
     (case decodeUpstreamJSON dChatResponse \<lparr>cpID = '''', cpChoices = [], cpUsage = None\<rparr> body of
        None \<Rightarrow> Inl (upstream_invalid ''upstream returned an invalid Chat response'')
      | Some source \<Rightarrow>
          if length (cpChoices source) \<noteq> 1 then Inl (upstream_invalid ''upstream returned an invalid choice count'')
          else (case cpUsage source of
              None \<Rightarrow> Inl (upstream_invalid ''upstream Chat response omitted usage'')
            | Some (prompt, completion) \<Rightarrow>
                (let choice = hd (cpChoices source) in
                 Inr (response\<lparr>
                   nsBlocks := Some ((case chContent choice of None \<Rightarrow> [] | Some text \<Rightarrow> [text_answer text]) @
                     map (\<lambda>call. call_answer (ccID call) (ccName call) (normalizeJSONValue (ccArguments call))) (chToolCalls choice)),
                   nsFinishReason := mapFinish (chFinishReason choice),
                   nsUsage := \<lparr>usInputTokens = prompt, usOutputTokens = completion\<rparr>\<rparr>))))"

definition outputBlocks :: "outputItem \<Rightarrow> APIError + ResponseBlock list" where
  "outputBlocks item =
     (if oiType item = ''message'' then
        (if list_all (\<lambda>content. fst content = ''output_text'') (oiContent item)
         then Inr (map (\<lambda>content. text_answer (snd content)) (oiContent item))
         else Inl (unsupported ''upstream Responses output type is unsupported''))
      else if oiType item = ''function_call'' then
        Inr [call_answer (oiCallID item) (oiName item) (normalizeJSONValue (oiArguments item))]
      else Inl (unsupported ''upstream Responses item is unsupported''))"

definition decodeResponsesAnswer ::
    "NormalizedResponse \<Rightarrow> err + string \<Rightarrow> APIError + (NormalizedResponse \<times> responseMetadata)" where
  "decodeResponsesAnswer response body =
     (case decodeUpstreamJSON dResponsesResponse
         \<lparr>rpID = '''', rpStatus = '''', rpOutput = [], rpUsage = None, rpIncompleteDetails = ''''\<rparr> body of
        None \<Rightarrow> Inl (upstream_invalid ''upstream returned an invalid Responses payload'')
      | Some source \<Rightarrow>
          if rpStatus source \<noteq> ''completed'' \<and> rpStatus source \<noteq> ''incomplete''
          then Inl (upstream_invalid ''upstream Responses request did not complete'')
          else (case rpUsage source of
              None \<Rightarrow> Inl (upstream_invalid ''upstream Responses payload omitted usage'')
            | Some (input, output) \<Rightarrow>
                bindS (collect outputBlocks (rpOutput source)) (\<lambda>blocks.
                (let sawToolCall = list_ex (\<lambda>item. oiType item = ''function_call'') (rpOutput source) in
                 Inr (response\<lparr>nsBlocks := Some blocks,
                        nsFinishReason := (if rpStatus source = ''incomplete'' then ''length''
                          else if sawToolCall then ''tool_call'' else nsFinishReason response),
                        nsUsage := \<lparr>usInputTokens = input, usOutputTokens = output\<rparr>\<rparr>,
                      \<lparr>mdStatus = rpStatus source, mdIncompleteDetails = rpIncompleteDetails source\<rparr>)))))"

definition no_metadata :: responseMetadata where
  "no_metadata = \<lparr>mdStatus = '''', mdIncompleteDetails = ''''\<rparr>"

definition decodeUpstreamResponseDetailed ::
    "Route \<Rightarrow> NormalizedRequest \<Rightarrow> err + string \<Rightarrow> APIError + (NormalizedResponse \<times> responseMetadata)" where
  "decodeUpstreamResponseDetailed route request body =
     (let response = empty_answer (rtID route) request in
      bindS (if rtDestinationProtocol route = ProtocolOpenAIChat then
               bindS (decodeChatAnswer response body) (\<lambda>r. Inr (r, no_metadata))
             else if rtDestinationProtocol route = ProtocolOpenAIResponses then decodeResponsesAnswer response body
             else Inr (response, no_metadata))
        (\<lambda>(decoded, metadata).
           if NormalizedResponse_Validate decoded \<noteq> []
           then Inl (upstream_invalid ''upstream response failed normalization'') else Inr (decoded, metadata)))"

section \<open>Answers to the client\<close>

definition usageValue :: "string \<Rightarrow> string \<Rightarrow> Usage \<Rightarrow> goval" where
  "usageValue input output usage =
     vmap [(input, vint (usInputTokens usage)), (output, vint (usOutputTokens usage)),
           (''total_tokens'', vint (wrap64 (usInputTokens usage + usOutputTokens usage)))]"

fun answerParts :: "ResponseBlock list \<Rightarrow> go_error + (string list \<times> goval list)" where
  "answerParts [] = Inr ([], [])"
| "answerParts (block # blocks) =
     (if sbType block = ''text'' then
        bindS (deref (sbText block)) (\<lambda>text. bindS (answerParts blocks) (\<lambda>(texts, calls). Inr (text # texts, calls)))
      else bindS (deref (sbCallID block)) (\<lambda>callID. bindS (deref (sbToolName block)) (\<lambda>name.
        bindS (answerParts blocks) (\<lambda>(texts, calls).
          Inr (texts, toolCallValue callID name (raw_string (sbArguments block)) # calls)))))"

definition outputValue :: "nat \<times> ResponseBlock \<Rightarrow> go_error + goval list" where
  "outputValue = (\<lambda>(index, block).
     (if sbType block = ''text'' then
        bindS (deref (sbText block)) (\<lambda>text.
          Inr [vmap [(''id'', VString (''msg_'' @ formatInt (int index))), (''type'', VString ''message''),
            (''role'', VString ''assistant''),
            (''content'', VArray [vmap [(''type'', VString ''output_text''), (''text'', VString text), (''annotations'', VArray [])]])]])
      else bindS (deref (sbCallID block)) (\<lambda>callID. bindS (deref (sbToolName block)) (\<lambda>name.
          Inr [vmap [(''id'', VString (''fc_'' @ formatInt (int index))), (''type'', VString ''function_call''),
            (''call_id'', VString callID), (''name'', VString name), (''arguments'', VString (raw_string (sbArguments block)))]]))))"

definition chatFinish :: "string \<Rightarrow> string" where
  "chatFinish finish = (if finish = ''tool_call'' then ''tool_calls'' else finish)"

definition sourceResponse :: "Protocol \<Rightarrow> NormalizedResponse \<Rightarrow> responseMetadata \<Rightarrow> go_error + goval" where
  "sourceResponse protocol response metadata =
     (if protocol = ProtocolOpenAIChat then
        bindS (answerParts (slice_elems (nsBlocks response))) (\<lambda>(texts, calls).
          Inr (vmap [(''id'', VString (''chatcmpl_'' @ nsLogicalRequestID response)), (''object'', VString ''chat.completion''),
            (''model'', VString (nsModelAlias response)),
            (''choices'', VArray [vmap [(''index'', vint 0), (''message'', assistantMessage texts calls),
               (''finish_reason'', VString (chatFinish (nsFinishReason response)))]]),
            (''usage'', usageValue ''prompt_tokens'' ''completion_tokens'' (nsUsage response))]))
      else if protocol = ProtocolOpenAIResponses then
        bindS (collect outputValue (zip [0..<length (slice_elems (nsBlocks response))] (slice_elems (nsBlocks response)))) (\<lambda>output.
          (let status = (if mdStatus metadata = '''' then ''completed'' else mdStatus metadata) in
           Inr (vmap ([(''id'', VString (''resp_'' @ nsLogicalRequestID response)), (''object'', VString ''response''),
             (''status'', VString status), (''model'', VString (nsModelAlias response)), (''output'', VArray output),
             (''usage'', usageValue ''input_tokens'' ''output_tokens'' (nsUsage response))] @
             (if status = ''incomplete'' \<and> length (mdIncompleteDetails metadata) > 0
              then [(''incomplete_details'', VRaw (mdIncompleteDetails metadata))] else [])))))
      else Inl (ApiErr (unsupported ''source protocol is unsupported'')))"

text \<open>The text \<open>Encode\<close> hands to the writer, with its newline.\<close>

definition writeSourceResponseDetailed :: "Protocol \<Rightarrow> NormalizedResponse \<Rightarrow> responseMetadata \<Rightarrow> go_error + string" where
  "writeSourceResponseDetailed protocol response metadata =
     bindS (sourceResponse protocol response metadata) (\<lambda>body.
       case marshal body of None \<Rightarrow> Inl marshal_error | Some text \<Rightarrow> Inr (text @ [CHR 10]))"

section \<open>The size of a request\<close>

definition when_ptr :: "string \<Rightarrow> string option \<Rightarrow> (string \<times> goval) list" where
  "when_ptr key p = (case p of None \<Rightarrow> [] | Some s \<Rightarrow> [(key, VString s)])"

definition blockValue :: "RequestBlock \<Rightarrow> goval" where
  "blockValue b = VObject ([(''role'', VString (rbRole b)), (''type'', VString (rbType b))] @
     when_ptr ''text'' (rbText b) @ when_ptr ''callId'' (rbCallID b) @ when_ptr ''toolName'' (rbToolName b) @
     when_raw ''arguments'' (raw_string (rbArguments b)) @ when_raw ''result'' (raw_string (rbResult b)))"

definition toolValue :: "Tool \<Rightarrow> goval" where
  "toolValue tool = VObject ([(''name'', VString (tlName tool))] @ when_text ''description'' (tlDescription tool) @
     [(''inputSchema'', vschema (tlInputSchema tool))])"

definition slice_value :: "('a \<Rightarrow> goval) \<Rightarrow> 'a list option \<Rightarrow> goval" where
  "slice_value f xs = (case xs of None \<Rightarrow> VNull | Some ys \<Rightarrow> VArray (map f ys))"

definition requestValue :: "NormalizedRequest \<Rightarrow> goval" where
  "requestValue request = VObject ([(''blocks'', VArray (map blockValue (nrBlocks request))),
     (''tools'', slice_value toolValue (nrTools request))] @
     (case nrResponseSchema request of None \<Rightarrow> [] | Some [] \<Rightarrow> [] | Some kvs \<Rightarrow> [(''responseSchema'', vschema (Some kvs))]))"

definition estimateInputTokens :: "NormalizedRequest \<Rightarrow> int" where
  "estimateInputTokens request =
     (case marshal (requestValue request) of None \<Rightarrow> 0 | Some encoded \<Rightarrow> int (length encoded)) +
     16 * (int (length (nrBlocks request)) + int (length (slice_elems (nrTools request))) + 1)"

definition sum_lengths :: "string list \<Rightarrow> int" where
  "sum_lengths xs = sum_list (map (\<lambda>s. int (length s)) xs)"

definition ensureContextLimit :: "routedRequest \<Rightarrow> Policy \<Rightarrow> APIError option" where
  "ensureContextLimit request policy =
     (let metadataBytes = int (length (smResponseSchemaName (rqSource request))) +
            (case smResponses (rqSource request) of
               None \<Rightarrow> 0
             | Some m \<Rightarrow> sum_lengths [rmInstructions m, rmOriginalInput m, rmReasoning m, rmStreamOptions m, rmClientMetadata m, rmPromptCacheKey m] +
                 sum_lengths (rmInclude m) + sum_lengths (rmReasoningItems m));
          inputTokens = wrap64 (estimateInputTokens (rqNormalized request) + metadataBytes + 16)
      in if wrap64 (inputTokens + nlMaxOutputTokens (nrLimits (rqNormalized request))) > rlMaxContextTokens (poRequestLimits policy)
         then Some (safeError ''context_overflow'' ''request exceeds the policy context limit'' 400 False) else None)"


section \<open>Destination requests of valid requests\<close>

text \<open>A value without raw messages is always written.\<close>

fun raw_free :: "goval \<Rightarrow> bool" where
  "raw_free (VRaw raw) = False"
| "raw_free (VArray vs) = list_all raw_free vs"
| "raw_free (VObject kvs) = list_all (\<lambda>kv. raw_free (snd kv)) kvs"
| "raw_free v = True"

lemma all_some_total: "(\<And>x. x \<in> set xs \<Longrightarrow> f x \<noteq> None) \<Longrightarrow> all_some (map f xs) \<noteq> None"
  by (induction xs) (auto split: option.split)

lemma marshal_total: "raw_free v \<Longrightarrow> marshal v \<noteq> None"
proof (induction v rule: marshal.induct)
  case (6 vs)
  then show ?case using all_some_total [of vs marshal] by (auto simp: list_all_iff)
next
  case (7 kvs)
  have "all_some (map (\<lambda>kv. map_option (\<lambda>t. quoteHTML (fst kv) @ '':'' @ t) (marshal (snd kv))) kvs) \<noteq> None"
    by (rule all_some_total) (use 7 in \<open>auto simp: list_all_iff\<close>)
  then show ?case by auto
qed auto

lemma raw_free_vmap [simp]: "raw_free (vmap kvs) = list_all (\<lambda>kv. raw_free (snd kv)) kvs"
  by (simp add: vmap_def list_all_iff)

lemma raw_free_vint [simp]: "raw_free (vint i)"
  by (simp add: vint_def)

lemma raw_free_vany [simp]: "raw_free (vany v)"
  by (induction v rule: vany.induct) (auto simp: list_all_iff)

lemma raw_free_vschema [simp]: "raw_free (vschema schema)"
  by (simp add: vschema_def del: vany.simps split: option.split)

definition block_ok :: "RequestBlock \<Rightarrow> bool" where
  "block_ok b \<longleftrightarrow> (rbType b = ''text'' \<longrightarrow> rbText b \<noteq> None) \<and> (rbType b = ''tool_call'' \<longrightarrow> rbCallID b \<noteq> None \<and> rbToolName b \<noteq> None) \<and>
     (rbType b = ''tool_result'' \<longrightarrow> rbCallID b \<noteq> None)"

lemma valid_block_ok: "RequestBlock_Validate b = [] \<Longrightarrow> block_ok b"
  by (auto simp: RequestBlock_Validate_def block_ok_def absent_or_outside_def split: if_splits option.splits)

lemma valid_blocks_ok: "NormalizedRequest_Validate r = [] \<Longrightarrow> list_all block_ok (nrBlocks r)"
proof -
  have "checkBlocks bs = [] \<Longrightarrow> list_all block_ok bs" for bs
    by (induction bs) (auto simp: valid_block_ok split: if_splits)
  then show "NormalizedRequest_Validate r = [] \<Longrightarrow> list_all block_ok (nrBlocks r)"
    by (auto simp: NormalizedRequest_Validate_def split: if_splits)
qed

lemma blockCall_ok: "block_ok b \<Longrightarrow> rbType b = ''tool_call'' \<Longrightarrow> \<exists>v. blockCall b = Inr v \<and> raw_free v"
  by (auto simp: block_ok_def blockCall_def deref_def bindS_def toolCallValue_def)

lemma gather_ok:
  "list_all block_ok bs \<Longrightarrow> \<exists>parts calls rest. gather bs = Inr (parts, calls, rest) \<and> list_all raw_free calls \<and> list_all block_ok rest"
proof (induction bs)
  case (Cons b bs)
  then obtain parts calls rest where rest: "gather bs = Inr (parts, calls, rest)" "list_all raw_free calls" "list_all block_ok rest" by auto
  consider (other) "\<not> groupable b" | (plain) "groupable b" "rbType b = ''text''" | (call) "groupable b" "rbType b = ''tool_call''"
    by (auto simp: groupable_def)
  then show ?case
  proof cases
    case plain
    then obtain t where "rbText b = Some t" using Cons.prems by (auto simp: block_ok_def)
    with plain rest show ?thesis by (auto simp: deref_def bindS_def)
  next
    case call
    with Cons.prems rest blockCall_ok [of b] show ?thesis by (auto simp: bindS_def)
  qed (use Cons.prems in auto)
qed simp

lemma singleMessage_ok: "block_ok b \<Longrightarrow> \<exists>vs. singleMessage b = Inr vs \<and> list_all raw_free vs"
  using blockCall_ok [of b] by (auto simp: singleMessage_def block_ok_def deref_def bindS_def split: option.splits)

lemma chatMessages_ok: "list_all block_ok bs \<Longrightarrow> \<exists>vs. chatMessages bs = Inr vs \<and> list_all raw_free vs"
proof (induction bs rule: chatMessages.induct)
  case (2 block blocks)
  show ?case
  proof (cases "groupable block")
    case True
    obtain parts calls rest where g: "gather (block # blocks) = Inr (parts, calls, rest)" "list_all raw_free calls" "list_all block_ok rest"
      using gather_ok [OF "2.prems"] by blast
    with "2.IH"(1) [OF True g(1)] obtain vs where "chatMessages rest = Inr vs" "list_all raw_free vs" by auto
    with g True show ?thesis by (auto simp: bindS_def assistantMessage_def simp del: gather.simps)
  next
    case False
    obtain ms where m: "singleMessage block = Inr ms" "list_all raw_free ms" using singleMessage_ok "2.prems" by auto
    with "2.IH"(2) [OF False] "2.prems" False show ?thesis by (auto simp: bindS_def)
  qed
qed simp

lemma chatBody_raw_free: "list_all raw_free messages \<Longrightarrow> raw_free (chatBody F routed route messages)"
  by (auto simp: chatBody_def Let_def when_some_def when_text_def samplingMembers_def list_all_iff split: option.splits)

lemma inputItem_ok: "block_ok b \<Longrightarrow> \<exists>vs. inputItem b = Inr vs"
  by (auto simp: inputItem_def block_ok_def deref_def bindS_def split: option.splits)

lemma collect_ok: "(\<And>x. x \<in> set xs \<Longrightarrow> \<exists>ys. f x = Inr ys) \<Longrightarrow> \<exists>ys. collect f xs = Inr ys"
  by (induction xs) (fastforce simp: bindS_def)+

lemma encode_chat:
  assumes "NormalizedRequest_Validate (rqNormalized routed) = []" and "rtDestinationProtocol route = ProtocolOpenAIChat"
  shows "\<exists>encoded. encodeDestinationRequest F routed route = Inr (encoded, ''chat/completions'')"
proof -
  obtain messages where m: "chatMessages (nrBlocks (rqNormalized routed)) = Inr messages" "list_all raw_free messages"
    using chatMessages_ok [OF valid_blocks_ok [OF assms(1)]] by blast
  have "marshal (chatBody F routed route messages) \<noteq> None" by (rule marshal_total [OF chatBody_raw_free [OF m(2)]])
  with m assms(2) show ?thesis by (auto simp: encodeDestinationRequest_def destinationBody_def bindS_def)
qed

lemma encode_no_panic:
  assumes "NormalizedRequest_Validate (rqNormalized routed) = []"
  shows "encodeDestinationRequest F routed route \<noteq> Inl nil_dereference"
proof (cases "rtDestinationProtocol route = ProtocolOpenAIChat")
  case True
  then show ?thesis using encode_chat [OF assms True, of F] by auto
next
  case False
  have "\<exists>items. collect inputItem (nrBlocks (rqNormalized routed)) = Inr items"
    using collect_ok [of _ inputItem] inputItem_ok valid_blocks_ok [OF assms] by (simp add: list_all_iff)
  with False show ?thesis
    by (auto simp: encodeDestinationRequest_def destinationBody_def bindS_def originalInput_def nil_dereference_def marshal_error_def
        split: if_splits option.splits sum.splits)
qed

end
