(* ===== verification/StreamNormalizer.thy ===== *)
theory StreamNormalizer
  imports UpstreamBodies
begin

text \<open>
  The stream of a destination, read line by line and turned into normalised events: the
  \<open>streamNormalizer\<close> and \<open>nextStreamEvents\<close> of \<open>internal/proxy/router/upstream.go\<close>.  The lemmas show that
  the events have the shape of their type and consecutive sequence numbers, and that reading ends
  for every destination.
\<close>

section \<open>The state\<close>

record reasoningOutput =
  roRaw :: string
  roIndex :: int

record reasoningEmission =
  rnKind :: string
  rnIndex :: int
  rnItem :: string

text \<open>Go maps are association lists; \<open>snToolStarted\<close> and \<open>snReasoningDone\<close> are the keys set to true.\<close>

record streamNormalizer =
  snToolIDs :: "(int \<times> string) list"
  snToolNames :: "(int \<times> string) list"
  snToolStarted :: "int list"
  snResponseCallIDs :: "(string \<times> string) list"
  snSequence :: int
  snStarted :: bool
  snTerminal :: bool
  snSawFunctionCall :: bool
  snReasoningItems :: "(string \<times> reasoningOutput) list"
  snReasoningOrder :: "string list"
  snToolOutputIndexes :: "(string \<times> int) list"
  snTextOutputIndex :: int
  snPendingReasoning :: "reasoningEmission list"
  snReasoningDone :: "string list"
  snTotalBytes :: int
  snWireEvents :: int

definition newNormalizer :: streamNormalizer where
  "newNormalizer = \<lparr>snToolIDs = [], snToolNames = [], snToolStarted = [], snResponseCallIDs = [], snSequence = 0,
     snStarted = False, snTerminal = False, snSawFunctionCall = False, snReasoningItems = [], snReasoningOrder = [],
     snToolOutputIndexes = [], snTextOutputIndex = -1, snPendingReasoning = [], snReasoningDone = [], snTotalBytes = 0,
     snWireEvents = 0\<rparr>"

definition drainReasoning :: "streamNormalizer \<Rightarrow> reasoningEmission list \<times> streamNormalizer" where
  "drainReasoning n = (snPendingReasoning n, n\<lparr>snPendingReasoning := []\<rparr>)"

definition reasoningComplete :: "streamNormalizer \<Rightarrow> bool" where
  "reasoningComplete n \<longleftrightarrow> list_all (\<lambda>item. List.member (snReasoningDone n) (fst item)) (snReasoningItems n)"

definition orderedReasoningItems :: "streamNormalizer \<Rightarrow> reasoningOutput list" where
  "orderedReasoningItems n =
     map (\<lambda>itemID. case map_of (snReasoningItems n) itemID of None \<Rightarrow> \<lparr>roRaw = '''', roIndex = 0\<rparr> | Some item \<Rightarrow> item) (snReasoningOrder n)"

text \<open>An error of a stream, and the context error in its chain.\<close>

type_synonym stream_error = "go_error \<times> ctx_error option"

definition stream_failure :: "string \<Rightarrow> stream_error" where
  "stream_failure message = (PlainErr [Other message], None)"

section \<open>Failures a destination reports\<close>

definition mentions :: "string \<Rightarrow> string \<Rightarrow> bool" where
  "mentions s t \<longleftrightarrow> contains_list (map of_char t) (map lowerRune (runes s))"

definition normalizeStreamFailure :: "string \<Rightarrow> NormalizedError" where
  "normalizeStreamFailure code =
     (let normalized = \<lparr>neCode = ''upstream_5xx'', neRetryClass = ''before_first_byte_only'',
            neSafeMessage = ''upstream stream returned an error'', neUpstreamStatus = 502\<rparr> in
      if mentions code ''rate'' \<and> mentions code ''limit''
      then normalized\<lparr>neCode := ''rate_limited'', neUpstreamStatus := 429\<rparr>
      else if mentions code ''context'' \<and> mentions code ''length''
      then normalized\<lparr>neCode := ''context_overflow'', neUpstreamStatus := 413\<rparr>
      else if mentions code ''model'' \<and> (mentions code ''not_found'' \<or> mentions code ''unavailable'')
      then normalized\<lparr>neCode := ''model_unavailable'', neUpstreamStatus := 404\<rparr>
      else if mentions code ''invalid'' \<or> mentions code ''authentication'' \<or> mentions code ''permission''
      then normalized\<lparr>neCode := ''invalid_request'', neRetryClass := ''never'', neUpstreamStatus := 400\<rparr>
      else normalized)"

text \<open>The two ways \<open>streamAPIError\<close> is called: with a normalised error, and with a Go error.\<close>

definition reportedError :: "NormalizedError \<Rightarrow> APIError" where
  "reportedError normalized =
     \<lparr>aeCode = neCode normalized, aeMessage = neSafeMessage normalized, aeStatus = safeUpstreamStatus (neUpstreamStatus normalized),
      aeRetryable = (neRetryClass normalized = ''before_first_byte_only''),
      aeReason = (if neCode normalized = ''context_overflow'' then ''compatible_context_overflow'' else neCode normalized),
      aeCause = []\<rparr>"

definition streamAPIError :: "stream_error \<Rightarrow> APIError" where
  "streamAPIError e =
     (let cause = (case fst e of PlainErr c \<Rightarrow> c | _ \<Rightarrow> []) in
      case snd e of
        Some DeadlineExceeded \<Rightarrow> \<lparr>aeCode = ''timeout_before_first_byte'',
          aeMessage = ''upstream did not produce an event before the deadline'', aeStatus = 504, aeRetryable = True,
          aeReason = ''timeout_before_first_byte'', aeCause = cause\<rparr>
      | Some Canceled \<Rightarrow> \<lparr>aeCode = ''cancelled'', aeMessage = ''request was cancelled'', aeStatus = 499, aeRetryable = False,
          aeReason = '''', aeCause = cause\<rparr>
      | None \<Rightarrow> \<lparr>aeCode = ''connection_failure'', aeMessage = ''upstream stream failed'', aeStatus = 502, aeRetryable = True,
          aeReason = ''connection_failure'', aeCause = cause\<rparr>)"

section \<open>Chat chunks\<close>

record callDelta =
  cdIndex :: int
  cdID :: string
  cdType :: string
  cdName :: string
  cdArguments :: string

record chunkChoice =
  kcRole :: string
  kcContent :: "string option"
  kcToolCalls :: "callDelta list"
  kcFinishReason :: "string option"

record chatChunk =
  kkError :: "(string \<times> string) option"
  kkChoices :: "chunkChoice list"
  kkUsage :: "(int \<times> int) option"

definition dFailure :: "(string \<times> string) option decoder" where
  "dFailure = dPtr (dStruct False [(''message'', fld dString fst apfst), (''code'', fld dString snd apsnd)]) ('''', '''')"

definition dCallDelta :: "callDelta decoder" where
  "dCallDelta = dStruct False
     [(''index'', fld dInt cdIndex cdIndex_update), (''id'', fld dString cdID cdID_update),
      (''type'', fld dString cdType cdType_update),
      (''function'', dStruct False
         [(''name'', fld dString cdName cdName_update), (''arguments'', fld dString cdArguments cdArguments_update)])]"

definition dChatChunk :: "chatChunk decoder" where
  "dChatChunk = dStruct False
     [(''error'', fld dFailure kkError kkError_update),
      (''choices'', fld (dSlice (dStruct False
         [(''delta'', dStruct False
            [(''role'', fld dString kcRole kcRole_update),
             (''content'', fld (dPtr dString '''') kcContent kcContent_update),
             (''tool_calls'', fld (dSlice dCallDelta \<lparr>cdIndex = 0, cdID = '''', cdType = '''', cdName = '''', cdArguments = ''''\<rparr>)
                kcToolCalls kcToolCalls_update)]),
          (''finish_reason'', fld (dPtr dString '''') kcFinishReason kcFinishReason_update)])
         \<lparr>kcRole = '''', kcContent = None, kcToolCalls = [], kcFinishReason = None\<rparr>) kkChoices kkChoices_update),
      (''usage'', fld (dUsage ''prompt_tokens'' ''completion_tokens'') kkUsage kkUsage_update)]"

definition event :: "string \<Rightarrow> int \<Rightarrow> string \<Rightarrow> NormalizedStreamEvent" where
  "event requestID sequence kind = \<lparr>seLogicalRequestID = requestID, seSequence = sequence, seType = kind, seText = None,
     seCallID = None, seToolName = None, seArgumentsDelta = None, seUsage = None, seFinishReason = None, seError = None\<rparr>"

text \<open>The loops carry the normaliser and the events so far; the next sequence number is the first one plus their number.\<close>

type_synonym normalizing = "streamNormalizer \<times> NormalizedStreamEvent list"

definition push :: "string \<Rightarrow> int \<Rightarrow> string \<Rightarrow> (NormalizedStreamEvent \<Rightarrow> NormalizedStreamEvent) \<Rightarrow> normalizing \<Rightarrow> normalizing" where
  "push requestID sequence kind f = (\<lambda>(n, out). (n, out @ [f (event requestID (sequence + int (length out)) kind)]))"

definition chatCall :: "string \<Rightarrow> int \<Rightarrow> callDelta \<Rightarrow> normalizing \<Rightarrow> normalizing" where
  "chatCall requestID sequence call = (\<lambda>(n, out).
     (let n1 = (if cdID call \<noteq> '''' then n\<lparr>snToolIDs := map_set (cdIndex call) (cdID call) (snToolIDs n)\<rparr> else n);
          n2 = (if cdName call \<noteq> '''' then n1\<lparr>snToolNames := map_set (cdIndex call) (cdName call) (snToolNames n1)\<rparr> else n1);
          callID = lookup_or '''' (snToolIDs n2) (cdIndex call); name = lookup_or '''' (snToolNames n2) (cdIndex call);
          s3 = (if \<not> List.member (snToolStarted n2) (cdIndex call) \<and> callID \<noteq> '''' \<and> name \<noteq> ''''
                then push requestID sequence ''tool_call_start'' (\<lambda>e. e\<lparr>seCallID := Some callID, seToolName := Some name\<rparr>)
                       (n2\<lparr>snToolStarted := cdIndex call # snToolStarted n2\<rparr>, out)
                else (n2, out))
      in if cdArguments call \<noteq> '''' \<and> callID \<noteq> ''''
         then push requestID sequence ''tool_arguments_delta''
                (\<lambda>e. e\<lparr>seCallID := Some callID, seArgumentsDelta := Some (cdArguments call)\<rparr>) s3
         else s3))"

definition chatChoiceEvents :: "string \<Rightarrow> int \<Rightarrow> chunkChoice \<Rightarrow> normalizing \<Rightarrow> normalizing" where
  "chatChoiceEvents requestID sequence choice s0 =
     (let s1 = (if kcRole choice = ''assistant'' \<and> \<not> snStarted (fst s0)
                then push requestID sequence ''response_start'' (\<lambda>e. e) ((fst s0)\<lparr>snStarted := True\<rparr>, snd s0) else s0);
          s2 = (case kcContent choice of
                  None \<Rightarrow> s1
                | Some text \<Rightarrow> push requestID sequence ''text_delta'' (\<lambda>e. e\<lparr>seText := Some text\<rparr>) s1);
          s3 = fold (chatCall requestID sequence) (kcToolCalls choice) s2
      in (case kcFinishReason choice of
            None \<Rightarrow> s3
          | Some reason \<Rightarrow>
              (let s4 = push requestID sequence ''response_end'' (\<lambda>e. e\<lparr>seFinishReason := Some (mapFinish reason)\<rparr>) s3
               in ((fst s4)\<lparr>snTerminal := True\<rparr>, snd s4))))"

definition usage_of :: "int \<times> int \<Rightarrow> Usage" where
  "usage_of p = \<lparr>usInputTokens = fst p, usOutputTokens = snd p\<rparr>"

definition normalizeChatChunk :: "string \<Rightarrow> int \<Rightarrow> chatChunk \<Rightarrow> streamNormalizer \<Rightarrow> normalizing" where
  "normalizeChatChunk requestID sequence chunk n =
     (case kkError chunk of
        Some (message, code) \<Rightarrow>
          push requestID sequence ''error'' (\<lambda>e. e\<lparr>seError := Some (normalizeStreamFailure code)\<rparr>) (n, [])
      | None \<Rightarrow>
          (let s = fold (chatChoiceEvents requestID sequence) (kkChoices chunk) (n, []) in
           case kkUsage chunk of
             None \<Rightarrow> s
           | Some p \<Rightarrow> push requestID sequence ''usage'' (\<lambda>e. e\<lparr>seUsage := Some (usage_of p)\<rparr>) s))"

section \<open>Responses events\<close>

record eventResponse =
  erUsage :: "(int \<times> int) option"
  erStatus :: string
  erError :: "(string \<times> string) option"

record responsesEvent =
  rvType :: string
  rvDelta :: string
  rvText :: string
  rvItemID :: string
  rvItem :: string
  rvOutputIndex :: "int option"
  rvResponse :: "eventResponse option"
  rvError :: "(string \<times> string) option"

definition dResponsesEvent :: "responsesEvent decoder" where
  "dResponsesEvent = dStruct False
     [(''type'', fld dString rvType rvType_update), (''delta'', fld dString rvDelta rvDelta_update),
      (''text'', fld dString rvText rvText_update), (''item_id'', fld dString rvItemID rvItemID_update),
      (''item'', fld dRaw rvItem rvItem_update), (''output_index'', fld (dPtr dInt 0) rvOutputIndex rvOutputIndex_update),
      (''response'', fld (dPtr (dStruct False
         [(''usage'', fld (dUsage ''input_tokens'' ''output_tokens'') erUsage erUsage_update),
          (''status'', fld dString erStatus erStatus_update), (''error'', fld dFailure erError erError_update)])
         \<lparr>erUsage = None, erStatus = '''', erError = None\<rparr>) rvResponse rvResponse_update),
      (''error'', fld dFailure rvError rvError_update)]"

definition zero_responsesEvent :: responsesEvent where
  "zero_responsesEvent = \<lparr>rvType = '''', rvDelta = '''', rvText = '''', rvItemID = '''', rvItem = '''', rvOutputIndex = None,
     rvResponse = None, rvError = None\<rparr>"

record eventItem =
  eiType :: string
  eiID :: string
  eiCallID :: string
  eiName :: string

definition eventItemOf :: "string \<Rightarrow> eventItem option" where
  "eventItemOf raw =
     (if length raw = 0 then None
      else unmarshal (dStruct False
        [(''type'', fld dString eiType eiType_update), (''id'', fld dString eiID eiID_update),
         (''call_id'', fld dString eiCallID eiCallID_update), (''name'', fld dString eiName eiName_update)])
        \<lparr>eiType = '''', eiID = '''', eiCallID = '''', eiName = ''''\<rparr> raw)"

text \<open>The header a finished item is recognised by.\<close>

definition itemHeaderOf :: "string \<Rightarrow> (string \<times> string) option" where
  "itemHeaderOf raw =
     (if length raw = 0 then None
      else unmarshal (dStruct False [(''type'', fld dString fst apfst), (''id'', fld dString snd apsnd)]) ('''', '''') raw)"

type_synonym normalized = "(stream_error + NormalizedStreamEvent list) \<times> streamNormalizer"

definition one_event :: "normalizing \<Rightarrow> normalized" where
  "one_event s = (Inr (snd s), fst s)"

text \<open>A reasoning item: remembered under its identifier, and queued for the client.\<close>

definition recordReasoning :: "string \<Rightarrow> string \<Rightarrow> int \<Rightarrow> string \<Rightarrow> streamNormalizer \<Rightarrow> streamNormalizer" where
  "recordReasoning kind itemID index raw n =
     (let n1 = (if map_of (snReasoningItems n) itemID = None
                then n\<lparr>snReasoningOrder := snReasoningOrder n @ [itemID]\<rparr> else n)
      in n1\<lparr>snReasoningItems := map_set itemID \<lparr>roRaw = raw, roIndex = index\<rparr> (snReasoningItems n1),
            snPendingReasoning := snPendingReasoning n1 @ [\<lparr>rnKind = kind, rnIndex = index, rnItem = raw\<rparr>]\<rparr>)"

definition itemAdded :: "string \<Rightarrow> int \<Rightarrow> responsesEvent \<Rightarrow> streamNormalizer \<Rightarrow> normalized" where
  "itemAdded requestID sequence ev n =
     (case rvOutputIndex ev of
        None \<Rightarrow> (Inl (stream_failure ''Responses output item omitted output_index''), n)
      | Some index \<Rightarrow> (case eventItemOf (rvItem ev) of
          None \<Rightarrow> (Inl (stream_failure ''invalid Responses output item''), n)
        | Some item \<Rightarrow>
            if eiType item = ''reasoning'' then
              (if eiID item = '''' then (Inl (stream_failure ''reasoning output item omitted id''), n)
               else (Inr [], recordReasoning ''response.output_item.added'' (eiID item) index (rvItem ev) n))
            else if eiType item \<noteq> ''function_call'' then (Inr [], n)
            else (let n1 = n\<lparr>snSawFunctionCall := True\<rparr>;
                      callID = (if eiCallID item = '''' then eiID item else eiCallID item) in
              if callID = '''' \<or> eiName item = '''' then (Inl (stream_failure ''invalid Responses function-call start''), n1)
              else (let n2 = n1\<lparr>snToolOutputIndexes := map_set callID index (snToolOutputIndexes n1)\<rparr>;
                        n3 = (if eiID item \<noteq> '''' then n2\<lparr>snResponseCallIDs := map_set (eiID item) callID (snResponseCallIDs n2)\<rparr> else n2)
                    in one_event (push requestID sequence ''tool_call_start''
                         (\<lambda>e. e\<lparr>seCallID := Some callID, seToolName := Some (eiName item)\<rparr>) (n3, []))))))"

definition itemDone :: "responsesEvent \<Rightarrow> streamNormalizer \<Rightarrow> normalized" where
  "itemDone ev n =
     (case itemHeaderOf (rvItem ev) of
        None \<Rightarrow> (Inr [], n)
      | Some (kind, itemID) \<Rightarrow>
          if kind = ''reasoning'' \<and> itemID \<noteq> '''' then
            (case rvOutputIndex ev of
               None \<Rightarrow> (Inl (stream_failure ''reasoning done event omitted output_index''), n)
             | Some index \<Rightarrow>
                 (let n1 = recordReasoning ''response.output_item.done'' itemID index (rvItem ev) n in
                  (Inr [], n1\<lparr>snReasoningDone := itemID # snReasoningDone n1\<rparr>)))
          else (Inr [], n))"

definition responseEnded :: "string \<Rightarrow> string \<Rightarrow> int \<Rightarrow> string \<Rightarrow> responsesEvent \<Rightarrow> streamNormalizer \<Rightarrow> normalized" where
  "responseEnded what requestID sequence finish ev n =
     (case rvResponse ev of
        None \<Rightarrow> (Inl (stream_failure (what @ '' Responses event omitted response'')), n)
      | Some response \<Rightarrow> (case erUsage response of
          None \<Rightarrow> (Inl (stream_failure (what @ '' Responses event omitted usage'')), n)
        | Some p \<Rightarrow>
            one_event (push requestID sequence ''response_end'' (\<lambda>e. e\<lparr>seFinishReason := Some finish\<rparr>)
              (push requestID sequence ''usage'' (\<lambda>e. e\<lparr>seUsage := Some (usage_of p)\<rparr>) (n\<lparr>snTerminal := True\<rparr>, [])))))"

definition failureCode :: "responsesEvent \<Rightarrow> string" where
  "failureCode ev =
     (let code = (case rvError ev of None \<Rightarrow> '''' | Some (message, c) \<Rightarrow> c) in
      if code \<noteq> '''' then code
      else (case rvResponse ev of
          None \<Rightarrow> ''''
        | Some response \<Rightarrow> (case erError response of None \<Rightarrow> '''' | Some (message, c) \<Rightarrow> c)))"

definition normalizeResponsesEvent :: "string \<Rightarrow> int \<Rightarrow> responsesEvent \<Rightarrow> streamNormalizer \<Rightarrow> normalized" where
  "normalizeResponsesEvent requestID sequence ev n =
     (if rvType ev = ''response.created'' \<or> rvType ev = ''response.in_progress'' then
        (if snStarted n then (Inr [], n)
         else one_event (push requestID sequence ''response_start'' (\<lambda>e. e) (n\<lparr>snStarted := True\<rparr>, [])))
      else if rvType ev = ''response.output_text.delta'' then
        (case rvOutputIndex ev of
           None \<Rightarrow> (Inl (stream_failure ''Responses text delta omitted output_index''), n)
         | Some index \<Rightarrow> one_event (push requestID sequence ''text_delta'' (\<lambda>e. e\<lparr>seText := Some (rvDelta ev)\<rparr>)
             (n\<lparr>snTextOutputIndex := index\<rparr>, [])))
      else if rvType ev = ''response.output_item.added'' then itemAdded requestID sequence ev n
      else if rvType ev = ''response.function_call_arguments.delta'' then
        (let known = lookup_or '''' (snResponseCallIDs n) (rvItemID ev); callID = (if known = '''' then rvItemID ev else known) in
         if callID = '''' then (Inl (stream_failure ''invalid Responses function-call delta''), n)
         else one_event (push requestID sequence ''tool_arguments_delta''
                (\<lambda>e. e\<lparr>seCallID := Some callID, seArgumentsDelta := Some (rvDelta ev)\<rparr>) (n, [])))
      else if rvType ev = ''response.output_item.done'' then itemDone ev n
      else if rvType ev = ''response.completed'' then
        responseEnded ''completed'' requestID sequence (if snSawFunctionCall n then ''tool_call'' else ''stop'') ev n
      else if rvType ev = ''response.incomplete'' then responseEnded ''incomplete'' requestID sequence ''length'' ev n
      else if rvType ev = ''response.failed'' \<or> rvType ev = ''error'' then
        one_event (push requestID sequence ''error'' (\<lambda>e. e\<lparr>seError := Some (normalizeStreamFailure (failureCode ev))\<rparr>) (n, []))
      else (Inr [], n))"

definition normalize :: "Protocol \<Rightarrow> string \<Rightarrow> int \<Rightarrow> string \<Rightarrow> streamNormalizer \<Rightarrow> normalized" where
  "normalize protocol requestID sequence payload n =
     (if protocol = ProtocolOpenAIChat then
        (case unmarshal dChatChunk \<lparr>kkError = None, kkChoices = [], kkUsage = None\<rparr> payload of
           None \<Rightarrow> (Inl (stream_failure ''json.Unmarshal''), n)
         | Some chunk \<Rightarrow> one_event (normalizeChatChunk requestID sequence chunk n))
      else (case unmarshal dResponsesEvent zero_responsesEvent payload of
           None \<Rightarrow> (Inl (stream_failure ''json.Unmarshal''), n)
         | Some ev \<Rightarrow> normalizeResponsesEvent requestID sequence ev n))"

section \<open>Reading lines\<close>

text \<open>
  \<open>scanner.Scan\<close>: a line, or the end with \<open>scanner.Err\<close> (none at the end of the input).
\<close>

datatype scanned = Line string | Ended "stream_error option"

definition maxStreamBytes :: int where
  "maxStreamBytes = 32 * 1024 * 1024"

definition maxStreamEvents :: int where
  "maxStreamEvents = 100000"

datatype batch = Batch "NormalizedStreamEvent list" "reasoningEmission list" | Done | Failed stream_error

text \<open>One line of the loop of \<open>nextStreamEvents\<close>: what it returns, or that it goes on.\<close>

definition nextLine :: "Protocol \<Rightarrow> string \<Rightarrow> string \<Rightarrow> streamNormalizer \<Rightarrow> batch option \<times> streamNormalizer" where
  "nextLine protocol requestID line n =
     (let n1 = n\<lparr>snTotalBytes := snTotalBytes n + int (length line) + 1\<rparr> in
      if snTotalBytes n1 > maxStreamBytes then (Some (Failed (stream_failure ''upstream stream exceeds the byte limit'')), n1)
      else if \<not> hasPrefix line ''data:'' then (None, n1)
      else (let n2 = n1\<lparr>snWireEvents := snWireEvents n1 + 1\<rparr>; payload = trimSpace (drop 5 line) in
        if snWireEvents n2 > maxStreamEvents then (Some (Failed (stream_failure ''upstream stream exceeds the event limit'')), n2)
        else if payload = ''[DONE]'' then (Some Done, n2)
        else (case normalize protocol requestID (snSequence n2) payload n2 of
            (Inl e, n3) \<Rightarrow> (Some (Failed e), n3)
          | (Inr events, n3) \<Rightarrow>
              (let (reasoning, n4) = drainReasoning n3 in
               if length events > 0 \<or> length reasoning > 0
               then (Some (Batch events reasoning),
                     if length events > 0 then n4\<lparr>snSequence := seSequence (last events) + 1\<rparr> else n4)
               else (None, n4)))))"

lemma push_simps [simp]: "fst (push r q k f s) = fst s" "snd (push r q k f s) = snd s @ [f (event r (q + int (length (snd s))) k)]"
  by (cases s, simp add: push_def)+

named_theorems counts \<open>how operations leave the counters of the normaliser\<close>

definition same_counts :: "streamNormalizer \<Rightarrow> streamNormalizer \<Rightarrow> bool" where
  "same_counts m n \<longleftrightarrow> snTotalBytes m = snTotalBytes n \<and> snWireEvents m = snWireEvents n \<and> snSequence m = snSequence n"

lemma same_counts_refl [simp]: "same_counts n n"
  by (simp add: same_counts_def)

lemma same_counts_trans [trans]: "same_counts l m \<Longrightarrow> same_counts m n \<Longrightarrow> same_counts l n"
  by (simp add: same_counts_def)

lemma chatCall_counts [counts]: "same_counts (fst (chatCall r q call s)) (fst s)"
  by (cases s) (simp add: chatCall_def Let_def same_counts_def)

lemma fold_counts:
  assumes "\<And>x s. x \<in> set xs \<Longrightarrow> same_counts (fst (f x s)) (fst s)"
  shows "same_counts (fst (fold f xs s)) (fst s)"
  using assms
proof (induction xs arbitrary: s)
  case (Cons x xs)
  have "same_counts (fst (fold f xs (f x s))) (fst (f x s))" by (rule Cons.IH) (simp add: Cons.prems)
  then show ?case using Cons.prems [of x s] same_counts_trans by fastforce
qed simp

lemma chatChoiceEvents_counts [counts]: "same_counts (fst (chatChoiceEvents r q choice s)) (fst s)"
proof -
  define s1 where "s1 = (if kcRole choice = ''assistant'' \<and> \<not> snStarted (fst s)
      then push r q ''response_start'' (\<lambda>e. e) ((fst s)\<lparr>snStarted := True\<rparr>, snd s) else s)"
  define s2 where "s2 = (case kcContent choice of None \<Rightarrow> s1
      | Some text \<Rightarrow> push r q ''text_delta'' (\<lambda>e. e\<lparr>seText := Some text\<rparr>) s1)"
  have "same_counts (fst s1) (fst s)" by (simp add: s1_def same_counts_def)
  then have "same_counts (fst s2) (fst s)" by (simp add: s2_def split: option.splits)
  moreover have "same_counts (fst (fold (chatCall r q) (kcToolCalls choice) s2)) (fst s2)"
    by (rule fold_counts) (rule chatCall_counts)
  ultimately have "same_counts (fst (fold (chatCall r q) (kcToolCalls choice) s2)) (fst s)" by (rule same_counts_trans [rotated])
  then show ?thesis
    unfolding chatChoiceEvents_def Let_def s1_def [symmetric] s2_def [symmetric]
    by (auto simp: same_counts_def split: option.splits)
qed

lemma normalizeChatChunk_counts [counts]: "same_counts (fst (normalizeChatChunk r q chunk n)) n"
proof -
  have "same_counts (fst (fold (chatChoiceEvents r q) (kkChoices chunk) (n, []))) n"
    using fold_counts [of "kkChoices chunk" "chatChoiceEvents r q" "(n, [])"] by (simp add: counts)
  then show ?thesis by (simp add: normalizeChatChunk_def Let_def split: option.splits prod.splits)
qed

lemma recordReasoning_counts [counts]: "same_counts (recordReasoning kind i index raw n) n"
  by (simp add: recordReasoning_def Let_def same_counts_def)

lemma normalizeResponsesEvent_counts [counts]: "same_counts (snd (normalizeResponsesEvent r q ev n)) n"
proof -
  have "same_counts (snd (itemAdded r q ev n)) n"
    using recordReasoning_counts [of "''response.output_item.added''" _ _ _ n]
    by (simp add: itemAdded_def one_event_def Let_def split: option.splits) (simp add: same_counts_def)
  moreover have "same_counts (snd (itemDone ev n)) n"
    using recordReasoning_counts [of "''response.output_item.done''" _ _ _ n]
    by (simp add: itemDone_def Let_def same_counts_def split: option.splits)
  moreover have "same_counts (snd (responseEnded what r q finish ev n)) n" for what finish
    by (simp add: responseEnded_def one_event_def same_counts_def split: option.splits)
  ultimately show ?thesis
    by (simp add: normalizeResponsesEvent_def one_event_def Let_def split: option.splits) (simp add: same_counts_def)
qed

lemma normalize_counts [counts]: "same_counts (snd (normalize protocol r q payload n)) n"
  by (simp add: normalize_def one_event_def counts split: option.splits)


lemma nextLine_bytes:
  assumes "nextLine protocol r line n = (b, n')"
  shows "snTotalBytes n' = snTotalBytes n + int (length line) + 1"
    and "b = None \<or> (\<exists>events reasoning. b = Some (Batch events reasoning)) \<Longrightarrow> snTotalBytes n' \<le> maxStreamBytes"
proof -
  define n1 where "n1 = n\<lparr>snTotalBytes := snTotalBytes n + int (length line) + 1\<rparr>"
  define n2 where "n2 = n1\<lparr>snWireEvents := snWireEvents n1 + 1\<rparr>"
  have counts: "snTotalBytes (snd (normalize protocol r (snSequence n2) p n2)) = snTotalBytes n1" for p
    using normalize_counts [of protocol r "snSequence n2" p n2] by (simp add: same_counts_def n2_def)
  note step = assms [unfolded nextLine_def Let_def, folded n1_def, folded n2_def]
  show "snTotalBytes n' = snTotalBytes n + int (length line) + 1"
    using step counts [of "trimSpace (drop 5 line)"] by (auto simp: n1_def n2_def drainReasoning_def split: if_splits prod.splits sum.splits)
  show "snTotalBytes n' \<le> maxStreamBytes" if "b = None \<or> (\<exists>events reasoning. b = Some (Batch events reasoning))"
    using step counts [of "trimSpace (drop 5 line)"] that
    by (auto simp: n2_def drainReasoning_def split: if_splits prod.splits sum.splits)
qed

lemma nextLine_goes_on:
  "nextLine protocol r line n = (None, n1) \<Longrightarrow> nat (maxStreamBytes - snTotalBytes n1) < nat (maxStreamBytes - snTotalBytes n)"
  using nextLine_bytes [of protocol r line n None n1] by auto

text \<open>
  The loop.  It ends whatever the destination sends: every line adds to the count of bytes, and
  the count has a limit.
\<close>

function nextStreamEvents ::
    "('x \<Rightarrow> scanned \<times> 'x) \<Rightarrow> Protocol \<Rightarrow> string \<Rightarrow> streamNormalizer \<Rightarrow> 'x \<Rightarrow> batch \<times> streamNormalizer \<times> 'x" where
  "nextStreamEvents scan protocol requestID n x =
     (case scan x of
        (Ended (Some e), x1) \<Rightarrow> (Failed e, n, x1)
      | (Ended None, x1) \<Rightarrow>
          (if snTerminal n then Done else Failed (stream_failure ''unexpected EOF''), n, x1)
      | (Line line, x1) \<Rightarrow>
          (case nextLine protocol requestID line n of
             (Some b, n1) \<Rightarrow> (b, n1, x1)
           | (None, n1) \<Rightarrow> nextStreamEvents scan protocol requestID n1 x1))"
  by pat_completeness auto
termination
  by (relation "measure (\<lambda>(scan, protocol, r, n, x). nat (maxStreamBytes - snTotalBytes n))")
    (auto dest!: nextLine_goes_on [OF sym])

declare nextStreamEvents.simps [simp del]

lemma nextStreamEvents_batch:
  assumes "nextStreamEvents scan protocol r n x = (Batch events reasoning, n', x')"
  shows "snTotalBytes n < snTotalBytes n'" and "snTotalBytes n' \<le> maxStreamBytes"
    and "events \<noteq> [] \<or> reasoning \<noteq> []"
  using assms
proof (atomize (full), induction scan protocol r n x rule: nextStreamEvents.induct)
  case (1 scan protocol r n x)
  obtain y x1 where scan: "scan x = (y, x1)" by (metis prod.exhaust)
  show ?case
  proof (cases y)
    case (Line line)
    obtain b n1 where line: "nextLine protocol r line n = (b, n1)" by (metis prod.exhaust)
    note bytes = nextLine_bytes [OF line]
    show ?thesis
    proof (cases b)
      case None
      with bytes "1.prems" "1.IH" [OF scan [symmetric] Line line [symmetric] None] show ?thesis
        by (simp add: nextStreamEvents.simps [of scan protocol r n x] scan Line line)
    next
      case (Some b')
      have "b' = Batch events reasoning \<longrightarrow> events \<noteq> [] \<or> reasoning \<noteq> []"
        using line Some by (auto simp: nextLine_def Let_def split: if_splits prod.splits sum.splits)
      with bytes Some "1.prems" show ?thesis
        by (auto simp: nextStreamEvents.simps [of scan protocol r n x] scan Line line)
    qed
  next
    case (Ended e)
    then show ?thesis
      using "1.prems" by (cases e) (auto simp: nextStreamEvents.simps [of scan protocol r n x] scan split: if_splits)
  qed
qed

section \<open>The first events\<close>

definition index_out_of_range :: go_error where
  "index_out_of_range = PlainErr [Other ''panic: index out of range'']"

text \<open>
  What \<open>prepareStream\<close> leaves in its result: the normaliser and the events it read ahead.
  (\<open>nextStreamEvents\<close> never returns an empty batch, so the loop has one round.)  The access
  \<open>events[0]\<close> to an empty slice, a panic in Go, is the error \<open>index_out_of_range\<close>.
\<close>

record prepared =
  ppNormalizer :: streamNormalizer
  ppBuffered :: "NormalizedStreamEvent list"
  ppBufferedReasoning :: "reasoningEmission list"

definition prepareStream ::
    "('x \<Rightarrow> scanned \<times> 'x) \<Rightarrow> Route \<Rightarrow> NormalizedRequest \<Rightarrow> 'x \<Rightarrow> (go_error + prepared) \<times> 'x" where
  "prepareStream scan route request x =
     (case nextStreamEvents scan (rtDestinationProtocol route) (nrLogicalRequestID request) newNormalizer x of
        (Failed e, n, x1) \<Rightarrow> (Inl (ApiErr (streamAPIError e)), x1)
      | (Done, n, x1) \<Rightarrow> (Inl (ApiErr \<lparr>aeCode = ''connection_failure'',
          aeMessage = ''upstream ended before the first usable event'', aeStatus = 502, aeRetryable = True,
          aeReason = ''connection_failure'', aeCause = []\<rparr>), x1)
      | (Batch events reasoning, n, x1) \<Rightarrow>
          (case events of
             [] \<Rightarrow> (Inl index_out_of_range, x1)
           | e # es \<Rightarrow>
               if seType e = ''error'' then
                 (Inl (case seError e of None \<Rightarrow> ApiErr (safeError ''upstream_5xx'' ''upstream stream failed'' 502 False)
                       | Some failure \<Rightarrow> ApiErr (reportedError failure)), x1)
               else (Inr \<lparr>ppNormalizer = n, ppBuffered = events, ppBufferedReasoning = reasoning\<rparr>, x1)))"


section \<open>What the errors of a stream are\<close>

text \<open>No error of the normaliser carries a context error.\<close>

definition uncancelled :: "normalized \<Rightarrow> bool" where
  "uncancelled res \<longleftrightarrow> (case fst res of Inl e \<Rightarrow> snd e = None | Inr events \<Rightarrow> True)"

lemma uncancelled_simps [simp]:
  "uncancelled (Inr events, n)" "uncancelled (Inl (stream_failure message), n)" "uncancelled (one_event s)"
  by (simp_all add: uncancelled_def stream_failure_def one_event_def)

lemma itemAdded_uncancelled: "uncancelled (itemAdded r q ev n)"
  by (simp add: itemAdded_def Let_def split: option.split)

lemma itemDone_uncancelled: "uncancelled (itemDone ev n)"
  by (simp add: itemDone_def Let_def split: option.split prod.split)

lemma responseEnded_uncancelled: "uncancelled (responseEnded what r q finish ev n)"
  by (simp add: responseEnded_def Let_def split: option.split)

lemma normalizeResponsesEvent_uncancelled: "uncancelled (normalizeResponsesEvent r q ev n)"
  by (simp add: normalizeResponsesEvent_def Let_def itemAdded_uncancelled itemDone_uncancelled responseEnded_uncancelled
      split: option.split)

lemma normalize_error: "normalize protocol r q payload n = (Inl e, n') \<Longrightarrow> snd e = None"
proof -
  have "uncancelled (normalize protocol r q payload n)"
    by (simp add: normalize_def normalizeResponsesEvent_uncancelled split: option.split)
  then show "normalize protocol r q payload n = (Inl e, n') \<Longrightarrow> snd e = None" by (simp add: uncancelled_def)
qed

lemma nextLine_failed: "nextLine protocol r line n = (Some (Failed e), n') \<Longrightarrow> snd e = None"
  by (auto simp: nextLine_def Let_def stream_failure_def dest!: normalize_error split: if_splits prod.splits sum.splits)

lemma nextStreamEvents_failed:
  assumes "nextStreamEvents scan protocol r n x = (Failed e, n', x')"
  shows "snd e = None \<or> (\<exists>y x1. scan y = (Ended (Some e), x1))"
  using assms
proof (induction scan protocol r n x rule: nextStreamEvents.induct)
  case (1 scan protocol r n x)
  obtain y x1 where scan: "scan x = (y, x1)" by (metis prod.exhaust)
  show ?case
  proof (cases y)
    case (Line line)
    obtain b n1 where line: "nextLine protocol r line n = (b, n1)" by (metis prod.exhaust)
    show ?thesis
    proof (cases b)
      case None
      with "1.prems" "1.IH" [OF scan [symmetric] Line line [symmetric] None] show ?thesis
        by (simp add: nextStreamEvents.simps [of scan protocol r n x] scan Line line)
    next
      case (Some b')
      with "1.prems" nextLine_failed [of protocol r line n e n1] line show ?thesis
        by (auto simp: nextStreamEvents.simps [of scan protocol r n x] scan Line)
    qed
  next
    case (Ended e')
    then show ?thesis
      using "1.prems" scan
      by (cases e') (auto simp: nextStreamEvents.simps [of scan protocol r n x] stream_failure_def split: if_splits)
  qed
qed

section \<open>The shape of the events\<close>

definition well_shaped :: "string \<Rightarrow> NormalizedStreamEvent \<Rightarrow> bool" where
  "well_shaped r e \<longleftrightarrow> seLogicalRequestID e = r \<and> validStreamType (seType e) \<and> stream_union e = [] \<and>
     (\<forall>f. seError e = Some f \<longrightarrow> (\<exists>code. f = normalizeStreamFailure code)) \<and> (\<forall>f. seFinishReason e = Some f \<longrightarrow> validFinish f)"

definition numbered :: "int \<Rightarrow> NormalizedStreamEvent list \<Rightarrow> bool" where
  "numbered q es \<longleftrightarrow> map seSequence es = map (\<lambda>i. q + int i) [0..<length es]"

definition good :: "string \<Rightarrow> int \<Rightarrow> normalizing \<Rightarrow> bool" where
  "good r q s \<longleftrightarrow> list_all (well_shaped r) (snd s) \<and> numbered q (snd s)"

lemma good_Nil [simp]: "good r q (n, [])"
  by (simp add: good_def numbered_def)

lemma good_push:
  "good r q s \<Longrightarrow> (\<And>i. well_shaped r (f (event r i k)) \<and> seSequence (f (event r i k)) = i) \<Longrightarrow> good r q (push r q k f s)"
  by (simp add: good_def numbered_def)

lemma good_state: "good r q (n, out) \<longleftrightarrow> good r q (m, out)"
  by (simp add: good_def)

lemma shapes:
  "well_shaped r (event r i ''response_start'')"
  "well_shaped r (event r i ''text_delta''\<lparr>seText := Some text\<rparr>)"
  "well_shaped r (event r i ''tool_call_start''\<lparr>seCallID := Some callID, seToolName := Some name\<rparr>)"
  "well_shaped r (event r i ''tool_arguments_delta''\<lparr>seCallID := Some callID, seArgumentsDelta := Some delta\<rparr>)"
  "well_shaped r (event r i ''usage''\<lparr>seUsage := Some usage\<rparr>)"
  "validFinish finish \<Longrightarrow> well_shaped r (event r i ''response_end''\<lparr>seFinishReason := Some finish\<rparr>)"
  "well_shaped r (event r i ''error''\<lparr>seError := Some (normalizeStreamFailure code)\<rparr>)"
  by (auto simp: well_shaped_def event_def stream_union_def validStreamType_def)

lemma sequence_event [simp]: "seSequence (event r i k) = i"
  by (simp add: event_def)

lemma validFinish_mapFinish [simp]: "validFinish (mapFinish reason)"
  by (simp add: mapFinish_def validFinish_def)

lemma good_chatCall: "good r q s \<Longrightarrow> good r q (chatCall r q call s)"
proof -
  assume good: "good r q s"
  obtain n out where s: "s = (n, out)" by (metis prod.exhaust)
  have out: "good r q (m, out)" for m using good good_state s by blast
  show ?thesis
    unfolding chatCall_def s prod.case Let_def
    by (auto intro!: good_push out shapes)
qed

lemma good_fold: "good r q s \<Longrightarrow> (\<And>x s. good r q s \<Longrightarrow> good r q (f x s)) \<Longrightarrow> good r q (fold f xs s)"
  by (induction xs arbitrary: s) auto

lemma good_chatChoiceEvents: "good r q s \<Longrightarrow> good r q (chatChoiceEvents r q choice s)"
proof -
  assume good: "good r q s"
  have out: "good r q (m, snd s)" for m using good by (simp add: good_def)
  define s1 where "s1 = (if kcRole choice = ''assistant'' \<and> \<not> snStarted (fst s)
      then push r q ''response_start'' (\<lambda>e. e) ((fst s)\<lparr>snStarted := True\<rparr>, snd s) else s)"
  define s2 where "s2 = (case kcContent choice of None \<Rightarrow> s1
      | Some text \<Rightarrow> push r q ''text_delta'' (\<lambda>e. e\<lparr>seText := Some text\<rparr>) s1)"
  define s3 where "s3 = fold (chatCall r q) (kcToolCalls choice) s2"
  have "good r q s1" using good out by (auto simp: s1_def intro!: good_push shapes)
  then have "good r q s2" by (auto simp: s2_def intro!: good_push shapes split: option.splits)
  then have s3: "good r q s3" unfolding s3_def by (rule good_fold) (rule good_chatCall)
  have "good r q (push r q ''response_end'' (\<lambda>e. e\<lparr>seFinishReason := Some (mapFinish reason)\<rparr>) s3)" for reason
    by (rule good_push [OF s3]) (simp add: shapes)
  then show ?thesis
    using s3 unfolding chatChoiceEvents_def Let_def s1_def [symmetric] s2_def [symmetric] s3_def [symmetric]
    by (auto simp: good_def split: option.splits)
qed

lemma good_normalizeChatChunk: "good r q (normalizeChatChunk r q chunk n)"
proof -
  have "good r q (fold (chatChoiceEvents r q) (kkChoices chunk) (n, []))"
    by (rule good_fold [OF good_Nil]) (rule good_chatChoiceEvents)
  then show ?thesis
    by (auto simp: normalizeChatChunk_def Let_def intro!: good_push shapes split: option.splits prod.splits)
qed

definition good_events :: "string \<Rightarrow> int \<Rightarrow> NormalizedStreamEvent list \<Rightarrow> bool" where
  "good_events r q events \<longleftrightarrow> list_all (well_shaped r) events \<and> numbered q events"

lemma good_Nil_events [simp]: "good_events r q []"
  by (simp add: good_events_def numbered_def)

lemma good_normalizeResponsesEvent: "fst (normalizeResponsesEvent r q ev n) = Inr events \<Longrightarrow> good_events r q events"
proof -
  have added: "fst (itemAdded r q ev n) = Inr events \<Longrightarrow> good_events r q events"
    by (auto simp: itemAdded_def one_event_def Let_def good_events_def numbered_def shapes split: option.splits if_splits)
  have done1: "fst (itemDone ev n) = Inr events \<Longrightarrow> good_events r q events"
    by (auto simp: itemDone_def Let_def split: option.splits if_splits prod.splits)
  have ended: "fst (responseEnded what r q finish ev n) = Inr events \<Longrightarrow> validFinish finish \<Longrightarrow> good_events r q events" for what finish
    by (auto simp: responseEnded_def one_event_def good_events_def numbered_def shapes split: option.splits)
  assume "fst (normalizeResponsesEvent r q ev n) = Inr events"
  then show ?thesis
    using added done1 ended
    by (auto simp: normalizeResponsesEvent_def one_event_def Let_def good_events_def numbered_def shapes validFinish_def
        split: option.splits if_splits)
qed

lemma good_normalize: "fst (normalize protocol r q payload n) = Inr events \<Longrightarrow> good_events r q events"
  using good_normalizeChatChunk [of r q _ n] good_normalizeResponsesEvent [of r q _ n events]
  by (auto simp: normalize_def one_event_def good_def good_events_def split: option.splits if_splits)

lemma last_numbered: "numbered q es \<Longrightarrow> es \<noteq> [] \<Longrightarrow> seSequence (last es) = q + int (length es) - 1"
proof -
  assume n: "numbered q es" and "es \<noteq> []"
  then obtain xs x where es: "es = xs @ [x]" by (metis rev_exhaust)
  from n show ?thesis by (simp add: numbered_def es)
qed

lemma nextLine_good:
  assumes "nextLine protocol r line n = (b, n')"
  shows "b = Some (Batch events reasoning) \<Longrightarrow> good_events r (snSequence n) events \<and> snSequence n' = snSequence n + int (length events)"
    and "b = None \<Longrightarrow> snSequence n' = snSequence n"
proof -
  define n1 where "n1 = n\<lparr>snTotalBytes := snTotalBytes n + int (length line) + 1\<rparr>"
  define n2 where "n2 = n1\<lparr>snWireEvents := snWireEvents n1 + 1\<rparr>"
  obtain res n3 where norm: "normalize protocol r (snSequence n2) (trimSpace (drop 5 line)) n2 = (res, n3)" by (metis prod.exhaust)
  have seq: "snSequence n3 = snSequence n"
    using normalize_counts [of protocol r "snSequence n2" "trimSpace (drop 5 line)" n2] norm by (simp add: same_counts_def n2_def n1_def)
  have good: "good_events r (snSequence n) evs" if "res = Inr evs" for evs
    using good_normalize [of protocol r "snSequence n2" "trimSpace (drop 5 line)" n2 evs] norm that by (simp add: n2_def n1_def)
  note step = assms [unfolded nextLine_def Let_def, folded n1_def, folded n2_def, unfolded norm]
  show "good_events r (snSequence n) events \<and> snSequence n' = snSequence n + int (length events)" if "b = Some (Batch events reasoning)"
    using step that seq good last_numbered [of "snSequence n"]
    by (auto simp: drainReasoning_def good_events_def split: if_splits sum.splits)
  show "snSequence n' = snSequence n" if "b = None"
    using step that seq by (auto simp: drainReasoning_def n1_def split: if_splits sum.splits)
qed

lemma nextStreamEvents_good:
  assumes "nextStreamEvents scan protocol r n x = (Batch events reasoning, n', x')"
  shows "good_events r (snSequence n) events \<and> snSequence n' = snSequence n + int (length events)"
  using assms
proof (induction scan protocol r n x rule: nextStreamEvents.induct)
  case (1 scan protocol r n x)
  obtain y x1 where scan: "scan x = (y, x1)" by (metis prod.exhaust)
  show ?case
  proof (cases y)
    case (Line line)
    obtain b n1 where line: "nextLine protocol r line n = (b, n1)" by (metis prod.exhaust)
    show ?thesis
    proof (cases b)
      case None
      with "1.prems" "1.IH" [OF scan [symmetric] Line line [symmetric] None] nextLine_good(2) [OF line None] show ?thesis
        by (simp add: nextStreamEvents.simps [of scan protocol r n x] scan Line line)
    next
      case (Some b')
      then have "b = Some (Batch events reasoning)" "n1 = n'"
        using "1.prems" by (auto simp: nextStreamEvents.simps [of scan protocol r n x] scan Line line)
      then show ?thesis using nextLine_good(1) [OF line] by blast
    qed
  next
    case (Ended e)
    then show ?thesis
      using "1.prems" by (cases e) (auto simp: nextStreamEvents.simps [of scan protocol r n x] scan split: if_splits)
  qed
qed

lemma normalizeStreamFailure_code: "neCode (normalizeStreamFailure code) \<noteq> ''cancelled''"
  by (simp add: normalizeStreamFailure_def Let_def)

lemma nextStreamEvents_errors:
  assumes "nextStreamEvents scan protocol r n x = (Batch events reasoning, n', x')" and "e \<in> set events" and "seError e = Some failure"
  shows "neCode failure \<noteq> ''cancelled''"
proof -
  have "well_shaped r e"
    using nextStreamEvents_good [OF assms(1)] assms(2) by (simp add: good_events_def list_all_iff)
  then obtain code where "failure = normalizeStreamFailure code" using assms(3) by (auto simp: well_shaped_def)
  then show ?thesis using normalizeStreamFailure_code [of code] by blast
qed

section \<open>Streams that begin with reasoning\<close>

text \<open>
  A Responses destination whose first event announces a reasoning item: the batch has no events, and
  the access to the first one panics.
\<close>

lemma reasoning_first_panics:
  assumes "rtDestinationProtocol route = ProtocolOpenAIResponses" and "scan x = (Line line, x')" and "hasPrefix line ''data:''"
    and "int (length line) < maxStreamBytes" and "trimSpace (drop 5 line) \<noteq> ''[DONE]''"
    and "unmarshal dResponsesEvent zero_responsesEvent (trimSpace (drop 5 line)) = Some ev"
    and "rvType ev = ''response.output_item.added''" and "rvOutputIndex ev = Some index"
    and "eventItemOf (rvItem ev) = Some item" and "eiType item = ''reasoning''" and "eiID item \<noteq> ''''"
  shows "prepareStream scan route request x = (Inl index_out_of_range, x')"
proof -
  define n1 where "n1 = newNormalizer\<lparr>snTotalBytes := int (length line) + 1, snWireEvents := 1\<rparr>"
  have "normalize ProtocolOpenAIResponses r 0 (trimSpace (drop 5 line)) n1 =
      (Inr [], recordReasoning ''response.output_item.added'' (eiID item) index (rvItem ev) n1)" for r
    using assms(6-11) by (simp add: normalize_def ProtocolOpenAIResponses_def ProtocolOpenAIChat_def normalizeResponsesEvent_def itemAdded_def)
  moreover have "snPendingReasoning (recordReasoning kind i index raw n1) = [\<lparr>rnKind = kind, rnIndex = index, rnItem = raw\<rparr>]" for kind i raw
    by (simp add: recordReasoning_def Let_def n1_def newNormalizer_def)
  ultimately have "\<exists>reasoning n2. nextLine ProtocolOpenAIResponses r line newNormalizer = (Some (Batch [] reasoning), n2)" for r
    using assms(3-5)
    by (simp add: nextLine_def Let_def newNormalizer_def maxStreamEvents_def drainReasoning_def n1_def)
  then obtain reasoning n2 where "nextLine ProtocolOpenAIResponses (nrLogicalRequestID request) line newNormalizer = (Some (Batch [] reasoning), n2)" by blast
  then show ?thesis
    using assms(1,2) by (simp add: prepareStream_def nextStreamEvents.simps [of scan _ _ newNormalizer x])
qed

section \<open>Events and the contract\<close>

text \<open>Beyond the sizes and counts the destination chose, every event is valid.\<close>

lemma stream_failure_valid: "NormalizedError_Validate (normalizeStreamFailure code) = []"
proof -
  have "neCode (normalizeStreamFailure code) \<in> {''upstream_5xx'', ''rate_limited'', ''context_overflow'', ''model_unavailable'', ''invalid_request''}"
    "neRetryClass (normalizeStreamFailure code) \<in> {''before_first_byte_only'', ''never''}"
    "neSafeMessage (normalizeStreamFailure code) = ''upstream stream returned an error''"
    "neUpstreamStatus (normalizeStreamFailure code) \<in> {502, 429, 413, 404, 400}"
    by (simp_all add: normalizeStreamFailure_def Let_def)
  then show ?thesis by (auto simp: NormalizedError_Validate_def validErrorCode_def validRetryClass_def)
qed

definition oversized_event :: "NormalizedStreamEvent \<Rightarrow> bool" where
  "oversized_event e \<longleftrightarrow> negative_usage (seUsage e) \<or> present_outside 256 (seCallID e) \<or> present_outside 128 (seToolName e)"

lemma well_shaped_valid:
  assumes "well_shaped r e" and "uuidPattern r" and "0 \<le> seSequence e" and "\<not> oversized_event e"
  shows "NormalizedStreamEvent_Validate e = []"
proof -
  have "(case seError e of None \<Rightarrow> [] | Some f \<Rightarrow> NormalizedError_Validate f) = []"
    using assms(1) stream_failure_valid by (auto simp: well_shaped_def split: option.split)
  then show ?thesis
    using assms by (auto simp: NormalizedStreamEvent_Validate_def well_shaped_def oversized_event_def split: option.splits)
qed

lemma nextStreamEvents_valid:
  assumes "nextStreamEvents scan protocol r n x = (Batch events reasoning, n', x')" and "uuidPattern r" and "0 \<le> snSequence n"
    and "e \<in> set events"
  shows "seLogicalRequestID e = r" and "oversized_event e \<or> NormalizedStreamEvent_Validate e = []"
proof -
  have shaped: "well_shaped r e" and num: "numbered (snSequence n) events"
    using nextStreamEvents_good [OF assms(1)] assms(4) by (simp_all add: good_events_def list_all_iff)
  then show "seLogicalRequestID e = r" by (simp add: well_shaped_def)
  have "seSequence e \<in> set (map seSequence events)" using assms(4) by simp
  then have "0 \<le> seSequence e" using num assms(3) unfolding numbered_def by auto
  then show "oversized_event e \<or> NormalizedStreamEvent_Validate e = []"
    using well_shaped_valid [OF shaped assms(2)] by blast
qed

end
