(* ===== verification/StreamEncoder.thy ===== *)
theory StreamEncoder
  imports StreamNormalizer
begin

text \<open>
  The stream to the client: the \<open>sourceStreamEncoder\<close> and \<open>streamResponse\<close> of
  \<open>internal/proxy/router/upstream.go\<close>.  Operations carry the encoder and the outside world; an
  error of one ends the rest.  The frames the client got are the writer of the encoder.  Iteration over a
  Go map follows the order of its association list.
\<close>

section \<open>The encoder\<close>

record sourceStreamEncoder =
  ssWriter :: "string list"
  ssProtocol :: Protocol
  ssAlias :: string
  ssToolIndexes :: "(string \<times> int) list"
  ssNextToolIndex :: int
  ssRequestID :: string
  ssToolNames :: "(string \<times> string) list"
  ssToolArguments :: "(string \<times> string) list"
  ssText :: string
  ssUsage :: "Usage option"
  ssFinishReason :: string
  ssSequence :: int
  ssStarted :: bool
  ssTextStarted :: bool
  ssTextIndex :: int
  ssNextOutputIndex :: int
  ssReasoningItems :: "reasoningOutput list"
  ssMaxOutputTokens :: int
  ssToolArgumentBytes :: int
  ssWrittenBytes :: int
  ssMaxBytes :: int

definition newEncoder :: "NormalizedRequest \<Rightarrow> sourceStreamEncoder" where
  "newEncoder request = \<lparr>ssWriter = [], ssProtocol = nrProtocol request, ssAlias = nrModelAlias request, ssToolIndexes = [],
     ssNextToolIndex = 0, ssRequestID = nrLogicalRequestID request, ssToolNames = [], ssToolArguments = [], ssText = '''',
     ssUsage = None, ssFinishReason = '''', ssSequence = 0, ssStarted = False, ssTextStarted = False, ssTextIndex = -1,
     ssNextOutputIndex = 0, ssReasoningItems = [], ssMaxOutputTokens = nlMaxOutputTokens (nrLimits request),
     ssToolArgumentBytes = 0, ssWrittenBytes = 0, ssMaxBytes = maxStreamBytes\<rparr>"

type_synonym 'x encoding = "sourceStreamEncoder \<times> 'x"
type_synonym 'x encode_op = "'x encoding \<Rightarrow> stream_error option \<times> 'x encoding"
type_synonym 'x writer = "string \<Rightarrow> 'x \<Rightarrow> stream_error option \<times> 'x"

definition succeed :: "'x encode_op" where
  "succeed st = (None, st)"

definition abort :: "stream_error \<Rightarrow> 'x encode_op" where
  "abort e st = (Some e, st)"

definition andThen :: "'x encode_op \<Rightarrow> 'x encode_op \<Rightarrow> 'x encode_op" where
  "andThen f g st = (case f st of (Some e, st1) \<Rightarrow> (Some e, st1) | (None, st1) \<Rightarrow> g st1)"

definition reading :: "(sourceStreamEncoder \<Rightarrow> 'x encode_op) \<Rightarrow> 'x encode_op" where
  "reading f st = f (fst st) st"

definition updating :: "(sourceStreamEncoder \<Rightarrow> sourceStreamEncoder) \<Rightarrow> 'x encode_op" where
  "updating f st = (None, (f (fst st), snd st))"

text \<open>A pointer of an event is dereferenced.\<close>

definition pointed :: "'a option \<Rightarrow> ('a \<Rightarrow> 'x encode_op) \<Rightarrow> 'x encode_op" where
  "pointed p f = (case p of None \<Rightarrow> abort (nil_dereference, None) | Some v \<Rightarrow> f v)"

fun sequentially :: "'x encode_op list \<Rightarrow> 'x encode_op" where
  "sequentially [] = succeed"
| "sequentially (f # fs) = andThen f (sequentially fs)"

definition writeFrame :: "'x writer \<Rightarrow> string \<Rightarrow> 'x encode_op" where
  "writeFrame write frame = reading (\<lambda>s.
     if ssMaxBytes s > 0 \<and> ssWrittenBytes s + int (length frame) > ssMaxBytes s
     then abort (stream_failure ''source stream exceeds the byte limit'')
     else (\<lambda>(s, x). case write frame x of
         (Some e, x1) \<Rightarrow> (Some e, (s, x1))
       | (None, x1) \<Rightarrow> (None, (s\<lparr>ssWriter := ssWriter s @ [frame], ssWrittenBytes := ssWrittenBytes s + int (length frame)\<rparr>, x1))))"

definition sse_frame :: "string \<Rightarrow> string" where
  "sse_frame encoded = ''data: '' @ encoded @ [CHR 10, CHR 10]"

definition emitEvent :: "'x writer \<Rightarrow> goval \<Rightarrow> 'x encode_op" where
  "emitEvent write payload =
     (case marshal payload of None \<Rightarrow> abort (marshal_error, None) | Some encoded \<Rightarrow> writeFrame write (sse_frame encoded))"

definition writeDone :: "'x writer \<Rightarrow> 'x encode_op" where
  "writeDone write = writeFrame write (sse_frame ''[DONE]'')"

definition nextSequence :: "'x encode_op" where
  "nextSequence = updating (\<lambda>s. s\<lparr>ssSequence := ssSequence s + 1\<rparr>)"

text \<open>An event with the current sequence number, which is advanced when it was written.\<close>

definition emitNumbered :: "'x writer \<Rightarrow> (sourceStreamEncoder \<Rightarrow> (string \<times> goval) list) \<Rightarrow> 'x encode_op" where
  "emitNumbered write payload =
     andThen (reading (\<lambda>s. emitEvent write (vmap ((''sequence_number'', vint (ssSequence s)) # payload s)))) nextSequence"

text \<open>The same, but the number is advanced in any case.\<close>

definition emitAndNumber :: "'x writer \<Rightarrow> (sourceStreamEncoder \<Rightarrow> (string \<times> goval) list) \<Rightarrow> 'x encode_op" where
  "emitAndNumber write payload st =
     (case reading (\<lambda>s. emitEvent write (vmap ((''sequence_number'', vint (ssSequence s)) # payload s))) st of
        (e, st1) \<Rightarrow> (e, snd (nextSequence st1)))"

section \<open>Output indexes\<close>

definition applyIndexHints :: "streamNormalizer \<Rightarrow> sourceStreamEncoder \<Rightarrow> sourceStreamEncoder" where
  "applyIndexHints n s =
     (let s1 = (if snTextOutputIndex n \<ge> 0
                then s\<lparr>ssTextIndex := snTextOutputIndex n, ssNextOutputIndex := max (ssNextOutputIndex s) (snTextOutputIndex n + 1)\<rparr> else s)
      in fold (\<lambda>(callID, index) s. s\<lparr>ssToolIndexes := map_set callID index (ssToolIndexes s),
           ssNextOutputIndex := max (ssNextOutputIndex s) (index + 1)\<rparr>) (snToolOutputIndexes n) s1)"

fun claimIndexes :: "int list \<Rightarrow> int list \<Rightarrow> bool" where
  "claimIndexes seen [] = True"
| "claimIndexes seen (index # indexes) =
     (if index < 0 \<or> List.member seen index then False else claimIndexes (index # seen) indexes)"

definition outputIndexes :: "sourceStreamEncoder \<Rightarrow> int list" where
  "outputIndexes s = map roIndex (ssReasoningItems s) @ (if ssTextStarted s then [ssTextIndex s] else []) @ map snd (ssToolIndexes s)"

definition validateOutputIndexes :: "sourceStreamEncoder \<Rightarrow> stream_error option" where
  "validateOutputIndexes s =
     (if ssProtocol s \<noteq> ProtocolOpenAIResponses then None
      else if claimIndexes [] (outputIndexes s) then None
      else Some (stream_failure ''Responses stream has missing or duplicate output indexes''))"

section \<open>The response object\<close>

definition toolItem :: "sourceStreamEncoder \<Rightarrow> string \<Rightarrow> goval" where
  "toolItem s callID = vmap [(''id'', VString (''fc_'' @ callID)), (''type'', VString ''function_call''), (''call_id'', VString callID),
     (''name'', VString (lookup_or '''' (ssToolNames s) callID)), (''arguments'', VString (lookup_or '''' (ssToolArguments s) callID))]"

definition outputText :: "string \<Rightarrow> goval" where
  "outputText text = vmap [(''type'', VString ''output_text''), (''text'', VString text), (''annotations'', VArray [])]"

definition messageItem :: "sourceStreamEncoder \<Rightarrow> string \<Rightarrow> goval list \<Rightarrow> goval" where
  "messageItem s status content = vmap [(''id'', VString (''msg_'' @ ssRequestID s)), (''type'', VString ''message''),
     (''role'', VString ''assistant''), (''status'', VString status), (''content'', VArray content)]"

definition responseItems :: "Floats \<Rightarrow> sourceStreamEncoder \<Rightarrow> (int \<times> goval) list" where
  "responseItems F s =
     (let reasoning = fold (\<lambda>item m. case unmarshal (\<lambda>raw _. anyValue F maxNestingDepth raw) JNull (roRaw item) of
              None \<Rightarrow> m | Some v \<Rightarrow> map_set (roIndex item) (vany v) m) (ssReasoningItems s) [];
          text = (if length (ssText s) > 0
                  then map_set (ssTextIndex s) (messageItem s ''completed'' [outputText (ssText s)]) reasoning else reasoning)
      in fold (\<lambda>(callID, index) m. map_set index (toolItem s callID) m) (sort_key snd (ssToolIndexes s)) text)"

definition responseObject :: "Floats \<Rightarrow> sourceStreamEncoder \<Rightarrow> string \<Rightarrow> (string \<times> goval) list" where
  "responseObject F s status =
     [(''id'', VString (''resp_'' @ ssRequestID s)), (''object'', VString ''response''), (''status'', VString status),
      (''model'', VString (ssAlias s)), (''output'', VArray (map snd (sort_key fst (responseItems F s)))),
      (''usage'', usageValue ''input_tokens'' ''output_tokens''
         (case ssUsage s of None \<Rightarrow> \<lparr>usInputTokens = 0, usOutputTokens = 0\<rparr> | Some u \<Rightarrow> u))]"

section \<open>Starting, reasoning\<close>

definition chatChunkValue :: "string \<Rightarrow> string \<Rightarrow> goval list \<Rightarrow> (string \<times> goval) list" where
  "chatChunkValue requestID alias choices =
     [(''id'', VString (''chatcmpl_'' @ requestID)), (''object'', VString ''chat.completion.chunk''), (''model'', VString alias),
      (''choices'', VArray choices)]"

definition chatChoiceValue :: "(string \<times> goval) list \<Rightarrow> goval \<Rightarrow> goval" where
  "chatChoiceValue delta finish = vmap [(''index'', vint 0), (''delta'', vmap delta), (''finish_reason'', finish)]"

definition startStream :: "Floats \<Rightarrow> 'x writer \<Rightarrow> 'x encode_op" where
  "startStream F write = reading (\<lambda>s.
     if ssStarted s then succeed
     else andThen (updating (\<lambda>s. s\<lparr>ssStarted := True\<rparr>)) (reading (\<lambda>s.
       if ssProtocol s = ProtocolOpenAIChat then
         emitEvent write (vmap (chatChunkValue (ssRequestID s) (ssAlias s) [chatChoiceValue [(''role'', VString ''assistant'')] VNull]))
       else (let response = vmap (responseObject F s ''in_progress'') in
         andThen (emitNumbered write (\<lambda>_. [(''type'', VString ''response.created''), (''response'', response)]))
           (emitAndNumber write (\<lambda>_. [(''type'', VString ''response.in_progress''), (''response'', response)]))))))"

definition emitReasoningItem :: "Floats \<Rightarrow> 'x writer \<Rightarrow> reasoningEmission \<Rightarrow> 'x encode_op" where
  "emitReasoningItem F write ev =
     (case unmarshal (\<lambda>raw _. anyValue F maxNestingDepth raw) JNull (rnItem ev) of
        None \<Rightarrow> abort (stream_failure ''invalid reasoning stream item'')
      | Some item \<Rightarrow> emitNumbered write (\<lambda>_. [(''type'', VString (rnKind ev)), (''output_index'', vint (rnIndex ev)), (''item'', vany item)]))"

definition emitReasoning :: "Floats \<Rightarrow> 'x writer \<Rightarrow> reasoningEmission list \<Rightarrow> 'x encode_op" where
  "emitReasoning F write evs = reading (\<lambda>s.
     if length evs = 0 then succeed
     else if ssProtocol s \<noteq> ProtocolOpenAIResponses
     then abort (stream_failure ''reasoning stream cannot be represented by the source protocol'')
     else sequentially (map (emitReasoningItem F write) evs))"

section \<open>Consuming events\<close>

definition maxToolArgumentBytes :: int where
  "maxToolArgumentBytes = 8 * 1024 * 1024"

definition appendToolArguments :: "string \<Rightarrow> string \<Rightarrow> 'x encode_op" where
  "appendToolArguments callID delta = reading (\<lambda>s.
     if int (length delta) > maxToolArgumentBytes - ssToolArgumentBytes s
     then abort (stream_failure ''tool argument stream exceeds the accumulation limit'')
     else updating (\<lambda>s. s\<lparr>ssToolArgumentBytes := ssToolArgumentBytes s + int (length delta),
            ssToolArguments := map_set callID (lookup_or '''' (ssToolArguments s) callID @ delta) (ssToolArguments s)\<rparr>))"

definition consumeUsage :: "NormalizedStreamEvent \<Rightarrow> 'x encode_op" where
  "consumeUsage ev = pointed (seUsage ev) (\<lambda>usage. reading (\<lambda>s.
     if usInputTokens usage < 0 \<or> usOutputTokens usage < 0 \<or> usOutputTokens usage > ssMaxOutputTokens s
     then abort (ApiErr (upstream_invalid ''upstream stream exceeded the output limit''), None)
     else updating (\<lambda>s. s\<lparr>ssUsage := Some usage\<rparr>)))"

definition consumeEnd :: "NormalizedStreamEvent \<Rightarrow> 'x encode_op" where
  "consumeEnd ev = pointed (seFinishReason ev) (\<lambda>reason. updating (\<lambda>s. s\<lparr>ssFinishReason := reason\<rparr>))"

definition emitDelta :: "'x writer \<Rightarrow> NormalizedStreamEvent \<Rightarrow> (string \<times> goval) list \<Rightarrow> 'x encode_op" where
  "emitDelta write ev delta = reading (\<lambda>s.
     emitEvent write (vmap (chatChunkValue (seLogicalRequestID ev) (ssAlias s) [chatChoiceValue delta VNull])))"

definition chatToolStart :: "'x writer \<Rightarrow> NormalizedStreamEvent \<Rightarrow> 'x encode_op" where
  "chatToolStart write ev = pointed (seCallID ev) (\<lambda>callID. pointed (seToolName ev) (\<lambda>name. reading (\<lambda>s.
     (let index = ssNextToolIndex s in
      andThen (updating (\<lambda>s. s\<lparr>ssNextToolIndex := index + 1, ssToolIndexes := map_set callID index (ssToolIndexes s),
                 ssToolNames := map_set callID name (ssToolNames s)\<rparr>))
        (emitDelta write ev [(''tool_calls'', VArray [vmap [(''index'', vint index), (''id'', VString callID),
           (''type'', VString ''function''), (''function'', vmap [(''name'', VString name), (''arguments'', VString '''')])]])])))))"

definition chatToolArguments :: "'x writer \<Rightarrow> NormalizedStreamEvent \<Rightarrow> 'x encode_op" where
  "chatToolArguments write ev = pointed (seCallID ev) (\<lambda>callID. reading (\<lambda>s.
     case map_of (ssToolIndexes s) callID of
       None \<Rightarrow> abort (stream_failure ''tool argument delta preceded tool start'')
     | Some index \<Rightarrow> pointed (seArgumentsDelta ev) (\<lambda>delta.
         andThen (appendToolArguments callID delta)
           (emitDelta write ev [(''tool_calls'', VArray [vmap [(''index'', vint index),
              (''function'', vmap [(''arguments'', VString delta)])]])]))))"

definition consumeChat :: "'x writer \<Rightarrow> NormalizedStreamEvent \<Rightarrow> 'x encode_op" where
  "consumeChat write ev =
     (if seType ev = ''text_delta'' then
        pointed (seText ev) (\<lambda>text. andThen (updating (\<lambda>s. s\<lparr>ssText := ssText s @ text\<rparr>)) (emitDelta write ev [(''content'', VString text)]))
      else if seType ev = ''response_end'' then consumeEnd ev
      else if seType ev = ''tool_call_start'' then chatToolStart write ev
      else if seType ev = ''tool_arguments_delta'' then chatToolArguments write ev
      else if seType ev = ''response_start'' then succeed
      else if seType ev = ''usage'' then consumeUsage ev
      else emitDelta write ev [])"

text \<open>The first text of a Responses stream opens its message.\<close>

definition openMessage :: "'x writer \<Rightarrow> 'x encode_op" where
  "openMessage write =
     andThen (updating (\<lambda>s. let s1 = s\<lparr>ssTextStarted := True\<rparr> in
         if ssTextIndex s1 < 0 then s1\<lparr>ssTextIndex := ssNextOutputIndex s1, ssNextOutputIndex := ssNextOutputIndex s1 + 1\<rparr> else s1))
     (andThen (emitNumbered write (\<lambda>s. [(''type'', VString ''response.output_item.added''), (''output_index'', vint (ssTextIndex s)),
         (''item'', messageItem s ''in_progress'' [])]))
       (emitNumbered write (\<lambda>s. [(''type'', VString ''response.content_part.added''), (''item_id'', VString (''msg_'' @ ssRequestID s)),
         (''output_index'', vint (ssTextIndex s)), (''content_index'', vint 0), (''part'', outputText '''')])))"

definition eventKind :: "string \<Rightarrow> string" where
  "eventKind kind = lookup_or '''' [(''text_delta'', ''response.output_text.delta''), (''tool_call_start'', ''response.output_item.added''),
     (''tool_arguments_delta'', ''response.function_call_arguments.delta'')] kind"

definition put_members :: "(string \<times> goval) list \<Rightarrow> (string \<times> goval) list \<Rightarrow> (string \<times> goval) list" where
  "put_members news kvs = fold (\<lambda>(k, v). map_set k v) news kvs"

text \<open>The members of the payload that depend on the event, once the encoder was updated for it.\<close>

definition eventMembers :: "sourceStreamEncoder \<Rightarrow> NormalizedStreamEvent \<Rightarrow> (string \<times> goval) list" where
  "eventMembers s ev =
     put_members
       ((case seText ev of None \<Rightarrow> [] | Some text \<Rightarrow>
           [(''item_id'', VString (''msg_'' @ ssRequestID s)), (''output_index'', vint (ssTextIndex s)), (''content_index'', vint 0),
            (''delta'', VString text)]) @
        (case seUsage ev of None \<Rightarrow> [] | Some usage \<Rightarrow>
           [(''usage'', VObject [(''inputTokens'', vint (usInputTokens usage)), (''outputTokens'', vint (usOutputTokens usage))])]) @
        (if seType ev = ''tool_call_start'' then
           (case (seCallID ev, seToolName ev) of
              (Some callID, Some name) \<Rightarrow>
                [(''output_index'', vint (lookup_or 0 (ssToolIndexes s) callID)),
                 (''item'', vmap [(''id'', VString (''fc_'' @ callID)), (''type'', VString ''function_call''), (''call_id'', VString callID),
                    (''name'', VString name), (''arguments'', VString '''')])]
            | _ \<Rightarrow> []) else []) @
        (if seType ev = ''tool_arguments_delta'' then
           (case (seCallID ev, seArgumentsDelta ev) of
              (Some callID, Some delta) \<Rightarrow>
                [(''item_id'', VString (''fc_'' @ callID)), (''output_index'', vint (lookup_or 0 (ssToolIndexes s) callID)),
                 (''delta'', VString delta)]
            | _ \<Rightarrow> []) else []))
       [(''type'', VString (eventKind (seType ev)))]"

definition registerTool :: "string \<Rightarrow> string \<Rightarrow> sourceStreamEncoder \<Rightarrow> sourceStreamEncoder" where
  "registerTool callID name s =
     (let s1 = s\<lparr>ssToolNames := map_set callID name (ssToolNames s)\<rparr> in
      if map_of (ssToolIndexes s1) callID = None
      then s1\<lparr>ssToolIndexes := map_set callID (ssNextOutputIndex s1) (ssToolIndexes s1), ssNextOutputIndex := ssNextOutputIndex s1 + 1\<rparr>
      else s1)"

definition consumeResponses :: "'x writer \<Rightarrow> NormalizedStreamEvent \<Rightarrow> 'x encode_op" where
  "consumeResponses write ev =
     (if seType ev = ''response_start'' then succeed
      else if seType ev = ''usage'' then consumeUsage ev
      else if seType ev = ''response_end'' then consumeEnd ev
      else andThen (reading (\<lambda>s. if seType ev = ''text_delta'' \<and> \<not> ssTextStarted s then openMessage write else succeed))
        (reading (\<lambda>s0. (let number = ssSequence s0 in
         andThen nextSequence
        (andThen (case seText ev of None \<Rightarrow> succeed | Some text \<Rightarrow> updating (\<lambda>s. s\<lparr>ssText := ssText s @ text\<rparr>))
        (andThen (if seType ev = ''tool_call_start''
                  then pointed (seCallID ev) (\<lambda>callID. pointed (seToolName ev) (\<lambda>name. updating (registerTool callID name)))
                  else succeed)
        (andThen (if seType ev = ''tool_arguments_delta''
                  then pointed (seCallID ev) (\<lambda>callID. pointed (seArgumentsDelta ev) (\<lambda>delta. appendToolArguments callID delta))
                  else succeed)
          (reading (\<lambda>s. emitEvent write (vmap ((''sequence_number'', vint number) # eventMembers s ev))))))))))) "

definition consumeEvent :: "'x writer \<Rightarrow> NormalizedStreamEvent \<Rightarrow> 'x encode_op" where
  "consumeEvent write ev = reading (\<lambda>s. if ssProtocol s = ProtocolOpenAIChat then consumeChat write ev else consumeResponses write ev)"

section \<open>Finishing and failing\<close>

definition finishText :: "'x writer \<Rightarrow> 'x encode_op" where
  "finishText write = sequentially
     [emitNumbered write (\<lambda>s. [(''type'', VString ''response.output_text.done''), (''item_id'', VString (''msg_'' @ ssRequestID s)),
        (''output_index'', vint (ssTextIndex s)), (''content_index'', vint 0), (''text'', VString (ssText s))]),
      emitNumbered write (\<lambda>s. [(''type'', VString ''response.content_part.done''), (''item_id'', VString (''msg_'' @ ssRequestID s)),
        (''output_index'', vint (ssTextIndex s)), (''content_index'', vint 0), (''part'', outputText (ssText s))]),
      emitNumbered write (\<lambda>s. [(''type'', VString ''response.output_item.done''), (''output_index'', vint (ssTextIndex s)),
        (''item'', messageItem s ''completed'' [outputText (ssText s)])])]"

definition finishTool :: "'x writer \<Rightarrow> string \<Rightarrow> int \<Rightarrow> 'x encode_op" where
  "finishTool write callID index = sequentially
     [emitNumbered write (\<lambda>s. [(''type'', VString ''response.function_call_arguments.done''), (''item_id'', VString (''fc_'' @ callID)),
        (''output_index'', vint index), (''arguments'', VString (lookup_or '''' (ssToolArguments s) callID))]),
      emitNumbered write (\<lambda>s. [(''type'', VString ''response.output_item.done''), (''output_index'', vint index),
        (''item'', toolItem s callID)])]"

definition finishActions :: "'x writer \<Rightarrow> sourceStreamEncoder \<Rightarrow> (int \<times> 'x encode_op) list" where
  "finishActions write s =
     fold (\<lambda>(callID, index) m. map_set index (finishTool write callID index) m) (ssToolIndexes s)
       (if ssTextStarted s then [(ssTextIndex s, finishText write)] else [])"

definition finishChat :: "'x writer \<Rightarrow> Usage \<Rightarrow> 'x encode_op" where
  "finishChat write usage = reading (\<lambda>s. andThen
     (emitEvent write (vmap (chatChunkValue (ssRequestID s) (ssAlias s) [chatChoiceValue [] (VString (chatFinish (ssFinishReason s)))])))
     (emitEvent write (vmap (chatChunkValue (ssRequestID s) (ssAlias s) [] @
        [(''usage'', usageValue ''prompt_tokens'' ''completion_tokens'' usage)]))))"

definition finishResponses :: "Floats \<Rightarrow> 'x writer \<Rightarrow> 'x encode_op" where
  "finishResponses F write = reading (\<lambda>s0.
     (let status = (if ssFinishReason s0 = ''length'' then ''incomplete'' else ''completed'');
          eventType = (if status = ''incomplete'' then ''response.incomplete'' else ''response.completed'') in
      andThen (sequentially (map snd (sort_key fst (finishActions write s0))))
        (reading (\<lambda>s. emitEvent write (vmap [(''type'', VString eventType), (''sequence_number'', vint (ssSequence s)),
           (''response'', vmap (responseObject F s status))])))))"

definition finishStream :: "Floats \<Rightarrow> 'x writer \<Rightarrow> 'x encode_op" where
  "finishStream F write = reading (\<lambda>s.
     if ssFinishReason s = '''' then abort (stream_failure ''stream omitted finish reason'')
     else (case ssUsage s of
         None \<Rightarrow> abort (stream_failure ''stream omitted required usage'')
       | Some usage \<Rightarrow> (case validateOutputIndexes s of
           Some e \<Rightarrow> abort e
         | None \<Rightarrow> andThen (if ssProtocol s = ProtocolOpenAIChat then finishChat write usage else finishResponses F write)
             (writeDone write))))"

definition failStream :: "Floats \<Rightarrow> 'x writer \<Rightarrow> stream_error \<Rightarrow> 'x encode_op" where
  "failStream F write e = reading (\<lambda>s.
     (let (code, message) = (case fst e of ApiErr api \<Rightarrow> (aeCode api, aeMessage api)
            | _ \<Rightarrow> (''upstream_invalid_response'', ''upstream stream failed'')) in
      andThen
        (if ssProtocol s = ProtocolOpenAIChat then
           emitEvent write (vmap [(''error'', vmap [(''code'', VString code), (''message'', VString message),
             (''type'', VString ''blazn_proxy_error'')])])
         else andThen (emitNumbered write (\<lambda>s. [(''type'', VString ''response.failed''),
                (''response'', vmap (responseObject F s ''failed'' @ [(''error'', vmap [(''code'', VString code), (''message'', VString message)])]))]))
              (reading (\<lambda>s. emitEvent write (vmap [(''type'', VString ''error''), (''sequence_number'', vint (ssSequence s)),
                (''code'', VString code), (''message'', VString message)]))))
        (writeDone write)))"


section \<open>The whole stream\<close>

text \<open>
  What \<open>streamResponse\<close> uses: the scanner, the writer, whether the context is done, and whether the
  writer can flush.
\<close>

record 'x StreamIO =
  ioScan :: "'x \<Rightarrow> scanned \<times> 'x"
  ioWrite :: "'x writer"
  ioDone :: "'x \<Rightarrow> ctx_error option \<times> 'x"
  ioFlusher :: bool

definition ctx_failure :: "ctx_error \<Rightarrow> stream_error" where
  "ctx_failure c = (PlainErr [Other (case c of Canceled \<Rightarrow> ''context canceled'' | DeadlineExceeded \<Rightarrow> ''context deadline exceeded'')], Some c)"

fun consumeEvents :: "'x writer \<Rightarrow> NormalizedStreamEvent list \<Rightarrow> 'x encode_op" where
  "consumeEvents write [] = succeed"
| "consumeEvents write (ev # evs) =
     (if seType ev = ''error'' then
        abort (ApiErr (case seError ev of None \<Rightarrow> safeError ''upstream_5xx'' ''upstream stream failed'' 502 False
          | Some failure \<Rightarrow> reportedError failure), None)
      else andThen (consumeEvent write ev) (consumeEvents write evs))"

text \<open>The error a stream ends with, after the attempt to tell the client.\<close>

definition failing :: "Floats \<Rightarrow> 'x writer \<Rightarrow> stream_error \<Rightarrow> 'x encode_op" where
  "failing F write e st = (Some e, snd (failStream F write e st))"

definition consumeOrFail :: "Floats \<Rightarrow> 'x writer \<Rightarrow> NormalizedStreamEvent list \<Rightarrow> 'x encode_op" where
  "consumeOrFail F write evs st =
     (case consumeEvents write evs st of (None, st1) \<Rightarrow> (None, st1) | (Some e, st1) \<Rightarrow> failing F write e st1)"

definition endStream :: "Floats \<Rightarrow> 'x writer \<Rightarrow> streamNormalizer \<Rightarrow> 'x encode_op" where
  "endStream F write n =
     (if \<not> snTerminal n then failing F write (ApiErr (upstream_invalid ''upstream stream ended without a terminal event''), None)
      else andThen (updating (\<lambda>s. s\<lparr>ssReasoningItems := orderedReasoningItems n\<rparr>))
        (if \<not> reasoningComplete n then failing F write (ApiErr (upstream_invalid ''reasoning item did not complete''), None)
         else finishStream F write))"

lemma nextStreamEvents_shrinks:
  "nextStreamEvents scan protocol r n x = (Batch evs reasoning, n', x') \<Longrightarrow>
     nat (maxStreamBytes - snTotalBytes n') < nat (maxStreamBytes - snTotalBytes n)"
  using nextStreamEvents_batch(1,2) [of scan protocol r n x evs reasoning n' x'] by auto

text \<open>The loop, which ends because the count of bytes grows with every batch.\<close>

function streamLoop ::
    "Floats \<Rightarrow> 'x StreamIO \<Rightarrow> Protocol \<Rightarrow> streamNormalizer \<Rightarrow> 'x encode_op" where
  "streamLoop F io protocol n (s, x) =
     (case ioDone io x of
        (Some c, x1) \<Rightarrow> (Some (ctx_failure c), (s, x1))
      | (None, x1) \<Rightarrow>
          (case nextStreamEvents (ioScan io) protocol (ssRequestID s) n x1 of
             (Failed e, n1, x2) \<Rightarrow> failing F (ioWrite io) e (s, x2)
           | (Done, n1, x2) \<Rightarrow> endStream F (ioWrite io) n1 (s, x2)
           | (Batch evs reasoning, n1, x2) \<Rightarrow>
               (case emitReasoning F (ioWrite io) reasoning (applyIndexHints n1 s, x2) of
                  (Some e, st) \<Rightarrow> (Some e, st)
                | (None, st) \<Rightarrow> (case consumeOrFail F (ioWrite io) evs st of
                    (Some e, st1) \<Rightarrow> (Some e, st1)
                  | (None, st1) \<Rightarrow> streamLoop F io protocol n1 st1))))"
  by pat_completeness auto
termination
  by (relation "measure (\<lambda>(F, io, protocol, n, st). nat (maxStreamBytes - snTotalBytes n))")
    (auto dest!: nextStreamEvents_shrinks [OF sym])

declare streamLoop.simps [simp del]

definition streamResponse ::
    "Floats \<Rightarrow> 'x StreamIO \<Rightarrow> Route \<Rightarrow> NormalizedRequest \<Rightarrow> prepared \<Rightarrow> 'x \<Rightarrow>
       (Usage option \<times> stream_error option) \<times> 'x encoding" where
  "streamResponse F io route request p x =
     (if \<not> ioFlusher io then ((None, Some (stream_failure ''streaming writer does not support flushing'')), (newEncoder request, x))
      else (case startStream F (ioWrite io) (applyIndexHints (ppNormalizer p) (newEncoder request), x) of
          (Some e, st) \<Rightarrow> ((None, Some e), st)
        | (None, st) \<Rightarrow>
            (case andThen (emitReasoning F (ioWrite io) (ppBufferedReasoning p))
               (andThen (consumeOrFail F (ioWrite io) (ppBuffered p))
                 (streamLoop F io (rtDestinationProtocol route) (ppNormalizer p))) st of
               (e, st1) \<Rightarrow> ((ssUsage (fst st1), e), st1))))"


section \<open>Tool calls for a Chat client\<close>

lemma map_of_map_set [simp]: "map_of (map_set k v m) = (map_of m)(k \<mapsto> v)"
  by (simp add: map_set_def update_conv')

lemma applyIndexHints_tool:
  assumes "map_of (snToolOutputIndexes n) callID = Some index" and "distinct (map fst (snToolOutputIndexes n))"
  shows "map_of (ssToolIndexes (applyIndexHints n s)) callID = Some index"
proof -
  let ?step = "\<lambda>(callID, index) s. s\<lparr>ssToolIndexes := map_set callID index (ssToolIndexes s),
      ssNextOutputIndex := max (ssNextOutputIndex s) (index + 1)\<rparr>"
  have other: "callID \<notin> fst ` set ids \<Longrightarrow> map_of (ssToolIndexes (fold ?step ids t)) callID = map_of (ssToolIndexes t) callID" for ids t
    by (induction ids arbitrary: t) auto
  have set: "map_of ids callID = Some index \<Longrightarrow> distinct (map fst ids) \<Longrightarrow> map_of (ssToolIndexes (fold ?step ids t)) callID = Some index" for ids t
  proof (induction ids arbitrary: t)
    case (Cons i ids)
    obtain k v where i: "i = (k, v)" by (rule prod.exhaust)
    show ?case
    proof (cases "k = callID")
      case True
      with Cons.prems have "callID \<notin> fst ` set ids" "v = index" by (auto simp: i)
      then show ?thesis using True other [of ids "?step i t"] by (simp add: i)
    qed (use Cons in \<open>simp add: i\<close>)
  qed simp
  show ?thesis unfolding applyIndexHints_def Let_def by (rule set [OF assms])
qed

lemma applyIndexHints_other [simp]:
  "ssProtocol (applyIndexHints n s) = ssProtocol s" "ssNextToolIndex (applyIndexHints n s) = ssNextToolIndex s"
  "ssWriter (applyIndexHints n s) = ssWriter s" "ssAlias (applyIndexHints n s) = ssAlias s"
proof -
  let ?step = "\<lambda>(callID, index) s. s\<lparr>ssToolIndexes := map_set callID index (ssToolIndexes s),
      ssNextOutputIndex := max (ssNextOutputIndex s) (index + 1)\<rparr>"
  have "ssProtocol (fold ?step ids t) = ssProtocol t \<and> ssNextToolIndex (fold ?step ids t) = ssNextToolIndex t \<and>
      ssWriter (fold ?step ids t) = ssWriter t \<and> ssAlias (fold ?step ids t) = ssAlias t" for ids and t :: sourceStreamEncoder
    by (induction ids arbitrary: t) auto
  then show "ssProtocol (applyIndexHints n s) = ssProtocol s" "ssNextToolIndex (applyIndexHints n s) = ssNextToolIndex s"
    "ssWriter (applyIndexHints n s) = ssWriter s" "ssAlias (applyIndexHints n s) = ssAlias s"
    by (simp_all add: applyIndexHints_def Let_def)
qed

text \<open>The payloads of the start of a tool call and of a piece of its arguments.\<close>

definition tool_start_payload :: "string \<Rightarrow> string \<Rightarrow> int \<Rightarrow> string \<Rightarrow> string \<Rightarrow> goval" where
  "tool_start_payload requestID alias index callID name =
     vmap (chatChunkValue requestID alias [chatChoiceValue [(''tool_calls'', VArray [vmap [(''index'', vint index), (''id'', VString callID),
       (''type'', VString ''function''), (''function'', vmap [(''name'', VString name), (''arguments'', VString '''')])]])] VNull])"

definition tool_arguments_payload :: "string \<Rightarrow> string \<Rightarrow> int \<Rightarrow> string \<Rightarrow> goval" where
  "tool_arguments_payload requestID alias index delta =
     vmap (chatChunkValue requestID alias [chatChoiceValue [(''tool_calls'', VArray [vmap [(''index'', vint index),
       (''function'', vmap [(''arguments'', VString delta)])]])] VNull])"

definition frame_of :: "goval \<Rightarrow> string \<Rightarrow> bool" where
  "frame_of payload frame \<longleftrightarrow> (\<exists>encoded. marshal payload = Some encoded \<and> frame = sse_frame encoded)"

lemma emitEvent_written:
  assumes "emitEvent write payload (s, x) = (None, s', x')"
  shows "\<exists>frame. frame_of payload frame \<and> s' = s\<lparr>ssWriter := ssWriter s @ [frame], ssWrittenBytes := ssWrittenBytes s + int (length frame)\<rparr>"
  using assms by (auto simp: emitEvent_def writeFrame_def reading_def abort_def frame_of_def split: option.splits if_splits prod.splits)

lemma chat_tool_start:
  assumes "ssProtocol s = ProtocolOpenAIChat" and "seType ev = ''tool_call_start''" and "seCallID ev = Some callID" and "seToolName ev = Some name"
    and "consumeEvent write ev (s, x) = (None, s', x')"
  shows "ssProtocol s' = ProtocolOpenAIChat \<and> ssAlias s' = ssAlias s \<and>
    (\<exists>frame. frame_of (tool_start_payload (seLogicalRequestID ev) (ssAlias s) (ssNextToolIndex s) callID name) frame \<and>
       ssWriter s' = ssWriter s @ [frame])"
  using assms
  by (auto simp: consumeEvent_def consumeChat_def chatToolStart_def reading_def pointed_def andThen_def updating_def emitDelta_def Let_def
      tool_start_payload_def dest!: emitEvent_written)

lemma chat_tool_arguments:
  assumes "ssProtocol s = ProtocolOpenAIChat" and "seType ev = ''tool_arguments_delta''" and "seCallID ev = Some callID"
    and "seArgumentsDelta ev = Some delta" and "map_of (ssToolIndexes s) callID = Some index"
    and "consumeEvent write ev (s, x) = (None, s', x')"
  shows "\<exists>frame. frame_of (tool_arguments_payload (seLogicalRequestID ev) (ssAlias s) index delta) frame \<and> ssWriter s' = ssWriter s @ [frame]"
  using assms
  by (auto simp: consumeEvent_def consumeChat_def chatToolArguments_def appendToolArguments_def reading_def pointed_def andThen_def updating_def
      emitDelta_def abort_def tool_arguments_payload_def split: if_splits dest!: emitEvent_written)

text \<open>
  The start of a tool call is numbered by the count of tools; before its arguments the index of the
  destination overwrites that number.
\<close>

lemma tool_arguments_misnumbered:
  assumes "ssProtocol s = ProtocolOpenAIChat"
    and "map_of (snToolOutputIndexes n) callID = Some index" and "distinct (map fst (snToolOutputIndexes n))"
    and "seType start = ''tool_call_start''" and "seCallID start = Some callID" and "seToolName start = Some name"
    and "seType piece = ''tool_arguments_delta''" and "seCallID piece = Some callID" and "seArgumentsDelta piece = Some delta"
    and "consumeEvent write start (s, x) = (None, s1, x1)" and "consumeEvent write piece (applyIndexHints n s1, x2) = (None, s2, x3)"
  shows "\<exists>f1 f2. ssWriter s2 = ssWriter s @ [f1, f2] \<and>
    frame_of (tool_start_payload (seLogicalRequestID start) (ssAlias s) (ssNextToolIndex s) callID name) f1 \<and>
    frame_of (tool_arguments_payload (seLogicalRequestID piece) (ssAlias s) index delta) f2"
proof -
  from chat_tool_start [OF assms(1,4,5,6,10)] obtain f1 where s1: "ssProtocol s1 = ProtocolOpenAIChat" "ssAlias s1 = ssAlias s"
    "frame_of (tool_start_payload (seLogicalRequestID start) (ssAlias s) (ssNextToolIndex s) callID name) f1" "ssWriter s1 = ssWriter s @ [f1]"
    by blast
  have "ssProtocol (applyIndexHints n s1) = ProtocolOpenAIChat" using s1 by simp
  from chat_tool_arguments [OF this assms(7,8,9) applyIndexHints_tool [OF assms(2,3)] assms(11)] s1 show ?thesis by auto
qed

end
