(* ===== verification/RouterDispatch.thy ===== *)
theory RouterDispatch
  imports StreamEncoder "HOL-Library.Sublist"
begin

text \<open>
  Dispatch of a request to its routes: \<open>dispatch\<close> of \<open>internal/proxy/router/upstream.go\<close> with the
  fallback between them.  The network, the body of the answer, the credential provider, the timers, the
  context and the conversion of floating-point numbers are the fields of \<open>Upstream\<close>; each may answer
  anything and change the outside world.  The lemmas show which routes are contacted and that every attempt is audited.
\<close>

section \<open>Upstream\<close>

text \<open>A failed \<open>client.Do\<close>: the error, whether it is a deadline, whether it is a network timeout.\<close>

record do_error =
  deErr :: err
  deDeadline :: bool
  deTimeout :: bool

record upstreamResult =
  urRoute :: Route
  urAttempt :: int
  urStatus :: "int option"
  urStarted :: "instant option"
  urPrepared :: "prepared option"

record 'x Upstream =
  upLookup :: "string \<Rightarrow> 'x \<Rightarrow> (err + netip_Addr list) \<times> 'x"
  upCredential :: "string \<Rightarrow> 'x \<Rightarrow> (err + string) \<times> 'x"
  upApply :: "http_Header \<Rightarrow> Route \<Rightarrow> string \<Rightarrow> err + http_Header"
  upFloats :: Floats
  upUntilDeadline :: "'x \<Rightarrow> int option \<times> 'x"
  upNewRequest :: "net_URL \<Rightarrow> err"
  upDo :: "ResolvedEndpoint \<Rightarrow> (net_URL \<Rightarrow> nat \<Rightarrow> err) \<Rightarrow> int \<Rightarrow> net_URL \<Rightarrow> http_Header \<Rightarrow> string \<Rightarrow> 'x \<Rightarrow>
             (do_error + int) \<times> 'x"
  upTimerFired :: "'x \<Rightarrow> bool \<times> 'x"
  upCtxErr :: "'x \<Rightarrow> ctx_error option \<times> 'x"
  upScan :: "'x \<Rightarrow> scanned \<times> 'x"
  upReadBody :: "'x \<Rightarrow> (err + string) \<times> 'x"

text \<open>A call to the outside.\<close>

definition outside :: "('x \<Rightarrow> 'a \<times> 'x) \<Rightarrow> 'x hworld \<Rightarrow> 'a \<times> 'x hworld" where
  "outside f w = (case f (hwExt w) of (a, x) \<Rightarrow> (a, w\<lparr>hwExt := x\<rparr>))"

section \<open>Fallback\<close>

definition fallbackAllowed :: "Policy \<Rightarrow> go_error option \<Rightarrow> bool" where
  "fallbackAllowed policy err =
     (case err of
        Some (ApiErr api) \<Rightarrow> aeRetryable api \<and> list_ex (\<lambda>reason. reason = aeReason api) (slice_elems (fbRetryableReasons (poFallback policy)))
      | _ \<Rightarrow> False)"

definition trimLeftSlash :: "string \<Rightarrow> string" where
  "trimLeftSlash s = dropWhile (\<lambda>c. c = CHR ''/'') s"

definition joinPath :: "string \<Rightarrow> string \<Rightarrow> string" where
  "joinPath base rest = trimRightSlash base @ ''/'' @ trimLeftSlash rest"

section \<open>One attempt\<close>

text \<open>An attempt makes \<open>dispatch\<close> return, or go on with the error as the last one.\<close>

datatype attempt_end = Returned upstreamResult "go_error option" | Again go_error

definition failed_at :: "Route \<Rightarrow> int \<Rightarrow> upstreamResult" where
  "failed_at route attempt = \<lparr>urRoute = route, urAttempt = attempt, urStatus = None, urStarted = None, urPrepared = None\<rparr>"

definition attemptFailed ::
    "audit \<Rightarrow> NormalizedRequest \<Rightarrow> Route \<Rightarrow> int \<Rightarrow> instant \<Rightarrow> string \<Rightarrow> 'x hworld \<Rightarrow> 'x hworld" where
  "attemptFailed c request route attempt started reason w =
     (let (t, w1) = now w in emit c request route attempt ''attempt_finished'' ''failed'' reason (time_Sub t started) None w1)"

definition timeout_error :: "string \<Rightarrow> err \<Rightarrow> APIError" where
  "timeout_error message cause = \<lparr>aeCode = ''timeout_before_first_byte'', aeMessage = message, aeStatus = 504,
     aeRetryable = True, aeReason = ''timeout_before_first_byte'', aeCause = cause\<rparr>"

definition ctx_cause :: "ctx_error option \<Rightarrow> err" where
  "ctx_cause e = (case e of None \<Rightarrow> [] | Some Canceled \<Rightarrow> [Other ''context canceled''] | Some DeadlineExceeded \<Rightarrow> [Other ''context deadline exceeded''])"

text \<open>\<open>client.Do\<close> failed.\<close>

definition doFailed ::
    "audit \<Rightarrow> 'x Upstream \<Rightarrow> NormalizedRequest \<Rightarrow> Route \<Rightarrow> int \<Rightarrow> instant \<Rightarrow> do_error \<Rightarrow> 'x hworld \<Rightarrow> attempt_end \<times> 'x hworld" where
  "doFailed c u request route attempt started e w =
     (let (routeTimedOut, w1) = outside (upTimerFired u) w;
          (ctx1, w2) = (if routeTimedOut then outside (upCtxErr u) w1 else (None, w1))
      in if routeTimedOut \<and> ctx1 = None then
           (Again (ApiErr (timeout_error ''upstream did not respond before the route deadline'' (deErr e))),
            attemptFailed c request route attempt started ''timeout_before_first_byte'' w2)
         else (let (ctx2, w3) = outside (upCtxErr u) w2 in
           if ctx2 \<noteq> None then
             (let (ctx3, w4) = outside (upCtxErr u) w3 in
              (Returned (failed_at route attempt)
                 (Some (ApiErr \<lparr>aeCode = ''cancelled'', aeMessage = ''request was cancelled'', aeStatus = 499,
                    aeRetryable = False, aeReason = '''', aeCause = ctx_cause ctx3\<rparr>)), w4))
           else (let reason = (if deDeadline e \<or> deTimeout e then ''timeout_before_first_byte'' else ''connection_failure'') in
             (Again (ApiErr \<lparr>aeCode = reason, aeMessage = ''upstream did not respond before the deadline'', aeStatus = 504,
                aeRetryable = True, aeReason = reason, aeCause = deErr e\<rparr>),
              attemptFailed c request route attempt started reason w3))))"

text \<open>The upstream answered with a status of 400 or more.\<close>

definition statusCodes :: "int \<Rightarrow> string \<times> string" where
  "statusCodes status =
     (let retryReason = fst (classifyStatus status) in
      if status = 401 \<or> status = 403 then (''credential_unavailable'', ''authentication_failed'')
      else if retryReason = '''' then (''invalid_request'', ''policy_denied'')
      else (retryReason, retryReason))"

definition statusFailed ::
    "audit \<Rightarrow> NormalizedRequest \<Rightarrow> Route \<Rightarrow> int \<Rightarrow> instant \<Rightarrow> int \<Rightarrow> 'x hworld \<Rightarrow> attempt_end \<times> 'x hworld" where
  "statusFailed c request route attempt started status w =
     (let (retryReason, retryable) = classifyStatus status; (code, reasonCode) = statusCodes status
      in (Again (ApiErr \<lparr>aeCode = code, aeMessage = ''upstream rejected the request'', aeStatus = safeUpstreamStatus status,
            aeRetryable = retryable, aeReason = retryReason, aeCause = []\<rparr>),
          attemptFailed c request route attempt started reasonCode w))"

text \<open>The upstream accepted: wait for the first event of a stream, then check the route timer.\<close>

definition accepted ::
    "audit \<Rightarrow> 'x Upstream \<Rightarrow> NormalizedRequest \<Rightarrow> Route \<Rightarrow> int \<Rightarrow> instant \<Rightarrow> int \<Rightarrow> 'x hworld \<Rightarrow> attempt_end \<times> 'x hworld" where
  "accepted c u request route attempt started status w =
     (let result = \<lparr>urRoute = route, urAttempt = attempt, urStatus = Some status, urStarted = Some started, urPrepared = None\<rparr> in
      if nrStream request then
        (let (prepared, w1) = outside (prepareStream (upScan u) route request) w;
             (timedOut, w2) = outside (upTimerFired u) w1;
             prepareErr = (if timedOut
               then Some (ApiErr (timeout_error ''upstream did not produce an event before the route deadline'' []))
               else (case prepared of Inl e \<Rightarrow> Some e | Inr _ \<Rightarrow> None))
         in (case prepareErr of
               Some e \<Rightarrow> (Again e, attemptFailed c request route attempt started (reasonForError e) w2)
             | None \<Rightarrow> (case prepared of Inr p \<Rightarrow> (Returned (result\<lparr>urPrepared := Some p\<rparr>) None, w2) | Inl _ \<Rightarrow> (Returned result None, w2))))
      else
        (let (fired, w1) = outside (upTimerFired u) w in
         if fired then
           (Again (ApiErr (timeout_error ''upstream did not return headers before the route deadline'' [])),
            attemptFailed c request route attempt started ''timeout_before_first_byte'' w1)
         else (Returned result None, w1)))"

definition credential_failure :: "err \<Rightarrow> APIError" where
  "credential_failure cause = \<lparr>aeCode = ''credential_unavailable'', aeMessage = ''destination credential is unavailable'',
     aeStatus = 503, aeRetryable = False, aeReason = '''', aeCause = cause\<rparr>"

text \<open>The budget of an attempt: the health timeout of the route, cut to what is left of the deadline.\<close>

definition routeBudget :: "'x Upstream \<Rightarrow> Route \<Rightarrow> 'x hworld \<Rightarrow> int \<times> 'x hworld" where
  "routeBudget u route w =
     (let budget = rtHealthTimeoutMS route * 1000000; (left, w1) = outside (upUntilDeadline u) w in
      if (case left of None \<Rightarrow> False | Some d \<Rightarrow> d < budget)
      then (let (left', w2) = outside (upUntilDeadline u) w1 in (case left' of None \<Rightarrow> budget | Some d \<Rightarrow> d, w2))
      else (budget, w1))"

definition requestHeader :: "NormalizedRequest \<Rightarrow> http_Header" where
  "requestHeader request =
     stripCredentialHeaders
       (Header_Set (Header_Set [] ''Content-Type'' ''application/json'') ''Accept''
          (if nrStream request then ''text/event-stream'' else ''application/json''))"

text \<open>The body of the loop once the route was selected.\<close>

definition attemptRoute ::
    "audit \<Rightarrow> 'x Upstream \<Rightarrow> routedRequest \<Rightarrow> Route \<Rightarrow> int \<Rightarrow> instant \<Rightarrow> 'x hworld \<Rightarrow> attempt_end \<times> 'x hworld" where
  "attemptRoute c u routed route attempt started w =
     (let request = rqNormalized routed; failed = failed_at route attempt;
          (answer, w1) = outside (upLookup u (epHostname (rtEndpoint route))) w in
      case Resolve (\<lambda>_. answer) route of
        Inl e \<Rightarrow>
          (Again (ApiErr \<lparr>aeCode = ''connection_failure'', aeMessage = ''upstream route is unavailable'', aeStatus = 502,
             aeRetryable = True, aeReason = ''connection_failure'', aeCause = e\<rparr>),
           attemptFailed c request route attempt started ''connection_failure'' w1)
      | Inr resolved \<Rightarrow>
     (let (credential, w2) = outside (upCredential u (rtCredentialRef route)) w1 in
      case credential of
        Inl e \<Rightarrow> (Returned failed (Some (ApiErr (credential_failure e))),
                 attemptFailed c request route attempt started ''authentication_failed'' w2)
      | Inr secret \<Rightarrow>
     (case encodeDestinationRequest (upFloats u) routed route of
        Inl e \<Rightarrow> (Returned failed (Some e), w2)
      | Inr (body, path) \<Rightarrow>
     (let endpoint = (reURL resolved)\<lparr>urlPath := joinPath (urlPath (reURL resolved)) path\<rparr>;
          (budget, w3) = routeBudget u route w2 in
      if upNewRequest u endpoint \<noteq> [] then (Returned failed (Some (PlainErr (upNewRequest u endpoint))), w3)
      else (case upApply u (requestHeader request) route secret of
        Inl e \<Rightarrow> (Returned failed (Some (ApiErr (credential_failure e))),
                 attemptFailed c request route attempt started ''authentication_failed'' w3)
      | Inr header \<Rightarrow>
     (let (response, w4) = outside (upDo u resolved (redirectPolicy route) budget endpoint header body) w3 in
      case response of
        Inl e \<Rightarrow> doFailed c u request route attempt started e w4
      | Inr status \<Rightarrow>
          if status \<ge> 400 then statusFailed c request route attempt started status w4
          else accepted c u request route attempt started status w4))))))"

section \<open>The loop\<close>

definition routeSelected :: "audit \<Rightarrow> NormalizedRequest \<Rightarrow> Route \<Rightarrow> nat \<Rightarrow> 'x hworld \<Rightarrow> 'x hworld" where
  "routeSelected c request route attempt w =
     (if attempt > 0
      then emit c request route (int attempt + 1) ''route_selected'' ''fallback'' ''fallback_selected'' 0 None w
      else emit c request route (int attempt + 1) ''route_selected'' ''success'' ''none'' 0 None w)"

definition last_error :: "go_error option \<Rightarrow> go_error" where
  "last_error e = (case e of
       None \<Rightarrow> ApiErr (safeError ''no_compliant_route'' ''no route could serve the request'' 403 False)
     | Some e \<Rightarrow> e)"

fun dispatchFrom ::
    "audit \<Rightarrow> 'x Upstream \<Rightarrow> routedRequest \<Rightarrow> nat \<Rightarrow> go_error option \<Rightarrow> upstreamResult \<Rightarrow> Route list \<Rightarrow> 'x hworld \<Rightarrow>
       (upstreamResult \<times> go_error option) \<times> 'x hworld" where
  "dispatchFrom c u routed attempt lastErr failed [] w = ((failed, Some (last_error lastErr)), w)"
| "dispatchFrom c u routed attempt lastErr failed (route # routes) w =
     (let failed' = failed_at route (int attempt + 1); (started, w1) = now w in
      if attempt > 0 \<and> \<not> fallbackAllowed (auPolicy c) lastErr then ((failed', Some (last_error lastErr)), w1)
      else (case attemptRoute c u routed route (int attempt + 1) started (routeSelected c (rqNormalized routed) route attempt w1) of
          (Returned result err, w2) \<Rightarrow> ((result, err), w2)
        | (Again e, w2) \<Rightarrow> dispatchFrom c u routed (Suc attempt) (Some e) failed' routes w2))"

definition dispatch ::
    "audit \<Rightarrow> 'x Upstream \<Rightarrow> routedRequest \<Rightarrow> Route list \<Rightarrow> 'x hworld \<Rightarrow> (upstreamResult \<times> go_error option) \<times> 'x hworld" where
  "dispatch c u routed routes w = dispatchFrom c u routed 0 None (failed_at zero_Route 0) routes w"

section \<open>Which routes are contacted\<close>

text \<open>The attempts on the given routes one after the other, whatever each of them returns.\<close>

fun runs :: "audit \<Rightarrow> 'x Upstream \<Rightarrow> routedRequest \<Rightarrow> nat \<Rightarrow> Route list \<Rightarrow> 'x hworld \<Rightarrow> attempt_end list \<times> 'x hworld" where
  "runs c u routed attempt [] w = ([], w)"
| "runs c u routed attempt (route # routes) w =
     (let (started, w1) = now w;
          (end1, w2) = attemptRoute c u routed route (int attempt + 1) started (routeSelected c (rqNormalized routed) route attempt w1);
          (ends, w3) = runs c u routed (Suc attempt) routes w2
      in (end1 # ends, w3))"

definition retryable_end :: "Policy \<Rightarrow> attempt_end \<Rightarrow> bool" where
  "retryable_end policy e = (case e of Again err \<Rightarrow> fallbackAllowed policy (Some err) | Returned _ _ \<Rightarrow> False)"

definition same_contacts :: "'x hworld \<Rightarrow> 'x hworld \<Rightarrow> bool" where
  "same_contacts v w \<longleftrightarrow> hwExt v = hwExt w \<and> hwEvents v = hwEvents w \<and> hwCursor v = hwCursor w"

lemma same_contacts_now [simp]: "same_contacts w (snd (now w))"
  by (simp add: same_contacts_def now_def split: list.splits)

lemma dispatchFrom_contacts:
  assumes "dispatchFrom c u routed attempt lastErr failed routes w = (r, w')"
    and "attempt = 0 \<or> fallbackAllowed (auPolicy c) lastErr"
  shows "\<exists>tried ends v. prefix tried routes \<and> runs c u routed attempt tried w = (ends, v) \<and> same_contacts v w' \<and>
    list_all (retryable_end (auPolicy c)) (butlast ends) \<and> (routes \<noteq> [] \<longrightarrow> tried \<noteq> []) \<and>
    (tried \<noteq> routes \<longrightarrow> \<not> retryable_end (auPolicy c) (last ends))"
  using assms
proof (induction routes arbitrary: attempt lastErr failed w)
  case Nil
  then show ?case
    by (intro exI [of _ "[]"] exI [of _ w']) (auto simp: same_contacts_def)
next
  case (Cons route routes)
  obtain started w1 where n: "now w = (started, w1)" by (metis prod.exhaust)
  obtain end1 w2 where a: "attemptRoute c u routed route (int attempt + 1) started
      (routeSelected c (rqNormalized routed) route attempt w1) = (end1, w2)" by (metis prod.exhaust)
  have "\<not> (0 < attempt \<and> \<not> fallbackAllowed (auPolicy c) lastErr)" using Cons.prems(2) by auto
  then have step: "(r, w') = (case end1 of Returned result err \<Rightarrow> ((result, err), w2)
      | Again e \<Rightarrow> dispatchFrom c u routed (Suc attempt) (Some e) (failed_at route (int attempt + 1)) routes w2)"
    unfolding Cons.prems(1) [symmetric] dispatchFrom.simps Let_def n prod.case a by (simp only: if_False)
  show ?case
  proof (cases end1)
    case (Returned result err)
    then have "w' = w2" using step by simp
    then show ?thesis
      using Returned by (intro exI [of _ "[route]"] exI [of _ "[end1]"] exI [of _ w2]) (auto simp: n a same_contacts_def retryable_end_def)
  next
    case (Again e)
    have rest: "dispatchFrom c u routed (Suc attempt) (Some e) (failed_at route (int attempt + 1)) routes w2 = (r, w')"
      using step Again by simp
    show ?thesis
    proof (cases "fallbackAllowed (auPolicy c) (Some e)")
      case True
      from Cons.IH [OF rest] True obtain tried ends v where t: "prefix tried routes"
        "runs c u routed (Suc attempt) tried w2 = (ends, v)" "same_contacts v w'"
        "list_all (retryable_end (auPolicy c)) (butlast ends)" "routes \<noteq> [] \<longrightarrow> tried \<noteq> []"
        "tried \<noteq> routes \<longrightarrow> \<not> retryable_end (auPolicy c) (last ends)" by blast
      have "ends = [] \<longleftrightarrow> tried = []" using t(2) by (cases tried) (auto split: prod.splits)
      moreover have "retryable_end (auPolicy c) end1" using True Again by (simp add: retryable_end_def)
      ultimately show ?thesis
        using t by (intro exI [of _ "route # tried"] exI [of _ "end1 # ends"] exI [of _ v]) (auto simp: n a)
    next
      case False
      have "same_contacts w2 w'"
        using rest False same_contacts_now [of w2] by (cases routes) (auto simp: same_contacts_def split: prod.splits)
      then show ?thesis
        using False Again
        by (intro exI [of _ "[route]"] exI [of _ "[end1]"] exI [of _ w2]) (auto simp: n a retryable_end_def)
    qed
  qed
qed

section \<open>Every attempt is audited\<close>

definition audited :: "'x hworld \<Rightarrow> 'x hworld \<Rightarrow> bool" where
  "audited w w' \<longleftrightarrow> clock_ok w' \<and> complete w w'"

lemma audited_trans: "audited u v \<Longrightarrow> audited v w \<Longrightarrow> audited u w"
  by (auto simp: audited_def intro: complete_trans)

lemma outside_quiet:
  "outside f w = (a, w') \<Longrightarrow> clock_ok w' = clock_ok w \<and> hwEvents w' = hwEvents w \<and> hwCursor w' = hwCursor w"
  by (auto simp: outside_def clock_ok_def split: prod.splits)

lemma audited_outside: "outside f w = (a, w') \<Longrightarrow> clock_ok w \<Longrightarrow> audited w w'"
  using outside_quiet [of f w a w'] by (auto simp: audited_def complete_def intro!: exI [of _ "[]"])

lemma audited_now: "now w = (t, w') \<Longrightarrow> clock_ok w \<Longrightarrow> audited w w'"
  using now_ok [of w] by (auto simp: audited_def complete_def intro!: exI [of _ "[]"])

lemma audited_emit:
  assumes "audit_ready c request" and "route_ready route" and "attempt = 1 \<or> attempt = 2" and "clock_ok w"
    and "recordable eventType outcome reason usage"
  shows "audited w (emit c request route attempt eventType outcome reason latency usage w)"
  using emit_delivery [OF assms(1-4) refl, of eventType outcome reason latency usage] assms(5)
  by (auto simp: audited_def complete_def)

lemma audited_attemptFailed:
  assumes "audit_ready c request" and "route_ready route" and "attempt = 1 \<or> attempt = 2" and "clock_ok w"
    and "validFailureEventReason reason"
  shows "audited w (attemptFailed c request route attempt started reason w)"
proof -
  obtain t w1 where n: "now w = (t, w1)" by (metis prod.exhaust)
  have 1: "audited w w1" by (rule audited_now [OF n assms(4)])
  have "recordable ''attempt_finished'' ''failed'' reason None" using assms(5) by (simp add: recordable_def negative_usage_def)
  from audited_emit [OF assms(1-3) _ this, of w1] 1 show ?thesis
    by (auto simp: attemptFailed_def n audited_def intro: complete_trans)
qed

lemma audited_clock: "audited w w' \<Longrightarrow> clock_ok w'"
  by (simp add: audited_def)

text \<open>The destination is not read after the context was cancelled.\<close>

definition scan_uncancelled :: "'x Upstream \<Rightarrow> bool" where
  "scan_uncancelled u \<longleftrightarrow> (\<forall>x e x'. upScan u x \<noteq> (Ended (Some (e, Some Canceled)), x'))"

lemma prepare_reports:
  assumes "scan_uncancelled u" and "prepareStream (upScan u) route request x = (Inl e, x')"
  shows "reasonForError e \<noteq> ''cancelled''"
proof -
  obtain b n x1 where next1: "nextStreamEvents (upScan u) (rtDestinationProtocol route) (nrLogicalRequestID request) newNormalizer x = (b, n, x1)"
    by (metis prod.exhaust)
  have plain: "reasonForError index_out_of_range \<noteq> ''cancelled''" by (simp add: index_out_of_range_def reasonForError_def)
  have code: "reasonForError (ApiErr (reportedError failure)) \<noteq> ''cancelled''" if "neCode failure \<noteq> ''cancelled''" for failure
    using that by (simp add: reportedError_def reasonForError_def reason_of_code_def)
  show ?thesis
  proof (cases b)
    case (Batch events reasoning)
    have other: "reasonForError (ApiErr (safeError ''upstream_5xx'' m s b)) \<noteq> ''cancelled''" for m s b
      by (simp add: safeError_def reasonForError_def reason_of_code_def)
    have reported: "reasonForError (ApiErr (reportedError failure)) \<noteq> ''cancelled''" if "ev \<in> set events" "seError ev = Some failure" for ev failure
      by (rule code [OF nextStreamEvents_errors [OF next1 [unfolded Batch] that]])
    show ?thesis
      using assms(2) next1 Batch reported plain other
      by (auto simp: prepareStream_def split: list.splits if_splits option.splits)
  next
    case Done
    then show ?thesis using assms(2) next1 by (auto simp: prepareStream_def reasonForError_def reason_of_code_def)
  next
    case (Failed err)
    with nextStreamEvents_failed [OF next1 [unfolded Failed]] assms(1) have "snd err \<noteq> Some Canceled"
      by (auto simp: scan_uncancelled_def) (metis prod.collapse)
    then show ?thesis
      using assms(2) next1 Failed
      by (auto simp: prepareStream_def streamAPIError_def reasonForError_def reason_of_code_def Let_def split: option.splits ctx_error.splits)
  qed
qed

lemma failure_reasons:
  "validFailureEventReason ''timeout_before_first_byte''" "validFailureEventReason ''connection_failure''"
  "validFailureEventReason ''authentication_failed''" "validFailureEventReason ''policy_denied''"
  by (simp_all add: validFailureEventReason_def)

lemma reason_of_failure: "reasonForError e \<noteq> ''cancelled'' \<Longrightarrow> validFailureEventReason (reasonForError e)"
  by (auto simp: reasonForError_def reason_of_code_def validFailureEventReason_def split: go_error.splits if_splits)

definition attempt_ready :: "audit \<Rightarrow> NormalizedRequest \<Rightarrow> Route \<Rightarrow> int \<Rightarrow> bool" where
  "attempt_ready c request route attempt \<longleftrightarrow> audit_ready c request \<and> route_ready route \<and> (attempt = 1 \<or> attempt = 2)"

lemma audited_failed:
  "attempt_ready c request route attempt \<Longrightarrow> audited w w1 \<Longrightarrow> validFailureEventReason reason \<Longrightarrow>
     audited w (attemptFailed c request route attempt started reason w1)"
  by (rule audited_trans, assumption, rule audited_attemptFailed) (auto simp: attempt_ready_def audited_clock)

lemma statusCodes_reason: "validFailureEventReason (snd (statusCodes status))"
  by (simp add: statusCodes_def classifyStatus_def validFailureEventReason_def Let_def)

lemma audited_doFailed:
  assumes ready: "attempt_ready c request route attempt" and "clock_ok w" and "doFailed c u request route attempt started e w = (r, w')"
  shows "audited w w'"
proof -
  obtain fired w1 where 1: "outside (upTimerFired u) w = (fired, w1)" by (metis prod.exhaust)
  have a1: "audited w w1" by (rule audited_outside [OF 1 assms(2)])
  obtain ctx1 w2 where 2: "(if fired then outside (upCtxErr u) w1 else (None, w1)) = (ctx1, w2)" by (metis prod.exhaust)
  have a2: "audited w w2"
    using a1 2 audited_outside [of "upCtxErr u" w1] by (auto simp: audited_def split: if_splits intro: complete_trans)
  obtain ctx2 w3 where 3: "outside (upCtxErr u) w2 = (ctx2, w3)" by (metis prod.exhaust)
  have a3: "audited w w3" by (rule audited_trans [OF a2 audited_outside [OF 3 audited_clock [OF a2]]])
  obtain ctx3 w4 where 4: "outside (upCtxErr u) w3 = (ctx3, w4)" by (metis prod.exhaust)
  have a4: "audited w w4" by (rule audited_trans [OF a3 audited_outside [OF 4 audited_clock [OF a3]]])
  show ?thesis
    using assms(3) a4 audited_failed [OF ready a2 failure_reasons(1)]
      audited_failed [OF ready a3 failure_reasons(1)]
      audited_failed [OF ready a3 failure_reasons(2)]
    by (auto simp: doFailed_def Let_def 1 2 3 4 split: if_splits)
qed

lemma audited_statusFailed:
  assumes ready: "attempt_ready c request route attempt" and "clock_ok w" and "statusFailed c request route attempt started status w = (r, w')"
  shows "audited w w'"
proof -
  have "audited w w" using assms(2) by (simp add: audited_def)
  from audited_failed [OF ready this statusCodes_reason, of started status] assms(3) show ?thesis
    by (auto simp: statusFailed_def Let_def split: prod.splits)
qed

lemma audited_accepted:
  assumes ready: "attempt_ready c request route attempt" and "clock_ok w" and "scan_uncancelled u" and "accepted c u request route attempt started status w = (r, w')"
  shows "audited w w'"
proof -
  let ?prepare = "prepareStream (upScan u) route request"
  obtain p w1 where 1: "outside ?prepare w = (p, w1)" by (metis prod.exhaust)
  have a1: "audited w w1" by (rule audited_outside [OF 1 assms(2)])
  obtain fired w2 where 2: "outside (upTimerFired u) w1 = (fired, w2)" by (metis prod.exhaust)
  have a2: "audited w w2" by (rule audited_trans [OF a1 audited_outside [OF 2 audited_clock [OF a1]]])
  obtain fired' w3 where 3: "outside (upTimerFired u) w = (fired', w3)" by (metis prod.exhaust)
  have a3: "audited w w3" by (rule audited_outside [OF 3 assms(2)])
  have p: "validFailureEventReason (reasonForError e)" if peq: "p = Inl e" for e
  proof (rule reason_of_failure)
    have "\<exists>x'. ?prepare (hwExt w) = (p, x')" using 1 by (auto simp: outside_def split: prod.splits)
    then obtain x' where "?prepare (hwExt w) = (Inl e, x')" using peq by blast
    then show "reasonForError e \<noteq> ''cancelled''" by (rule prepare_reports [OF assms(3)])
  qed
  have t: "validFailureEventReason (reasonForError (ApiErr (timeout_error m [])))" for m
    by (simp add: timeout_error_def reasonForError_def reason_of_code_def failure_reasons)
  show ?thesis
    using assms(4) a2 a3 audited_failed [OF ready a2 t] audited_failed [OF ready a2 p]
      audited_failed [OF ready a3 failure_reasons(1)]
    by (auto simp: accepted_def Let_def 1 2 3 split: if_splits sum.splits)
qed

lemma audited_routeBudget:
  assumes "audited w w1" and "routeBudget u route w1 = (b, w')"
  shows "audited w w'"
proof -
  obtain left w2 where 1: "outside (upUntilDeadline u) w1 = (left, w2)" by (metis prod.exhaust)
  have a1: "audited w w2" by (rule audited_trans [OF assms(1) audited_outside [OF 1 audited_clock [OF assms(1)]]])
  obtain left' w3 where 2: "outside (upUntilDeadline u) w2 = (left', w3)" by (metis prod.exhaust)
  have a2: "audited w w3" by (rule audited_trans [OF a1 audited_outside [OF 2 audited_clock [OF a1]]])
  show ?thesis using assms(2) a1 a2 by (auto simp: routeBudget_def Let_def 1 2 split: if_splits)
qed

lemma audited_attemptRoute:
  assumes ready: "attempt_ready c (rqNormalized routed) route attempt" and "clock_ok w" and "scan_uncancelled u"
    and run: "attemptRoute c u routed route attempt started w = (r, w')"
  shows "audited w w'"
proof -
  obtain answer w1 where 1: "outside (upLookup u (epHostname (rtEndpoint route))) w = (answer, w1)" by (metis prod.exhaust)
  have a1: "audited w w1" by (rule audited_outside [OF 1 assms(2)])
  obtain credential w2 where 2: "outside (upCredential u (rtCredentialRef route)) w1 = (credential, w2)" by (metis prod.exhaust)
  have a2: "audited w w2" by (rule audited_trans [OF a1 audited_outside [OF 2 audited_clock [OF a1]]])
  obtain budget w3 where 3: "routeBudget u route w2 = (budget, w3)" by (metis prod.exhaust)
  have a3: "audited w w3" by (rule audited_routeBudget [OF a2 3])
  note fails = audited_failed [OF ready a1 failure_reasons(2)] audited_failed [OF ready a2 failure_reasons(3)]
    audited_failed [OF ready a3 failure_reasons(3)]
  have last: "audited w w'"
    if "outside f w3 = (response, w4)"
      "(case response of Inl e \<Rightarrow> doFailed c u (rqNormalized routed) route attempt started e w4
        | Inr status \<Rightarrow> if 400 \<le> status then statusFailed c (rqNormalized routed) route attempt started status w4
            else accepted c u (rqNormalized routed) route attempt started status w4) = (r, w')" for f response w4
  proof -
    have a4: "audited w w4" by (rule audited_trans [OF a3 audited_outside [OF that(1) audited_clock [OF a3]]])
    note ends = audited_doFailed [OF ready audited_clock [OF a4]] audited_statusFailed [OF ready audited_clock [OF a4]]
      audited_accepted [OF ready audited_clock [OF a4] assms(3)]
    show ?thesis using that(2) ends by (auto intro: audited_trans [OF a4] split: sum.splits if_splits)
  qed
  show ?thesis
    using run last a2 a3 fails
    by (auto simp: attemptRoute_def Let_def 1 2 3 split: sum.splits prod.splits if_splits)
qed

lemma audited_routeSelected:
  assumes "attempt_ready c request route (int attempt + 1)" and "clock_ok w"
  shows "audited w (routeSelected c request route attempt w)"
  using assms audited_emit [of c request route "int attempt + 1" w "''route_selected''"]
  by (cases attempt) (auto simp: routeSelected_def attempt_ready_def recordable_def negative_usage_def)

lemma audited_dispatchFrom:
  assumes "audit_ready c (rqNormalized routed)" and "scan_uncancelled u"
    and "list_all route_ready routes" and "attempt + length routes \<le> 2" and "clock_ok w"
    and "dispatchFrom c u routed attempt lastErr failed routes w = (r, w')"
  shows "audited w w'"
  using assms(3-6)
proof (induction routes arbitrary: attempt lastErr failed w)
  case Nil
  then show ?case by (simp add: audited_def)
next
  case (Cons route routes)
  obtain started w1 where n: "now w = (started, w1)" by (metis prod.exhaust)
  have a1: "audited w w1" by (rule audited_now [OF n Cons.prems(3)])
  have ready: "attempt_ready c (rqNormalized routed) route (int attempt + 1)"
    using assms(1) Cons.prems(1,2) by (auto simp: attempt_ready_def)
  have a2: "audited w (routeSelected c (rqNormalized routed) route attempt w1)"
    by (rule audited_trans [OF a1 audited_routeSelected [OF ready audited_clock [OF a1]]])
  obtain end1 w2 where a: "attemptRoute c u routed route (int attempt + 1) started
      (routeSelected c (rqNormalized routed) route attempt w1) = (end1, w2)" by (metis prod.exhaust)
  have a3: "audited w w2"
    by (rule audited_trans [OF a2 audited_attemptRoute [OF ready audited_clock [OF a2] assms(2) a]])
  have step: "(r, w') = (if attempt > 0 \<and> \<not> fallbackAllowed (auPolicy c) lastErr
      then ((failed_at route (int attempt + 1), Some (last_error lastErr)), w1)
      else (case end1 of Returned result err \<Rightarrow> ((result, err), w2)
        | Again e \<Rightarrow> dispatchFrom c u routed (Suc attempt) (Some e) (failed_at route (int attempt + 1)) routes w2))"
    unfolding Cons.prems(4) [symmetric] dispatchFrom.simps Let_def n prod.case a by (rule refl)
  have rest: "audited w2 w'" if "dispatchFrom c u routed (Suc attempt) (Some e) (failed_at route (int attempt + 1)) routes w2 = (r, w')" for e
    by (rule Cons.IH [OF _ _ audited_clock [OF a3] that]) (use Cons.prems in auto)
  show ?case
    using step a1 a3 audited_trans [OF a3 rest] by (auto split: if_splits attempt_end.splits)
qed

end
