(* ===== verification/AnthropicAdapter.thy ===== *)
theory AnthropicAdapter
  imports UpstreamBodies
begin

text \<open>
  The Anthropic Messages protocol: \<open>internal/proxy/anthropic/adapter.go\<close>.  Listener authentication,
  normalisation of a request, and translation of requests and answers to and from the protocol.  Its
  event streams (\<open>stream.go\<close>) are not modelled; the router refuses streaming on this path.
\<close>

section \<open>Errors\<close>

definition invalid :: "string \<Rightarrow> go_error" where
  "invalid message = AnthropicErr ''invalid_request'' message 400"

definition messages_unsupported :: "string \<Rightarrow> go_error" where
  "messages_unsupported message = AnthropicErr ''unsupported_capability'' message 400"

definition upstream :: "string \<Rightarrow> go_error" where
  "upstream message = AnthropicErr ''upstream_invalid_response'' message 502"

section \<open>Listener authentication\<close>

definition forbidden_header :: "string \<Rightarrow> bool" where
  "forbidden_header name \<longleftrightarrow>
     lowersTo name ''anthropic-beta'' \<or> contains_list (map of_char ''prompt-cache'') (map lowerRune (runes name))"

definition anthropic_denied :: go_error where
  "anthropic_denied = AnthropicErr ''authentication_failed'' ''listener authentication failed'' 401"

definition stripSourceCredentials :: "http_Header \<Rightarrow> http_Header" where
  "stripSourceCredentials header =
     fold (\<lambda>name h. if credential_header name then Header_Del h name else h) (map fst header) header"

definition AuthenticateAndStrip :: "http_Header \<Rightarrow> string \<Rightarrow> go_error option \<times> http_Header" where
  "AuthenticateAndStrip header listenerToken =
     (let authorization = Header_Values header ''Authorization''; apiKeys = Header_Values header ''x-api-key'';
          verdict =
            (if list_ex (\<lambda>kv. forbidden_header (fst kv)) header
             then Some (AnthropicErr ''unsupported_capability'' ''Anthropic beta and prompt caching are unsupported'' 400)
             else if Header_Values header ''anthropic-version'' \<noteq> [''2023-06-01'']
             then Some (AnthropicErr ''unsupported_capability'' ''anthropic-version must be 2023-06-01'' 400)
             else (case (if length authorization = 1 \<and> length apiKeys = 0 then
                     (case cut_at (CHR '' '') (hd authorization) of
                        Some (scheme, rest) \<Rightarrow> if equalFold scheme ''Bearer'' then Some rest else None
                      | None \<Rightarrow> None)
                   else if length authorization = 0 \<and> length apiKeys = 1 then Some (hd apiKeys) else None) of
                 None \<Rightarrow> Some anthropic_denied
               | Some sourceCredential \<Rightarrow>
                   if listenerToken = '''' \<or> sourceCredential \<noteq> listenerToken then Some anthropic_denied else None))
      in (verdict, stripSourceCredentials header))"

section \<open>Bodies\<close>

record message =
  msRole :: string
  msContent :: string

record contentBlock =
  cbType :: string
  cbText :: string
  cbID :: string
  cbName :: string
  cbInput :: string
  cbToolUseID :: string
  cbContent :: string
  cbIsError :: "bool option"

record tool =
  toName :: string
  toDescription :: string
  toInputSchema :: "(string \<times> json) list option"

record toolChoice =
  tcType :: string
  tcName :: string
  tcDisableParallelToolUse :: "bool option"

record messagesRequest =
  mqModel :: string
  mqMaxTokens :: int
  mqMessages :: "message list"
  mqSystem :: string
  mqTools :: "tool list"
  mqToolChoice :: string
  mqStream :: bool
  mqTemperature :: "rat option"
  mqTopP :: "rat option"
  mqStopSequences :: "string list"

definition dMessage :: "message decoder" where
  "dMessage = dStruct True [(''role'', fld dString msRole msRole_update), (''content'', fld dRaw msContent msContent_update)]"

definition zero_contentBlock :: contentBlock where
  "zero_contentBlock = \<lparr>cbType = '''', cbText = '''', cbID = '''', cbName = '''', cbInput = '''', cbToolUseID = '''', cbContent = '''',
     cbIsError = None\<rparr>"

definition dContentBlock :: "contentBlock decoder" where
  "dContentBlock = dStruct True
     [(''type'', fld dString cbType cbType_update), (''text'', fld dString cbText cbText_update),
      (''id'', fld dString cbID cbID_update), (''name'', fld dString cbName cbName_update), (''input'', fld dRaw cbInput cbInput_update),
      (''tool_use_id'', fld dString cbToolUseID cbToolUseID_update), (''content'', fld dRaw cbContent cbContent_update),
      (''is_error'', fld (dPtr dBool False) cbIsError cbIsError_update)]"

definition dTool :: "Floats \<Rightarrow> tool decoder" where
  "dTool F = dStruct True
     [(''name'', fld dString toName toName_update), (''description'', fld dString toDescription toDescription_update),
      (''input_schema'', fld (dAnyMap F) toInputSchema toInputSchema_update)]"

definition dToolChoice :: "toolChoice decoder" where
  "dToolChoice = dStruct True
     [(''type'', fld dString tcType tcType_update), (''name'', fld dString tcName tcName_update),
      (''disable_parallel_tool_use'', fld (dPtr dBool False) tcDisableParallelToolUse tcDisableParallelToolUse_update)]"

definition dMessagesRequest :: "Floats \<Rightarrow> messagesRequest decoder" where
  "dMessagesRequest F = dStruct True
     [(''model'', fld dString mqModel mqModel_update), (''max_tokens'', fld dInt mqMaxTokens mqMaxTokens_update),
      (''messages'', fld (dSlice dMessage \<lparr>msRole = '''', msContent = ''''\<rparr>) mqMessages mqMessages_update),
      (''system'', fld dRaw mqSystem mqSystem_update),
      (''tools'', fld (dSlice (dTool F) \<lparr>toName = '''', toDescription = '''', toInputSchema = None\<rparr>) mqTools mqTools_update),
      (''tool_choice'', fld dRaw mqToolChoice mqToolChoice_update), (''stream'', fld dBool mqStream mqStream_update),
      (''temperature'', fld (dPtr (dFloat F) 0) mqTemperature mqTemperature_update),
      (''top_p'', fld (dPtr (dFloat F) 0) mqTopP mqTopP_update),
      (''stop_sequences'', fld (dSlice dString '''') mqStopSequences mqStopSequences_update)]"

definition zero_messagesRequest :: messagesRequest where
  "zero_messagesRequest = \<lparr>mqModel = '''', mqMaxTokens = 0, mqMessages = [], mqSystem = '''', mqTools = [], mqToolChoice = '''',
     mqStream = False, mqTemperature = None, mqTopP = None, mqStopSequences = []\<rparr>"

text \<open>\<open>map[string]json.RawMessage\<close>: nil for \<open>null\<close>.\<close>

definition rawObject :: "string \<Rightarrow> (string \<times> string) list option option" where
  "rawObject raw = unmarshal (dMap Some) None raw"

definition hasExactKeys :: "string \<Rightarrow> string list \<Rightarrow> bool" where
  "hasExactKeys raw keys =
     (case rawObject raw of
        Some object \<Rightarrow> length (slice_elems object) = length keys \<and> list_all (\<lambda>key. map_of (slice_elems object) key \<noteq> None) keys
      | None \<Rightarrow> False)"

definition isJSONObject :: "Floats \<Rightarrow> string \<Rightarrow> bool" where
  "isJSONObject F raw = (case unmarshal (dAnyMap F) None raw of Some (Some _) \<Rightarrow> True | _ \<Rightarrow> False)"

definition compact :: "string \<Rightarrow> string" where
  "compact raw = (case json_Compact raw of None \<Rightarrow> raw | Some text \<Rightarrow> text)"

section \<open>Content\<close>

definition content_error :: "string \<Rightarrow> go_error" where
  "content_error message = PlainErr [Other message]"

definition refused_kinds :: "string list" where
  "refused_kinds = [''image'', ''document'', ''thinking'', ''redacted_thinking'', ''server_tool_use'', ''web_search_tool_result'',
     ''computer_tool_result'']"

text \<open>\<open>json.Unmarshal(header["type"], &kind)\<close> with its error ignored.\<close>

definition kindOf :: "(string \<times> string) list \<Rightarrow> string" where
  "kindOf header =
     (case map_of header ''type'' of
        None \<Rightarrow> ''''
      | Some raw \<Rightarrow> (case unmarshal dString '''' raw of None \<Rightarrow> '''' | Some kind \<Rightarrow> kind))"

definition decodePart :: "string \<Rightarrow> go_error + contentBlock list" where
  "decodePart rawPart =
     (case rawObject rawPart of
        None \<Rightarrow> Inl (content_error ''invalid content block'')
      | Some object \<Rightarrow>
          (let header = slice_elems object in
           if map_of header ''cache_control'' \<noteq> None then Inl (messages_unsupported ''prompt caching is unsupported'')
           else if oneOf (kindOf header) refused_kinds
           then Inl (messages_unsupported ''multimodal, thinking, and computer-use content are unsupported'')
           else (case unmarshal dContentBlock zero_contentBlock rawPart of
               None \<Rightarrow> Inl (content_error ''json.Decode'')
             | Some part \<Rightarrow>
                 if cbType part = ''text'' \<and> \<not> hasExactKeys rawPart [''type'', ''text''] then Inl (content_error ''invalid text block'')
                 else if cbType part = ''tool_use'' \<and> \<not> hasExactKeys rawPart [''type'', ''id'', ''name'', ''input'']
                 then Inl (content_error ''invalid tool_use block'')
                 else if cbType part = ''tool_result'' \<and> \<not> hasExactKeys rawPart ([''type'', ''tool_use_id'', ''content''] @
                    (if map_of header ''is_error'' \<noteq> None then [''is_error''] else []))
                 then Inl (content_error ''invalid tool_result block'')
                 else Inr [part])))"

definition decodeContent :: "string \<Rightarrow> go_error + contentBlock list" where
  "decodeContent raw =
     (if length (trimSpace raw) = 0 \<or> trimSpace raw = ''null'' then Inl (content_error ''content cannot be null'')
      else (case unmarshal dString '''' raw of
          Some text \<Rightarrow> Inr [zero_contentBlock\<lparr>cbType := ''text'', cbText := text\<rparr>]
        | None \<Rightarrow> (case unmarshal (dSlice dRaw '''') [] raw of
            None \<Rightarrow> Inl (content_error ''json.Unmarshal'')
          | Some rawParts \<Rightarrow> collect decodePart rawParts)))"

definition validateContentBlock :: "contentBlock \<Rightarrow> go_error option" where
  "validateContentBlock part =
     (if cbType part = ''text'' \<and> (cbID part \<noteq> '''' \<or> cbName part \<noteq> '''' \<or> length (cbInput part) \<noteq> 0 \<or> cbToolUseID part \<noteq> '''' \<or>
         length (cbContent part) \<noteq> 0 \<or> cbIsError part \<noteq> None)
      then Some (invalid ''text content contains fields from another content type'')
      else if cbType part = ''tool_use'' \<and> (cbText part \<noteq> '''' \<or> cbToolUseID part \<noteq> '''' \<or> length (cbContent part) \<noteq> 0 \<or>
         cbIsError part \<noteq> None)
      then Some (invalid ''tool_use contains fields from another content type'')
      else if cbType part = ''tool_result'' \<and> (cbText part \<noteq> '''' \<or> cbID part \<noteq> '''' \<or> cbName part \<noteq> '''' \<or> length (cbInput part) \<noteq> 0)
      then Some (invalid ''tool_result contains fields from another content type'')
      else None)"

definition textContent :: "string \<Rightarrow> go_error + string list" where
  "textContent raw = bindS (decodeContent raw) (\<lambda>parts.
     if length parts = 0 then Inl (content_error ''content blocks cannot be empty'')
     else if \<not> list_all (\<lambda>part. cbType part = ''text'' \<and> validateContentBlock part = None) parts
     then Inl (content_error ''non-text content'')
     else Inr (map cbText parts))"

definition normalizeResult :: "string \<Rightarrow> go_error + string" where
  "normalizeResult raw =
     (if absent_raw raw then Inl (content_error ''tool result content cannot be null'')
      else (case textContent raw of
          Inr texts \<Rightarrow> Inr (quoteHTML (concat texts))
        | Inl _ \<Rightarrow> Inl (content_error ''non-string tool result is not losslessly representable'')))"

section \<open>Requests\<close>

definition lowers_with :: "string \<Rightarrow> string \<Rightarrow> bool" where
  "lowers_with name start \<longleftrightarrow> take (length start) (map lowerRune (runes name)) = map of_char start"

text \<open>One part of a message, with the identifiers of the tool uses before it.\<close>

definition partBlock :: "Floats \<Rightarrow> string \<Rightarrow> contentBlock \<Rightarrow> string list \<Rightarrow> go_error + (RequestBlock \<times> string list)" where
  "partBlock F role part seenCalls =
     (case validateContentBlock part of
        Some e \<Rightarrow> Inl e
      | None \<Rightarrow>
          if cbType part = ''text'' then Inr (text_block role (cbText part), seenCalls)
          else if cbType part = ''tool_use'' then
            (if lowers_with (cbName part) ''computer_'' \<or>
                contains_list (map of_char ''computer-use'') (map lowerRune (runes (cbName part)))
             then Inl (messages_unsupported ''computer-use tools are unsupported'')
             else if role \<noteq> ''assistant'' \<or> cbID part = '''' \<or> cbName part = '''' \<or> length (cbInput part) = 0 \<or> \<not> isJSONObject F (cbInput part)
             then Inl (invalid ''tool_use requires assistant role, id, name, and object input'')
             else if List.member seenCalls (cbID part) then Inl (invalid ''tool_use id must be unique'')
             else Inr (call_block (cbID part) (cbName part) (compact (cbInput part)), cbID part # seenCalls))
          else if cbType part = ''tool_result'' then
            (if role \<noteq> ''user'' \<or> cbToolUseID part = '''' \<or> \<not> List.member seenCalls (cbToolUseID part) \<or> cbIsError part = Some True
             then Inl (messages_unsupported ''tool_result must reference a prior successful tool_use'')
             else (case normalizeResult (cbContent part) of
                 Inl _ \<Rightarrow> Inl (messages_unsupported ''tool_result content must be text, JSON, or text blocks'')
               | Inr result \<Rightarrow> Inr (result_block (cbToolUseID part) result, seenCalls)))
          else Inl (messages_unsupported ''multimodal, thinking, and computer-use content are unsupported''))"

fun partBlocks :: "Floats \<Rightarrow> string \<Rightarrow> contentBlock list \<Rightarrow> string list \<Rightarrow> go_error + (RequestBlock list \<times> string list)" where
  "partBlocks F role [] seenCalls = Inr ([], seenCalls)"
| "partBlocks F role (part # parts) seenCalls =
     bindS (partBlock F role part seenCalls) (\<lambda>(block, seen1).
     bindS (partBlocks F role parts seen1) (\<lambda>(blocks, seen2). Inr (block # blocks, seen2)))"

definition messageParts :: "message \<Rightarrow> go_error + contentBlock list" where
  "messageParts sourceMessage =
     (if msRole sourceMessage \<noteq> ''user'' \<and> msRole sourceMessage \<noteq> ''assistant'' then Inl (invalid ''message role must be user or assistant'')
      else (case decodeContent (msContent sourceMessage) of
          Inl (AnthropicErr code m status) \<Rightarrow> Inl (AnthropicErr code m status)
        | Inl _ \<Rightarrow> Inl (invalid ''message content must be text or supported content blocks'')
        | Inr parts \<Rightarrow>
            if length parts = 0 then Inl (invalid ''message content must be text or supported content blocks'') else Inr parts))"

fun messagesBlocks :: "Floats \<Rightarrow> message list \<Rightarrow> string list \<Rightarrow> go_error + RequestBlock list" where
  "messagesBlocks F [] seenCalls = Inr []"
| "messagesBlocks F (sourceMessage # ms) seenCalls =
     bindS (messageParts sourceMessage) (\<lambda>parts.
     bindS (partBlocks F (msRole sourceMessage) parts seenCalls) (\<lambda>(blocks, seen).
     bindS (messagesBlocks F ms seen) (\<lambda>more. Inr (blocks @ more))))"

definition systemBlocks :: "string \<Rightarrow> go_error + RequestBlock list" where
  "systemBlocks raw =
     (if absent_raw raw then Inr []
      else (case textContent raw of
          Inl _ \<Rightarrow> Inl (messages_unsupported ''system supports only text blocks'')
        | Inr texts \<Rightarrow> Inr (map (text_block ''system'') texts)))"

fun messagesTools :: "tool list \<Rightarrow> string list \<Rightarrow> go_error + (Tool list \<times> string list)" where
  "messagesTools [] seenTools = Inr ([], seenTools)"
| "messagesTools (item # items) seenTools =
     (if toName item = '''' \<or> toInputSchema item = None \<or> List.member seenTools (toName item)
      then Inl (invalid ''tools require unique names and input_schema'')
      else if hasPrefix (toName item) ''computer_'' \<or>
         contains_list (map of_char ''computer use'') (map lowerRune (runes (toName item)))
      then Inl (messages_unsupported ''computer-use tools are unsupported'')
      else bindS (messagesTools items (toName item # seenTools)) (\<lambda>(tools, seen).
        Inr (\<lparr>tlName = toName item, tlDescription = toDescription item, tlInputSchema = toInputSchema item\<rparr> # tools, seen)))"

definition normalizeToolChoice :: "string \<Rightarrow> string list \<Rightarrow> go_error + string" where
  "normalizeToolChoice raw tools =
     (if absent_raw raw then Inr ''auto''
      else (case unmarshal dToolChoice \<lparr>tcType = '''', tcName = '''', tcDisableParallelToolUse = None\<rparr> raw of
          None \<Rightarrow> Inl (messages_unsupported ''tool_choice is unsupported'')
        | Some choice \<Rightarrow>
            if tcDisableParallelToolUse choice = Some True
            then Inl (messages_unsupported ''disable_parallel_tool_use is not losslessly representable'')
            else if tcType choice = ''auto'' then Inr ''auto''
            else if tcType choice = ''none'' then Inr ''none''
            else if tcType choice = ''any'' then Inr ''required''
            else if tcType choice = ''tool'' then
              (if tcName choice = '''' \<or> \<not> List.member tools (tcName choice)
               then Inl (invalid ''tool_choice references an unknown tool'')
               else Inl (messages_unsupported ''forcing a named tool is not losslessly representable''))
            else Inl (messages_unsupported ''tool_choice type is unsupported'')))"

definition outside_unit :: "rat option \<Rightarrow> bool" where
  "outside_unit v = (case v of None \<Rightarrow> False | Some t \<Rightarrow> t < 0 \<or> t > 1)"

definition messagesParts :: "Floats \<Rightarrow> string \<Rightarrow> Policy \<Rightarrow> instant \<Rightarrow> go_error + (string \<Rightarrow> NormalizedRequest)" where
  "messagesParts F raw policy t =
     (if (case rawObject raw of Some object \<Rightarrow> map_of (slice_elems object) ''thinking'' \<noteq> None | None \<Rightarrow> False)
      then Inl (messages_unsupported ''extended thinking is unsupported'')
      else (case unmarshal (dMessagesRequest F) zero_messagesRequest raw of
          None \<Rightarrow> Inl (invalid ''invalid Anthropic Messages request'')
        | Some source \<Rightarrow> (case map_of (poAliases policy) (mqModel source) of
            None \<Rightarrow> Inl (AnthropicErr ''model_not_found'' ''model alias is not defined by policy'' 404)
          | Some alias \<Rightarrow>
              if mqMaxTokens source \<le> 0 \<or> mqMaxTokens source > rlMaxOutputTokens (poRequestLimits policy)
              then Inl (invalid ''max_tokens is required and exceeds no policy limit'')
              else if length (mqMessages source) = 0 then Inl (invalid ''messages must not be empty'')
              else if outside_unit (mqTemperature source) then Inl (invalid ''temperature must be between 0 and 1'')
              else if outside_unit (mqTopP source) then Inl (invalid ''top_p must be between 0 and 1'')
              else if list_ex (\<lambda>stop. stop = '''') (mqStopSequences source)
              then Inl (invalid ''stop_sequences cannot contain an empty value'')
              else bindS (systemBlocks (mqSystem source)) (\<lambda>system.
                bindS (messagesBlocks F (mqMessages source) []) (\<lambda>blocks.
                bindS (messagesTools (mqTools source) []) (\<lambda>(tools, seenTools).
                bindS (normalizeToolChoice (mqToolChoice source) seenTools) (\<lambda>choice.
                Inr (\<lambda>requestID. \<lparr>nrLogicalRequestID = requestID, nrProtocol = ProtocolAnthropicMessages,
                  nrModelAlias = mqModel source, nrDataClass = alDataClass alias, nrStream = mqStream source,
                  nrBlocks = system @ blocks, nrTools = Some tools, nrToolChoice = choice, nrResponseSchema = None,
                  nrLimits = \<lparr>nlMaxOutputTokens = mqMaxTokens source,
                    nlDeadlineAt = deadlineAt t (rlTimeoutMS (poRequestLimits policy)),
                    nlTemperature = mqTemperature source, nlTopP = mqTopP source, nlStop = mqStopSequences source\<rparr>,
                  nrCapabilitiesRequired = Some (requiredCapabilities tools None (mqStream source))\<rparr>))))))))"

definition MaxRequestBytes :: nat where
  "MaxRequestBytes = 8 * 1024 * 1024"

definition Normalize ::
    "Floats \<Rightarrow> err + string \<Rightarrow> Policy \<Rightarrow> instant \<Rightarrow> 'x hworld \<Rightarrow> (go_error + NormalizedRequest) \<times> 'x hworld" where
  "Normalize F body policy t w =
     (case body of
        Inl _ \<Rightarrow> (Inl (invalid ''invalid Anthropic Messages request''), w)
      | Inr raw \<Rightarrow>
          if length (take (Suc MaxRequestBytes) raw) > MaxRequestBytes
          then (Inl (AnthropicErr ''invalid_request'' ''request exceeds the body limit'' 413), w)
          else (case messagesParts F raw policy t of
              Inl e \<Rightarrow> (Inl e, w)
            | Inr mk \<Rightarrow> (let (requestID, w1) = uuidH w; result = mk requestID in
                (if NormalizedRequest_Validate result \<noteq> []
                 then Inl (invalid ''request is outside the supported Anthropic Messages subset'') else Inr result, w1))))"

lemma Normalize_code [code]:
  "Normalize F body policy t w =
     (case body of
        Inl _ \<Rightarrow> (Inl (invalid ''invalid Anthropic Messages request''), w)
      | Inr raw \<Rightarrow>
          if int (length raw) > 8388608 then (Inl (AnthropicErr ''invalid_request'' ''request exceeds the body limit'' 413), w)
          else (case messagesParts F raw policy t of
              Inl e \<Rightarrow> (Inl e, w)
            | Inr mk \<Rightarrow> (let (requestID, w1) = uuidH w; result = mk requestID in
                (if NormalizedRequest_Validate result \<noteq> []
                 then Inl (invalid ''request is outside the supported Anthropic Messages subset'') else Inr result, w1))))"
  by (simp add: Normalize_def MaxRequestBytes_def split: sum.split)

section \<open>Destination requests\<close>

definition resultContent :: "string \<Rightarrow> go_error + string" where
  "resultContent raw =
     (if length (trimSpace raw) = 0 \<or> trimSpace raw = ''null''
      then Inl (messages_unsupported ''normalized null tool result is not representable by Anthropic Messages'')
      else (case unmarshal dString '''' raw of
          Some text \<Rightarrow> Inr text
        | None \<Rightarrow> Inl (messages_unsupported ''normalized non-string tool result is not losslessly representable by Anthropic Messages'')))"

definition user_role :: "string \<Rightarrow> string" where
  "user_role role = (if role = ''tool'' then ''user'' else role)"

definition is_system :: "RequestBlock \<Rightarrow> bool" where
  "is_system block \<longleftrightarrow> rbRole block = ''system'' \<or> rbRole block = ''developer''"

definition messagePart :: "RequestBlock \<Rightarrow> go_error + goval" where
  "messagePart current =
     (if rbType current = ''text'' then
        bindS (deref (rbText current)) (\<lambda>text. Inr (vmap [(''type'', VString ''text''), (''text'', VString text)]))
      else if rbType current = ''tool_call'' then
        bindS (deref (rbCallID current)) (\<lambda>callID. bindS (deref (rbToolName current)) (\<lambda>name.
          Inr (vmap [(''type'', VString ''tool_use''), (''id'', VString callID), (''name'', VString name),
                     (''input'', VRaw (raw_string (rbArguments current)))])))
      else if rbType current = ''tool_result'' then
        bindS (resultContent (raw_string (rbResult current))) (\<lambda>content. bindS (deref (rbCallID current)) (\<lambda>callID.
          Inr (vmap [(''type'', VString ''tool_result''), (''tool_use_id'', VString callID), (''content'', VString content)])))
      else Inl (messages_unsupported ''normalized block cannot be represented by Anthropic Messages''))"

fun messageRun :: "string \<Rightarrow> RequestBlock list \<Rightarrow> go_error + (goval list \<times> RequestBlock list)" where
  "messageRun role [] = Inr ([], [])"
| "messageRun role (current # blocks) =
     (if user_role (rbRole current) \<noteq> role \<or> is_system current then Inr ([], current # blocks)
      else bindS (messagePart current) (\<lambda>part. bindS (messageRun role blocks) (\<lambda>(parts, rest). Inr (part # parts, rest))))"

lemma messageRun_rest: "messageRun role bs = Inr (parts, rest) \<Longrightarrow> length rest \<le> length bs"
  by (induction bs arbitrary: parts) (auto simp: bindS_def le_SucI split: if_splits sum.splits prod.splits)

lemma messageRun_shrinks:
  "messageRun (user_role (rbRole b)) (b # bs) = Inr (parts, rest) \<Longrightarrow> \<not> is_system b \<Longrightarrow> length rest < length (b # bs)"
  using messageRun_rest [of "user_role (rbRole b)" bs] by (auto simp: bindS_def split: if_splits sum.splits prod.splits)

function destinationMessages :: "bool \<Rightarrow> RequestBlock list \<Rightarrow> go_error + (goval list \<times> goval list)" where
  "destinationMessages sawMessage [] = Inr ([], [])"
| "destinationMessages sawMessage (block # blocks) =
     (if is_system block then
        (if sawMessage then Inl (messages_unsupported ''late system or developer content is not representable by Anthropic Messages'')
         else if rbType block \<noteq> ''text'' then Inl (messages_unsupported ''non-text system content is unsupported'')
         else bindS (deref (rbText block)) (\<lambda>text. bindS (destinationMessages sawMessage blocks) (\<lambda>(system, messages).
           Inr (vmap [(''type'', VString ''text''), (''text'', VString text)] # system, messages))))
      else (case messageRun (user_role (rbRole block)) (block # blocks) of
          Inl e \<Rightarrow> Inl e
        | Inr (parts, rest) \<Rightarrow> bindS (destinationMessages True rest) (\<lambda>(system, messages).
            Inr (system, vmap [(''role'', VString (user_role (rbRole block))), (''content'', VArray parts)] # messages))))"
  by pat_completeness auto
termination
  by (relation "measure (\<lambda>(saw, bs). length bs)") (use messageRun_shrinks in auto)

definition choiceMember :: "string \<Rightarrow> bool \<Rightarrow> go_error + (string \<times> goval) list" where
  "choiceMember choice hasTools =
     (let of_type = (\<lambda>kind. [(''tool_choice'', vmap [(''type'', VString kind)])]) in
      if choice = ''none'' then Inr (of_type ''none'')
      else if choice = ''required'' then Inr (of_type ''any'')
      else if choice = ''auto'' \<or> choice = '''' then Inr (if hasTools then of_type ''auto'' else [])
      else Inl (messages_unsupported ''normalized tool choice cannot be represented''))"

definition EncodeDestination :: "Floats \<Rightarrow> NormalizedRequest \<Rightarrow> Route \<Rightarrow> go_error + (string \<times> string)" where
  "EncodeDestination F input route =
     (if rtDestinationProtocol route \<noteq> ProtocolAnthropicMessages
      then Inl (messages_unsupported ''destination protocol is not Anthropic Messages'')
      else if nrResponseSchema input \<noteq> None
      then Inl (messages_unsupported ''structured output is not supported by Anthropic Messages'')
      else bindS (destinationMessages False (nrBlocks input)) (\<lambda>(system, messages).
        (let tools = map (\<lambda>item. vmap [(''name'', VString (tlName item)), (''description'', VString (tlDescription item)),
               (''input_schema'', vschema (tlInputSchema item))]) (slice_elems (nrTools input)) in
         bindS (choiceMember (nrToolChoice input) (length tools > 0)) (\<lambda>choice.
         case marshal (vmap ([(''model'', VString (rtModel route)), (''max_tokens'', vint (nlMaxOutputTokens (nrLimits input))),
             (''messages'', VArray messages), (''stream'', VBool (nrStream input))] @
             (if length system > 0 then [(''system'', VArray system)] else []) @
             (if length tools > 0 then [(''tools'', VArray tools)] else []) @ choice @ samplingMembers F input @
             (if length (nlStop (nrLimits input)) > 0
              then [(''stop_sequences'', VArray (map VString (nlStop (nrLimits input))))] else []))) of
           None \<Rightarrow> Inl marshal_error
         | Some encoded \<Rightarrow> Inr (encoded, ''messages'')))))"

definition CheckCompatibility :: "NormalizedRequest \<Rightarrow> Protocol \<Rightarrow> go_error option" where
  "CheckCompatibility input destination =
     (if nrResponseSchema input \<noteq> None
      then Some (messages_unsupported ''structured output cannot be translated through Anthropic Messages'')
      else if nrProtocol input = ProtocolAnthropicMessages \<and> nrStream input \<and> destination \<noteq> ProtocolAnthropicMessages
      then Some (messages_unsupported ''cross-protocol streaming cannot preserve Anthropic input usage timing'')
      else if nrProtocol input = ProtocolAnthropicMessages \<and> length (nlStop (nrLimits input)) > 0 \<and> destination \<noteq> ProtocolAnthropicMessages
      then Some (messages_unsupported ''cross-protocol routing cannot preserve the matched Anthropic stop_sequence'')
      else if destination = ProtocolOpenAIChat \<or> destination = ProtocolOpenAIResponses \<or> destination = ProtocolAnthropicMessages then None
      else Some (messages_unsupported ''destination protocol is unsupported''))"


section \<open>Destination answers\<close>

record messagesResponse =
  mpID :: string
  mpType :: string
  mpRole :: string
  mpModel :: string
  mpContent :: "string list"
  mpStopReason :: string
  mpStopSeq :: "string option"
  mpUsage :: "int \<times> int"

record ResponseMetadata =
  rdStopReason :: string
  rdStopSequence :: "string option"

definition dMessagesResponse :: "messagesResponse decoder" where
  "dMessagesResponse = dStruct True
     [(''id'', fld dString mpID mpID_update), (''type'', fld dString mpType mpType_update), (''role'', fld dString mpRole mpRole_update),
      (''model'', fld dString mpModel mpModel_update), (''content'', fld (dSlice dRaw '''') mpContent mpContent_update),
      (''stop_reason'', fld dString mpStopReason mpStopReason_update),
      (''stop_sequence'', fld (dPtr dString '''') mpStopSeq mpStopSeq_update),
      (''usage'', fld (dStruct True [(''input_tokens'', fld dInt fst apfst), (''output_tokens'', fld dInt snd apsnd)]) mpUsage mpUsage_update)]"

definition UsageJSON :: "string \<Rightarrow> string" where
  "UsageJSON raw =
     (case rawObject raw of
        None \<Rightarrow> ''''
      | Some object \<Rightarrow> (case map_of (slice_elems object) ''usage'' of None \<Rightarrow> '''' | Some u \<Rightarrow> u))"

definition finishReason :: "string \<Rightarrow> go_error + string" where
  "finishReason reason =
     (if reason = ''end_turn'' \<or> reason = ''stop_sequence'' then Inr ''stop''
      else if reason = ''max_tokens'' then Inr ''length''
      else if reason = ''tool_use'' then Inr ''tool_call''
      else if reason = ''refusal'' then Inr ''content_filter''
      else Inl (upstream ''upstream returned an unsupported stop_reason''))"

definition validateStopSequence :: "string \<Rightarrow> string option \<Rightarrow> string list \<Rightarrow> go_error option" where
  "validateStopSequence reason sequence requested =
     (if reason = ''stop_sequence'' then
        (if sequence = None \<or> sequence = Some '''' then Some (upstream ''stop_sequence reason omitted the matched sequence'')
         else if list_ex (\<lambda>candidate. Some candidate = sequence) requested then None
         else Some (upstream ''upstream reported an unrequested stop_sequence''))
      else if sequence \<noteq> None then Some (upstream ''stop_sequence must be null for this stop_reason'')
      else None)"

definition responsePart :: "Floats \<Rightarrow> string \<Rightarrow> go_error + ResponseBlock list" where
  "responsePart F rawPart =
     (case unmarshal (dStruct False [(''type'', dString)]) '''' rawPart of
        None \<Rightarrow> Inl (upstream ''upstream returned invalid Anthropic content'')
      | Some kind \<Rightarrow>
          if kind = ''text'' \<and> \<not> hasExactKeys rawPart [''type'', ''text''] \<or>
             kind = ''tool_use'' \<and> \<not> hasExactKeys rawPart [''type'', ''id'', ''name'', ''input'']
          then Inl (upstream ''upstream returned invalid Anthropic content keys'')
          else (case unmarshal dContentBlock zero_contentBlock rawPart of
              None \<Rightarrow> Inl (upstream ''upstream returned invalid Anthropic content'')
            | Some part \<Rightarrow>
                if validateContentBlock part \<noteq> None then Inl (upstream ''upstream returned invalid Anthropic content union'')
                else if cbType part = ''text'' then Inr [text_answer (cbText part)]
                else if cbType part = ''tool_use'' then
                  (if cbID part = '''' \<or> cbName part = '''' \<or> \<not> isJSONObject F (cbInput part)
                   then Inl (upstream ''upstream returned invalid tool_use content'')
                   else Inr [call_answer (cbID part) (cbName part) (compact (cbInput part))])
                else Inl (upstream ''upstream returned unsupported Anthropic content'')))"

definition DecodeDestinationDetailed ::
    "Floats \<Rightarrow> err + string \<Rightarrow> NormalizedRequest \<Rightarrow> string \<Rightarrow> go_error + (NormalizedResponse \<times> ResponseMetadata)" where
  "DecodeDestinationDetailed F body input routeID =
     (case body of
        Inl _ \<Rightarrow> Inl (upstream ''upstream returned an invalid Anthropic Messages response'')
      | Inr raw \<Rightarrow>
          if length (take (Suc MaxRequestBytes) raw) > MaxRequestBytes
          then Inl (upstream ''upstream returned an invalid Anthropic Messages response'')
          else if \<not> hasExactKeys raw [''id'', ''type'', ''role'', ''model'', ''content'', ''stop_reason'', ''stop_sequence'', ''usage'']
          then Inl (upstream ''upstream returned incomplete Anthropic message metadata'')
          else (case unmarshal dMessagesResponse \<lparr>mpID = '''', mpType = '''', mpRole = '''', mpModel = '''', mpContent = [],
                  mpStopReason = '''', mpStopSeq = None, mpUsage = (0, 0)\<rparr> raw of
              None \<Rightarrow> Inl (upstream ''upstream returned an invalid Anthropic Messages response'')
            | Some source \<Rightarrow>
                if \<not> hasExactKeys (UsageJSON raw) [''input_tokens'', ''output_tokens'']
                then Inl (upstream ''upstream returned an invalid Anthropic Messages response'')
                else if mpType source \<noteq> ''message'' \<or> mpRole source \<noteq> ''assistant'' \<or> mpID source = '''' \<or> mpModel source = ''''
                then Inl (upstream ''upstream returned invalid Anthropic message metadata'')
                else bindS (collect (responsePart F) (mpContent source)) (\<lambda>blocks.
                  (let sawTool = list_ex (\<lambda>b. sbType b = ''tool_call'') blocks in
                   if (mpStopReason source = ''tool_use'') \<noteq> sawTool
                   then Inl (upstream ''tool_use stop_reason contradicts response content'')
                   else (case validateStopSequence (mpStopReason source) (mpStopSeq source) (nlStop (nrLimits input)) of
                       Some e \<Rightarrow> Inl e
                     | None \<Rightarrow> bindS (finishReason (mpStopReason source)) (\<lambda>finish.
                         (let result = \<lparr>nsLogicalRequestID = nrLogicalRequestID input, nsModelAlias = nrModelAlias input, nsRouteID = routeID,
                                nsBlocks = Some blocks, nsFinishReason = finish, nsUsage = \<lparr>usInputTokens = fst (mpUsage source),
                                  usOutputTokens = snd (mpUsage source)\<rparr>\<rparr> in
                          if NormalizedResponse_Validate result \<noteq> [] then Inl (upstream ''upstream response failed normalization'')
                          else Inr (result, \<lparr>rdStopReason = mpStopReason source, rdStopSequence = mpStopSeq source\<rparr>))))))))"

definition DecodeDestination :: "Floats \<Rightarrow> err + string \<Rightarrow> NormalizedRequest \<Rightarrow> string \<Rightarrow> go_error + NormalizedResponse" where
  "DecodeDestination F body input routeID =
     bindS (DecodeDestinationDetailed F body input routeID) (\<lambda>(result, metadata).
       if rdStopSequence metadata \<noteq> None
       then Inl (messages_unsupported ''matched Anthropic stop_sequence requires adapter metadata'') else Inr result)"

section \<open>Answers to the client\<close>

definition sourceContent :: "ResponseBlock \<Rightarrow> go_error + goval list" where
  "sourceContent block =
     (if sbType block = ''text'' then
        bindS (deref (sbText block)) (\<lambda>text. Inr [vmap [(''type'', VString ''text''), (''text'', VString text)]])
      else if sbType block = ''tool_call'' then
        bindS (deref (sbCallID block)) (\<lambda>callID. bindS (deref (sbToolName block)) (\<lambda>name.
          Inr [vmap [(''type'', VString ''tool_use''), (''id'', VString callID), (''name'', VString name),
                     (''input'', VRaw (raw_string (sbArguments block)))]]))
      else Inl (messages_unsupported ''normalized response block cannot be represented by Anthropic Messages''))"

definition stopFor :: "string \<Rightarrow> string" where
  "stopFor finish = lookup_or '''' [(''stop'', ''end_turn''), (''length'', ''max_tokens''), (''tool_call'', ''tool_use''),
     (''content_filter'', ''refusal'')] finish"

definition stopContradicts :: "NormalizedResponse \<Rightarrow> ResponseMetadata \<Rightarrow> go_error option" where
  "stopContradicts input metadata =
     (if rdStopReason metadata = ''stop_sequence'' \<and> rdStopSequence metadata = None
      then Some (messages_unsupported ''matched stop_sequence metadata is incomplete'')
      else if rdStopReason metadata \<noteq> '''' \<and> rdStopReason metadata \<noteq> ''stop_sequence'' \<and>
         finishReason (rdStopReason metadata) \<noteq> Inr (nsFinishReason input)
      then Some (messages_unsupported ''Anthropic stop metadata contradicts normalized finish reason'')
      else None)"

definition sourceMessage :: "NormalizedResponse \<Rightarrow> ResponseMetadata \<Rightarrow> go_error + goval" where
  "sourceMessage input metadata =
     (case stopContradicts input metadata of
        Some e \<Rightarrow> Inl e
      | None \<Rightarrow>
          bindS (collect sourceContent (slice_elems (nsBlocks input))) (\<lambda>content.
            if rdStopSequence metadata \<noteq> None \<and> (nsFinishReason input \<noteq> ''stop'' \<or> rdStopReason metadata \<noteq> ''stop_sequence'')
            then Inl (messages_unsupported ''Anthropic stop metadata contradicts normalized finish reason'')
            else (let stop = (if rdStopSequence metadata \<noteq> None then ''stop_sequence'' else stopFor (nsFinishReason input)) in
              if stop = '''' then Inl (messages_unsupported ''normalized finish reason cannot be represented by Anthropic Messages'')
              else Inr (vmap [(''id'', VString (''msg_'' @ nsLogicalRequestID input)), (''type'', VString ''message''),
                (''role'', VString ''assistant''), (''model'', VString (nsModelAlias input)), (''content'', VArray content),
                (''stop_reason'', VString stop),
                (''stop_sequence'', case rdStopSequence metadata of None \<Rightarrow> VNull | Some s \<Rightarrow> VString s),
                (''usage'', vmap [(''input_tokens'', vint (usInputTokens (nsUsage input))),
                   (''output_tokens'', vint (usOutputTokens (nsUsage input)))])]))))"

definition WriteSourceResponseDetailed :: "NormalizedResponse \<Rightarrow> ResponseMetadata \<Rightarrow> go_error + string" where
  "WriteSourceResponseDetailed input metadata =
     bindS (sourceMessage input metadata) (\<lambda>body.
       case marshal body of None \<Rightarrow> Inl marshal_error | Some text \<Rightarrow> Inr (text @ [CHR 10]))"

definition WriteSourceResponse :: "NormalizedResponse \<Rightarrow> go_error + string" where
  "WriteSourceResponse input = WriteSourceResponseDetailed input \<lparr>rdStopReason = '''', rdStopSequence = None\<rparr>"


end
