(* ===== verification/RouterHandler.thy ===== *)
theory RouterHandler
  imports RouterDispatch AnthropicAdapter
begin

text \<open>
  The HTTP handler: \<open>internal/proxy/router/handler.go\<close>, \<open>NewHandler\<close> and \<open>writeError\<close> of \<open>types.go\<close> and
  the workload scopes of \<open>internal/harnessworker/contracts.gen.go\<close>.  A request is the text of its body,
  or the error of reading it; the client's connection is the \<open>Client\<close>, whose writer may fail.  The
  lemmas say who is served, what the client gets and what the audit records.
\<close>

section \<open>Workload scopes\<close>

record WorkloadScope =
  wsRunID :: string
  wsWorkspaceID :: string
  wsProjectID :: string
  wsOperationID :: string
  wsSandboxID :: string
  wsAgentVersionID :: string
  wsAgentVersionDigest :: string
  wsHarnessProfileID :: string
  wsHarnessProfileDigest :: string
  wsHarnessVersionID :: string
  wsHarnessVersionDigest :: string
  wsHarnessExecutableDigest :: string
  wsRouteID :: string
  wsRouteVersion :: int
  wsProtocol :: Protocol
  wsExpiresAt :: string
  wsListenerCredentialRef :: string
  wsListenerTokenFingerprint :: string

definition dashed :: "(char \<Rightarrow> bool) list list \<Rightarrow> (char \<Rightarrow> bool) list" where
  "dashed groups = concat (map (\<lambda>g. g @ [\<lambda>c. c = CHR ''-'']) (butlast groups)) @ last groups"

text \<open>\<open>uuidRE\<close> of the router and \<open>contractUUIDPattern\<close> of the harness worker: lower case only.\<close>

definition uuidRE :: "string \<Rightarrow> bool" where
  "uuidRE = match_classes (dashed
     [replicate 8 is_lower_hex, replicate 4 is_lower_hex, in_range 49 53 # replicate 3 is_lower_hex,
      (\<lambda>c. c \<in> set ''89ab'') # replicate 3 is_lower_hex, replicate 12 is_lower_hex])"

definition contractListenerRefPattern :: "string \<Rightarrow> bool" where
  "contractListenerRefPattern = match_classes (map (\<lambda>c c'. c' = c) ''listener-token://'' @ dashed
     [replicate 8 is_lower_hex, replicate 4 is_lower_hex, replicate 4 is_lower_hex, replicate 4 is_lower_hex,
      replicate 12 is_lower_hex])"

definition WorkloadScopeMaxLifetime :: int where
  "WorkloadScopeMaxLifetime = 24 * 3600 * time_Second"

definition ValidateWorkloadScopeAt :: "WorkloadScope \<Rightarrow> instant \<Rightarrow> err" where
  "ValidateWorkloadScopeAt scope t =
     (if \<not> list_all uuidRE [wsRunID scope, wsWorkspaceID scope, wsProjectID scope, wsOperationID scope, wsSandboxID scope,
         wsAgentVersionID scope, wsHarnessProfileID scope, wsHarnessVersionID scope, wsRouteID scope]
      then [Other ''must be a lowercase canonical UUID'']
      else if \<not> list_all digestPattern [wsAgentVersionDigest scope, wsHarnessProfileDigest scope, wsHarnessVersionDigest scope,
         wsHarnessExecutableDigest scope, wsListenerTokenFingerprint scope]
      then [Other ''must be a SHA-256 digest'']
      else if wsRouteVersion scope < 1 \<or> wsRouteVersion scope > 9007199254740991
      then [Other ''routeVersion is outside the supported range'']
      else if \<not> (wsProtocol scope = ProtocolOpenAIResponses \<or> wsProtocol scope = ProtocolOpenAIChat \<or>
                 wsProtocol scope = ProtocolAnthropicMessages)
      then [Other ''protocol is unsupported'']
      else (case parseRFC3339 (wsExpiresAt scope) of
          None \<Rightarrow> [Other ''expiresAt must be RFC3339'']
        | Some expires \<Rightarrow>
            if \<not> expires > t then [Other ''workload scope is expired'']
            else if expires > t + WorkloadScopeMaxLifetime then [Other ''workload scope lifetime exceeds 24 hours'']
            else if \<not> contractListenerRefPattern (wsListenerCredentialRef scope) then [Other ''listenerCredentialRef is invalid'']
            else []))"

definition ListenerTokenFingerprint :: "sha256 \<Rightarrow> string \<Rightarrow> err + string" where
  "ListenerTokenFingerprint sha token =
     (if length token = 0 then Inl [Other ''listener token is required'']
      else if length token > 4096 then Inl [Other ''listener token exceeds the supported size'']
      else Inr (digest_text sha token))"

section \<open>The handler and its construction\<close>

record 'x Handler =
  haAudit :: audit
  haListenerToken :: string
  haWorkloadScope :: "WorkloadScope option"
  haRoutes :: routeIndex
  haUpstream :: "'x Upstream"

text \<open>
  A configuration whose credential provider is nil has no \<open>cfUpstream\<close>; a nil credential adapter is
  replaced by the bearer adapter.
\<close>

record 'x Config =
  cfPolicy :: Policy
  cfPolicyDigest :: string
  cfActivationID :: string
  cfListenerToken :: string
  cfUpstream :: "'x Upstream option"
  cfCredentialApply :: "(http_Header \<Rightarrow> Route \<Rightarrow> string \<Rightarrow> err + http_Header) option"
  cfWorkloadScope :: "WorkloadScope option"

definition checkScope :: "sha256 \<Rightarrow> 'x Config \<Rightarrow> instant \<Rightarrow> err" where
  "checkScope sha config t =
     (case cfWorkloadScope config of
        None \<Rightarrow> []
      | Some scope \<Rightarrow>
          if ValidateWorkloadScopeAt scope t \<noteq> [] then Other ''workload scope is invalid'' # ValidateWorkloadScopeAt scope t
          else if wsRouteVersion scope \<noteq> poVersion (cfPolicy config)
          then [Other ''workload route version does not match policy version'']
          else if ListenerTokenFingerprint sha (cfListenerToken config) \<noteq> Inr (wsListenerTokenFingerprint scope)
          then [Other ''listener token does not match workload scope'']
          else [])"

definition NewHandler :: "sha256 \<Rightarrow> (Policy \<Rightarrow> err + string) \<Rightarrow> 'x Config \<Rightarrow> instant \<Rightarrow> err + 'x Handler" where
  "NewHandler sha contractDigest config t =
     (if cfListenerToken config = '''' then Inl [Other ''listener token is required'']
      else if \<not> uuidRE (cfActivationID config) then Inl [Other ''valid activation ID is required'']
      else (case cfUpstream config of
          None \<Rightarrow> Inl [Other ''credential provider is required'']
        | Some up \<Rightarrow>
            if checkScope sha config t \<noteq> [] then Inl (checkScope sha config t)
            else (case (if cfPolicyDigest config = '''' then contractDigest (cfPolicy config) else Inr (cfPolicyDigest config)) of
                Inl e \<Rightarrow> Inl e
              | Inr digest \<Rightarrow> (case newRouteIndex (cfPolicy config) of
                  Inl e \<Rightarrow> Inl (Other ''POLICY_INVALID'' # e)
                | Inr index \<Rightarrow>
                    Inr \<lparr>haAudit = \<lparr>auPolicy = cfPolicy config, auPolicyDigest = digest, auActivationID = cfActivationID config\<rparr>,
                         haListenerToken = cfListenerToken config, haWorkloadScope = cfWorkloadScope config, haRoutes = index,
                         haUpstream = up\<lparr>upApply := (case cfCredentialApply config of
                           None \<Rightarrow> BearerCredentialAdapter_Apply | Some apply \<Rightarrow> apply)\<rparr>\<rparr>))))"

section \<open>Replies\<close>

text \<open>
  What the client gets: a bare status, an error in one of the two styles, or content.  \<open>Streamed\<close> has the
  frames that were written, \<open>Answered\<close> the body, or nothing when it could not be encoded or written.
\<close>

datatype reply =
    Status int
  | JSONError APIError
  | AnthropicError string APIError
  | Health int
  | Models "string list"
  | PageNotFound
  | Streamed "string list"
  | Answered "string option"

definition internal_error :: APIError where
  "internal_error = \<lparr>aeCode = ''internal_error'', aeMessage = ''proxy request failed'', aeStatus = 500,
     aeRetryable = False, aeReason = '''', aeCause = []\<rparr>"

definition writeError :: "go_error \<Rightarrow> reply" where
  "writeError err = JSONError (case err of ApiErr api \<Rightarrow> api | _ \<Rightarrow> internal_error)"

definition anthropicType :: "string \<Rightarrow> string" where
  "anthropicType code =
     (if code = ''authentication_failed'' \<or> code = ''credential_unavailable'' then ''authentication_error''
      else if code = ''invalid_request'' \<or> code = ''unsupported_capability'' \<or> code = ''no_compliant_route'' \<or>
         code = ''method_not_allowed'' then ''invalid_request_error''
      else if code = ''model_not_found'' then ''not_found_error''
      else if code = ''rate_limited'' then ''rate_limit_error''
      else ''api_error'')"

definition writeAnthropicError :: "go_error \<Rightarrow> reply" where
  "writeAnthropicError err =
     (let api = (case err of ApiErr api \<Rightarrow> api | AnthropicErr code message status \<Rightarrow> safeError code message status False
                 | PlainErr _ \<Rightarrow> internal_error)
      in AnthropicError (anthropicType (aeCode api)) api)"

definition errorReply :: "bool \<Rightarrow> go_error \<Rightarrow> reply" where
  "errorReply isAnthropic err = (if isAnthropic then writeAnthropicError err else writeError err)"

definition protocolForPath :: "string \<Rightarrow> Protocol" where
  "protocolForPath value =
     (if value = ''/v1/responses'' then ProtocolOpenAIResponses
      else if value = ''/v1/chat/completions'' then ProtocolOpenAIChat
      else if value = ''/v1/messages'' then ProtocolAnthropicMessages
      else '''')"

fun exactScopedRoute :: "Route list \<Rightarrow> string \<Rightarrow> Route list" where
  "exactScopedRoute [] routeID = []"
| "exactScopedRoute (route # routes) routeID = (if rtID route = routeID then [route] else exactScopedRoute routes routeID)"

section \<open>The list of models\<close>

text \<open>\<open>slicesSort\<close>: each value sinks towards the front past the greater ones.\<close>

fun sinkValue :: "string list \<Rightarrow> nat \<Rightarrow> string list" where
  "sinkValue values 0 = values"
| "sinkValue values (Suc j) =
     (if values ! Suc j < values ! j then sinkValue (values[Suc j := values ! j, j := values ! Suc j]) j else values)"

lemma length_sinkValue [simp]: "length (sinkValue vs j) = length vs"
  by (induction j arbitrary: vs) auto

function sortFrom :: "string list \<Rightarrow> nat \<Rightarrow> string list" where
  "sortFrom values i = (if i < length values then sortFrom (sinkValue values i) (Suc i) else values)"
  by pat_completeness auto
termination
  by (relation "measure (\<lambda>(values, i). length values - i)") auto

declare sortFrom.simps [simp del]

definition slicesSort :: "string list \<Rightarrow> string list" where
  "slicesSort values = sortFrom values 1"

definition writeModels :: "Policy \<Rightarrow> reply" where
  "writeModels policy = Models (slicesSort (map fst (poAliases policy)))"

section \<open>Preflight\<close>

fun preflightRoutes :: "'x Upstream \<Rightarrow> string list \<Rightarrow> Route list \<Rightarrow> 'x hworld \<Rightarrow> (err + string list) \<times> 'x hworld" where
  "preflightRoutes u required [] w = (Inr required, w)"
| "preflightRoutes u required (route # routes) w =
     (if \<not> List.member required (rtID route) then preflightRoutes u required routes w
      else (let (answer, w1) = outside (upLookup u (epHostname (rtEndpoint route))) w in
        case Resolve (\<lambda>_. answer) route of
          Inl _ \<Rightarrow> (Inl [Other ''route is not resolvable''], w1)
        | Inr resolved \<Rightarrow>
            if length (reAddresses resolved) = 0 then (Inl [Other ''route is not resolvable''], w1)
            else (let (credential, w2) = outside (upCredential u (rtCredentialRef route)) w1 in
              if credential = Inr '''' \<or> isl credential then (Inl [Other ''route credential is unavailable''], w2)
              else preflightRoutes u (removeAll (rtID route) required) routes w2)))"

definition Preflight :: "Policy \<Rightarrow> 'x Upstream \<Rightarrow> 'x hworld \<Rightarrow> err \<times> 'x hworld" where
  "Preflight policy u w =
     (let required = remdups (concat (map (\<lambda>(name, alias). alRouteIDs alias) (poAliases policy))) in
      if length required = 0 then ([Other ''no policy routes are required''], w)
      else (case preflightRoutes u required (poRoutes policy) w of
          (Inl e, w') \<Rightarrow> (e, w')
        | (Inr missing, w') \<Rightarrow>
            (if length missing \<noteq> 0 then [Other ''one or more required policy routes are missing''] else [], w')))"

section \<open>Serving a routed request\<close>

text \<open>\<open>h.emit(\<dots>, h.config.Now().Sub(since), \<dots>)\<close>.\<close>

definition emitSince ::
    "audit \<Rightarrow> NormalizedRequest \<Rightarrow> upstreamResult \<Rightarrow> string \<Rightarrow> string \<Rightarrow> string \<Rightarrow> instant \<Rightarrow> Usage option \<Rightarrow> 'x hworld \<Rightarrow> 'x hworld" where
  "emitSince c request result eventType outcome reason since usage w =
     (let (t, w1) = now w in
      emit c request (urRoute result) (urAttempt result) eventType outcome reason (time_Sub t since) usage w1)"

definition attemptStarted :: "upstreamResult \<Rightarrow> instant" where
  "attemptStarted result = (case urStarted result of None \<Rightarrow> zero_time | Some t \<Rightarrow> t)"

text \<open>
  \<open>errors.Is(err, ctx.Err())\<close>: with a nil argument, equality; otherwise the context error is in the
  chain of the error.
\<close>

definition isContextError :: "(go_error \<times> ctx_error option) option \<Rightarrow> ctx_error option \<Rightarrow> bool" where
  "isContextError err ctx =
     (case (err, ctx) of
        (None, None) \<Rightarrow> True
      | (Some (_, chain), Some c) \<Rightarrow> chain = Some c
      | _ \<Rightarrow> False)"

text \<open>The client's connection: its writer, and whether it can be flushed.\<close>

record 'x Client =
  clWrite :: "'x writer"
  clFlusher :: bool

definition stream_io :: "'x Handler \<Rightarrow> 'x Client \<Rightarrow> 'x StreamIO" where
  "stream_io h client = \<lparr>ioScan = upScan (haUpstream h), ioWrite = clWrite client, ioDone = upCtxErr (haUpstream h),
     ioFlusher = clFlusher client\<rparr>"

text \<open>
  \<open>streamResponse\<close> on the prepared stream of the result: the usage and error it returns, and the frames.  Without a
  prepared stream its scanner is nil.
\<close>

definition runStream ::
    "'x Handler \<Rightarrow> 'x Client \<Rightarrow> NormalizedRequest \<Rightarrow> upstreamResult \<Rightarrow> 'x \<Rightarrow>
       (Usage option \<times> stream_error option \<times> string list) \<times> 'x" where
  "runStream h client request result x =
     (case urPrepared result of
        None \<Rightarrow> ((None, Some (nil_dereference, None), []), x)
      | Some p \<Rightarrow>
          (case streamResponse (upFloats (haUpstream h)) (stream_io h client) (urRoute result) request p x of
             ((usage, err), (s, x1)) \<Rightarrow> ((usage, err, ssWriter s), x1)))"

definition serveStream ::
    "'x Handler \<Rightarrow> 'x Client \<Rightarrow> NormalizedRequest \<Rightarrow> upstreamResult \<Rightarrow> instant \<Rightarrow> 'x hworld \<Rightarrow> reply \<times> 'x hworld" where
  "serveStream h client request result started w =
     (let c = haAudit h; ((usage, err, frames), w1) = outside (runStream h client request result) w;
          (t, w2) = now w1; latency = time_Sub t started; (ctx, w3) = outside (upCtxErr (haUpstream h)) w2;
          finish = (\<lambda>outcome reason w.
            emit c request (urRoute result) (urAttempt result) ''request_finished'' outcome reason latency usage
              (emitSince c request result ''attempt_finished'' outcome reason (attemptStarted result) usage w))
      in (Streamed frames,
          if isContextError err ctx then
            emit c request (urRoute result) (urAttempt result) ''request_cancelled'' ''cancelled'' ''cancelled'' latency None w3
          else (case err of
              None \<Rightarrow> finish ''success'' ''none'' w3
            | Some (e, _) \<Rightarrow> finish ''failed'' (reasonForError e) w3)))"

text \<open>The two events at the end of a request that failed after its dispatch.\<close>

definition responseFailed ::
    "audit \<Rightarrow> NormalizedRequest \<Rightarrow> upstreamResult \<Rightarrow> instant \<Rightarrow> string \<Rightarrow> 'x hworld \<Rightarrow> 'x hworld" where
  "responseFailed c request result started reason w =
     emitSince c request result ''request_finished'' ''failed'' reason started None
       (emitSince c request result ''attempt_finished'' ''failed'' reason (attemptStarted result) None w)"

definition output_exceeded :: APIError where
  "output_exceeded = safeError ''upstream_invalid_response'' ''upstream response exceeded the output limit'' 502 False"

definition incomplete :: "Protocol \<Rightarrow> NormalizedResponse \<Rightarrow> responseMetadata \<Rightarrow> responseMetadata" where
  "incomplete protocol response meta =
     (if protocol = ProtocolOpenAIResponses \<and> nsFinishReason response = ''length'' \<and> mdStatus meta = ''''
      then \<lparr>mdStatus = ''incomplete'', mdIncompleteDetails = ''{\"reason\":\"max_output_tokens\"}''\<rparr> else meta)"

text \<open>The response in the protocol of the client, encoded and written.\<close>

definition writeResponse ::
    "bool \<Rightarrow> 'x Client \<Rightarrow> NormalizedRequest \<Rightarrow> NormalizedResponse \<Rightarrow> responseMetadata \<Rightarrow> 'x \<Rightarrow> string option \<times> 'x" where
  "writeResponse isAnthropic client request response meta x =
     (case (if isAnthropic then WriteSourceResponse response
            else writeSourceResponseDetailed (nrProtocol request) response meta) of
        Inl e \<Rightarrow> (None, x)
      | Inr body \<Rightarrow> (case clWrite client body x of (None, x1) \<Rightarrow> (Some body, x1) | (Some e, x1) \<Rightarrow> (None, x1)))"

definition serveResponse ::
    "bool \<Rightarrow> 'x Handler \<Rightarrow> 'x Client \<Rightarrow> NormalizedRequest \<Rightarrow> upstreamResult \<Rightarrow> instant \<Rightarrow> 'x hworld \<Rightarrow> reply \<times> 'x hworld" where
  "serveResponse isAnthropic h client request result started w =
     (let c = haAudit h; (body, w1) = outside (upReadBody (haUpstream h)) w in
      case decodeUpstreamResponseDetailed (urRoute result) request body of
        Inl e \<Rightarrow> (errorReply isAnthropic (ApiErr e), responseFailed c request result started (reasonForError (ApiErr e)) w1)
      | Inr (response, meta) \<Rightarrow>
          if usOutputTokens (nsUsage response) > nlMaxOutputTokens (nrLimits request)
          then (errorReply isAnthropic (ApiErr output_exceeded), responseFailed c request result started ''policy_denied'' w1)
          else (case outside (writeResponse isAnthropic client request response (incomplete (nrProtocol request) response meta)) w1 of
              (None, w2) \<Rightarrow> (Answered None, w2)
            | (Some text, w2) \<Rightarrow>
                (let (t, w3) = now w2; latency = time_Sub t started in
                 (Answered (Some text),
                  emit c request (urRoute result) (urAttempt result) ''request_finished'' ''success'' ''none'' latency (Some (nsUsage response))
                    (emitSince c request result ''attempt_finished'' ''success'' ''none'' (attemptStarted result)
                       (Some (nsUsage response)) w3)))))"

text \<open>\<open>dispatch\<close> failed: the route and attempt it names are those of the terminal event.\<close>

definition dispatchFailed ::
    "bool \<Rightarrow> 'x Handler \<Rightarrow> NormalizedRequest \<Rightarrow> Route \<Rightarrow> upstreamResult \<Rightarrow> go_error \<Rightarrow> instant \<Rightarrow> 'x hworld \<Rightarrow> reply \<times> 'x hworld" where
  "dispatchFailed isAnthropic h request first result err started w =
     (let c = haAudit h; failure = (if rtID (urRoute result) \<noteq> '''' then result else failed_at first 1);
          (ctx, w1) = outside (upCtxErr (haUpstream h)) w
      in (errorReply isAnthropic err,
          if ctx = Some Canceled then emitSince c request failure ''request_cancelled'' ''cancelled'' ''cancelled'' started None w1
          else emitSince c request failure ''request_finished'' ''failed'' (reasonForError err) started None w1))"

definition serveRouted :: "bool \<Rightarrow> 'x Handler \<Rightarrow> 'x Client \<Rightarrow> routedRequest \<Rightarrow> Route list \<Rightarrow> 'x hworld \<Rightarrow> reply \<times> 'x hworld" where
  "serveRouted isAnthropic h client routed routes w =
     (let request = rqNormalized routed; c = haAudit h;
          w1 = emit c request (hd routes) 1 ''request_started'' ''success'' ''none'' 0 None w in
      case parseRFC3339 (nlDeadlineAt (nrLimits request)) of
        None \<Rightarrow> (errorReply isAnthropic (ApiErr (safeError ''invalid_request'' ''request deadline is invalid'' 400 False)), w1)
      | Some deadline \<Rightarrow>
          (let (t, w2) = now w1 in
           if time_Sub deadline t \<le> 0
           then (errorReply isAnthropic (ApiErr (safeError ''timeout_before_first_byte'' ''request deadline elapsed'' 504 False)), w2)
           else (let (started, w3) = now w2 in
             case dispatch c (haUpstream h) routed routes w3 of
               ((result, Some err), w4) \<Rightarrow> dispatchFailed isAnthropic h request (hd routes) result err started w4
             | ((result, None), w4) \<Rightarrow>
                 if nrStream request then serveStream h client request result started w4
                 else serveResponse isAnthropic h client request result started w4)))"

section \<open>Serving a request\<close>

record http_Request =
  hrMethod :: string
  hrPath :: string
  hrHeader :: http_Header
  hrBody :: "err + string"

text \<open>\<open>Header.Get\<close> and the test of the media type.\<close>

definition Header_Get :: "http_Header \<Rightarrow> string \<Rightarrow> string" where
  "Header_Get h key = (case Header_Values h key of [] \<Rightarrow> '''' | v # _ \<Rightarrow> v)"

definition json_media :: "string \<Rightarrow> bool" where
  "json_media media \<longleftrightarrow> media = '''' \<or>
     take (length ''application/json'') (map lowerRune (runes media)) = map of_char ''application/json''"

definition scope_denied :: go_error where
  "scope_denied = ApiErr (safeError ''policy_denied'' ''request is outside the workload route scope'' 403 False)"

text \<open>From the normalised request to its routes.\<close>

definition routeRequest :: "'x Handler \<Rightarrow> routedRequest \<Rightarrow> go_error + Route list" where
  "routeRequest h routed =
     (case ensureContextLimit routed (auPolicy (haAudit h)) of
        Some e \<Rightarrow> Inl (ApiErr e)
      | None \<Rightarrow> (case selectRoutesFor (haRoutes h) routed of
          Inl e \<Rightarrow> Inl (ApiErr e)
        | Inr routes \<Rightarrow> (case haWorkloadScope h of
            None \<Rightarrow> Inr routes
          | Some scope \<Rightarrow>
              (let scoped = exactScopedRoute routes (wsRouteID scope) in
               if length scoped = 0
               then Inl (ApiErr (safeError ''no_compliant_route'' ''the workload route is unavailable'' 403 False))
               else Inr scoped))))"

text \<open>\<open>http.MaxBytesReader\<close>: the body fails to be read past the limit.\<close>

definition limitedBody :: "err + string \<Rightarrow> err + string" where
  "limitedBody body =
     (case body of
        Inl e \<Rightarrow> Inl e
      | Inr raw \<Rightarrow> if length raw > maxRequestBytes then Inl [Other ''http: request body too large''] else Inr raw)"

lemma limitedBody_code [code]:
  "limitedBody body =
     (case body of
        Inl e \<Rightarrow> Inl e
      | Inr raw \<Rightarrow> if int (length raw) > 8388608 then Inl [Other ''http: request body too large''] else Inr raw)"
  by (simp add: limitedBody_def maxRequestBytes_def split: sum.split)

definition no_source :: sourceMetadata where
  "no_source = \<lparr>smResponses = None, smResponseSchemaName = '''', smResponseSchemaStrict = False\<rparr>"

definition messagesRouted :: "go_error + NormalizedRequest \<Rightarrow> go_error + routedRequest" where
  "messagesRouted normalized =
     (case normalized of
        Inl e \<Rightarrow> Inl e
      | Inr request \<Rightarrow>
          if nrStream request \<or> length (nlStop (nrLimits request)) \<noteq> 0
          then Inl (ApiErr (unsupported ''Anthropic Messages accepts only stream=false without stop_sequences''))
          else Inr \<lparr>rqNormalized = request, rqSource = no_source\<rparr>)"

text \<open>The normalisation of a body, by the path of the request.\<close>

definition normalizeRequest :: "'x Handler \<Rightarrow> http_Request \<Rightarrow> 'x hworld \<Rightarrow> (go_error + routedRequest) \<times> 'x hworld" where
  "normalizeRequest h request w =
     (let (t, w1) = now w; body = limitedBody (hrBody request); F = upFloats (haUpstream h); policy = auPolicy (haAudit h) in
      if hrPath request = ''/v1/chat/completions'' then normalizeChatIncoming F body policy t w1
      else if hrPath request = ''/v1/responses'' then normalizeResponsesIncoming F body policy t w1
      else apfst messagesRouted (Normalize F body policy t w1))"

definition servePost :: "'x Handler \<Rightarrow> 'x Client \<Rightarrow> http_Request \<Rightarrow> 'x hworld \<Rightarrow> reply \<times> 'x hworld" where
  "servePost h client request w =
     (let isAnthropic = (hrPath request = ''/v1/messages'') in
      if hrMethod request \<noteq> ''POST'' then
        (if isAnthropic then writeAnthropicError (ApiErr (safeError ''method_not_allowed'' ''method is not allowed'' 405 False))
         else Status 405, w)
      else if \<not> json_media (Header_Get (hrHeader request) ''Content-Type'') then
        (errorReply isAnthropic (ApiErr (safeError ''invalid_request'' ''Content-Type must be application/json'' 415 False)), w)
      else if \<not> (hrPath request = ''/v1/chat/completions'' \<or> hrPath request = ''/v1/responses'' \<or> isAnthropic) then (PageNotFound, w)
      else (case normalizeRequest h request w of
          (Inl e, w1) \<Rightarrow> (errorReply isAnthropic e, w1)
        | (Inr routed, w1) \<Rightarrow> (case routeRequest h routed of
            Inl e \<Rightarrow> (errorReply isAnthropic e, w1)
          | Inr routes \<Rightarrow> serveRouted isAnthropic h client routed routes w1)))"

text \<open>The check of the listener credential: an error and the stripped header.\<close>

definition authenticate :: "'x Handler \<Rightarrow> http_Request \<Rightarrow> reply option \<times> http_Header" where
  "authenticate h request =
     (if hrPath request = ''/v1/messages'' then
        (case AuthenticateAndStrip (hrHeader request) (haListenerToken h) of
           (Some e, header) \<Rightarrow> (Some (writeAnthropicError e), header)
         | (None, header) \<Rightarrow> (None, header))
      else (case authenticateAndStrip (hrHeader request) (haListenerToken h) of
           (True, header) \<Rightarrow> (None, header)
         | (False, header) \<Rightarrow>
             (Some (writeError (ApiErr (safeError ''authentication_failed'' ''listener authentication failed'' 401 False))), header)))"

definition scopeDenies :: "'x Handler \<Rightarrow> http_Request \<Rightarrow> 'x hworld \<Rightarrow> bool \<times> 'x hworld" where
  "scopeDenies h request w =
     (case haWorkloadScope h of
        None \<Rightarrow> (False, w)
      | Some scope \<Rightarrow>
          (let (t, w1) = now w in
           (ValidateWorkloadScopeAt scope t \<noteq> [] \<or> protocolForPath (hrPath request) \<noteq> wsProtocol scope, w1)))"

definition ServeHTTP :: "'x Handler \<Rightarrow> 'x Client \<Rightarrow> http_Request \<Rightarrow> 'x hworld \<Rightarrow> reply \<times> 'x hworld" where
  "ServeHTTP h client request w =
     (if hrPath request = ''/healthz'' then
        (if hrMethod request \<noteq> ''GET'' then (Status 405, w)
         else (case Preflight (auPolicy (haAudit h)) (haUpstream h) w of
             (e, w1) \<Rightarrow> (Health (if e = [] then 200 else 503), w1)))
      else (case authenticate h request of
          (Some denied, header) \<Rightarrow> (denied, w)
        | (None, header) \<Rightarrow>
            (case scopeDenies h request w of
               (True, w1) \<Rightarrow> (errorReply (hrPath request = ''/v1/messages'') scope_denied, w1)
             | (False, w1) \<Rightarrow>
                 if hrPath request = ''/v1/models'' then
                   (if hrMethod request \<noteq> ''GET'' then Status 405 else writeModels (auPolicy (haAudit h)), w1)
                 else servePost h client (request\<lparr>hrHeader := header\<rparr>) w1)))"

section \<open>Sorting\<close>

lemma insort_before: "x < y \<Longrightarrow> insort x (xs @ [y]) = insort x xs @ [y]"
  by (induction xs) auto

lemma sinkValue_insert:
  assumes "j < length vs" and "sorted (take j vs)"
  shows "sinkValue vs j = insort (vs ! j) (take j vs) @ drop (Suc j) vs"
  using assms
proof (induction j arbitrary: vs)
  case 0
  then show ?case by (cases vs) auto
next
  case (Suc j)
  have take: "take (Suc j) vs = take j vs @ [vs ! j]" using Suc.prems by (simp add: take_Suc_conv_app_nth)
  have sorted: "sorted (take j vs)" "\<forall>x \<in> set (take j vs). x \<le> vs ! j"
    using Suc.prems(2) unfolding take by (auto simp: sorted_append)
  show ?case
  proof (cases "vs ! Suc j < vs ! j")
    case True
    let ?vs = "vs[Suc j := vs ! j, j := vs ! Suc j]"
    have "sinkValue ?vs j = insort (?vs ! j) (take j ?vs) @ drop (Suc j) ?vs"
      by (rule Suc.IH) (use Suc.prems sorted in auto)
    moreover have "?vs ! j = vs ! Suc j" "take j ?vs = take j vs" using Suc.prems by simp_all
    moreover have "drop (Suc j) ?vs = vs ! j # drop (Suc (Suc j)) vs"
      using Suc.prems(1) Cons_nth_drop_Suc [of "Suc j" vs] by (cases "drop (Suc j) vs") (auto simp: drop_update_swap)
    moreover have "insort (vs ! Suc j) (take j vs @ [vs ! j]) = insort (vs ! Suc j) (take j vs) @ [vs ! j]"
      using True by (rule insort_before)
    ultimately show ?thesis using True by (simp add: take)
  next
    case False
    then have "\<forall>x \<in> set (take (Suc j) vs). x \<le> vs ! Suc j" using sorted(2) unfolding take by auto
    then have ins: "insort (vs ! Suc j) (take (Suc j) vs) = take (Suc j) vs @ [vs ! Suc j]"
      by (simp add: sorted_insort_is_snoc Suc.prems(2))
    have "sinkValue vs (Suc j) = vs" using False by simp
    then show ?thesis
      unfolding ins append_assoc append_Cons append_Nil using id_take_nth_drop [OF Suc.prems(1)] by (rule trans)
  qed
qed

lemma sortFrom_sort:
  assumes "sorted (take i vs)" and "0 < i"
  shows "sorted (sortFrom vs i) \<and> mset (sortFrom vs i) = mset vs"
  using assms
proof (induction vs i rule: sortFrom.induct)
  case (1 vs i)
  show ?case
  proof (cases "i < length vs")
    case True
    note sink = sinkValue_insert [OF True "1.prems"(1)]
    have "sorted (insort (vs ! i) (take i vs))" using "1.prems"(1) by (simp add: sorted_insort)
    then have sorted: "sorted (take (Suc i) (sinkValue vs i))" using True by (simp add: sink)
    have perm: "mset (sinkValue vs i) = mset vs"
    proof -
      have "mset vs = mset (take i vs @ vs ! i # drop (Suc i) vs)"
        by (rule arg_cong [OF id_take_nth_drop [OF True]])
      then show ?thesis by (simp only: sink mset_append mset_insort mset.simps) simp
    qed
    have "sortFrom vs i = sortFrom (sinkValue vs i) (Suc i)" using True by (subst sortFrom.simps) simp
    then show ?thesis using "1.IH" [OF True sorted] perm by simp
  next
    case False
    then have "sortFrom vs i = vs" by (subst sortFrom.simps) simp
    then show ?thesis using "1.prems"(1) False by simp
  qed
qed

lemma slicesSort_sort: "slicesSort vs = sort vs"
proof -
  have "sorted (take 1 vs)" by (cases vs) auto
  from sortFrom_sort [OF this] show ?thesis
    unfolding slicesSort_def by (metis properties_for_sort zero_less_one)
qed

section \<open>Who is served\<close>

text \<open>The Anthropic path accepts what the other paths accept, with the version header and without beta features.\<close>

lemma authenticate_anthropic:
  "fst (AuthenticateAndStrip header token) = None \<longleftrightarrow>
     \<not> list_ex (\<lambda>kv. forbidden_header (fst kv)) header \<and> Header_Values header ''anthropic-version'' = [''2023-06-01''] \<and>
     fst (authenticateAndStrip header token)"
  "snd (AuthenticateAndStrip header token) = snd (authenticateAndStrip header token)"
  by (auto simp: AuthenticateAndStrip_def authenticateAndStrip_def Let_def stripSourceCredentials_def stripCredentialHeaders_def
      anthropic_denied_def split: option.splits if_splits prod.splits)

lemma unauthenticated_untouched:
  assumes "hrPath request \<noteq> ''/healthz''" and "fst (authenticate h request) = Some denied"
  shows "ServeHTTP h client request w = (denied, w)"
  using assms by (auto simp: ServeHTTP_def split: prod.splits)

lemma scoped_route:
  assumes "routeRequest h routed = Inr routes" and "haWorkloadScope h = Some scope"
  shows "\<exists>route. routes = [route] \<and> rtID route = wsRouteID scope \<and>
     (\<exists>selected. selectRoutesFor (haRoutes h) routed = Inr selected \<and> route \<in> set selected)"
proof -
  have "exactScopedRoute rs i = [] \<or> (\<exists>r. exactScopedRoute rs i = [r] \<and> rtID r = i \<and> r \<in> set rs)" for rs i
    by (induction rs) auto
  then show ?thesis
    using assms by (auto simp: routeRequest_def Let_def split: option.splits sum.splits if_splits)
qed

section \<open>The context limit holds despite wrap-around\<close>

lemma wrap64_id: "- (2 ^ 63) \<le> i \<Longrightarrow> i < 2 ^ 63 \<Longrightarrow> wrap64 i = i"
  by (simp add: wrap64_def)

definition input_bytes :: "routedRequest \<Rightarrow> int" where
  "input_bytes request = estimateInputTokens (rqNormalized request) + int (length (smResponseSchemaName (rqSource request))) +
     (case smResponses (rqSource request) of
        None \<Rightarrow> 0
      | Some m \<Rightarrow> sum_lengths [rmInstructions m, rmOriginalInput m, rmReasoning m, rmStreamOptions m, rmClientMetadata m, rmPromptCacheKey m] +
          sum_lengths (rmInclude m) + sum_lengths (rmReasoningItems m)) + 16"

lemma context_limit:
  assumes "routeRequest h routed = Inr routes" and "riPolicy (haRoutes h) = auPolicy (haAudit h)"
    and "0 \<le> input_bytes routed" and "input_bytes routed < 2 ^ 62"
    and "rlMaxOutputTokens (poRequestLimits (auPolicy (haAudit h))) < 2 ^ 62" and "0 \<le> nlMaxOutputTokens (nrLimits (rqNormalized routed))"
  shows "input_bytes routed + nlMaxOutputTokens (nrLimits (rqNormalized routed)) \<le>
     rlMaxContextTokens (poRequestLimits (auPolicy (haAudit h)))"
proof -
  let ?p = "auPolicy (haAudit h)" and ?out = "nlMaxOutputTokens (nrLimits (rqNormalized routed))"
  have limit: "ensureContextLimit routed ?p = None"
    using assms(1) by (auto simp: routeRequest_def split: option.splits)
  obtain selected where "selectRoutesFor (haRoutes h) routed = Inr selected"
    using assms(1) limit by (auto simp: routeRequest_def split: sum.splits)
  then have out: "?out \<le> rlMaxOutputTokens (poRequestLimits ?p)"
    using assms(2) by (auto simp: selectRoutesFor_def Let_def split: option.splits if_splits)
  have "wrap64 (wrap64 (input_bytes routed) + ?out) \<le> rlMaxContextTokens (poRequestLimits ?p)"
    using limit by (simp add: ensureContextLimit_def Let_def input_bytes_def add.assoc not_less split: if_splits)
  moreover have "wrap64 (input_bytes routed) = input_bytes routed" using assms(3,4) by (intro wrap64_id) simp_all
  moreover have "wrap64 (input_bytes routed + ?out) = input_bytes routed + ?out"
    using assms(3-6) out by (intro wrap64_id) simp_all
  ultimately show ?thesis by simp
qed

section \<open>What the audit records\<close>

definition result_ready :: "audit \<Rightarrow> NormalizedRequest \<Rightarrow> upstreamResult \<Rightarrow> bool" where
  "result_ready c request result \<longleftrightarrow> attempt_ready c request (urRoute result) (urAttempt result)"

definition event_of :: "upstreamResult \<Rightarrow> string \<Rightarrow> string \<Rightarrow> string \<Rightarrow> Usage option \<Rightarrow> Event \<Rightarrow> bool" where
  "event_of result eventType outcome reason usage e \<longleftrightarrow> evType e = eventType \<and> evOutcome e = outcome \<and> evReasonCode e = reason \<and>
     evRouteID e = rtID (urRoute result) \<and> evAttempt e = urAttempt result \<and> evUsage e = usage"

lemma emit_event:
  assumes "result_ready c request result" and "clock_ok w"
    and "w' = emit c request (urRoute result) (urAttempt result) eventType outcome reason latency usage w"
  shows "clock_ok w'"
    "recordable eventType outcome reason usage \<Longrightarrow> \<exists>e. hwEvents w' = hwEvents w @ [e] \<and> event_of result eventType outcome reason usage e"
    "\<not> recordable eventType outcome reason usage \<Longrightarrow> hwEvents w' = hwEvents w"
  using emit_delivery [OF _ _ _ assms(2,3)] assms(1)
  by (auto simp: result_ready_def attempt_ready_def event_of_def)

lemma emitSince_event:
  assumes "result_ready c request result" and "clock_ok w"
    and "w' = emitSince c request result eventType outcome reason since usage w"
  shows "clock_ok w'"
    "recordable eventType outcome reason usage \<Longrightarrow> \<exists>e. hwEvents w' = hwEvents w @ [e] \<and> event_of result eventType outcome reason usage e"
    "\<not> recordable eventType outcome reason usage \<Longrightarrow> hwEvents w' = hwEvents w"
proof -
  obtain t w1 where n: "now w = (t, w1)" by (metis prod.exhaust)
  have 1: "clock_ok w1" "hwEvents w1 = hwEvents w" using now_ok [OF assms(2)] by (simp_all add: n)
  note e = emit_event [OF assms(1) 1(1), of w' eventType outcome reason "time_Sub t since" usage]
  show "clock_ok w'"
    "recordable eventType outcome reason usage \<Longrightarrow> \<exists>e. hwEvents w' = hwEvents w @ [e] \<and> event_of result eventType outcome reason usage e"
    "\<not> recordable eventType outcome reason usage \<Longrightarrow> hwEvents w' = hwEvents w"
    using e assms(3) by (simp_all add: emitSince_def n 1)
qed

lemma recordables:
  "recordable ''request_cancelled'' ''cancelled'' ''cancelled'' None"
  "\<not> negative_usage u \<Longrightarrow> recordable ''attempt_finished'' ''success'' ''none'' u"
  "\<not> negative_usage u \<Longrightarrow> recordable ''request_finished'' ''success'' ''none'' u"
  "\<not> recordable ''request_finished'' ''failed'' ''cancelled'' u"
  "validFailureEventReason r \<Longrightarrow> recordable ''request_finished'' ''failed'' r None"
  by (simp_all add: recordable_def negative_usage_def validFailureEventReason_def)

text \<open>
  A stream that ended without error and whose context is alive is audited as cancelled: the comparison
  of the two nil errors succeeds.
\<close>

lemma stream_success_cancelled:
  assumes "result_ready (haAudit h) request result" and "clock_ok w"
    and "runStream h client request result (hwExt w) = ((usage, None, frames), x1)" and "upCtxErr (haUpstream h) x1 = (None, x2)"
  shows "\<exists>w' e. serveStream h client request result started w = (Streamed frames, w') \<and> hwEvents w' = hwEvents w @ [e] \<and>
     event_of result ''request_cancelled'' ''cancelled'' ''cancelled'' None e"
proof -
  define w1 where "w1 = w\<lparr>hwExt := x1\<rparr>"
  obtain t w2 where n: "now w1 = (t, w2)" by (metis prod.exhaust)
  have "clock_ok w1" "hwEvents w1 = hwEvents w" using assms(2) by (simp_all add: w1_def clock_ok_def)
  then have 2: "clock_ok w2" "hwEvents w2 = hwEvents w" "hwExt w2 = x1"
    using now_ok [of w1] by (simp_all add: n) (simp add: w1_def)
  have c3: "clock_ok (w2\<lparr>hwExt := x2\<rparr>)" using 2(1) by (simp add: clock_ok_def)
  obtain w' where w': "w' = emit (haAudit h) request (urRoute result) (urAttempt result) ''request_cancelled'' ''cancelled'' ''cancelled''
      (time_Sub t started) None (w2\<lparr>hwExt := x2\<rparr>)" by simp
  from emit_event(2) [OF assms(1) c3 w' recordables(1)] 2 obtain e where
    "hwEvents w' = hwEvents w @ [e]" "event_of result ''request_cancelled'' ''cancelled'' ''cancelled'' None e" by auto
  moreover have "serveStream h client request result started w = (Streamed frames, w')"
    using assms(3,4) 2(3) by (simp add: serveStream_def outside_def w1_def [symmetric] n w' isContextError_def)
  ultimately show ?thesis by blast
qed

text \<open>When the deadline of the request ends its dispatch, the terminal event is invalid and dropped.\<close>

lemma deadline_unaudited:
  assumes "result_ready (haAudit h) request result" and "rtID (urRoute result) \<noteq> ''''" and "clock_ok w"
    and "reasonForError err = ''cancelled''" and "upCtxErr (haUpstream h) (hwExt w) = (Some DeadlineExceeded, x)"
  shows "hwEvents (snd (dispatchFailed isAnthropic h request first result err started w)) = hwEvents w"
proof -
  have c: "clock_ok (w\<lparr>hwExt := x\<rparr>)" using assms(3) by (simp add: clock_ok_def)
  from emitSince_event(3) [OF assms(1) c refl recordables(4), of started None] show ?thesis
    using assms(2,4,5) by (simp add: dispatchFailed_def outside_def)
qed

text \<open>After a failure that permits no fallback, the terminal event names the next route, never contacted.\<close>

lemma failure_misattributed:
  assumes "now w = (started, w1)"
    and "attemptRoute c u routed r1 1 started (routeSelected c (rqNormalized routed) r1 0 w1) = (Again err, w2)"
    and "\<not> fallbackAllowed (auPolicy c) (Some err)"
  shows "\<exists>w3. dispatch c u routed (r1 # r2 # rs) w = ((failed_at r2 2, Some err), w3) \<and> same_contacts w2 w3"
  using assms same_contacts_now [of w2]
  by (cases "now w2") (simp add: dispatch_def last_error_def)

text \<open>A response that was written is audited with its usage, for the attempt and for the request.\<close>

lemma decoded_valid:
  "decodeUpstreamResponseDetailed route request body = Inr (response, meta) \<Longrightarrow> NormalizedResponse_Validate response = []"
  by (auto simp: decodeUpstreamResponseDetailed_def bindS_def Let_def split: sum.splits if_splits)

lemma answered_audited:
  assumes "result_ready (haAudit h) request result" and "clock_ok w"
    and "serveResponse isAnthropic h client request result started w = (Answered (Some text), w')"
  shows "\<exists>usage e1 e2. hwEvents w' = hwEvents w @ [e1, e2] \<and> event_of result ''attempt_finished'' ''success'' ''none'' (Some usage) e1 \<and>
     event_of result ''request_finished'' ''success'' ''none'' (Some usage) e2 \<and>
     usOutputTokens usage \<le> nlMaxOutputTokens (nrLimits request)"
proof -
  obtain body w1 where 1: "outside (upReadBody (haUpstream h)) w = (body, w1)" by (metis prod.exhaust)
  then obtain response meta where d: "decodeUpstreamResponseDetailed (urRoute result) request body = Inr (response, meta)"
    and limit: "\<not> usOutputTokens (nsUsage response) > nlMaxOutputTokens (nrLimits request)"
    using assms(3)
    by (auto simp: serveResponse_def errorReply_def writeError_def writeAnthropicError_def Let_def split: sum.splits if_splits)
  have usage: "\<not> negative_usage (Some (nsUsage response))"
    using decoded_valid [OF d] by (simp add: NormalizedResponse_Validate_def negative_usage_def split: if_splits)
  obtain written w2 where 2: "outside (writeResponse isAnthropic client request response (incomplete (nrProtocol request) response meta)) w1 = (written, w2)"
    by (metis prod.exhaust)
  obtain t w3 where 3: "now w2 = (t, w3)" by (metis prod.exhaust)
  have q1: "clock_ok w1" "hwEvents w1 = hwEvents w" using outside_quiet [OF 1] assms(2) by simp_all
  have q2: "clock_ok w2" "hwEvents w2 = hwEvents w" using outside_quiet [OF 2] q1 by simp_all
  have q3: "clock_ok w3" "hwEvents w3 = hwEvents w" using now_ok [OF q2(1)] q2(2) by (simp_all add: 3)
  define w4 where "w4 = emitSince (haAudit h) request result ''attempt_finished'' ''success'' ''none'' (attemptStarted result) (Some (nsUsage response)) w3"
  note e1 = emitSince_event [OF assms(1) q3(1) w4_def]
  have w': "w' = emit (haAudit h) request (urRoute result) (urAttempt result) ''request_finished'' ''success'' ''none'' (time_Sub t started)
      (Some (nsUsage response)) w4"
    using assms(3) limit by (simp add: serveResponse_def Let_def 1 d 2 3 w4_def split: option.splits)
  from e1(2) [OF recordables(2) [OF usage]] emit_event(2) [OF assms(1) e1(1) w' recordables(3) [OF usage]] q3(2) limit
  show ?thesis by (auto simp: not_less)
qed

text \<open>
  A body over the limit of the OpenAI paths fails in \<open>http.MaxBytesReader\<close>, before the check that would
  answer 413: the client gets the internal error.
\<close>

lemma oversized_body:
  assumes "hrBody request = Inr raw" and "length raw > maxRequestBytes" and "hrMethod request = ''POST''"
    and "json_media (Header_Get (hrHeader request) ''Content-Type'')"
    and "hrPath request = ''/v1/chat/completions'' \<or> hrPath request = ''/v1/responses''"
  shows "fst (servePost h client request w) = JSONError internal_error"
proof -
  have "normalizeRequest h request w = (Inl (PlainErr [Other ''http: request body too large'']), snd (now w))"
    using assms(1,2,5)
    by (auto simp: normalizeRequest_def limitedBody_def normalizeChatIncoming_def normalizeResponsesIncoming_def readLimited_def Let_def
        split: prod.split)
  then show ?thesis using assms(3-5) by (auto simp: servePost_def errorReply_def writeError_def Let_def)
qed

section \<open>What is routed\<close>

text \<open>
  A normalised request: valid, of the protocol of its path, for an alias of the policy with the data
  class the policy gives it, until the deadline of the policy, and asking for every capability it uses.
\<close>

definition asks_capabilities :: "NormalizedRequest \<Rightarrow> bool" where
  "asks_capabilities r \<longleftrightarrow> (let asked = set (slice_elems (nrCapabilitiesRequired r)) in
     ''text'' \<in> asked \<and> (nrStream r \<longrightarrow> ''streaming'' \<in> asked) \<and> (slice_elems (nrTools r) \<noteq> [] \<longrightarrow> ''tools'' \<in> asked) \<and>
     (nrResponseSchema r \<noteq> None \<longrightarrow> ''structured_output'' \<in> asked))"

definition governed :: "Protocol \<Rightarrow> Policy \<Rightarrow> instant \<Rightarrow> NormalizedRequest \<Rightarrow> bool" where
  "governed protocol policy t r \<longleftrightarrow> nrProtocol r = protocol \<and>
     (\<exists>alias. map_of (poAliases policy) (nrModelAlias r) = Some alias \<and> nrDataClass r = alDataClass alias) \<and>
     nlDeadlineAt (nrLimits r) = deadlineAt t (rlTimeoutMS (poRequestLimits policy)) \<and> asks_capabilities r"

lemma bindS_Inr: "bindS x f = Inr y \<longleftrightarrow> (\<exists>v. x = Inr v \<and> f v = Inr y)"
  by (simp add: bindS_def split: sum.split)

lemma required_asked: "nrCapabilitiesRequired r = Some (requiredCapabilities tools (nrResponseSchema r) (nrStream r)) \<Longrightarrow> nrTools r = Some tools \<Longrightarrow>
    asks_capabilities r"
  by (auto simp: asks_capabilities_def requiredCapabilities_def slice_elems_def)

lemma chatParts_governed: "chatParts F body policy t = Inr mk \<Longrightarrow> governed ProtocolOpenAIChat policy t (mk i)"
  by (auto simp: chatParts_def bindS_Inr governed_def Let_def intro!: required_asked split: option.splits if_splits)

lemma responsesParts_governed: "responsesParts F body policy t = Inr mk \<Longrightarrow> governed ProtocolOpenAIResponses policy t (mk i)"
  by (auto simp: responsesParts_def bindS_Inr governed_def Let_def intro!: required_asked split: option.splits if_splits)

lemma messagesParts_governed: "messagesParts F body policy t = Inr mk \<Longrightarrow> governed ProtocolAnthropicMessages policy t (mk i)"
  by (auto simp: messagesParts_def bindS_Inr governed_def Let_def intro!: required_asked split: option.splits if_splits prod.splits)

lemma checkNormalized_valid:
  assumes "checkNormalized message parts w = (Inr r, w')"
  shows "NormalizedRequest_Validate r = []" and "\<exists>mk i. parts = Inr mk \<and> r = mk i"
  using assms by (auto simp: checkNormalized_def Let_def split: sum.splits prod.splits if_splits)

lemma normalizeChatIncoming_governed:
  assumes "normalizeChatIncoming F body policy t w = (Inr routed, w')"
  shows "NormalizedRequest_Validate (rqNormalized routed) = []" and "governed ProtocolOpenAIChat policy t (rqNormalized routed)"
proof -
  obtain raw w1 where n: "normalizeChat F raw policy t w = (Inr (rqNormalized routed), w1)"
    using assms by (auto simp: normalizeChatIncoming_def split: sum.splits prod.splits option.splits)
  note c = checkNormalized_valid [OF n [unfolded normalizeChat_def]]
  show "NormalizedRequest_Validate (rqNormalized routed) = []" by (rule c(1))
  show "governed ProtocolOpenAIChat policy t (rqNormalized routed)" using c(2) chatParts_governed by auto
qed

lemma normalizeResponsesIncoming_governed:
  assumes "normalizeResponsesIncoming F body policy t w = (Inr routed, w')"
  shows "NormalizedRequest_Validate (rqNormalized routed) = []" and "governed ProtocolOpenAIResponses policy t (rqNormalized routed)"
proof -
  obtain raw w1 where n: "normalizeResponses F raw policy t w = (Inr (rqNormalized routed), w1)"
    using assms by (auto simp: normalizeResponsesIncoming_def split: sum.splits prod.splits)
  note c = checkNormalized_valid [OF n [unfolded normalizeResponses_def]]
  show "NormalizedRequest_Validate (rqNormalized routed) = []" by (rule c(1))
  show "governed ProtocolOpenAIResponses policy t (rqNormalized routed)" using c(2) responsesParts_governed by auto
qed

lemma Normalize_governed:
  assumes "Normalize F body policy t w = (Inr r, w')"
  shows "NormalizedRequest_Validate r = [] \<and> governed ProtocolAnthropicMessages policy t r"
  using assms messagesParts_governed [of F _ policy t]
  by (auto simp: Normalize_def Let_def split: sum.splits prod.splits if_splits)

definition posted_path :: "http_Request \<Rightarrow> bool" where
  "posted_path request \<longleftrightarrow> hrPath request \<in> {''/v1/chat/completions'', ''/v1/responses'', ''/v1/messages''}"

lemma normalizeRequest_governed:
  assumes "normalizeRequest h request w = (Inr routed, w')" and "posted_path request" and "now w = (t, w1)"
  shows "NormalizedRequest_Validate (rqNormalized routed) = [] \<and>
    governed (protocolForPath (hrPath request)) (auPolicy (haAudit h)) t (rqNormalized routed)"
proof -
  let ?F = "upFloats (haUpstream h)" and ?body = "limitedBody (hrBody request)" and ?policy = "auPolicy (haAudit h)"
  consider (chat) "hrPath request = ''/v1/chat/completions''" | (responses) "hrPath request = ''/v1/responses''"
    | (messages) "hrPath request = ''/v1/messages''"
    using assms(2) by (auto simp: posted_path_def)
  then show ?thesis
  proof cases
    case chat
    with assms(1,3) have "normalizeChatIncoming ?F ?body ?policy t w1 = (Inr routed, w')" by (simp add: normalizeRequest_def Let_def)
    from normalizeChatIncoming_governed [OF this] chat show ?thesis by (simp add: protocolForPath_def)
  next
    case responses
    with assms(1,3) have "normalizeResponsesIncoming ?F ?body ?policy t w1 = (Inr routed, w')" by (simp add: normalizeRequest_def Let_def)
    from normalizeResponsesIncoming_governed [OF this] responses show ?thesis by (simp add: protocolForPath_def)
  next
    case messages
    with assms(1,3) have "apfst messagesRouted (Normalize ?F ?body ?policy t w1) = (Inr routed, w')" by (simp add: normalizeRequest_def Let_def)
    then have "Normalize ?F ?body ?policy t w1 = (Inr (rqNormalized routed), w')"
      by (cases "Normalize ?F ?body ?policy t w1") (auto simp: messagesRouted_def split: sum.splits if_splits)
    from Normalize_governed [OF this] messages show ?thesis by (simp add: protocolForPath_def)
  qed
qed

end
