(* ===== verification/StreamBounds.thy ===== *)
theory StreamBounds
  imports StreamEncoder
begin

text \<open>
  How much a stream reads and writes.  The operations of the encoder are built from a few
  combinators, so a relation between the states before and after is shown for them once, in a
  locale, and used for the bytes written and for the number of reads.
\<close>

section \<open>Relations every operation keeps\<close>

definition sustains :: "('x encoding \<Rightarrow> 'x encoding \<Rightarrow> bool) \<Rightarrow> 'x encode_op \<Rightarrow> bool" where
  "sustains R f \<longleftrightarrow> (\<forall>st. R st (snd (f st)))"

lemma sustainsD: "sustains R f \<Longrightarrow> f st = (e, st') \<Longrightarrow> R st st'"
  unfolding sustains_def by (metis snd_conv)

text \<open>A reflexive and transitive relation that writing a frame keeps and that holds when the frames and their count stay.\<close>

locale stream_relation =
  fixes R :: "'x encoding \<Rightarrow> 'x encoding \<Rightarrow> bool" and wr :: "'x writer"
  assumes reflexive: "R st st"
    and transitive: "R a b \<Longrightarrow> R b c \<Longrightarrow> R a c"
    and quiet: "ssWriter s' = ssWriter s \<Longrightarrow> ssWrittenBytes s' = ssWrittenBytes s \<Longrightarrow> ssMaxBytes s' = ssMaxBytes s \<Longrightarrow> R (s, x) (s', x)"
    and framed: "sustains R (writeFrame wr frame)"
begin

lemma sustains_succeed: "sustains R succeed"
  by (simp add: sustains_def succeed_def reflexive)

lemma sustains_abort: "sustains R (abort e)"
  by (simp add: sustains_def abort_def reflexive)

lemma sustains_andThen: "sustains R f \<Longrightarrow> sustains R g \<Longrightarrow> sustains R (andThen f g)"
proof -
  assume f: "sustains R f" and g: "sustains R g"
  have "R st (snd (andThen f g st))" for st
  proof -
    obtain e st1 where Pair: "f st = (e, st1)" by (rule prod.exhaust)
    show ?thesis
    proof (cases e)
      case None
      obtain e2 st2 where 2: "g st1 = (e2, st2)" by (rule prod.exhaust)
      show ?thesis using transitive [OF sustainsD [OF f Pair] sustainsD [OF g 2]] by (simp add: andThen_def Pair None 2)
    next
      case (Some e')
      then show ?thesis using sustainsD [OF f Pair] by (simp add: andThen_def Pair)
    qed
  qed
  then show ?thesis unfolding sustains_def by blast
qed

lemma sustains_reading: "(\<And>s. sustains R (f s)) \<Longrightarrow> sustains R (reading f)"
  by (simp add: sustains_def reading_def)

lemma sustains_updating:
  "(\<And>s. ssWriter (f s) = ssWriter s \<and> ssWrittenBytes (f s) = ssWrittenBytes s \<and> ssMaxBytes (f s) = ssMaxBytes s) \<Longrightarrow> sustains R (updating f)"
  by (auto simp: sustains_def updating_def intro!: quiet)

lemma sustains_pointed: "(\<And>v. sustains R (f v)) \<Longrightarrow> sustains R (pointed p f)"
  by (cases p) (simp_all add: pointed_def sustains_abort)

lemma sustains_sequentially: "(\<And>f. f \<in> set fs \<Longrightarrow> sustains R f) \<Longrightarrow> sustains R (sequentially fs)"
  by (induction fs) (auto simp: sustains_succeed intro: sustains_andThen)

lemma sustains_emitEvent: "sustains R (emitEvent wr payload)"
  by (simp add: emitEvent_def framed sustains_abort split: option.split)

lemma sustains_nextSequence: "sustains R nextSequence"
  unfolding nextSequence_def by (rule sustains_updating) simp

lemmas combinators = sustains_succeed sustains_abort sustains_andThen sustains_reading sustains_pointed sustains_emitEvent sustains_nextSequence framed

lemma sustains_emitNumbered: "sustains R (emitNumbered wr payload)"
  unfolding emitNumbered_def by (intro combinators)

lemma sustains_emitAndNumber: "sustains R (emitAndNumber wr payload)"
proof -
  let ?emit = "reading (\<lambda>s. emitEvent wr (vmap ((''sequence_number'', vint (ssSequence s)) # payload s)))"
  have e: "sustains R ?emit" by (intro combinators)
  have "R st (snd (emitAndNumber wr payload st))" for st
  proof -
    obtain x st1 where Pair: "?emit st = (x, st1)" by (rule prod.exhaust)
    obtain y st2 where 2: "nextSequence st1 = (y, st2)" by (rule prod.exhaust)
    show ?thesis
      using transitive [OF sustainsD [OF e Pair] sustainsD [OF sustains_nextSequence 2]] by (simp add: emitAndNumber_def Pair 2)
  qed
  then show ?thesis unfolding sustains_def by blast
qed

lemma sustains_writeDone: "sustains R (writeDone wr)"
  unfolding writeDone_def by (rule framed)

lemma sustains_startStream: "sustains R (startStream F wr)"
proof -
  have "sustains R (updating (\<lambda>s. s\<lparr>ssStarted := True\<rparr>))" by (rule sustains_updating) simp
  then show ?thesis
    unfolding startStream_def Let_def
    by (auto intro!: combinators sustains_emitNumbered sustains_emitAndNumber)
qed

lemma sustains_emitReasoning: "sustains R (emitReasoning F wr evs)"
proof -
  have "sustains R (emitReasoningItem F wr ev)" for ev
    by (simp add: emitReasoningItem_def sustains_emitNumbered sustains_abort split: option.split)
  then show ?thesis unfolding emitReasoning_def by (auto intro!: combinators sustains_sequentially)
qed

lemma sustains_appendToolArguments: "sustains R (appendToolArguments callID delta)"
proof -
  have "sustains R (updating (\<lambda>s. s\<lparr>ssToolArgumentBytes := ssToolArgumentBytes s + int (length delta),
      ssToolArguments := map_set callID (lookup_or '''' (ssToolArguments s) callID @ delta) (ssToolArguments s)\<rparr>))"
    by (rule sustains_updating) simp
  then show ?thesis unfolding appendToolArguments_def by (auto intro!: combinators)
qed

lemma sustains_consumeUsage: "sustains R (consumeUsage ev)"
proof -
  have "sustains R (updating (\<lambda>s. s\<lparr>ssUsage := Some usage\<rparr>))" for usage by (rule sustains_updating) simp
  then show ?thesis unfolding consumeUsage_def by (auto intro!: combinators)
qed

lemma sustains_consumeEnd: "sustains R (consumeEnd ev)"
  unfolding consumeEnd_def by (intro sustains_pointed sustains_updating) simp

lemma sustains_emitDelta: "sustains R (emitDelta wr ev delta)"
  unfolding emitDelta_def by (intro combinators)

lemma sustains_consumeChat: "sustains R (consumeChat wr ev)"
proof -
  have "sustains R (updating (\<lambda>s. s\<lparr>ssText := ssText s @ content\<rparr>))" for content by (rule sustains_updating) simp
  moreover have "sustains R (updating (\<lambda>s. s\<lparr>ssNextToolIndex := index + 1, ssToolIndexes := map_set callID index (ssToolIndexes s),
      ssToolNames := map_set callID name (ssToolNames s)\<rparr>))" for index callID name by (rule sustains_updating) simp
  ultimately show ?thesis
    unfolding consumeChat_def chatToolStart_def chatToolArguments_def Let_def
    by (auto intro!: combinators sustains_emitDelta sustains_appendToolArguments sustains_consumeUsage sustains_consumeEnd split: option.split)
qed

lemma sustains_openMessage: "sustains R (openMessage wr)"
proof -
  have "sustains R (updating (\<lambda>s. let s1 = s\<lparr>ssTextStarted := True\<rparr> in
      if ssTextIndex s1 < 0 then s1\<lparr>ssTextIndex := ssNextOutputIndex s1, ssNextOutputIndex := ssNextOutputIndex s1 + 1\<rparr> else s1))"
    by (rule sustains_updating) (simp add: Let_def)
  then show ?thesis unfolding openMessage_def by (intro combinators sustains_emitNumbered)
qed

lemma sustains_consumeResponses: "sustains R (consumeResponses wr ev)"
proof -
  have "sustains R (updating (\<lambda>s. s\<lparr>ssText := ssText s @ content\<rparr>))" for content by (rule sustains_updating) simp
  moreover have "sustains R (updating (registerTool callID name))" for callID name
    by (rule sustains_updating) (simp add: registerTool_def Let_def)
  ultimately show ?thesis
    unfolding consumeResponses_def Let_def
    by (auto intro!: combinators sustains_openMessage sustains_appendToolArguments sustains_consumeUsage sustains_consumeEnd split: option.split)
qed

lemma sustains_consumeEvents: "sustains R (consumeEvents wr evs)"
proof (induction evs)
  case (Cons ev evs)
  have "sustains R (consumeEvent wr ev)"
    unfolding consumeEvent_def by (auto intro!: combinators sustains_consumeChat sustains_consumeResponses)
  with Cons show ?case by (auto intro!: combinators)
qed (simp add: sustains_succeed)

lemma sustains_finishActions: "action \<in> snd ` set (finishActions wr s) \<Longrightarrow> sustains R action"
proof -
  have message: "sustains R (finishText wr)" unfolding finishText_def by (rule sustains_sequentially) (auto intro: sustains_emitNumbered)
  have tool: "sustains R (finishTool wr callID index)" for callID index
    unfolding finishTool_def by (rule sustains_sequentially) (auto intro: sustains_emitNumbered)
  have set: "\<forall>kv \<in> set (map_set k v m). sustains R (snd kv)" if "sustains R v" "\<forall>kv \<in> set m. sustains R (snd kv)" for k :: int and v m
    using that by (induction m) (auto simp: map_set_def split: if_splits)
  let ?step = "\<lambda>(callID, index) m. map_set index (finishTool wr callID index) m"
  have fold: "\<forall>kv \<in> set (fold ?step ids m). sustains R (snd kv)" if "\<forall>kv \<in> set m. sustains R (snd kv)" for ids m
    using that
  proof (induction ids arbitrary: m)
    case (Cons i ids)
    obtain callID index where i: "i = (callID, index)" by (rule prod.exhaust)
    from Cons.IH [OF set [OF tool Cons.prems]] show ?case by (simp add: i)
  qed simp
  have "\<forall>kv \<in> set (finishActions wr s). sustains R (snd kv)"
    unfolding finishActions_def by (rule fold) (simp add: message)
  then show "action \<in> snd ` set (finishActions wr s) \<Longrightarrow> sustains R action" by blast
qed

lemma sustains_finishStream: "sustains R (finishStream F wr)"
proof -
  have "sustains R (finishChat wr usage)" for usage unfolding finishChat_def by (intro combinators)
  moreover have "sustains R (finishResponses F wr)"
    unfolding finishResponses_def Let_def
    by (intro combinators sustains_sequentially) (use sustains_finishActions in auto)
  ultimately show ?thesis
    unfolding finishStream_def by (auto intro!: combinators sustains_writeDone split: option.split)
qed

lemma sustains_failStream: "sustains R (failStream F wr e)"
  unfolding failStream_def Let_def split_beta by (auto intro!: combinators sustains_emitNumbered sustains_writeDone)

lemma sustains_failing: "sustains R (failing F wr e)"
  using sustains_failStream [of F e] by (simp add: sustains_def failing_def)

lemma sustains_consumeOrFail: "sustains R (consumeOrFail F wr evs)"
proof -
  have "R st (snd (consumeOrFail F wr evs st))" for st
  proof -
    obtain e st1 where Pair: "consumeEvents wr evs st = (e, st1)" by (rule prod.exhaust)
    note 1 = sustainsD [OF sustains_consumeEvents Pair]
    show ?thesis
    proof (cases e)
      case (Some e')
      obtain e2 st2 where 2: "failing F wr e' st1 = (e2, st2)" by (rule prod.exhaust)
      show ?thesis using transitive [OF 1 sustainsD [OF sustains_failing 2]] by (simp add: consumeOrFail_def Pair Some 2)
    qed (use 1 in \<open>simp add: consumeOrFail_def Pair\<close>)
  qed
  then show ?thesis unfolding sustains_def by blast
qed

lemma sustains_endStream: "sustains R (endStream F wr n)"
proof -
  have "sustains R (updating (\<lambda>s. s\<lparr>ssReasoningItems := orderedReasoningItems n\<rparr>))" by (rule sustains_updating) simp
  then show ?thesis unfolding endStream_def by (auto intro!: combinators sustains_failing sustains_finishStream)
qed

lemma sustains_applyIndexHints: "R (s, x) (applyIndexHints n s, x)"
proof -
  have "ssWriter (fold (\<lambda>(callID, index) s. s\<lparr>ssToolIndexes := map_set callID index (ssToolIndexes s),
        ssNextOutputIndex := max (ssNextOutputIndex s) (index + 1)\<rparr>) ids t) = ssWriter t \<and>
      ssWrittenBytes (fold (\<lambda>(callID, index) s. s\<lparr>ssToolIndexes := map_set callID index (ssToolIndexes s),
        ssNextOutputIndex := max (ssNextOutputIndex s) (index + 1)\<rparr>) ids t) = ssWrittenBytes t \<and>
      ssMaxBytes (fold (\<lambda>(callID, index) s. s\<lparr>ssToolIndexes := map_set callID index (ssToolIndexes s),
        ssNextOutputIndex := max (ssNextOutputIndex s) (index + 1)\<rparr>) ids t) = ssMaxBytes t" for ids and t :: sourceStreamEncoder
    by (induction ids arbitrary: t) auto
  then show ?thesis by (intro quiet) (simp_all add: applyIndexHints_def Let_def)
qed

end

section \<open>Bytes written\<close>

definition bytes_ok :: "sourceStreamEncoder \<Rightarrow> bool" where
  "bytes_ok s \<longleftrightarrow> ssWrittenBytes s = sum_lengths (ssWriter s) \<and> ssWrittenBytes s \<le> maxStreamBytes \<and> ssMaxBytes s = maxStreamBytes"

definition writes_within :: "'x encoding \<Rightarrow> 'x encoding \<Rightarrow> bool" where
  "writes_within st st' \<longleftrightarrow> (bytes_ok (fst st) \<longrightarrow> bytes_ok (fst st'))"

lemma writeFrame_within: "sustains writes_within (writeFrame wr frame)"
proof -
  have "0 < maxStreamBytes" by (simp add: maxStreamBytes_def)
  then have "bytes_ok (fst (snd (writeFrame wr frame (s, x))))" if "bytes_ok s" for s x
    using that by (auto simp: writeFrame_def reading_def abort_def bytes_ok_def sum_lengths_def split: prod.split option.split)
  then show ?thesis by (auto simp: sustains_def writes_within_def)
qed

interpretation written: stream_relation writes_within wr for wr :: "'x writer"
  by unfold_locales (auto simp: writes_within_def bytes_ok_def intro: writeFrame_within)

text \<open>The relation does not depend on the outside world.\<close>

lemma within_outside: "writes_within (s, x) (s, x')"
  by (simp add: writes_within_def)

lemma streamLoop_within: "writes_within st (snd (streamLoop F io protocol n st))"
proof (induction F io protocol n st rule: streamLoop.induct)
  case (1 F io protocol n s x)
  obtain d x1 where ctx: "ioDone io x = (d, x1)" by (rule prod.exhaust)
  obtain b n1 x2 where read: "nextStreamEvents (ioScan io) protocol (ssRequestID s) n x1 = (b, n1, x2)" by (rule prod_cases3)
  note steps = streamLoop.simps [of F io protocol n s x] ctx read
  have start: "writes_within (s, x) (s, x2)" by (rule within_outside)
  show ?case
  proof (cases d)
    case (Some c)
    then show ?thesis by (simp add: steps writes_within_def)
  next
    case None
    show ?thesis
    proof (cases b)
      case (Batch evs reasoning)
      obtain e2 st2 where 2: "emitReasoning F (ioWrite io) reasoning (applyIndexHints n1 s, x2) = (e2, st2)" by (rule prod.exhaust)
      obtain e3 st3 where 3: "consumeOrFail F (ioWrite io) evs st2 = (e3, st3)" by (rule prod.exhaust)
      have r2: "writes_within (s, x) st2"
        by (rule written.transitive [OF start written.transitive [OF written.sustains_applyIndexHints sustainsD [OF written.sustains_emitReasoning 2]]])
      have r3: "writes_within (s, x) st3" by (rule written.transitive [OF r2 sustainsD [OF written.sustains_consumeOrFail 3]])
      show ?thesis
      proof (cases "e2 = None \<and> e3 = None")
        case True
        have "writes_within st3 (snd (streamLoop F io protocol n1 st3))"
          by (rule "1.IH" [OF ctx [symmetric] None read [symmetric] Batch refl 2 [symmetric] _ 3 [symmetric]]) (use True in auto)
        from written.transitive [OF r3 this] show ?thesis using True None Batch 2 3 by (simp add: steps)
      next
        case False
        then show ?thesis using r2 r3 None Batch 2 3 by (auto simp: steps split: option.splits)
      qed
    next
      case Done
      obtain e2 st2 where 2: "endStream F (ioWrite io) n1 (s, x2) = (e2, st2)" by (rule prod.exhaust)
      from written.transitive [OF start sustainsD [OF written.sustains_endStream 2]] show ?thesis by (simp add: steps None Done 2)
    next
      case (Failed e)
      obtain e2 st2 where 2: "failing F (ioWrite io) e (s, x2) = (e2, st2)" by (rule prod.exhaust)
      from written.transitive [OF start sustainsD [OF written.sustains_failing 2]] show ?thesis by (simp add: steps None Failed 2)
    qed
  qed
qed

section \<open>Reads\<close>

text \<open>
  A counter of reads: every call of \<open>Scan\<close> raises it by at most one, writing and looking at the
  context leave it alone.
\<close>

definition counts_reads :: "('x \<Rightarrow> nat) \<Rightarrow> 'x StreamIO \<Rightarrow> bool" where
  "counts_reads reads io \<longleftrightarrow> (\<forall>x. reads (snd (ioScan io x)) \<le> Suc (reads x)) \<and> (\<forall>x. reads (snd (ioDone io x)) = reads x) \<and>
     (\<forall>frame x. reads (snd (ioWrite io frame x)) = reads x)"

definition same_reads :: "('x \<Rightarrow> nat) \<Rightarrow> 'x encoding \<Rightarrow> 'x encoding \<Rightarrow> bool" where
  "same_reads reads st st' \<longleftrightarrow> reads (snd st') = reads (snd st)"

lemma writeFrame_count: "(\<And>frame x. reads (snd (wr frame x)) = reads x) \<Longrightarrow> sustains (same_reads reads) (writeFrame wr frame)"
  by (auto simp: sustains_def same_reads_def writeFrame_def reading_def abort_def split: prod.split option.split) (metis snd_conv)+

lemma counting_relation: "(\<And>frame x. reads (snd (wr frame x)) = reads x) \<Longrightarrow> stream_relation (same_reads reads) wr"
  by unfold_locales (auto simp: same_reads_def intro: writeFrame_count)

lemma nextStreamEvents_reads:
  assumes "\<And>x. reads (snd (scan x)) \<le> Suc (reads x)"
    and "nextStreamEvents scan protocol r n x = (b, n', x')"
  shows "b = Batch evs reasoning \<Longrightarrow> int (reads x') \<le> int (reads x) + (snTotalBytes n' - snTotalBytes n)"
    and "snTotalBytes n \<le> maxStreamBytes \<Longrightarrow> int (reads x') \<le> int (reads x) + (maxStreamBytes - snTotalBytes n) + 1"
  using assms
proof (atomize (full), induction scan protocol r n x rule: nextStreamEvents.induct)
  case (1 scan protocol r n x)
  obtain y x1 where scan: "scan x = (y, x1)" by (rule prod.exhaust)
  have reads: "reads x1 \<le> Suc (reads x)" using "1.prems" scan by (metis snd_conv)
  show ?case
  proof (cases y)
    case (Line line)
    obtain b1 n1 where line: "nextLine protocol r line n = (b1, n1)" by (rule prod.exhaust)
    note bytes = nextLine_bytes [OF line]
    show ?thesis
    proof (cases b1)
      case None
      have rest: "nextStreamEvents scan protocol r n1 x1 = (b, n', x')"
        using "1.prems" by (simp add: nextStreamEvents.simps [of scan protocol r n x] scan Line line None)
      have "snTotalBytes n1 \<le> maxStreamBytes" using bytes(2) None by simp
      with "1.IH" [OF scan [symmetric] Line line [symmetric] None] "1.prems" rest reads bytes(1) show ?thesis by auto
    next
      case (Some b')
      then have "x' = x1" "n' = n1" "b = b'"
        using "1.prems" by (simp_all add: nextStreamEvents.simps [of scan protocol r n x] scan Line line)
      with reads bytes(1) show ?thesis by auto
    qed
  next
    case (Ended e)
    then have "x' = x1 \<and> (\<forall>evs reasoning. b \<noteq> Batch evs reasoning)"
      using "1.prems" by (cases e) (auto simp: nextStreamEvents.simps [of scan protocol r n x] scan split: if_splits)
    with reads show ?thesis by auto
  qed
qed

locale read_counter =
  fixes reads :: "'x \<Rightarrow> nat" and io :: "'x StreamIO"
  assumes counted: "counts_reads reads io"

sublocale read_counter \<subseteq> counted: stream_relation "same_reads reads" "ioWrite io"
  by (rule counting_relation) (use counted in \<open>simp add: counts_reads_def\<close>)

context read_counter
begin

lemma scan_reads: "reads (snd (ioScan io x)) \<le> Suc (reads x)"
  using counted by (simp add: counts_reads_def)

lemma streamLoop_reads:
  "snTotalBytes n \<le> maxStreamBytes \<Longrightarrow>
     int (reads (snd (snd (streamLoop F io protocol n st)))) \<le> int (reads (snd st)) + (maxStreamBytes - snTotalBytes n) + 1"
proof (induction "nat (maxStreamBytes - snTotalBytes n)" arbitrary: n st rule: less_induct)
  case less
  obtain s x where st: "st = (s, x)" by (rule prod.exhaust)
  obtain d x1 where ctx: "ioDone io x = (d, x1)" by (rule prod.exhaust)
  obtain b n1 x2 where read: "nextStreamEvents (ioScan io) protocol (ssRequestID s) n x1 = (b, n1, x2)" by (rule prod_cases3)
  note steps = st streamLoop.simps [of F io protocol n s x] ctx read
  have x1: "reads x1 = reads x" using counted ctx by (simp add: counts_reads_def) (metis snd_conv)
  note bounds = nextStreamEvents_reads [where reads = reads, OF scan_reads read]
  have x2: "int (reads x2) \<le> int (reads x) + (maxStreamBytes - snTotalBytes n) + 1" using bounds(2) less.prems x1 by simp
  show ?case
  proof (cases d)
    case (Some c)
    then show ?thesis using less.prems x1 by (simp add: steps)
  next
    case None
    show ?thesis
    proof (cases b)
      case (Batch evs reasoning)
      obtain e2 st2 where 2: "emitReasoning F (ioWrite io) reasoning (applyIndexHints n1 s, x2) = (e2, st2)" by (rule prod.exhaust)
      obtain e3 st3 where 3: "consumeOrFail F (ioWrite io) evs st2 = (e3, st3)" by (rule prod.exhaust)
      have r2: "reads (snd st2) = reads x2" using sustainsD [OF counted.sustains_emitReasoning 2] by (simp add: same_reads_def)
      have r3: "reads (snd st3) = reads x2" using sustainsD [OF counted.sustains_consumeOrFail 3] r2 by (simp add: same_reads_def)
      note grows = nextStreamEvents_batch [OF read [unfolded Batch]]
      have "int (reads (snd (snd (streamLoop F io protocol n1 st3)))) \<le> int (reads (snd st3)) + (maxStreamBytes - snTotalBytes n1) + 1"
        by (rule less.hyps) (use grows in auto)
      then show ?thesis
        using None Batch 2 3 r2 r3 x1 x2 bounds(1) [OF Batch] by (auto simp: steps split: option.splits)
    next
      case Done
      obtain e2 st2 where 2: "endStream F (ioWrite io) n1 (s, x2) = (e2, st2)" by (rule prod.exhaust)
      show ?thesis using sustainsD [OF counted.sustains_endStream 2] x2 by (simp add: steps None Done 2 same_reads_def)
    next
      case (Failed e)
      obtain e2 st2 where 2: "failing F (ioWrite io) e (s, x2) = (e2, st2)" by (rule prod.exhaust)
      show ?thesis using sustainsD [OF counted.sustains_failing 2] x2 by (simp add: steps None Failed 2 same_reads_def)
    qed
  qed
qed

lemma streamResponse_reads:
  assumes "snTotalBytes (ppNormalizer p) \<le> maxStreamBytes" and "streamResponse F io route request p x = (res, s, x')"
  shows "int (reads x') \<le> int (reads x) + (maxStreamBytes - snTotalBytes (ppNormalizer p)) + 1"
proof -
  obtain e1 st1 where 1: "startStream F (ioWrite io) (applyIndexHints (ppNormalizer p) (newEncoder request), x) = (e1, st1)" by (rule prod.exhaust)
  obtain e2 st2 where 2: "emitReasoning F (ioWrite io) (ppBufferedReasoning p) st1 = (e2, st2)" by (rule prod.exhaust)
  obtain e3 st3 where 3: "consumeOrFail F (ioWrite io) (ppBuffered p) st2 = (e3, st3)" by (rule prod.exhaust)
  obtain e4 st4 where 4: "streamLoop F io (rtDestinationProtocol route) (ppNormalizer p) st3 = (e4, st4)" by (rule prod.exhaust)
  have "reads (snd st1) = reads x" using sustainsD [OF counted.sustains_startStream 1] by (simp add: same_reads_def)
  moreover have "reads (snd st2) = reads (snd st1)" using sustainsD [OF counted.sustains_emitReasoning 2] by (simp add: same_reads_def)
  moreover have "reads (snd st3) = reads (snd st2)" using sustainsD [OF counted.sustains_consumeOrFail 3] by (simp add: same_reads_def)
  moreover have "int (reads (snd st4)) \<le> int (reads (snd st3)) + (maxStreamBytes - snTotalBytes (ppNormalizer p)) + 1"
    using streamLoop_reads [OF assms(1), of F "rtDestinationProtocol route" st3] by (simp add: 4)
  ultimately show ?thesis
    using assms by (auto simp: streamResponse_def andThen_def 1 2 3 4 split: if_splits option.splits)
qed

end

text \<open>The counter of a stream whose reads are counted beside the outside world.\<close>

definition counting :: "'x StreamIO \<Rightarrow> ('x \<times> nat) StreamIO" where
  "counting io = \<lparr>ioScan = (\<lambda>(x, k). case ioScan io x of (y, x1) \<Rightarrow> (y, x1, Suc k)),
     ioWrite = (\<lambda>frame (x, k). case ioWrite io frame x of (e, x1) \<Rightarrow> (e, x1, k)),
     ioDone = (\<lambda>(x, k). case ioDone io x of (c, x1) \<Rightarrow> (c, x1, k)), ioFlusher = ioFlusher io\<rparr>"

lemma counting_counts: "counts_reads snd (counting io)"
  by (auto simp: counts_reads_def counting_def split: prod.split)

interpretation counting: read_counter snd "counting io" for io :: "'x StreamIO"
  by unfold_locales (rule counting_counts)

lemma streamResponse_within:
  assumes "streamResponse F io route request p x = (res, s, x')"
  shows "sum_lengths (ssWriter s) \<le> maxStreamBytes"
proof -
  have start: "bytes_ok (newEncoder request)" by (simp add: bytes_ok_def newEncoder_def sum_lengths_def maxStreamBytes_def)
  obtain e1 st1 where 1: "startStream F (ioWrite io) (applyIndexHints (ppNormalizer p) (newEncoder request), x) = (e1, st1)" by (rule prod.exhaust)
  obtain e2 st2 where 2: "emitReasoning F (ioWrite io) (ppBufferedReasoning p) st1 = (e2, st2)" by (rule prod.exhaust)
  obtain e3 st3 where 3: "consumeOrFail F (ioWrite io) (ppBuffered p) st2 = (e3, st3)" by (rule prod.exhaust)
  obtain e4 st4 where 4: "streamLoop F io (rtDestinationProtocol route) (ppNormalizer p) st3 = (e4, st4)" by (rule prod.exhaust)
  have r1: "writes_within (newEncoder request, x) st1"
    by (rule written.transitive [OF written.sustains_applyIndexHints sustainsD [OF written.sustains_startStream 1]])
  have r2: "writes_within (newEncoder request, x) st2" by (rule written.transitive [OF r1 sustainsD [OF written.sustains_emitReasoning 2]])
  have r3: "writes_within (newEncoder request, x) st3" by (rule written.transitive [OF r2 sustainsD [OF written.sustains_consumeOrFail 3]])
  have r4: "writes_within (newEncoder request, x) st4"
    using written.transitive [OF r3 streamLoop_within [of st3 F io "rtDestinationProtocol route" "ppNormalizer p"]] by (simp add: 4)
  have "bytes_ok (fst (s, x'))"
    using assms start r1 r2 r3 r4
    by (auto simp: streamResponse_def andThen_def 1 2 3 4 writes_within_def split: if_splits option.splits)
  then show ?thesis by (simp add: bytes_ok_def)
qed

lemma prepareStream_reads:
  assumes "\<And>x. reads (snd (scan x)) \<le> Suc (reads x)" and "prepareStream scan route request x = (Inr p, x')"
  shows "int (reads x') \<le> int (reads x) + snTotalBytes (ppNormalizer p)" and "snTotalBytes (ppNormalizer p) \<le> maxStreamBytes"
proof -
  obtain b n x1 where read: "nextStreamEvents scan (rtDestinationProtocol route) (nrLogicalRequestID request) newNormalizer x = (b, n, x1)"
    by (rule prod_cases3)
  then obtain evs reasoning where b: "b = Batch evs reasoning" "ppNormalizer p = n" "x' = x1"
    using assms(2) by (auto simp: prepareStream_def split: batch.splits list.splits if_splits)
  show "int (reads x') \<le> int (reads x) + snTotalBytes (ppNormalizer p)"
    using nextStreamEvents_reads(1) [where reads = reads, OF assms(1) read b(1)] b by (simp add: newNormalizer_def)
  show "snTotalBytes (ppNormalizer p) \<le> maxStreamBytes"
    using nextStreamEvents_batch(2) [OF read [unfolded b(1)]] b by simp
qed

end
