(* ===== verification/SampleRouter.thy ===== *)
theory SampleRouter
  imports RouterSecurity
begin

text \<open>
  A concrete routing policy with a local and an external route, its index, and requests for its two
  aliases.  The router's properties are applied to it.
\<close>

section \<open>A policy with a local and an external route\<close>

definition local_route :: Route where
  "local_route = \<lparr>rtID = ''00000000-0000-4000-8000-000000000010'', rtDestinationClass = ''local_node'',
     rtEndpoint = \<lparr>epScheme = ''http'', epHostname = ''127.0.0.1'', epPort = 11434, epBasePath = ''/v1'',
       epHostnameAllowlist = [''127.0.0.1''], epResolvedAddressPolicy = ''loopback_only''\<rparr>,
     rtSourceProtocols = [ProtocolOpenAIChat], rtDestinationProtocol = ProtocolOpenAIChat, rtModel = ''qwen'',
     rtCapabilities = [''text'', ''tools''], rtAcceptedDataClasses = [''public'', ''company'', ''local_only''],
     rtDataBoundary = ''local'', rtHealthTimeoutMS = 1000, rtCredentialRef = ''node-route://poc/qwen'', rtCostClass = ''local''\<rparr>"

definition cloud_route :: Route where
  "cloud_route = \<lparr>rtID = ''00000000-0000-4000-8000-000000000011'', rtDestinationClass = ''provider'',
     rtEndpoint = \<lparr>epScheme = ''https'', epHostname = ''api.example.com'', epPort = 443, epBasePath = ''/v1'',
       epHostnameAllowlist = [''api.example.com''], epResolvedAddressPolicy = ''public_unicast_only''\<rparr>,
     rtSourceProtocols = [ProtocolOpenAIChat], rtDestinationProtocol = ProtocolOpenAIChat, rtModel = ''gpt'',
     rtCapabilities = [''text'', ''tools''], rtAcceptedDataClasses = [''public'', ''company''],
     rtDataBoundary = ''external'', rtHealthTimeoutMS = 1000, rtCredentialRef = ''workspace-vault://poc/cloud'',
     rtCostClass = ''metered_low''\<rparr>"

definition sample_policy :: Policy where
  "sample_policy = \<lparr>poID = ''00000000-0000-4000-8000-000000000001'', poVersion = 1,
     poWorkspaceID = ''00000000-0000-4000-8000-000000000002'', poProtocols = [ProtocolOpenAIChat],
     poAliases =
       [(''assistant'', \<lparr>alRouteIDs = [rtID local_route, rtID cloud_route], alDataClass = ''company'',
           alAllowedDestinationBoundaries = [''local'', ''external'']\<rparr>),
        (''private'', \<lparr>alRouteIDs = [rtID local_route], alDataClass = ''local_only'',
           alAllowedDestinationBoundaries = [''local'']\<rparr>)],
     poRoutes = [local_route, cloud_route],
     poRequestLimits = \<lparr>rlMaxContextTokens = 8000, rlMaxOutputTokens = 1000, rlTimeoutMS = 60000, rlStreaming = True,
       rlMaxCostClass = ''metered_low''\<rparr>,
     poFallback = \<lparr>fbMaxAttempts = 2, fbRetryableReasons = Some [''connection_failure'', ''upstream_5xx''],
       fbAllowedBoundaryTransitions = Some [''local_to_external'']\<rparr>,
     poContentCapture = False\<rparr>"

definition sample_index :: routeIndex where
  "sample_index = \<lparr>riPolicy = sample_policy, riByID = [(rtID cloud_route, cloud_route), (rtID local_route, local_route)]\<rparr>"

definition sample_request :: "string \<Rightarrow> DataClass \<Rightarrow> routedRequest" where
  "sample_request alias class = \<lparr>rqNormalized = \<lparr>nrLogicalRequestID = ''00000000-0000-4000-8000-000000000020'',
       nrProtocol = ProtocolOpenAIChat, nrModelAlias = alias, nrDataClass = class, nrStream = False,
       nrBlocks = [\<lparr>rbRole = ''user'', rbType = ''text'', rbText = Some ''hello'', rbCallID = None, rbToolName = None,
         rbArguments = None, rbResult = None\<rparr>],
       nrTools = Some [], nrToolChoice = ''auto'', nrResponseSchema = None,
       nrLimits = \<lparr>nlMaxOutputTokens = 100, nlDeadlineAt = ''1970-01-01T00:01:00Z'', nlTemperature = None, nlTopP = None, nlStop = []\<rparr>,
       nrCapabilitiesRequired = Some [''text'']\<rparr>,
     rqSource = \<lparr>smResponses = None, smResponseSchemaName = '''', smResponseSchemaStrict = False\<rparr>\<rparr>"

lemma local_route_valid: "Route_Validate local_route = []"
  by code_simp

lemma cloud_route_valid: "Route_Validate cloud_route = []"
  by code_simp

lemma sample_semantics:
  "checkRouteSemantics local_route = []" "checkRouteSemantics cloud_route = []"
  by (simp_all add: checkRouteSemantics_def local_route_def cloud_route_def hasPrefix_def ProtocolOpenAIChat_def
      ProtocolAnthropicMessages_def) code_simp+

lemmas sample_parts = local_route_valid cloud_route_valid sample_semantics

lemma sample_aliases:
  "validateAlias sample_policy (riByID sample_index) name alias = []" if "(name, alias) \<in> set (poAliases sample_policy)"
proof -
  have "list_all (\<lambda>(name, alias). validateAlias sample_policy (riByID sample_index) name alias = []) (poAliases sample_policy)"
    by code_simp
  with that show ?thesis by (auto simp: list_all_iff)
qed

lemma sample_policy_valid: "validatePolicySemantics sample_policy = []"
proof -
  have "collectRoutes [] (poRoutes sample_policy) = Inr (riByID sample_index)"
    using sample_parts by (simp add: sample_policy_def sample_index_def) (simp add: local_route_def cloud_route_def)
  moreover have "validateAliases sample_policy (riByID sample_index) (poAliases sample_policy) = []"
    using sample_aliases by (simp add: sample_policy_def)
  moreover have "uuidPattern (poID sample_policy)" "uuidPattern (poWorkspaceID sample_policy)"
    "\<not> duplicateStrings (poProtocols sample_policy)" "list_all validProtocol (poProtocols sample_policy)"
    "validCost ''metered_low''"
    "\<not> duplicateStrings [''connection_failure'', ''upstream_5xx'']" "list_all validRetryReason [''connection_failure'', ''upstream_5xx'']"
    "\<not> duplicateStrings [''local_to_external'']" "list_all validTransition [''local_to_external'']"
    by code_simp+
  ultimately have "Policy_Validate sample_policy = []"
    by (simp add: Policy_Validate_def slice_elems_def) (simp add: sample_policy_def slice_elems_def)
  moreover have "checkAliasLengths sample_policy (poAliases sample_policy) = []" by code_simp
  ultimately show ?thesis
    using sample_parts by (simp add: validatePolicySemantics_def) (simp add: sample_policy_def)
qed

lemma sample_indexed: "newRouteIndex sample_policy = Inr sample_index"
  using sample_policy_valid by (simp add: newRouteIndex_def sample_index_def) (simp add: sample_policy_def)

lemma sample_selected:
  "selectRoutesFor sample_index (sample_request ''assistant'' ''company'') = Inr [local_route, cloud_route]"
  "selectRoutesFor sample_index (sample_request ''private'' ''local_only'') = Inr [local_route]"
  by code_simp+

section \<open>Addresses and headers\<close>

lemma ipv4_unat: "unat (ipv4 a b c d) = (((a * 256 + b) * 256 + c) * 256 + d) mod 2 ^ 32"
  using unat_drop_ipv4 [of 0] by simp

lemma sample_loopback: "validateAddress ''loopback_only'' (IPv4 (ipv4 127 0 0 1)) = []"
  by (simp add: validateAddress_def addr_defs word_unat_eq_iff unat_drop_ipv4 ipv4_unat)

lemma local_resolves:
  "\<exists>res. Resolve (\<lambda>_. Inr [IPv4 (ipv4 127 0 0 1)]) local_route = Inr res \<and> reTransport res = ([IPv4 (ipv4 127 0 0 1)], ''11434'')"
proof -
  have "formatInt 11434 = ''11434''" by code_simp
  then show ?thesis using sample_loopback by (simp add: Resolve_def local_route_def Addr_Unmap_def)
qed

lemma sample_public: "validateAddress ''public_unicast_only'' (IPv4 (ipv4 8 8 8 8)) = []"
  by (simp add: validateAddress4 in_ranges_def reserved4_def private4_def ipv4_unat)

lemma formatInt_443: "formatInt 443 = ''443''"
  by code_simp

lemma cloud_resolves:
  "\<exists>res. Resolve (\<lambda>_. Inr [IPv4 (ipv4 8 8 8 8)]) cloud_route = Inr res \<and> reTransport res = ([IPv4 (ipv4 8 8 8 8)], ''443'')"
  using sample_public by (simp add: Resolve_def cloud_route_def Addr_Unmap_def formatInt_443)

lemma sample_headers: "\<not> credential_header ''Accept''" "credential_header ''X-Api-Key''"
  by (simp_all add: credential_header_def lowersTo_def runes_ascii lowerRune_def)

lemma sample_canonical: "canonical_keys [(''Accept'', [''json'']), (''X-Api-Key'', [''secret''])]"
  by (simp add: canonical_keys_def CanonicalHeaderKey_def is_tchar_def go_defs upperByte_def lowerByte_def)

end
