(* ===== verification/SampleHandler.thy ===== *)
theory SampleHandler
  imports RouterHandler StreamBounds SampleRouter
begin

text \<open>
  A handler for the sample policy whose upstreams are unreachable or answer at once, to which the
  properties of the dispatch and of the audit are applied.
\<close>

definition sample_audit :: audit where
  "sample_audit = \<lparr>auPolicy = sample_policy, auPolicyDigest = ''sha256:'' @ replicate 64 (CHR ''0''),
     auActivationID = ''00000000-0000-4000-8000-000000000030''\<rparr>"

text \<open>
  No number is a fraction.  The body of a destination is a text; its stream is the list of its lines,
  kept in the outside world.
\<close>

definition sample_floats :: Floats where
  "sample_floats = \<lparr>flParse = (\<lambda>_. None), flText = (\<lambda>_. ''0'')\<rparr>"

definition scan_lines :: "string list \<Rightarrow> scanned \<times> string list" where
  "scan_lines x = (case x of [] \<Rightarrow> (Ended None, []) | line # ls \<Rightarrow> (Line line, ls))"

definition sample_body :: string where
  "sample_body = ''{\"choices\":[{\"message\":{\"content\":\"hi\"},\"finish_reason\":\"stop\"}],\"usage\":{\"prompt_tokens\":5,\"completion_tokens\":7}}''"

definition sample_upstream :: "(err + netip_Addr list) \<Rightarrow> int \<Rightarrow> ctx_error option \<Rightarrow> string list Upstream" where
  "sample_upstream answer status ctx = \<lparr>upLookup = (\<lambda>_ x. (answer, x)), upCredential = (\<lambda>_ x. (Inr ''secret'', x)),
     upApply = BearerCredentialAdapter_Apply, upFloats = sample_floats,
     upUntilDeadline = (\<lambda>x. (None, x)), upNewRequest = (\<lambda>_. []), upDo = (\<lambda>_ _ _ _ _ _ x. (Inr status, x)),
     upTimerFired = (\<lambda>x. (False, x)), upCtxErr = (\<lambda>x. (ctx, x)), upScan = scan_lines, upReadBody = (\<lambda>x. (Inr sample_body, x))\<rparr>"

definition unreachable :: "string list Upstream" where
  "unreachable = sample_upstream (Inl [Other ''no such host'']) 200 None"

definition sample_usage :: Usage where
  "sample_usage = \<lparr>usInputTokens = 5, usOutputTokens = 7\<rparr>"

definition sample_response :: NormalizedResponse where
  "sample_response = \<lparr>nsLogicalRequestID = ''00000000-0000-4000-8000-000000000020'', nsModelAlias = ''assistant'',
     nsRouteID = rtID local_route, nsBlocks = Some [\<lparr>sbType = ''text'', sbText = Some ''hi'', sbCallID = None, sbToolName = None, sbArguments = None\<rparr>],
     nsFinishReason = ''stop'', nsUsage = sample_usage\<rparr>"

definition sample_client :: "string list Client" where
  "sample_client = \<lparr>clWrite = (\<lambda>_ x. (None, x)), clFlusher = True\<rparr>"

definition sample_handler :: "string list Upstream \<Rightarrow> string list Handler" where
  "sample_handler u = \<lparr>haAudit = sample_audit, haListenerToken = ''token'', haWorkloadScope = None, haRoutes = sample_index,
     haUpstream = u\<rparr>"

definition start_world :: "string list hworld" where
  "start_world = \<lparr>hwCursor = 0, hwEvents = [], hwClock = 0, hwTicks = [], hwRand = [], hwExt = []\<rparr>"

definition sample_result :: upstreamResult where
  "sample_result = \<lparr>urRoute = local_route, urAttempt = 1, urStatus = Some 200, urStarted = Some 0, urPrepared = None\<rparr>"

lemma start_clock: "clock_ok start_world"
  by code_simp

lemma sample_audit_ready: "audit_ready sample_audit (rqNormalized (sample_request ''assistant'' ''company''))"
  by code_simp

lemma sample_routes_ready: "route_ready local_route" "route_ready cloud_route"
  by code_simp+

lemma sample_result_ready: "result_ready sample_audit (rqNormalized (sample_request ''assistant'' ''company'')) sample_result"
  using sample_audit_ready sample_routes_ready by (simp add: result_ready_def attempt_ready_def sample_result_def)

lemma sample_scan: "scan_uncancelled (sample_upstream answer status ctx)"
  by (auto simp: scan_uncancelled_def sample_upstream_def scan_lines_def split: list.splits)

text \<open>What the body decodes to, and what the client gets of it.\<close>

lemma sample_decoded:
  "decodeUpstreamResponseDetailed local_route (rqNormalized (sample_request ''assistant'' ''company'')) (Inr sample_body) =
     Inr (sample_response, no_metadata)"
  by code_simp

lemma sample_written:
  "\<not> isl (writeSourceResponseDetailed ProtocolOpenAIChat sample_response no_metadata)"
  by code_simp

lemma sample_served:
  "\<exists>text w'. serveResponse False (sample_handler unreachable) sample_client (rqNormalized (sample_request ''assistant'' ''company''))
     sample_result 0 start_world = (Answered (Some text), w')"
proof -
  let ?request = "rqNormalized (sample_request ''assistant'' ''company'')"
  have "usOutputTokens (nsUsage sample_response) \<le> nlMaxOutputTokens (nrLimits ?request)" by code_simp
  moreover have "incomplete (nrProtocol ?request) sample_response no_metadata = no_metadata"
    by (simp add: incomplete_def sample_response_def)
  moreover obtain body where "writeSourceResponseDetailed (nrProtocol ?request) sample_response no_metadata = Inr body"
    using sample_written by (cases "writeSourceResponseDetailed ProtocolOpenAIChat sample_response no_metadata") (simp_all add: sample_request_def)
  ultimately show ?thesis
    using sample_decoded
    by (simp add: serveResponse_def outside_def sample_handler_def unreachable_def sample_upstream_def sample_result_def writeResponse_def
        sample_client_def Let_def split: prod.split)
qed

definition sample_scope :: WorkloadScope where
  "sample_scope = \<lparr>wsRunID = '''', wsWorkspaceID = '''', wsProjectID = '''', wsOperationID = '''', wsSandboxID = '''', wsAgentVersionID = '''',
     wsAgentVersionDigest = '''', wsHarnessProfileID = '''', wsHarnessProfileDigest = '''', wsHarnessVersionID = '''',
     wsHarnessVersionDigest = '''', wsHarnessExecutableDigest = '''', wsRouteID = rtID cloud_route, wsRouteVersion = 1,
     wsProtocol = ProtocolOpenAIChat, wsExpiresAt = '''', wsListenerCredentialRef = '''', wsListenerTokenFingerprint = ''''\<rparr>"

lemma sample_within_context: "ensureContextLimit (sample_request ''assistant'' ''company'') sample_policy = None"
  by code_simp

section \<open>A stream\<close>

text \<open>The lines a Chat destination sends, and what is left of them when the first batch was read.\<close>

definition sample_lines :: "string list" where
  "sample_lines =
     [''data: {\"choices\":[{\"delta\":{\"role\":\"assistant\",\"content\":\"hi\"}}]}'',
      ''data: {\"choices\":[{\"delta\":{},\"finish_reason\":\"stop\"}],\"usage\":{\"prompt_tokens\":5,\"completion_tokens\":7}}'',
      ''data: [DONE]'']"

definition sample_prepared :: "prepared option" where
  "sample_prepared = (case fst (prepareStream scan_lines local_route (rqNormalized (sample_request ''assistant'' ''company'')) sample_lines) of
     Inr p \<Rightarrow> Some p | Inl _ \<Rightarrow> None)"

definition streaming_result :: upstreamResult where
  "streaming_result = sample_result\<lparr>urPrepared := sample_prepared\<rparr>"

text \<open>The stream succeeds: three events, the usage and the end marker reach the client.\<close>

lemma sample_streamed:
  "\<exists>usage frames x. runStream (sample_handler unreachable) sample_client (rqNormalized (sample_request ''assistant'' ''company''))
     streaming_result (tl sample_lines) = ((usage, None, frames), x)"
proof -
  let ?run = "runStream (sample_handler unreachable) sample_client (rqNormalized (sample_request ''assistant'' ''company''))
     streaming_result (tl sample_lines)"
  have "fst (snd (fst ?run)) = None" by code_simp
  then show ?thesis by (metis prod.exhaust fst_conv snd_conv)
qed

section \<open>A request and a Responses stream\<close>

definition sample_post :: http_Request where
  "sample_post = \<lparr>hrMethod = ''POST'', hrPath = ''/v1/chat/completions'', hrHeader = [],
     hrBody = Inr ''{\"model\":\"assistant\",\"max_tokens\":100,\"messages\":[{\"role\":\"user\",\"content\":\"hello\"}]}''\<rparr>"

lemma sample_normalized: "\<not> isl (fst (normalizeRequest (sample_handler unreachable) sample_post start_world))"
  by code_simp

lemma sample_request_valid: "NormalizedRequest_Validate (rqNormalized (sample_request ''assistant'' ''company'')) = []"
  by code_simp

definition responses_route :: Route where
  "responses_route = local_route\<lparr>rtDestinationProtocol := ProtocolOpenAIResponses\<rparr>"

definition reasoning_line :: string where
  "reasoning_line = ''data: {\"type\":\"response.output_item.added\",\"output_index\":0,\"item\":{\"type\":\"reasoning\",\"id\":\"r\"}}''"

definition reasoning_event :: responsesEvent where
  "reasoning_event = zero_responsesEvent\<lparr>rvType := ''response.output_item.added'', rvOutputIndex := Some 0,
     rvItem := ''{\"type\":\"reasoning\",\"id\":\"r\"}''\<rparr>"

lemma reasoning_event_read:
  "unmarshal dResponsesEvent zero_responsesEvent (trimSpace (drop 5 reasoning_line)) = Some reasoning_event"
  "trimSpace (drop 5 reasoning_line) \<noteq> ''[DONE]''"
  "eventItemOf (rvItem reasoning_event) = Some \<lparr>eiType = ''reasoning'', eiID = ''r'', eiCallID = '''', eiName = ''''\<rparr>"
  by code_simp+

text \<open>A tool call at index 1 of the destination, for a Chat client.\<close>

definition tool_start :: NormalizedStreamEvent where
  "tool_start = (event ''r'' 0 ''tool_call_start'')\<lparr>seCallID := Some ''c'', seToolName := Some ''f''\<rparr>"

definition tool_piece :: NormalizedStreamEvent where
  "tool_piece = (event ''r'' 1 ''tool_arguments_delta'')\<lparr>seCallID := Some ''c'', seArgumentsDelta := Some ''{}''\<rparr>"

definition hinting_normalizer :: streamNormalizer where
  "hinting_normalizer = newNormalizer\<lparr>snToolOutputIndexes := [(''c'', 1)]\<rparr>"

definition chat_encoder :: sourceStreamEncoder where
  "chat_encoder = newEncoder (rqNormalized (sample_request ''assistant'' ''company''))"

definition after_start :: sourceStreamEncoder where
  "after_start = fst (snd (consumeEvent (clWrite sample_client) tool_start (chat_encoder, [])))"

lemma tool_events_written:
  "fst (consumeEvent (clWrite sample_client) tool_start (chat_encoder, [])) = None"
  "fst (consumeEvent (clWrite sample_client) tool_piece (applyIndexHints hinting_normalizer after_start, [])) = None"
  by code_simp+

definition sample_io :: "string list StreamIO" where
  "sample_io = \<lparr>ioScan = scan_lines, ioWrite = clWrite sample_client, ioDone = (\<lambda>x. (None, x)), ioFlusher = True\<rparr>"

end
