(* ===== verification/ActivationService.thy ===== *)
theory ActivationService
  imports ActivationStore
begin

text \<open>
  The activation service (\<open>internal/proxy/activation/service.go\<close>): \<open>on\<close>, \<open>run\<close>, \<open>off\<close>, \<open>reset\<close>,
  \<open>status\<close>, \<open>doctor\<close>, \<open>routes\<close> and \<open>tail\<close> over the store.  The service's tables (listeners it manages,
  listeners it stopped, environments it handed out) and the state of the platform form the external
  part of the world.  The interfaces \<open>Environment\<close>, \<open>ListenerFactory\<close>, \<open>ManagedListener\<close>,
  \<open>ListenerController\<close>, \<open>PolicyLoader\<close> and \<open>Runner\<close> are the fields of \<open>Dependencies\<close>, functions on the
  state of the platform; the store is the one of this development.
\<close>

section \<open>State and interfaces\<close>

record PriorValue =
  pvPresent :: bool
  pvValue :: string

record PublishedValue =
  puName :: string
  puValue :: string
  puMarker :: string

record ListenerMetadata =
  lmActivationID :: string
  lmNonce :: string
  lmMode :: string
  lmSessionIdentity :: string
  lmBinaryDigest :: string
  lmGeneration :: int
  lmOwnerUID :: int

record 'l managedProof =
  mpListener :: 'l
  mpProof :: LiveListenerProof
  mpActivationID :: string

record activationEnvironment =
  aeGeneration :: int
  aeValues :: "string list"

record stoppedProof =
  spActivationID :: string
  spProof :: LiveListenerProof

record ('l, 'y) Service =
  svListeners :: "int \<rightharpoonup> 'l managedProof"
  svStopped :: "int \<rightharpoonup> stoppedProof"
  svEnvironments :: "string \<rightharpoonup> activationEnvironment"
  svPlatform :: 'y

type_synonym ('l, 'y, 'a) service_io = "(('l, 'y) Service world, 'a) io"
type_synonym ('l, 'y, 'a) service_act = "(('l, 'y) Service world, 'a) act"

text \<open>The command a runner executed ended with an exit code and an error, or the runner panicked.\<close>

datatype run_outcome = RunReturned int err | RunPanicked

record ('l, 'y) Dependencies =
  envCompareAndSet :: "CompareAndSetRequest \<Rightarrow> ('y, CompareAndSetResult) act"
  envPlatform :: string
  envSessionIdentity :: "('y, string) act"
  envResolveMode :: "string \<Rightarrow> ('y, string \<times> string) act"
  envSnapshot :: "string list \<Rightarrow> ('y, (string \<times> PriorValue) list) act"
  envPublish :: "string \<Rightarrow> (string \<times> PriorValue) list \<Rightarrow> PublishedValue list \<Rightarrow> 'y \<Rightarrow> attempt \<times> 'y"
  envBase :: "'y \<Rightarrow> string list"
  lisStart :: "Policy \<Rightarrow> string \<Rightarrow> ListenerMetadata \<Rightarrow> ('y, 'l) act"
  lisIdentity :: "'l \<Rightarrow> ListenerIdentity"
  lisInspect :: "'l \<Rightarrow> ('y, LiveListenerProof \<times> bool) act"
  lisChildEnvironment :: "'l \<Rightarrow> string list \<Rightarrow> ('y, string list) act"
  lisShutdown :: "'l \<Rightarrow> ('y, unit) act"
  ctlInspect :: "int \<Rightarrow> ('y, LiveListenerProof \<times> bool) act"
  ctlStop :: "LiveListenerProof \<Rightarrow> ('y, unit) act"
  polLoad :: "string \<Rightarrow> ('y, Policy \<times> string) act"
  runCommand :: "bool \<Rightarrow> string list \<Rightarrow> string list \<Rightarrow> 'y \<Rightarrow> run_outcome \<times> 'y"
  runTicks :: "'y \<Rightarrow> nat"
  dBinary :: BinaryIdentity
  dOwnerUID :: int

text \<open>A call through an interface, and access to the tables, which the code guards with \<open>s.mu\<close>.\<close>

definition platform :: "('y, 'a) act \<Rightarrow> ('l, 'y, 'a) service_act" where
  "platform m = (\<lambda>w. case m (svPlatform (w_ext w)) of (r, y) \<Rightarrow> (r, w\<lparr>w_ext := (w_ext w)\<lparr>svPlatform := y\<rparr>\<rparr>))"

definition tables :: "('l, 'y, ('l, 'y) Service) service_io" where
  "tables = (\<lambda>w. (Inr (w_ext w), w))"

definition update :: "(('l, 'y) Service \<Rightarrow> ('l, 'y) Service) \<Rightarrow> ('l, 'y, unit) service_io" where
  "update f = (\<lambda>w. (Inr (), w\<lparr>w_ext := f (w_ext w)\<rparr>))"

text \<open>\<open>v, err := m(); if err != nil { ... }\<close>, where the error branch has work to do.\<close>

definition handleA :: "('w, 'a) io \<Rightarrow> (err \<Rightarrow> ('w, 'b) act) \<Rightarrow> ('a \<Rightarrow> ('w, 'b) act) \<Rightarrow> ('w, 'b) act" where
  "handleA m h f = (\<lambda>w. case m w of (Inl e, w') \<Rightarrow> h e w' | (Inr x, w') \<Rightarrow> f x w')"

definition New :: "('l, 'y) Dependencies \<Rightarrow> 'y \<Rightarrow> err + ('l, 'y) Service" where
  "New deps y =
     (if bPath (dBinary deps) = '''' \<or> bDigest (dBinary deps) = '''' \<or> dOwnerUID deps < 0 then Inl [ErrUnavailable]
      else Inr \<lparr>svListeners = Map.empty, svStopped = Map.empty, svEnvironments = Map.empty, svPlatform = y\<rparr>)"

section \<open>Results\<close>

definition ContractVersion :: string where "ContractVersion = ''proxy/v1alpha1''"

record CleanupReceipt =
  crStatus :: string
  crListenerEvidence :: string
  crRestoredVariables :: "string list"
  crConflictedVariables :: "string list"

record Result =
  reCommand :: string
  reContractVersion :: string
  reStatus :: string
  reState :: string
  reTimestamp :: string
  reActivationID :: string
  reGeneration :: int
  rePolicyDigest :: string
  reMode :: string
  reListenerAddress :: string
  rePublishedVariables :: "string list"
  reManualRemediation :: "string list"
  reCleanup :: "CleanupReceipt option"
  reChildExitCode :: "int option"
  reExitCode :: int

definition result_at :: "instant \<Rightarrow> string \<Rightarrow> string \<Rightarrow> string \<Rightarrow> int \<Rightarrow> Result" where
  "result_at t command status stateValue exit = \<lparr>reCommand = command, reContractVersion = ContractVersion,
     reStatus = status, reState = stateValue, reTimestamp = formatRFC3339 t, reActivationID = '''', reGeneration = 0,
     rePolicyDigest = '''', reMode = '''', reListenerAddress = '''', rePublishedVariables = [], reManualRemediation = [],
     reCleanup = None, reChildExitCode = None, reExitCode = exit\<rparr>"

definition Service_result :: "string \<Rightarrow> string \<Rightarrow> string \<Rightarrow> int \<Rightarrow> ('x world, Result) io" where
  "Service_result command status stateValue exit = bindE nowE (\<lambda>t. returnE (result_at t command status stateValue exit))"

definition zero_result :: Result where
  "zero_result = \<lparr>reCommand = '''', reContractVersion = '''', reStatus = '''', reState = '''', reTimestamp = '''',
     reActivationID = '''', reGeneration = 0, rePolicyDigest = '''', reMode = '''', reListenerAddress = '''',
     rePublishedVariables = [], reManualRemediation = [], reCleanup = None, reChildExitCode = None, reExitCode = 0\<rparr>"

text \<open>\<open>return s.result(...), err\<close>.\<close>

definition answer :: "string \<Rightarrow> string \<Rightarrow> string \<Rightarrow> int \<Rightarrow> err \<Rightarrow> ('x world, Result) act" where
  "answer command status stateValue exit e = bindA (Service_result command status stateValue exit) zero_result (\<lambda>r. retA r e)"

text \<open>\<open>return s.result(...), err, true\<close>; the last branch of such a function returns \<open>None\<close>.\<close>

definition handled :: "string \<Rightarrow> string \<Rightarrow> string \<Rightarrow> int \<Rightarrow> err \<Rightarrow> ('x world, (Result \<times> err) option) io" where
  "handled command status stateValue exit e =
     bindE (Service_result command status stateValue exit) (\<lambda>r. returnE (Some (r, e)))"

definition lifecycleFailure :: "string \<Rightarrow> err \<Rightarrow> ('x world, (Result \<times> err) option) io" where
  "lifecycleFailure command e =
     (if errors_Is e sentinel.DeadlineExceeded
      then handled command ''deadline'' ''unknown'' 8 (errors_Join [[ErrLifecycleDeadline], e])
      else if errors_Is e ErrLifecycleConflict then handled command ''conflict'' ''unknown'' 6 e
      else returnE None)"

section \<open>The listeners\<close>

definition zero_proof :: LiveListenerProof where
  "zero_proof = \<lparr>lpPID = 0, lpProcessStartIdentity = '''', lpExecutableIdentity = '''', lpBinaryDigest = '''',
     lpListenerKeyFingerprint = '''', lpActivationNonce = '''', lpOwnerUID = 0, lpGeneration = 0, lpMode = '''',
     lpSessionIdentity = ''''\<rparr>"

definition listenerProof :: "ListenerIdentity \<Rightarrow> ListenerMetadata \<Rightarrow> LiveListenerProof" where
  "listenerProof identity metadata = \<lparr>lpPID = lPID identity, lpProcessStartIdentity = lProcessStartIdentity identity,
     lpExecutableIdentity = lExecutableIdentity identity, lpBinaryDigest = lmBinaryDigest metadata,
     lpListenerKeyFingerprint = lListenerKeyFingerprint identity, lpActivationNonce = lmNonce metadata,
     lpOwnerUID = lmOwnerUID metadata, lpGeneration = lmGeneration metadata, lpMode = lmMode metadata,
     lpSessionIdentity = lmSessionIdentity metadata\<rparr>"

definition shutdownVerified :: "('l, 'y) Dependencies \<Rightarrow> 'l \<Rightarrow> ('l, 'y, unit) service_act" where
  "shutdownVerified deps managed =
     bindA (pairA (platform (lisShutdown deps managed))) () (\<lambda>(_, shutdownErr).
     bindA (pairA (platform (lisInspect deps managed))) () (\<lambda>((_, live), inspectErr).
       if inspectErr = [] \<and> \<not> live then retA () []
       else retA () (errors_Join [shutdownErr, inspectErr,
              if live then [Other ''listener remains live after bounded shutdown''] else []])))"

text \<open>The service is itself a \<open>ListenerController\<close>.\<close>

definition Service_Inspect :: "('l, 'y) Dependencies \<Rightarrow> int \<Rightarrow> ('l, 'y, LiveListenerProof \<times> bool) service_act" where
  "Service_Inspect deps pid =
     bindA tables (zero_proof, False) (\<lambda>sv.
       case svListeners sv pid of
         Some managed \<Rightarrow>
           bindA (pairA (platform (lisInspect deps (mpListener managed)))) (zero_proof, False) (\<lambda>((proof, live), e).
             if e \<noteq> [] \<or> \<not> live then retA (zero_proof, live) e else retA (proof, True) [])
       | None \<Rightarrow>
           if svStopped sv pid \<noteq> None then retA (zero_proof, False) [] else platform (ctlInspect deps pid))"

definition forget :: "LiveListenerProof \<Rightarrow> ('l, 'y) Service \<Rightarrow> ('l, 'y) Service" where
  "forget proof sv =
     (case svListeners sv (lpPID proof) of
        None \<Rightarrow> sv
      | Some current \<Rightarrow>
          if mpProof current \<noteq> proof then sv
          else sv\<lparr>svListeners := (svListeners sv)(lpPID proof := None),
            svEnvironments := (case svEnvironments sv (mpActivationID current) of
                None \<Rightarrow> svEnvironments sv
              | Some environment \<Rightarrow> if aeGeneration environment = lpGeneration proof
                  then (svEnvironments sv)(mpActivationID current := None) else svEnvironments sv),
            svStopped := (svStopped sv)(lpPID proof \<mapsto> \<lparr>spActivationID = mpActivationID current, spProof = proof\<rparr>)\<rparr>)"

definition Service_Stop :: "('l, 'y) Dependencies \<Rightarrow> LiveListenerProof \<Rightarrow> ('l, 'y, unit) service_act" where
  "Service_Stop deps proof =
     bindA tables () (\<lambda>sv.
       case svListeners sv (lpPID proof) of
         Some managed \<Rightarrow>
           if mpProof managed \<noteq> proof then retA () [Other ''managed listener identity mismatch'']
           else bindA (ioA (shutdownVerified deps (mpListener managed))) () (\<lambda>_.
             bindA (update (forget proof)) () (\<lambda>_. retA () []))
       | None \<Rightarrow> platform (ctlStop deps proof))"

definition controller :: "('l, 'y) Dependencies \<Rightarrow> ('l, 'y) Service ListenerController" where
  "controller deps = \<lparr>Inspect = (\<lambda>pid. ioA (Service_Inspect deps pid)), Stop = (\<lambda>proof. ioA (Service_Stop deps proof))\<rparr>"

definition restorer :: "('l, 'y) Dependencies \<Rightarrow> ('l, 'y) Service EnvironmentRestorer" where
  "restorer deps = \<lparr>CompareAndSet = (\<lambda>req. ioA (platform (envCompareAndSet deps req)))\<rparr>"

section \<open>Recovery\<close>

definition purgeActivation :: "string \<Rightarrow> int \<Rightarrow> ('l, 'y) Service \<Rightarrow> ('l, 'y) Service" where
  "purgeActivation activationID generation sv = sv\<lparr>
     svEnvironments := (case svEnvironments sv activationID of
         None \<Rightarrow> svEnvironments sv
       | Some environment \<Rightarrow> if aeGeneration environment = generation
           then (svEnvironments sv)(activationID := None) else svEnvironments sv),
     svListeners := (\<lambda>pid. case svListeners sv pid of
         None \<Rightarrow> None
       | Some managed \<Rightarrow> if mpActivationID managed = activationID \<and> lpGeneration (mpProof managed) = generation
           then None else Some managed),
     svStopped := (\<lambda>pid. case svStopped sv pid of
         None \<Rightarrow> None
       | Some stopped \<Rightarrow> if spActivationID stopped = activationID \<and> lpGeneration (spProof stopped) = generation
           then None else Some stopped)\<rparr>"

text \<open>The platform services of the model do not panic, so the deferred \<open>recover()\<close> has nothing to do.\<close>

definition recoverWith ::
    "string \<Rightarrow> string \<Rightarrow> int \<Rightarrow> ('l, 'y, RecoveryResult) service_act \<Rightarrow> ('l, 'y, Result) service_act" where
  "recoverWith command activationID generation operation =
     bindA (pairA operation) zero_result (\<lambda>(recovery, e).
     bindA (if e = [] \<and> rrStatus recovery = RecoveryComplete \<and> activationID \<noteq> '''' \<and> generation > 0
            then update (purgeActivation activationID generation) else returnE ()) zero_result (\<lambda>_.
       let required = (e \<noteq> [] \<or> rrStatus recovery = RecoveryRequired \<or> errors_Is e ErrRecoveryRequired);
           status = (if required then ''recovery_required'' else ''inactive'');
           exit = (if required then 9 else 0);
           e' = (if required \<and> \<not> errors_Is e ErrRecoveryRequired then errors_Join [[ErrRecoveryRequired], e] else e);
           cleanupStatus = (if exit = 9 then ''recovery_required'' else rrStatus recovery)
       in bindA (Service_result command status status exit) zero_result (\<lambda>r.
         retA (r\<lparr>reCleanup := Some \<lparr>crStatus = (if cleanupStatus = '''' then status else cleanupStatus),
                  crListenerEvidence = rrListenerEvidence recovery, crRestoredVariables = rrRestoredEnvironment recovery,
                  crConflictedVariables = rrConflictedEnvironment recovery\<rparr>,
                 reManualRemediation := rrManualRemediation recovery\<rparr>) e')))"

definition recoverExpected ::
    "sha256 \<Rightarrow> store \<Rightarrow> ('l, 'y) Dependencies \<Rightarrow> string \<Rightarrow> string \<Rightarrow> int \<Rightarrow> ('l, 'y, Result) service_act" where
  "recoverExpected sha s deps command activationID generation =
     recoverWith command activationID generation
       (RecoverExpected sha s (restorer deps) (controller deps) \<lparr>erActivationID = activationID, erGeneration = generation\<rparr>)"

definition recoverScope ::
    "sha256 \<Rightarrow> store \<Rightarrow> ('l, 'y) Dependencies \<Rightarrow> string \<Rightarrow> ScopeLease \<Rightarrow> ('l, 'y, Result) service_act" where
  "recoverScope sha s deps command lease =
     recoverWith command (slActivationID lease) (slGeneration lease)
       (RecoverScope sha s lease (restorer deps) (controller deps))"

definition recover :: "sha256 \<Rightarrow> store \<Rightarrow> ('l, 'y) Dependencies \<Rightarrow> string \<Rightarrow> ('l, 'y, Result) service_act" where
  "recover sha s deps command =
     bindA (pairA (Reconcile sha s)) zero_result (\<lambda>(current, reconcileErr).
     bindA (lifecycleFailure command reconcileErr) zero_result (\<lambda>failure.
       case failure of
         Some (r, e) \<Rightarrow> retA r e
       | None \<Rightarrow>
           if rcActivationID current \<noteq> '''' \<and> rcGeneration current > 0
           then recoverExpected sha s deps command (rcActivationID current) (rcGeneration current)
           else if reconcileErr = [] \<and> rcState current = ReconciliationInactive
           then recoverWith command '''' 0 (retA (zero_recovery\<lparr>rrStatus := RecoveryNotActive\<rparr>) [])
           else recoverWith command '''' 0 (retA (zero_recovery\<lparr>rrStatus := RecoveryRequired\<rparr>)
                  (errors_Join [[ErrRecoveryRequired], reconcileErr]))))"

definition Off :: "sha256 \<Rightarrow> store \<Rightarrow> ('l, 'y) Dependencies \<Rightarrow> bool \<Rightarrow> ('l, 'y, Result) service_act" where
  "Off sha s deps removeCA =
     (if removeCA then answer ''proxy off'' ''unsupported'' ''unknown'' 7 [ErrCARemovalUnsupported]
      else recover sha s deps ''proxy off'')"

definition Reset :: "sha256 \<Rightarrow> store \<Rightarrow> ('l, 'y) Dependencies \<Rightarrow> bool \<Rightarrow> bool \<Rightarrow> ('l, 'y, Result) service_act" where
  "Reset sha s deps yes removeCA =
     (if \<not> yes then answer ''proxy reset'' ''confirmation_required'' ''unknown'' 2 [Other ''proxy reset requires --yes'']
      else if removeCA then answer ''proxy reset'' ''unsupported'' ''unknown'' 7 [ErrCARemovalUnsupported]
      else recover sha s deps ''proxy reset'')"


section \<open>The published environment\<close>

text \<open>\<open>found\<close>: a later entry for a name replaces an earlier one.\<close>

definition found_values :: "string list \<Rightarrow> string \<Rightarrow> string option" where
  "found_values values = map_of (rev (List.map_filter (cut_at (CHR ''='')) values))"

fun selectNames :: "(string \<Rightarrow> string option) \<Rightarrow> string \<Rightarrow> string list \<Rightarrow> err + PublishedValue list" where
  "selectNames found marker [] = Inr []"
| "selectNames found marker (name # names) =
     (case found name of
        None \<Rightarrow> Inl [Other ''listener environment is incomplete'']
      | Some value \<Rightarrow>
          (case selectNames found marker names of
             Inl e \<Rightarrow> Inl e
           | Inr rest \<Rightarrow> Inr (\<lparr>puName = name, puValue = value, puMarker = marker @ '':'' @ name\<rparr> # rest)))"

definition selectedEnvironment :: "string list \<Rightarrow> string \<Rightarrow> err + PublishedValue list" where
  "selectedEnvironment values marker = selectNames (found_values values) marker EnvironmentNames"

text \<open>A missing entry of the map reads as the zero value.\<close>

definition prior_of_name :: "(string \<times> PriorValue) list \<Rightarrow> string \<Rightarrow> PriorValue" where
  "prior_of_name prior name = (case map_of prior name of None \<Rightarrow> \<lparr>pvPresent = False, pvValue = ''''\<rparr> | Some v \<Rightarrow> v)"

definition journalEnvironment ::
    "sha256 \<Rightarrow> (string \<times> PriorValue) list \<Rightarrow> PublishedValue list \<Rightarrow> JournalEnvironment list" where
  "journalEnvironment sha prior desired = map (\<lambda>item.
     let before = prior_of_name prior (puName item) in
     \<lparr>jeName = puName item, jePriorPresent = pvPresent before,
      jePriorValue = (if pvPresent before then Some (pvValue before) else None),
      jeDesiredValueDigest = digest_text sha (puValue item), jeActivationMarker = puMarker item,
      jeRollbackAction = (if pvPresent before then ''restore_prior_value'' else ''remove_blazn_value'')\<rparr>) desired"

definition validateEnvironmentSnapshot :: "(string \<times> PriorValue) list \<Rightarrow> err" where
  "validateEnvironmentSnapshot prior =
     (if length prior \<noteq> length EnvironmentNames \<or> list_ex (\<lambda>name. map_of prior name = None) EnvironmentNames
      then [Other ''proxy environment snapshot is incomplete''] else [])"

definition rollbackActions :: "string \<Rightarrow> RollbackAction list" where
  "rollbackActions mode =
     [\<lparr>raOrdinal = 1, raOperation = ''restore_environment'', raTarget = ''documented_proxy_variables''\<rparr>,
      \<lparr>raOrdinal = 2, raOperation = ''stop_listener'', raTarget = ''exact_listener_identity''\<rparr>] @
     (if mode = ''scoped_run''
      then [\<lparr>raOrdinal = 3, raOperation = ''remove_scoped_state'', raTarget = ''activation_records''\<rparr>] else [])"

section \<open>Activation\<close>

definition activationJournal ::
    "sha256 \<Rightarrow> ('l, 'y) Dependencies \<Rightarrow> Policy \<Rightarrow> string \<Rightarrow> ListenerMetadata \<Rightarrow> ListenerIdentity \<Rightarrow>
       (string \<times> PriorValue) list \<Rightarrow> PublishedValue list \<Rightarrow> instant \<Rightarrow> Journal" where
  "activationJournal sha deps policy digest metadata identity prior desired t = \<lparr>
     jSchemaVersion = SchemaVersion, jActivationID = lmActivationID metadata, jNonce = lmNonce metadata, jGeneration = 1,
     jState = ''prepared'', jOwnerUID = dOwnerUID deps, jPlatform = envPlatform deps, jMode = lmMode metadata,
     jSessionIdentity = lmSessionIdentity metadata,
     jPolicy = \<lparr>pID = poID policy, pVersion = poVersion policy, pDigest = digest\<rparr>, jBinary = dBinary deps,
     jListener = identity, jEnvironment = journalEnvironment sha prior desired, jCA = None,
     jRollbackActions = Some (rollbackActions (lmMode metadata)), jCreatedAt = t, jUpdatedAt = t, jChecksum = ''''\<rparr>"

text \<open>\<open>publish\<close>: \<open>clonePriorValues\<close> hands out a copy of the snapshot.\<close>

definition publication ::
    "('l, 'y) Dependencies \<Rightarrow> string \<Rightarrow> (string \<times> PriorValue) list \<Rightarrow> PublishedValue list \<Rightarrow> ('l, 'y) Service publish_call" where
  "publication deps mechanism prior desired = (\<lambda>w.
     case envPublish deps mechanism prior desired (svPlatform (w_ext w)) of
       (r, y) \<Rightarrow> (r, w\<lparr>w_ext := (w_ext w)\<lparr>svPlatform := y\<rparr>\<rparr>))"

lemma publication_external: "external_publication (publication deps mechanism prior desired)"
  by (simp add: external_publication_def publication_def split: prod.split)

text \<open>The deferred function while \<open>keep\<close> is false: the listener is shut down whatever happened.\<close>

definition abandon :: "('l, 'y) Dependencies \<Rightarrow> 'l \<Rightarrow> ('l, 'y, 'a) service_act \<Rightarrow> ('l, 'y, 'a) service_act" where
  "abandon deps managed m = (\<lambda>w. case m w of (r, w') \<Rightarrow> (r, snd (shutdownVerified deps managed w')))"

definition register ::
    "int \<Rightarrow> 'l managedProof \<Rightarrow> string list \<Rightarrow> ('l, 'y) Service \<Rightarrow> ('l, 'y) Service" where
  "register pid managed environment sv = sv\<lparr>
     svStopped := (svStopped sv)(pid := None),
     svListeners := (svListeners sv)(pid \<mapsto> managed),
     svEnvironments := (svEnvironments sv)(mpActivationID managed \<mapsto> \<lparr>aeGeneration = 1, aeValues = environment\<rparr>)\<rparr>"

text \<open>\<open>storeMatches\<close>, without the test of the error.\<close>

definition storeMatches :: "Reconciliation \<Rightarrow> ListenerMetadata \<Rightarrow> string \<Rightarrow> LiveListenerProof \<Rightarrow> bool" where
  "storeMatches current metadata digest expectedProof \<longleftrightarrow>
     rcState current = ReconciliationActive \<and> rcActivationID current = lmActivationID metadata \<and> rcGeneration current = 1 \<and>
     rcPolicyDigest current = digest \<and> rcMode current = lmMode metadata \<and> rcListenerProof current = Some expectedProof"

text \<open>What \<open>activate\<close> does when the listener or the store changed after the publication.\<close>

definition verificationFailed ::
    "sha256 \<Rightarrow> store \<Rightarrow> ('l, 'y) Dependencies \<Rightarrow> string \<Rightarrow> string \<Rightarrow> 'l \<Rightarrow> bool \<Rightarrow> Result \<Rightarrow> err \<Rightarrow> ('l, 'y, Result) service_act" where
  "verificationFailed sha s deps command activationID managed live r verificationErr =
     bindA (if live then pairA (shutdownVerified deps managed) else returnE ((), [])) zero_result (\<lambda>(_, shutdownErr).
       if shutdownErr \<noteq> [] then
         retA (r\<lparr>reStatus := ''recovery_required'', reState := ''recovery_required'', reExitCode := 9\<rparr>)
              (errors_Join [[ErrRecoveryRequired], verificationErr, shutdownErr])
       else bindA (pairA (recoverExpected sha s deps command activationID 1)) zero_result (\<lambda>(recovery, recoveryErr).
         if recoveryErr \<noteq> [] then retA recovery (errors_Join [[ErrRecoveryRequired], verificationErr, recoveryErr])
         else retA (recovery\<lparr>reStatus := ''failed'', reExitCode := 7\<rparr>)
                (errors_Join [[Other ''listener or activation authority changed after publication''], verificationErr])))"

definition verifyActivation ::
    "sha256 \<Rightarrow> store \<Rightarrow> ('l, 'y) Dependencies \<Rightarrow> string \<Rightarrow> ListenerMetadata \<Rightarrow> string \<Rightarrow> 'l \<Rightarrow> LiveListenerProof \<Rightarrow> Result \<Rightarrow>
       ('l, 'y, Result) service_act" where
  "verifyActivation sha s deps command metadata digest managed expectedProof r =
     bindA (pairA (platform (lisInspect deps managed))) zero_result (\<lambda>((observedProof, live), postErr).
     bindA (pairA (Reconcile sha s)) zero_result (\<lambda>(current, reconcileErr).
       let matches = (reconcileErr = [] \<and> storeMatches current metadata digest expectedProof) in
       if postErr \<noteq> [] \<or> \<not> live \<or> observedProof \<noteq> expectedProof \<or> \<not> matches
       then verificationFailed sha s deps command (lmActivationID metadata) managed live r
              (errors_Join [postErr, if \<not> matches \<and> reconcileErr = [] then [ErrLifecycleConflict] else reconcileErr])
       else retA r []))"

text \<open>From the verified listener to the active records.\<close>

definition publishListener ::
    "sha256 \<Rightarrow> store \<Rightarrow> ('l, 'y) Dependencies \<Rightarrow> string \<Rightarrow> Policy \<Rightarrow> string \<Rightarrow> string \<Rightarrow> ListenerMetadata \<Rightarrow> 'l \<Rightarrow>
       string list \<Rightarrow> PublishedValue list \<Rightarrow> (string \<times> PriorValue) list \<Rightarrow> ('l, 'y, Result) service_act" where
  "publishListener sha s deps command policy digest mechanism metadata managed desiredEnvironment desired prior =
     bindA nowE zero_result (\<lambda>t.
     let identity = lisIdentity deps managed;
         expectedProof = listenerProof identity metadata;
         journal = activationJournal sha deps policy digest metadata identity prior desired t
     in bindA (pairA (Activate sha s journal mechanism (publication deps mechanism prior desired))) zero_result (\<lambda>(_, e).
       if e \<noteq> [] then
         abandon deps managed
           (if errors_Is e ErrEnvironmentChanged \<and> \<not> errors_Is e ErrRecoveryRequired
            then answer command ''conflict'' ''inactive'' 6 (errors_Join [[ErrLifecycleConflict], e])
            else answer command ''recovery_required'' ''recovery_required'' 9 (errors_Join [[ErrRecoveryRequired], e]))
       else
         bindA (update (register (lPID identity)
           \<lparr>mpListener = managed, mpProof = expectedProof, mpActivationID = lmActivationID metadata\<rparr> desiredEnvironment)) zero_result (\<lambda>_.
         bindA (Service_result command ''active'' ''active'' 0) zero_result (\<lambda>r.
           verifyActivation sha s deps command metadata digest managed expectedProof
             (r\<lparr>reActivationID := lmActivationID metadata, reGeneration := 1, rePolicyDigest := digest, reMode := lmMode metadata,
                reListenerAddress := lAddress identity, rePublishedVariables := EnvironmentNames\<rparr>)))))"

definition activate ::
    "sha256 \<Rightarrow> store \<Rightarrow> ('l, 'y) Dependencies \<Rightarrow> string \<Rightarrow> Policy \<Rightarrow> string \<Rightarrow> string \<Rightarrow> string \<Rightarrow> ('l, 'y, Result) service_act" where
  "activate sha s deps command policy digest mode mechanism =
     handleA randomIdentity (\<lambda>e. answer command ''failed'' ''inactive'' 1 e) (\<lambda>(activationID, nonce).
     handleA (ioA (platform (envSessionIdentity deps))) (\<lambda>e. answer command ''failed'' ''inactive'' 7 e) (\<lambda>session.
     let metadata = \<lparr>lmActivationID = activationID, lmNonce = nonce, lmMode = mode, lmSessionIdentity = session,
           lmBinaryDigest = bDigest (dBinary deps), lmGeneration = 1, lmOwnerUID = dOwnerUID deps\<rparr> in
     handleA (ioA (platform (lisStart deps policy digest metadata))) (\<lambda>e. answer command ''failed'' ''inactive'' 3 e) (\<lambda>managed.
     bindA (pairA (platform (lisInspect deps managed))) zero_result (\<lambda>((observedProof, live), inspectErr).
     if inspectErr \<noteq> [] \<or> \<not> live \<or> observedProof \<noteq> listenerProof (lisIdentity deps managed) metadata then
       abandon deps managed (answer command ''failed'' ''inactive'' 7
         (errors_Join [[Other ''listener identity could not be verified before publication''], inspectErr]))
     else bindA tables zero_result (\<lambda>sv.
     handleA (ioA (platform (lisChildEnvironment deps managed (envBase deps (svPlatform sv)))))
       (\<lambda>e. abandon deps managed (answer command ''failed'' ''inactive'' 3 e)) (\<lambda>desiredEnvironment.
     case selectedEnvironment desiredEnvironment activationID of
       Inl e \<Rightarrow> abandon deps managed (answer command ''failed'' ''inactive'' 1 e)
     | Inr desired \<Rightarrow>
     handleA (ioA (platform (envSnapshot deps EnvironmentNames)))
       (\<lambda>e. abandon deps managed (answer command ''failed'' ''inactive'' 7 e)) (\<lambda>prior.
     if validateEnvironmentSnapshot prior \<noteq> [] then
       abandon deps managed (answer command ''failed'' ''inactive'' 7 (validateEnvironmentSnapshot prior))
     else publishListener sha s deps command policy digest mechanism metadata managed desiredEnvironment desired prior)))))))"


section \<open>On\<close>

text \<open>
  The bounded context of \<open>reconcileForOn\<close>: how often its timer fires before the context is done, in
  the first call and in the one after a lost race, and the error of the context.
\<close>

record Context =
  cxRetries :: nat
  cxRetriesAgain :: nat
  cxErr :: err

fun reconcileForOn :: "sha256 \<Rightarrow> store \<Rightarrow> nat \<Rightarrow> err \<Rightarrow> ('x world, Reconciliation) act" where
  "reconcileForOn sha s 0 ctxErr =
     bindA (pairA (Reconcile sha s)) zero_reconciliation (\<lambda>(current, e).
       if \<not> errors_Is e ErrLifecycleConflict then retA current e else retA current (errors_Join [e, ctxErr]))"
| "reconcileForOn sha s (Suc n) ctxErr =
     bindA (pairA (Reconcile sha s)) zero_reconciliation (\<lambda>(current, e).
       if \<not> errors_Is e ErrLifecycleConflict then retA current e else reconcileForOn sha s n ctxErr)"

definition reconcileOn ::
    "('l, 'y) Dependencies \<Rightarrow> Reconciliation \<Rightarrow> err \<Rightarrow> string \<Rightarrow> string \<Rightarrow> ('l, 'y, (Result \<times> err) option) service_io" where
  "reconcileOn deps current reconcileErr digest requestedMode =
     bindE (lifecycleFailure ''proxy on'' reconcileErr) (\<lambda>failure.
     if failure \<noteq> None then returnE failure
     else if rcState current = ReconciliationRecoveryRequired \<or> errors_Is reconcileErr ErrRecoveryRequired
     then handled ''proxy on'' ''recovery_required'' ''recovery_required'' 9 [ErrRecoveryRequired]
     else if reconcileErr \<noteq> []
     then handled ''proxy on'' ''recovery_required'' ''recovery_required'' 9 (errors_Join [[ErrRecoveryRequired], reconcileErr])
     else if rcState current = ReconciliationActive then
       (case rcListenerProof current of
          None \<Rightarrow> handled ''proxy on'' ''recovery_required'' ''recovery_required'' 9 [ErrRecoveryRequired]
        | Some proof \<Rightarrow>
            bindE (pairA (Service_Inspect deps (lpPID proof))) (\<lambda>((observed, live), inspectErr).
            if inspectErr \<noteq> [] \<or> \<not> live \<or> observed \<noteq> proof
            then handled ''proxy on'' ''recovery_required'' ''recovery_required'' 9 [ErrRecoveryRequired]
            else if rcPolicyDigest current = digest then
              bindE (tryE (ioA (platform (envResolveMode deps requestedMode)))) (\<lambda>resolved.
              case resolved of
                Inl e \<Rightarrow> handled ''proxy on'' ''unsupported'' ''active'' 7 e
              | Inr (mode, _) \<Rightarrow>
                  bindE (tryE (ioA (platform (envSessionIdentity deps)))) (\<lambda>identified.
                  case identified of
                    Inl e \<Rightarrow> handled ''proxy on'' ''unsupported'' ''active'' 7 e
                  | Inr session \<Rightarrow>
                      if rcMode current \<noteq> mode \<or> lpMode proof \<noteq> mode \<or> lpSessionIdentity proof \<noteq> session
                      then handled ''proxy on'' ''conflict'' ''active'' 6 [ErrDifferentScope]
                      else bindE (Service_result ''proxy on'' ''idempotent'' ''active'' 0) (\<lambda>r.
                        returnE (Some (r\<lparr>reActivationID := rcActivationID current, reGeneration := rcGeneration current,
                          rePolicyDigest := digest, reMode := rcMode current\<rparr>, [])))))
            else handled ''proxy on'' ''conflict'' ''active'' 6 [ErrDifferentPolicy]))
     else returnE None)"

definition On ::
    "sha256 \<Rightarrow> store \<Rightarrow> ('l, 'y) Dependencies \<Rightarrow> Context \<Rightarrow> string \<Rightarrow> string \<Rightarrow> ('l, 'y, Result) service_act" where
  "On sha s deps ctx policyPath requestedMode =
     handleA (ioA (platform (polLoad deps policyPath))) (\<lambda>e. answer ''proxy on'' ''failed'' ''inactive'' 2 e) (\<lambda>(policy, digest).
     bindA (pairA (reconcileForOn sha s (cxRetries ctx) (cxErr ctx))) zero_result (\<lambda>(current, reconcileErr).
     bindA (reconcileOn deps current reconcileErr digest requestedMode) zero_result (\<lambda>reconciled.
     case reconciled of
       Some (r, e) \<Rightarrow> retA r e
     | None \<Rightarrow>
         handleA (ioA (platform (envResolveMode deps requestedMode)))
           (\<lambda>e. answer ''proxy on'' ''unsupported'' ''inactive'' 7 e) (\<lambda>(mode, mechanism).
         bindA (pairA (activate sha s deps ''proxy on'' policy digest mode mechanism)) zero_result (\<lambda>(r, activateErr).
           if \<not> errors_Is activateErr ErrActivationRace then retA r activateErr
           else bindA (pairA (reconcileForOn sha s (cxRetriesAgain ctx) (cxErr ctx))) zero_result (\<lambda>(current', reconcileErr').
             bindA (reconcileOn deps current' reconcileErr' digest requestedMode) zero_result (\<lambda>reconciled'.
             case reconciled' of
               Some (r', e') \<Rightarrow> retA r' e'
             | None \<Rightarrow> answer ''proxy on'' ''conflict'' ''unknown'' 6 [ErrLifecycleConflict])))))))"

section \<open>Run\<close>

definition reconcileRun ::
    "('l, 'y) Dependencies \<Rightarrow> Reconciliation \<Rightarrow> err \<Rightarrow> string \<Rightarrow> ('l, 'y, (Result \<times> err) option) service_io" where
  "reconcileRun deps current reconcileErr digest =
     bindE (lifecycleFailure ''proxy run'' reconcileErr) (\<lambda>failure.
     if failure \<noteq> None then returnE failure
     else if rcState current = ReconciliationRecoveryRequired \<or> errors_Is reconcileErr ErrRecoveryRequired
     then handled ''proxy run'' ''recovery_required'' ''recovery_required'' 9 [ErrRecoveryRequired]
     else if reconcileErr \<noteq> []
     then handled ''proxy run'' ''recovery_required'' ''recovery_required'' 9 (errors_Join [[ErrRecoveryRequired], reconcileErr])
     else if rcState current \<noteq> ReconciliationActive then returnE None
     else (case rcListenerProof current of
          None \<Rightarrow> handled ''proxy run'' ''recovery_required'' ''recovery_required'' 9 [ErrRecoveryRequired]
        | Some proof \<Rightarrow>
            bindE (pairA (Service_Inspect deps (lpPID proof))) (\<lambda>((observed, live), inspectErr).
            if inspectErr \<noteq> [] \<or> \<not> live \<or> observed \<noteq> proof
            then handled ''proxy run'' ''recovery_required'' ''recovery_required'' 9 (errors_Join [[ErrRecoveryRequired], inspectErr])
            else if rcPolicyDigest current \<noteq> digest then handled ''proxy run'' ''conflict'' ''active'' 6 [ErrDifferentPolicy]
            else bindE (tryE (ioA (platform (envSessionIdentity deps)))) (\<lambda>identified.
              case identified of
                Inl e \<Rightarrow> handled ''proxy run'' ''unsupported'' ''active'' 7 e
              | Inr session \<Rightarrow>
                  if rcMode current \<noteq> ''scoped_run'' \<or> lpMode proof \<noteq> ''scoped_run'' \<or> lpSessionIdentity proof \<noteq> session
                  then handled ''proxy run'' ''conflict'' ''active'' 6 [ErrDifferentScope]
                  else handled ''proxy run'' ''conflict'' ''active'' 6 [ErrLifecycleConflict]))))"

text \<open>
  The goroutine that renews the lease once a minute while the command runs; it stops at the first
  failure, which also cancels the command.
\<close>

fun renewScopes :: "sha256 \<Rightarrow> store \<Rightarrow> nat \<Rightarrow> ScopeLease \<Rightarrow> ('x world, ScopeLease) act" where
  "renewScopes sha s 0 lease = retA lease []"
| "renewScopes sha s (Suc n) lease =
     bindA (pairA (RenewScope sha s lease)) lease (\<lambda>(lease', e).
       if e \<noteq> [] then retA lease' e else renewScopes sha s n lease')"

text \<open>The runner, with the flag whether its context was cancelled.\<close>

definition runner ::
    "('l, 'y) Dependencies \<Rightarrow> bool \<Rightarrow> string list \<Rightarrow> string list \<Rightarrow> ('l, 'y, run_outcome) service_io" where
  "runner deps cancelled argv environment = (\<lambda>w.
     case runCommand deps cancelled argv environment (svPlatform (w_ext w)) of
       (r, y) \<Rightarrow> (Inr r, w\<lparr>w_ext := (w_ext w)\<lparr>svPlatform := y\<rparr>\<rparr>))"

text \<open>The deferred function of \<open>Run\<close>.\<close>

definition finishRun ::
    "sha256 \<Rightarrow> store \<Rightarrow> ('l, 'y) Dependencies \<Rightarrow> ScopeLease \<Rightarrow> Result \<Rightarrow> err \<Rightarrow> bool \<Rightarrow> err \<Rightarrow> ('l, 'y, Result) service_act" where
  "finishRun sha s deps lease r e panicked renewErr =
     bindA (pairA (recoverScope sha s deps ''proxy run'' lease)) zero_result (\<lambda>(cleanup, cleanupErr).
       let r1 = r\<lparr>reState := reState cleanup, reCleanup := reCleanup cleanup, reManualRemediation := reManualRemediation cleanup\<rparr>;
           r2 = (if panicked then r1\<lparr>reStatus := ''failed'', reExitCode := 1\<rparr> else r1);
           e2 = errors_Join [errors_Join [if panicked then [Other ''proxy runner panicked''] else e, renewErr], cleanupErr]
       in if cleanupErr \<noteq> [] then retA (r2\<lparr>reStatus := ''recovery_required'', reExitCode := 9\<rparr>) e2
       else bindA (lifecycleFailure ''proxy run'' e2) zero_result (\<lambda>failure.
         case failure of
           Some (lifecycle, _) \<Rightarrow> retA (r2\<lparr>reStatus := reStatus lifecycle, reExitCode := reExitCode lifecycle\<rparr>) e2
         | None \<Rightarrow> if e2 \<noteq> [] then retA (r2\<lparr>reStatus := ''failed''\<rparr>) e2 else retA (r2\<lparr>reStatus := ''completed''\<rparr>) e2))"

definition runScoped ::
    "sha256 \<Rightarrow> store \<Rightarrow> ('l, 'y) Dependencies \<Rightarrow> string list \<Rightarrow> ScopeLease \<Rightarrow> Result \<Rightarrow> ('l, 'y, Result) service_act" where
  "runScoped sha s deps argv lease r =
     bindA tables zero_result (\<lambda>sv.
     case svEnvironments sv (reActivationID r) of
       None \<Rightarrow> finishRun sha s deps lease
                 (r\<lparr>reStatus := ''recovery_required'', reState := ''recovery_required'', reExitCode := 9\<rparr>) [ErrRecoveryRequired] False []
     | Some environment \<Rightarrow>
         bindA (pairA (renewScopes sha s (runTicks deps (svPlatform sv)) lease)) zero_result (\<lambda>(lease', renewErr).
         bindA (runner deps (renewErr \<noteq> []) argv (aeValues environment)) zero_result (\<lambda>outcome.
         case outcome of
           RunReturned childExit runErr \<Rightarrow>
             finishRun sha s deps lease' (r\<lparr>reExitCode := childExit, reChildExitCode := Some childExit\<rparr>) runErr False renewErr
         | RunPanicked \<Rightarrow> finishRun sha s deps lease' r [] True renewErr)))"

text \<open>\<open>Run\<close> when no lease could be taken.\<close>

definition leaseFailed ::
    "sha256 \<Rightarrow> store \<Rightarrow> ('l, 'y) Dependencies \<Rightarrow> Result \<Rightarrow> err \<Rightarrow> ('l, 'y, Result) service_act" where
  "leaseFailed sha s deps r leaseErr =
     bindA (pairA (recoverExpected sha s deps ''proxy run'' (reActivationID r) (reGeneration r))) zero_result (\<lambda>(cleanup, cleanupErr).
     bindA (lifecycleFailure ''proxy run'' leaseErr) zero_result (\<lambda>failure.
       let r1 = r\<lparr>reState := reState cleanup, reCleanup := reCleanup cleanup, reManualRemediation := reManualRemediation cleanup\<rparr>
       in case failure of
            Some (lifecycle, lifecycleErr) \<Rightarrow>
              if cleanupErr = [] then retA (r1\<lparr>reStatus := reStatus lifecycle, reExitCode := reExitCode lifecycle\<rparr>) lifecycleErr
              else retA (r1\<lparr>reStatus := ''recovery_required'', reExitCode := 9\<rparr>) (errors_Join [[ErrRecoveryRequired], leaseErr, cleanupErr])
          | None \<Rightarrow> retA (r1\<lparr>reStatus := ''recovery_required'', reExitCode := 9\<rparr>) (errors_Join [[ErrRecoveryRequired], leaseErr, cleanupErr])))"

definition Run ::
    "sha256 \<Rightarrow> store \<Rightarrow> ('l, 'y) Dependencies \<Rightarrow> Context \<Rightarrow> string \<Rightarrow> string list \<Rightarrow> ('l, 'y, Result) service_act" where
  "Run sha s deps ctx policyPath argv =
     (if argv = [] \<or> hd argv = '''' then answer ''proxy run'' ''failed'' ''inactive'' 2 [Other ''proxy run requires an exact command argv'']
      else handleA (ioA (platform (polLoad deps policyPath))) (\<lambda>e. answer ''proxy run'' ''failed'' ''inactive'' 2 e) (\<lambda>(policy, digest).
     bindA (pairA (reconcileForOn sha s (cxRetries ctx) (cxErr ctx))) zero_result (\<lambda>(current, reconcileErr).
     bindA (reconcileRun deps current reconcileErr digest) zero_result (\<lambda>reconciled.
     case reconciled of
       Some (r, e) \<Rightarrow> retA r e
     | None \<Rightarrow>
         bindA (pairA (activate sha s deps ''proxy run'' policy digest ''scoped_run'' ''process_environment'')) zero_result (\<lambda>(r, e).
           if e \<noteq> [] then
             (if \<not> errors_Is e ErrActivationRace then retA r e
              else bindA (pairA (reconcileForOn sha s (cxRetriesAgain ctx) (cxErr ctx))) zero_result (\<lambda>(current', reconcileErr').
                bindA (reconcileRun deps current' reconcileErr' digest) zero_result (\<lambda>reconciled'.
                case reconciled' of
                  Some (r', e') \<Rightarrow> retA r' e'
                | None \<Rightarrow> answer ''proxy run'' ''conflict'' ''unknown'' 6 [ErrLifecycleConflict])))
           else bindA (pairA (AcquireScope sha s (reActivationID r) (reGeneration r))) zero_result (\<lambda>(lease, leaseErr).
             case lease of
               Some l \<Rightarrow> if leaseErr \<noteq> [] then leaseFailed sha s deps r leaseErr else runScoped sha s deps argv l r
             | None \<Rightarrow> leaseFailed sha s deps r leaseErr))))))"


section \<open>Status and doctor\<close>

definition reconciliation_text :: "ReconciliationState \<Rightarrow> string" where
  "reconciliation_text st = (case st of ReconciliationNone \<Rightarrow> '''' | ReconciliationInactive \<Rightarrow> ''inactive''
     | ReconciliationActive \<Rightarrow> ''active'' | ReconciliationRecoveryRequired \<Rightarrow> ''recovery_required'')"

definition needs_recovery :: "Result \<Rightarrow> Result" where
  "needs_recovery r = r\<lparr>reStatus := ''recovery_required'', reState := ''recovery_required'', reExitCode := 9\<rparr>"

definition Status :: "sha256 \<Rightarrow> store \<Rightarrow> ('l, 'y) Dependencies \<Rightarrow> ('l, 'y, Result) service_act" where
  "Status sha s deps =
     bindA (pairA (Reconcile sha s)) zero_result (\<lambda>(value, e).
     bindA (lifecycleFailure ''proxy status'' e) zero_result (\<lambda>failure.
     case failure of
       Some (r, e') \<Rightarrow> retA r e'
     | None \<Rightarrow>
         bindA (Service_result ''proxy status'' (reconciliation_text (rcState value)) (reconciliation_text (rcState value)) 0) zero_result (\<lambda>r0.
         let r1 = r0\<lparr>reActivationID := rcActivationID value, rePolicyDigest := rcPolicyDigest value, reMode := rcMode value\<rparr>;
             r = (if e \<noteq> [] then needs_recovery r1 else r1);
             e1 = (if e \<noteq> [] \<and> \<not> errors_Is e ErrRecoveryRequired then errors_Join [[ErrRecoveryRequired], e] else e)
         in if rcState value = ReconciliationActive then
           (case rcListenerProof value of
              None \<Rightarrow> retA (needs_recovery r) [ErrRecoveryRequired]
            | Some proof \<Rightarrow>
                bindA (pairA (Service_Inspect deps (lpPID proof))) zero_result (\<lambda>((observed, live), inspectErr).
                  if inspectErr \<noteq> [] \<or> \<not> live \<or> observed \<noteq> proof
                  then retA (needs_recovery r) (errors_Join [[ErrRecoveryRequired], inspectErr])
                  else retA r e1))
         else retA r e1)))"

definition doctorListener :: "('l, 'y) Dependencies \<Rightarrow> string \<Rightarrow> ListenerMetadata \<Rightarrow> 'l \<Rightarrow> ('l, 'y, Result) service_act" where
  "doctorListener deps digest metadata managed =
     bindA (pairA (platform (lisInspect deps managed))) zero_result (\<lambda>((observedProof, liveBefore), inspectBeforeErr).
     if inspectBeforeErr \<noteq> [] \<or> \<not> liveBefore \<or> observedProof \<noteq> listenerProof (lisIdentity deps managed) metadata then
       bindA (pairA (shutdownVerified deps managed)) zero_result (\<lambda>(_, shutdownErr).
         answer ''proxy doctor'' ''failed'' ''inactive'' 7
           (errors_Join [[Other ''proxy doctor listener identity or liveness is invalid''], inspectBeforeErr, shutdownErr]))
     else handleA (ioA (shutdownVerified deps managed)) (\<lambda>e. answer ''proxy doctor'' ''failed'' ''inactive'' 7 e) (\<lambda>_.
     bindA (pairA (platform (lisInspect deps managed))) zero_result (\<lambda>((_, live), inspectErr).
       if inspectErr \<noteq> [] \<or> live then answer ''proxy doctor'' ''failed'' ''inactive'' 7
         (errors_Join [[Other ''proxy doctor listener shutdown is unverified''], inspectErr])
       else bindA (Service_result ''proxy doctor'' ''ready'' ''inactive'' 0) zero_result (\<lambda>r.
         retA (r\<lparr>rePolicyDigest := digest, reListenerAddress := lAddress (lisIdentity deps managed)\<rparr>) []))))"

definition Doctor :: "('l, 'y) Dependencies \<Rightarrow> string \<Rightarrow> ('l, 'y, Result) service_act" where
  "Doctor deps policyPath =
     handleA (ioA (platform (polLoad deps policyPath))) (\<lambda>e. answer ''proxy doctor'' ''failed'' ''inactive'' 2 e) (\<lambda>(policy, digest).
     handleA (ioA (platform (envResolveMode deps ''auto'')))
       (\<lambda>e. if errors_Is e ErrSessionUnsupported then answer ''proxy doctor'' ''warning'' ''inactive'' 0 []
            else answer ''proxy doctor'' ''failed'' ''inactive'' 7 e) (\<lambda>(mode, _).
     handleA (ioA (platform (envSessionIdentity deps))) (\<lambda>e. answer ''proxy doctor'' ''failed'' ''inactive'' 7 e) (\<lambda>session.
     handleA randomIdentity (\<lambda>e. answer ''proxy doctor'' ''failed'' ''inactive'' 1 e) (\<lambda>(activationID, nonce).
     let metadata = \<lparr>lmActivationID = activationID, lmNonce = nonce, lmMode = mode, lmSessionIdentity = session,
           lmBinaryDigest = bDigest (dBinary deps), lmGeneration = 1, lmOwnerUID = dOwnerUID deps\<rparr> in
     handleA (ioA (platform (lisStart deps policy digest metadata))) (\<lambda>e. answer ''proxy doctor'' ''failed'' ''inactive'' 3 e) (\<lambda>managed.
       doctorListener deps digest metadata managed)))))"

section \<open>Routes and events\<close>

record RouteLine =
  rlID :: string
  rlDestinationClass :: string
  rlDestinationProtocol :: string
  rlEndpoint :: string

definition routeLine :: "Route \<Rightarrow> RouteLine" where
  "routeLine route = \<lparr>rlID = rtID route, rlDestinationClass = rtDestinationClass route,
     rlDestinationProtocol = rtDestinationProtocol route,
     rlEndpoint = epScheme (rtEndpoint route) @ ''://'' @ epHostname (rtEndpoint route) @ '':'' @
       formatInt (epPort (rtEndpoint route)) @ epBasePath (rtEndpoint route)\<rparr>"

text \<open>The identifiers of a loaded policy are distinct, so the order is determined.\<close>

definition Routes :: "('l, 'y) Dependencies \<Rightarrow> string \<Rightarrow> ('l, 'y, RouteLine list) service_act" where
  "Routes deps policyPath =
     handleA (ioA (platform (polLoad deps policyPath))) (\<lambda>e. retA [] e) (\<lambda>(policy, _).
       retA (sort_key rlID (map routeLine (poRoutes policy))) [])"

text \<open>
  \<open>Tail\<close>: the reader delivers events to the callback, which counts them, checks them and passes them
  on.  The state of the callback is the count, the error it keeps and the events passed on.
\<close>

record tail =
  tlCount :: nat
  tlErr :: err
  tlEmitted :: "Event list"

definition tailSink :: "bool \<Rightarrow> (Event list \<Rightarrow> Event \<Rightarrow> err) \<Rightarrow> Event \<Rightarrow> tail \<Rightarrow> tail" where
  "tailSink follow sink event t =
     (if tlErr t \<noteq> [] then t
      else let t1 = t\<lparr>tlCount := tlCount t + 1\<rparr> in
        if \<not> follow \<and> tlCount t1 > 1000 then t1\<lparr>tlErr := [Other ''proxy event batch exceeds limit'']\<rparr>
        else if Event_Validate event \<noteq> [] then t1\<lparr>tlErr := [Other ''proxy event is outside the redacted contract'']\<rparr>
        else t1\<lparr>tlErr := sink (tlEmitted t) event, tlEmitted := tlEmitted t @ [event]\<rparr>)"

text \<open>The reader learns the error of the callback and reports an error of its own.\<close>

definition Tail ::
    "(string \<Rightarrow> bool \<Rightarrow> Event list \<times> (err \<Rightarrow> err)) option \<Rightarrow> string \<Rightarrow> bool \<Rightarrow> (Event list \<Rightarrow> Event \<Rightarrow> err) option \<Rightarrow> Event list \<times> err" where
  "Tail reader cursor follow sink =
     (case sink of
        None \<Rightarrow> ([], [Other ''proxy event sink is required''])
      | Some emitEvent \<Rightarrow>
          (case reader of
             None \<Rightarrow> ([], [])
           | Some read \<Rightarrow>
               (case read cursor follow of (events, readErr) \<Rightarrow>
                  let t = fold (tailSink follow emitEvent) events \<lparr>tlCount = 0, tlErr = [], tlEmitted = []\<rparr>
                  in (tlEmitted t, errors_Join [readErr (tlErr t), tlErr t]))))"

end
