(* ===== verification/ActivationResults.thy ===== *)
theory ActivationResults
  imports ActivationService
begin

text \<open>
  What the activation service reports and what it means: an exit code of zero goes with a nil error, a
  reported activation is the one on disk and in the tables, \<open>off\<close> reports inactive only when no record is
  left, and \<open>status\<close> reports a pending recovery with exit code zero.
\<close>

section \<open>Rules for the service\<close>

lemma wpa_handleA [wp_rules]: "wpa (handleA m h f) Q w \<longleftrightarrow> wp m (\<lambda>x. wpa (f x) Q) (\<lambda>e. wpa (h e) Q) w"
  by (auto simp: wpa_def wp_def handleA_def split: prod.splits sum.splits)

lemma wpa_handleI [wp_intros]: "wp m (\<lambda>x. wpa (f x) Q) (\<lambda>e. wpa (h e) Q) w \<Longrightarrow> wpa (handleA m h f) Q w"
  by (simp add: wpa_handleA)

lemma keepsA_handle [keeps_intros]:
  assumes "keeps P m" and "\<And>e. keepsA P (h e)" and "\<And>x. keepsA P (f x)"
  shows "keepsA P (handleA m h f)"
  by (rule keepsAI, rule wpa_handleI, rule wp_mono [OF keepsD [OF assms(1)]], assumption)
    (rule keepsAD [OF assms(3)] keepsAD [OF assms(2)], assumption)+

lemma wp_update [wp_rules]: "wp (update f) Q E w \<longleftrightarrow> Q () (w\<lparr>w_ext := f (w_ext w)\<rparr>)"
  by (simp add: wp_def update_def)

lemma wp_tables [wp_rules]: "wp tables Q E w \<longleftrightarrow> Q (w_ext w) w"
  by (simp add: wp_def tables_def)

lemma wp_updateI [wp_intros]: "Q () (w\<lparr>w_ext := f (w_ext w)\<rparr>) \<Longrightarrow> wp (update f) Q E w"
  by (simp add: wp_update)

lemma wp_tablesI [wp_intros]: "Q (w_ext w) w \<Longrightarrow> wp tables Q E w"
  by (simp add: wp_tables)

lemma wpa_any: "(\<And>a e w'. Q a e w') \<Longrightarrow> wpa m Q w"
  by (simp add: wpa_def split: prod.splits)

lemma wp_any: "(\<And>x w'. Q x w') \<Longrightarrow> (\<And>e w'. E e w') \<Longrightarrow> wp m Q E w"
  by (simp add: wp_def split: prod.splits sum.splits)

text \<open>An error that \<open>ioA\<close> reports is not nil.\<close>

lemma wp_ioA_any: "(\<And>x w'. Q x w') \<Longrightarrow> (\<And>e w'. e \<noteq> [] \<Longrightarrow> E e w') \<Longrightarrow> wp (ioA m) Q E w"
  by (auto simp: wp_ioA intro: wpa_any)

lemma wp_pair_any: "(\<And>a e w'. Q (a, e) w') \<Longrightarrow> wp (pairA m) Q E w"
  by (auto simp: wp_pairA intro: wpa_any)

lemma wp_random_any:
  "(\<And>x w'. Q x w') \<Longrightarrow> (\<And>e w'. e \<noteq> [] \<Longrightarrow> E e w') \<Longrightarrow> wp randomIdentity Q E w"
  by (rule wp_randomIdentity) auto

lemma wp_resultI: "(\<And>t w'. Q (result_at t command status st exit) w') \<Longrightarrow> wp (Service_result command status st exit) Q E w"
  unfolding Service_result_def by (intro wp_bindI wp_nowE wp_returnI) simp_all

lemma result_exit [simp]: "reExitCode (result_at t command status st exit) = exit"
  "reStatus (result_at t command status st exit) = status"
  by (simp_all add: result_at_def)

section \<open>Exit codes\<close>

definition coherent :: "Result \<Rightarrow> err \<Rightarrow> bool" where
  "coherent r e \<longleftrightarrow> (reExitCode r = 0 \<longleftrightarrow> e = [])"

definition coherent_option :: "(Result \<times> err) option \<Rightarrow> bool" where
  "coherent_option x = (case x of None \<Rightarrow> True | Some (r, e) \<Rightarrow> coherent r e)"

lemma answer_coherent: "(exit = 0) = (e = []) \<Longrightarrow> wpa (answer command status st exit e) (\<lambda>r e _. coherent r e) w"
  unfolding answer_def by (intro wpa_bindI wp_resultI wpa_retI) (simp add: coherent_def)

lemma handled_coherent:
  "(exit = 0) = (e = []) \<Longrightarrow> wp (handled command status st exit e) (\<lambda>x _. coherent_option x) (\<lambda>_ _. False) w"
  unfolding handled_def by (intro wp_bindI wp_resultI wp_returnI) (simp add: coherent_def coherent_option_def)

lemma lifecycleFailure_coherent: "wp (lifecycleFailure command e) (\<lambda>x _. coherent_option x) (\<lambda>_ _. False) w"
  unfolding lifecycleFailure_def
  by (intro wp_ifI handled_coherent wp_returnI) (auto simp: errors_Join_def coherent_option_def)

lemma recoverWith_coherent: "wpa (recoverWith command i g operation) (\<lambda>r e _. coherent r e) w"
  unfolding recoverWith_def Let_def
  by (intro wpa_bindI wp_pair_any, unfold prod.case, intro wpa_bindI wp_ifI wp_updateI wp_returnI wp_resultI wpa_retI)
    (auto simp: coherent_def errors_Join_def split: if_splits)


lemma recover_coherent:
  "wpa (recoverExpected sha s deps command i g) (\<lambda>r e _. coherent r e) w" "wpa (recover sha s deps command) (\<lambda>r e _. coherent r e) w"
proof -
  show exp: "wpa (recoverExpected sha s deps command i g) (\<lambda>r e _. coherent r e) w" for i g w
    unfolding recoverExpected_def by (rule recoverWith_coherent)
  show "wpa (recover sha s deps command) (\<lambda>r e _. coherent r e) w"
    unfolding recover_def
    by (intro wpa_bindI wp_pair_any, unfold prod.case, rule wpa_bindI, rule wp_mono [OF lifecycleFailure_coherent])
      (auto simp: wp_rules coherent_option_def intro!: exp recoverWith_coherent split: option.splits)
qed

lemma reconcileOn_coherent: "wp (reconcileOn deps current e digest mode) (\<lambda>x _. coherent_option x) (\<lambda>_ _. False) w"
proof -
  note intros = wp_ifI handled_coherent wp_returnI
  have idem: "wp (bindE (Service_result command status st 0) (\<lambda>r. returnE (Some (f r, [])))) (\<lambda>x _. coherent_option x) (\<lambda>_ _. False) w"
    if "\<And>r. reExitCode (f r) = reExitCode r" for command status st f w
    by (intro wp_bindI wp_resultI wp_returnI) (simp add: coherent_option_def coherent_def that)
  show ?thesis
    unfolding reconcileOn_def
    by (rule wp_bindI, rule wp_mono [OF lifecycleFailure_coherent])
      (rule wp_ifI handled_coherent wp_returnI idem wp_bindI wp_pair_any wp_tryI wp_ioA_any wp_case_sumI
       | (simp add: errors_Join_def coherent_option_def; fail)
       | (split prod.split option.split, intro conjI allI impI))+
qed

lemma reconcileRun_coherent: "wp (reconcileRun deps current e digest) (\<lambda>x _. coherent_option x) (\<lambda>_ _. False) w"
  unfolding reconcileRun_def
  by (rule wp_bindI, rule wp_mono [OF lifecycleFailure_coherent])
    (rule wp_ifI handled_coherent wp_returnI wp_bindI wp_pair_any wp_tryI wp_ioA_any wp_case_sumI
     | (simp add: errors_Join_def coherent_option_def; fail)
     | (split prod.split option.split, intro conjI allI impI))+

lemma abandon_wpa: "wpa m (\<lambda>r e _. Q r e) w \<Longrightarrow> wpa (abandon deps managed m) (\<lambda>r e _. Q r e) w"
  by (auto simp: wpa_def abandon_def split: prod.splits)

lemma verify_coherent:
  assumes "reExitCode r = 0"
  shows "wpa (verifyActivation sha s deps command metadata digest managed proof r) (\<lambda>r e _. coherent r e) w"
proof -
  have failed: "wpa (verificationFailed sha s deps command i managed live r e) (\<lambda>r e _. coherent r e) w1" for i live e w1
  proof -
    have rec: "wpa (if x \<noteq> [] then retA (needs_recovery r) (errors_Join [[ErrRecoveryRequired], e, x])
       else bindA (pairA (recoverExpected sha s deps command i 1)) zero_result (\<lambda>(recovery, recoveryErr).
         if recoveryErr \<noteq> [] then retA recovery (errors_Join [[ErrRecoveryRequired], e, recoveryErr])
         else retA (recovery\<lparr>reStatus := ''failed'', reExitCode := 7\<rparr>)
           (errors_Join [[Other ''listener or activation authority changed after publication''], e])))
       (\<lambda>r e _. coherent r e) w2" for x w2
      by (intro wpa_ifI wpa_retI wpa_bindI wp_pairAI wpa_mono [OF recover_coherent(1)])
        (auto simp: wp_rules coherent_def errors_Join_def needs_recovery_def)
    show ?thesis unfolding verificationFailed_def needs_recovery_def [symmetric]
      by (intro wpa_bindI wp_ifI wp_pair_any wp_returnI; unfold prod.case; rule rec)
  qed
  show ?thesis
    unfolding verifyActivation_def Let_def
    by (rule wpa_bindI wp_pair_any wpa_ifI failed wpa_retI | (split prod.split, intro allI impI))+
      (use assms in \<open>simp add: coherent_def\<close>)
qed

lemma selected_error: "selectedEnvironment values marker = Inl e \<Longrightarrow> e \<noteq> []"
proof -
  have "selectNames found marker names = Inl e \<Longrightarrow> e \<noteq> []" for found names
    by (induction names arbitrary: e) (auto split: option.splits sum.splits)
  then show "selectedEnvironment values marker = Inl e \<Longrightarrow> e \<noteq> []" by (simp add: selectedEnvironment_def)
qed

lemma activate_coherent: "wpa (activate sha s deps command policy digest mode mechanism) (\<lambda>r e _. coherent r e) w"
proof -
  have publish: "wpa (publishListener sha s deps command policy digest mechanism metadata managed environment desired prior)
      (\<lambda>r e _. coherent r e) w1" for metadata managed environment desired prior w1
    unfolding publishListener_def Let_def
    by (rule wpa_bindI wp_nowE wp_pair_any wpa_ifI abandon_wpa answer_coherent wp_updateI wp_resultI
        | (simp add: errors_Join_def; fail) | rule verify_coherent | (split prod.split, intro allI impI))+
  have snapshot: "validateEnvironmentSnapshot prior \<noteq> [] \<Longrightarrow>
      wpa (answer command ''failed'' ''inactive'' 7 (validateEnvironmentSnapshot prior)) (\<lambda>r e _. coherent r e) w1" for prior w1
    by (rule answer_coherent) simp
  show ?thesis
    unfolding activate_def Let_def
    by (rule wpa_handleI wp_random_any wp_ioA_any wpa_bindI wp_pair_any wp_tablesI publish wpa_ifI abandon_wpa snapshot answer_coherent
        | (simp add: errors_Join_def selected_error; fail) | (split prod.split, intro allI impI) | (split sum.split, intro conjI allI impI))+
qed

text \<open>The documented exit codes: zero exactly for success.\<close>

lemma service_coherent:
  "wpa (On sha s deps ctx policyPath mode) (\<lambda>r e _. coherent r e) w"
  "wpa (Off sha s deps removeCA) (\<lambda>r e _. coherent r e) w"
  "wpa (Reset sha s deps yes removeCA) (\<lambda>r e _. coherent r e) w"
  "wpa (Status sha s deps) (\<lambda>r e _. coherent r e) w"
  "wpa (Doctor deps policyPath) (\<lambda>r e _. coherent r e) w"
proof -
  have opt: "wpa (case x of Some (r, e) \<Rightarrow> retA r e | None \<Rightarrow> m) (\<lambda>r e _. coherent r e) w1"
    if "coherent_option x" "wpa m (\<lambda>r e _. coherent r e) w1" for x m w1
    using that by (auto simp: coherent_option_def wp_rules split: option.splits)
  have act: "wp (pairA (activate sha s deps command policy digest md mechanism)) Q E w1"
    if "\<And>r e w'. coherent r e \<Longrightarrow> Q (r, e) w'" for command policy digest md mechanism Q E w1
    by (rule wp_pairAI, rule wpa_mono [OF activate_coherent]) (rule that)
  have recon: "wp (reconcileOn deps current e digest mode) Q E w1" if "\<And>x w'. coherent_option x \<Longrightarrow> Q x w'" for current e digest Q E w1
    by (rule wp_mono [OF reconcileOn_coherent]) (auto intro: that)
  have life: "wp (lifecycleFailure command e) Q E w1" if "\<And>x w'. coherent_option x \<Longrightarrow> Q x w'" for command e Q E w1
    by (rule wp_mono [OF lifecycleFailure_coherent]) (auto intro: that)
  note rules = wpa_handleI wp_ioA_any wp_random_any wpa_bindI act recon life wp_pair_any wp_resultI wpa_ifI opt answer_coherent wpa_retI
  show "wpa (On sha s deps ctx policyPath mode) (\<lambda>r e _. coherent r e) w"
    unfolding On_def by (rule rules | assumption | (simp; fail) | (split prod.split, intro allI impI))+
  show "wpa (Off sha s deps removeCA) (\<lambda>r e _. coherent r e) w" "wpa (Reset sha s deps yes removeCA) (\<lambda>r e _. coherent r e) w"
    unfolding Off_def Reset_def by (intro wpa_ifI answer_coherent recover_coherent; simp)+
  show "wpa (Status sha s deps) (\<lambda>r e _. coherent r e) w"
    unfolding Status_def Let_def
    by (rule rules | assumption | (auto simp: coherent_def needs_recovery_def errors_Join_def; fail) | (split prod.split, intro allI impI)
        | (split option.split, intro conjI allI impI))+
  show "wpa (Doctor deps policyPath) (\<lambda>r e _. coherent r e) w"
    unfolding Doctor_def doctorListener_def Let_def
    by (rule rules | (simp add: errors_Join_def coherent_def; fail) | (split prod.split, intro allI impI))+
qed


section \<open>What reconciliation reports\<close>

text \<open>A reconciliation without error describes the records it leaves behind.\<close>

definition described :: "sha256 \<Rightarrow> store \<Rightarrow> Reconciliation \<Rightarrow> files \<Rightarrow> bool" where
  "described sha s rc f \<longleftrightarrow>
     (case rcState rc of
        ReconciliationActive \<Rightarrow> \<exists>j b. journal_at sha s f = Inr j \<and> jState j = ''active'' \<and> rc = reconciliationFromJournal j b
      | ReconciliationInactive \<Rightarrow> no_records s f
      | _ \<Rightarrow> True)"

lemma read_record_any:
  "(\<And>r w'. w_files w' = w_files w \<Longrightarrow> io_err (err_of r) \<or> r = journal_at sha s (w_files w) \<Longrightarrow> Q r w') \<Longrightarrow>
     wp (tryE (locked_readJournal sha s)) Q E w"
  "(\<And>r w'. w_files w' = w_files w \<Longrightarrow> io_err (err_of r) \<or> r = receipt_at sha s (w_files w) \<Longrightarrow> Q' r w') \<Longrightarrow>
     wp (tryE (locked_readReceipt sha s)) Q' E w"
  by (rule wp_tryI, rule journal_file.read_wp receipt_file.read_wp; auto simp: quiet_def)+

lemma writeReceipt_journal:
  assumes "distinct_paths s" and "\<And>x w'. journal_at sha s (w_files w') = journal_at sha s (w_files w) \<Longrightarrow> Q x w'"
    and "\<And>e w'. e \<noteq> [] \<Longrightarrow> E e w'"
  shows "wp (writeReceipt sha s r) Q E w"
proof -
  let ?n = "w_files w (pathJournal (stPaths s))"
  have "keeps (file_is (pathJournal (stPaths s)) ?n) (writeReceipt sha s r)"
    unfolding writeReceipt_def by (intro keeps_intros file_is_files distinct_pathsD(1) [OF assms(1)])
  from keepsD [OF this, of w] have "wp (writeReceipt sha s r) (\<lambda>_ w'. w_files w' (pathJournal (stPaths s)) = ?n)
      (\<lambda>_ w'. w_files w' (pathJournal (stPaths s)) = ?n) w"
    by (auto simp: file_is_def intro: wp_mono)
  from wp_silent [OF silent_writes(2) this] show ?thesis
    by (rule wp_mono) (use assms(2,3) in \<open>auto simp: journal_at_def stored_def\<close>)
qed

lemma reconcileLocked_describes:
  assumes d: "distinct_paths s"
  shows "wpa (reconcileLocked sha s) (\<lambda>(rc, sem) e w'. e = [] \<longrightarrow> sem = [] \<longrightarrow> described sha s rc (w_files w')) w"
proof -
  have none: "described sha s zero_reconciliation f" for f
    by (simp add: described_def zero_reconciliation_def)
  have journal: "described sha s (reconciliationFromJournal j b) f" if "journal_at sha s f = Inr j" for j b f
    using that by (auto simp: described_def reconciliationFromJournal_def)
  have gone: "described sha s (zero_reconciliation\<lparr>rcState := ReconciliationInactive\<rparr>) f"
    if "journal_at sha s f = Inl e" "errors_Is e ErrNotFound" "receipt_at sha s f = Inl e'" "errors_Is e' ErrNotFound" for f e e'
    using journal_NotFound [OF that(1,2)] receipt_NotFound [OF that(3,4)] by (simp add: described_def no_records_def)
  show ?thesis
    unfolding reconcileLocked_def
  proof (rule wpa_bindI, rule read_record_any(1), rule wpa_bindI, rule read_record_any(2), goal_cases)
    case (1 j w1 r w2)
    then have files: "w_files w2 = w_files w" by simp
    have j: "journal_at sha s (w_files w2) = Inl je" if "j = Inl je" "\<not> io_err je" for je using 1(2) files that by simp
    have r: "receipt_at sha s (w_files w2) = Inl re" if "r = Inl re" "\<not> io_err re" for re using 1(4) 1(1) files that by simp
    show ?case
    proof (cases j)
      case (Inl je)
      show ?thesis
      proof (cases r)
        case (Inl re)
        have "described sha s (zero_reconciliation\<lparr>rcState := ReconciliationInactive\<rparr>) (w_files w2)"
          if "errors_Is je ErrNotFound" "errors_Is re ErrNotFound"
          using gone [OF j [OF \<open>j = Inl je\<close>] that(1) r [OF Inl] that(2)] io_err_Is(2) [of je] io_err_Is(2) [of re] that by blast
        then show ?thesis using \<open>j = Inl je\<close> Inl none by (auto simp: wp_rules)
      next
        case (Inr rr)
        then show ?thesis using \<open>j = Inl je\<close> none by (auto simp: wp_rules)
      qed
    next
      case (Inr jj)
      then have jj: "journal_at sha s (w_files w2) = Inr jj" using 1(2) files by auto
      have wr: "wp (writeReceipt sha s x) (\<lambda>_ w'. described sha s (reconciliationFromJournal jj True) (w_files w')) (\<lambda>e _. e \<noteq> []) w2" for x
        by (rule writeReceipt_journal [OF d]) (use jj journal in auto)
      show ?thesis
      proof (cases r)
        case (Inl re)
        then show ?thesis using Inr none
          by (auto simp: wp_rules intro!: wp_mono [OF wr] split: sum.split)
      next
        case (Inr rr)
        then show ?thesis using \<open>j = Inr jj\<close> none journal [OF jj] by (auto simp: wp_rules)
      qed
    qed
  qed
qed

lemma Reconcile_describes:
  assumes d: "distinct_paths s"
  shows "wpa (Reconcile sha s) (\<lambda>rc e w'. e = [] \<longrightarrow> described sha s rc (w_files w')) w"
proof -
  let ?Q = "\<lambda>(rc, sem) e w'. e = [] \<longrightarrow> sem = [] \<longrightarrow> described sha s rc (w_files w')"
  have "survives s ?Q"
    unfolding survives_def
  proof (intro allI impI, goal_cases)
    case (1 a e f w w')
    then show ?case using elsewhere_at(1) [OF d 1(2), of sha] elsewhere_at(3) [OF d 1(2)]
      by (cases a) (auto simp: described_def split: ReconciliationState.splits)
  qed
  then have "wpa (withInternalReservation sha s (zero_reconciliation, []) (reconcileLocked sha s)) ?Q w"
    by (rule withInternalReservation_post) (auto intro: reconcileLocked_describes [OF d])
  then show ?thesis unfolding Reconcile_def joinSemantic_def by (auto simp: wpa_def errors_Join_def split: prod.splits)
qed


section \<open>Steps that leave the files alone\<close>

definition files_are :: "files \<Rightarrow> 'x world \<Rightarrow> bool" where
  "files_are f w \<longleftrightarrow> w_files w = f"

text \<open>A pair whose first component is a pair.\<close>

lemma keeps_nested [keeps_intros]:
  "(\<And>x y. keeps P (f x y z)) \<Longrightarrow> keeps P ((case p of (x, y) \<Rightarrow> f x y) z)"
  "(\<And>x y. keepsA P (g x y z)) \<Longrightarrow> keepsA P ((case p of (x, y) \<Rightarrow> g x y) z)"
  by (simp_all split: prod.split)

lemma files_are_platform [keeps_intros]: "keepsA (files_are f) (platform m)"
  by (rule keepsAI) (auto simp: wpa_def platform_def files_are_def split: prod.splits)

lemma files_are_service [keeps_intros]:
  "keeps (files_are f) tables" "keeps (files_are f) (update g)" "keeps (files_are f) nowE"
  by (auto simp: keeps_def wp_rules files_are_def intro!: wp_nowE)

lemma files_are_random [keeps_intros]: "keeps (files_are f) randomIdentity"
  by (rule keepsI, rule wp_randomIdentity) (simp_all add: files_are_def)

lemma files_are_results [keeps_intros]:
  "keeps (files_are f) (Service_result command status st exit)" "keepsA (files_are f) (answer command status st exit e)"
  "keeps (files_are f) (handled command status st exit e)" "keeps (files_are f) (lifecycleFailure command e)"
  unfolding Service_result_def answer_def handled_def lifecycleFailure_def Service_result_def by (intro keeps_intros)+

lemma files_are_listeners [keeps_intros]:
  "keepsA (files_are f) (shutdownVerified deps managed)" "keepsA (files_are f) (Service_Inspect deps pid)"
  "keepsA (files_are f) (Service_Stop deps proof)"
  unfolding shutdownVerified_def Service_Inspect_def Service_Stop_def by (intro keeps_intros)+

lemma files_are_reconcileOn [keeps_intros]: "keeps (files_are f) (reconcileOn deps current e digest mode)"
  unfolding reconcileOn_def by (intro keeps_intros)

lemma files_after: "keeps (files_are (w_files w)) m \<Longrightarrow> wp m (\<lambda>_ w'. w_files w' = w_files w) (\<lambda>_ w'. w_files w' = w_files w) w"
  using keepsD [of "files_are (w_files w)" m w] by (auto simp: files_are_def intro: wp_mono)

section \<open>Off leaves no record\<close>

lemma Clear_clears:
  assumes "distinct_paths s" and "\<And>w'. no_records s (w_files w') \<Longrightarrow> Q () w'" and "\<And>e w'. e \<noteq> [] \<Longrightarrow> E e w'"
  shows "wp (Clear sha \<lparr>txStore = s, txActive = True\<rparr> expected) Q E w"
proof -
  have "distinct_paths (txStore \<lparr>txStore = s, txActive = True\<rparr>)" using assms(1) by simp
  from wp_silent [OF silent_transaction(3) Clear_removes [OF this]] show ?thesis
    by (rule wp_mono) (use assms(2,3) in auto)
qed

lemma silent_nonempty:
  "silent m \<Longrightarrow> (\<And>x w. Q x w) \<Longrightarrow> (\<And>e w. e \<noteq> [] \<Longrightarrow> E e w) \<Longrightarrow> wp m Q E w"
  by (rule wp_mono [of m "\<lambda>_ _. True" "\<lambda>e _. foreign e \<and> e \<noteq> []"]) (auto simp: silent_def)

text \<open>Without an error the records are gone.\<close>

definition cleared :: "store \<Rightarrow> RecoveryResult \<times> err \<Rightarrow> err \<Rightarrow> 'x world \<Rightarrow> bool" where
  "cleared s a e w \<longleftrightarrow> (e = [] \<longrightarrow> snd a = [] \<longrightarrow> no_records s (w_files w))"

lemma cleared_simps [simp]: "e \<noteq> [] \<Longrightarrow> cleared s a e w" "sem \<noteq> [] \<Longrightarrow> cleared s (r, sem) e w"
  "no_records s (w_files w) \<Longrightarrow> cleared s a e w"
  by (simp_all add: cleared_def)

lemma settleRecovery_clears:
  assumes d: "distinct_paths s"
  shows "wpa (settleRecovery sha s j mechanism r ok) (cleared s) w"
  unfolding settleRecovery_def Let_def
proof (rule wpa_ifI; rule wpa_bindI)
  show "wp (Clear sha \<lparr>txStore = s, txActive = True\<rparr> \<lparr>eaGeneration = jGeneration j, eaState = jState j\<rparr>)
      (\<lambda>_. wpa (retA (r\<lparr>rrStatus := RecoveryComplete\<rparr>, []) []) (cleared s)) (cleared s (r, [])) w"
    by (rule Clear_clears [OF d]) (simp_all add: wpa_retA)
  show "wp (if jState j \<noteq> ''recovery_required'' then bindE nowE (\<lambda>now. Transition sha \<lparr>txStore = s, txActive = True\<rparr>
        \<lparr>eaGeneration = jGeneration j, eaState = jState j\<rparr> (j\<lparr>jState := ''recovery_required'', jUpdatedAt := now\<rparr>) mechanism) else returnE ())
      (\<lambda>_. wpa (retA (r\<lparr>rrStatus := RecoveryRequired, rrManualRemediation := rrManualRemediation r @ manualEnvironment (rrConflictedEnvironment r)\<rparr>,
        [ErrRecoveryRequired]) []) (cleared s)) (cleared s (r, [])) w"
    by (rule silent_nonempty) (intro silent_intros silent_files silent_transaction, simp_all add: wpa_retA)
qed

lemma recoverFromJournal_clears:
  assumes d: "distinct_paths s"
  shows "wpa (recoverFromJournal sha s er lc j mechanism r) (cleared s) w"
proof -
  have env: "wp (restoreEnvironment er items r ok) (\<lambda>_ _. True) (\<lambda>_ _. False) w1" for items r ok w1
    by (rule wp_mono [OF restoreEnvironment_accounts]) auto
  show ?thesis unfolding recoverFromJournal_def Let_def
    by (rule wpa_bindI, rule wp_pair_any, unfold prod.case, rule wpa_bindI, rule wp_mono [OF env])
      (auto intro: settleRecovery_clears [OF d] split: prod.split)
qed

lemma recoverFromReceiptOnly_fails: "wpa (recoverFromReceiptOnly sha s rr lc r) (\<lambda>_ e _. e \<noteq> []) w"
  unfolding recoverFromReceiptOnly_def Let_def
  by (rule wpa_bindI, rule wp_pair_any, unfold prod.case, rule wpa_bindI, rule silent_nonempty [OF silent_writes(2)])
    (simp_all add: wpa_retA)

lemma recoverLocked_clears:
  assumes d: "distinct_paths s"
  shows "wpa (recoverLocked sha s er lc expected) (cleared s) w"
  unfolding recoverLocked_def
proof (rule wpa_bindI, rule read_record_any(1), rule wpa_bindI, rule read_record_any(2), goal_cases)
  case (1 j w1 r w2)
  have gone: "no_records s (w_files w2)"
    if "j = Inl je" "r = Inl re" "errors_Is je ErrNotFound" "errors_Is re ErrNotFound" for je re
  proof -
    have "journal_at sha s (w_files w2) = Inl je" "receipt_at sha s (w_files w2) = Inl re"
      using 1 that io_err_Is(2) [of je] io_err_Is(2) [of re] by auto
    then show ?thesis using journal_NotFound receipt_NotFound that(3,4) by (simp add: no_records_def)
  qed
  have only: "wpa (bindA (pairA (recoverFromReceiptOnly sha s rr lc zero_recovery)) (zero_recovery, []) (\<lambda>(result, semanticErr).
      if errors_Is semanticErr ErrRecoveryRequired then retA (result, semanticErr) []
      else retA (result, semanticErr) semanticErr)) (cleared s) w2" for rr
    by (rule wpa_bindI, rule wp_pairAI, rule wpa_mono [OF recoverFromReceiptOnly_fails]) (auto simp: wp_rules)
  note run = recoverFromJournal_clears [OF d]
  show ?case
  proof (cases j)
    case (Inl je)
    then show ?thesis using gone only by (cases r) (auto simp: wp_rules)
  next
    case (Inr jj)
    then show ?thesis
      by (cases r) (auto simp: wp_rules Let_def receiptFromJournal_def dest: foreign_receipt intro!: run silent_nonempty [OF silent_writes(2)] split: sum.split)
  qed
qed

lemma RecoverExpected_clears:
  assumes d: "distinct_paths s"
  shows "wpa (RecoverExpected sha s er lc expected) (\<lambda>_ e w'. e = [] \<longrightarrow> no_records s (w_files w')) w"
proof -
  have "survives s (cleared s :: _ \<Rightarrow> _ \<Rightarrow> 'a world \<Rightarrow> bool)"
    unfolding survives_def by (intro allI impI) (auto simp: cleared_def elsewhere_at(3) [OF d])
  then have "wpa (withInternalReservation sha s (zero_recovery, []) (recoverLocked sha s er lc (Some expected))) (cleared s) w"
    by (rule withInternalReservation_post) (auto intro: recoverLocked_clears [OF d])
  then show ?thesis unfolding RecoverExpected_def joinSemantic_def
    by (auto simp: wpa_def retA_def errors_Join_def cleared_def split: prod.splits)
qed

lemma lifecycleFailure_files:
  "wp (lifecycleFailure command e) (\<lambda>x w'. w_files w' = w_files w \<and> (\<forall>r e'. x = Some (r, e') \<longrightarrow> e' \<noteq> [])) (\<lambda>_ _. False) w"
  unfolding lifecycleFailure_def handled_def Service_result_def
  by (auto simp: wp_rules errors_Join_def intro!: wp_nowE)

lemma recoverWith_clears:
  assumes "wpa operation (\<lambda>r e w'. e = [] \<longrightarrow> rrStatus r \<noteq> RecoveryRequired \<longrightarrow> no_records s (w_files w')) w"
  shows "wpa (recoverWith command i g operation) (\<lambda>_ e w'. e = [] \<longrightarrow> no_records s (w_files w')) w"
  unfolding recoverWith_def Let_def
  by (rule wpa_bindI, rule wp_pairAI, rule wpa_mono [OF assms])
    (auto simp: wp_rules Service_result_def errors_Join_def intro!: wp_nowE split: if_splits)

lemma recover_clears:
  assumes d: "distinct_paths s"
  shows "wpa (recover sha s deps command) (\<lambda>_ e w'. e = [] \<longrightarrow> no_records s (w_files w')) w"
  unfolding recover_def
proof (rule wpa_bindI, rule wp_pairAI, rule wpa_mono [OF Reconcile_describes [OF d, of sha]], goal_cases)
  case (1 rc e w1)
  have exp: "wpa (recoverExpected sha s deps command i g) (\<lambda>_ e w'. e = [] \<longrightarrow> no_records s (w_files w')) w2" for i g w2
    unfolding recoverExpected_def by (rule recoverWith_clears, rule wpa_mono [OF RecoverExpected_clears [OF d]]) simp
  have ret: "wpa (recoverWith command '''' 0 (retA r x)) (\<lambda>_ e w'. e = [] \<longrightarrow> no_records s (w_files w')) w2"
    if "x = [] \<Longrightarrow> rrStatus r \<noteq> RecoveryRequired \<Longrightarrow> no_records s (w_files w2)" for r x w2
    by (rule recoverWith_clears) (use that in \<open>auto simp: wpa_retA\<close>)
  show ?case unfolding prod.case
    by (rule wpa_bindI, rule wp_mono [OF lifecycleFailure_files])
      (use 1 in \<open>auto simp: wp_rules described_def errors_Join_def intro!: exp ret split: option.splits\<close>)
qed

lemma answer_clears: "e \<noteq> [] \<Longrightarrow> wpa (answer command status st exit e) (\<lambda>_ e w'. e = [] \<longrightarrow> no_records s (w_files w')) w"
  unfolding answer_def by (intro wpa_bindI wp_resultI wpa_retI) simp

lemma deactivation_clears:
  assumes d: "distinct_paths s"
  shows "wpa (Off sha s deps removeCA) (\<lambda>_ e w'. e = [] \<longrightarrow> no_records s (w_files w')) w"
    "wpa (Reset sha s deps yes removeCA) (\<lambda>_ e w'. e = [] \<longrightarrow> no_records s (w_files w')) w"
  unfolding Off_def Reset_def by (intro wpa_ifI answer_clears recover_clears [OF d]; simp)+

lemma RecoverScope_clears:
  assumes d: "distinct_paths s"
  shows "wpa (RecoverScope sha s lease er lc) (\<lambda>_ e w'. e = [] \<longrightarrow> no_records s (w_files w')) w"
proof -
  have "survives s (cleared s :: _ \<Rightarrow> _ \<Rightarrow> 'a world \<Rightarrow> bool)"
    unfolding survives_def by (intro allI impI) (auto simp: cleared_def elsewhere_at(3) [OF d])
  then have "wpa (withFinalReservation sha s (slReservation lease) (zero_recovery, []) (recoverLocked sha s er lc
      (Some \<lparr>erActivationID = slActivationID lease, erGeneration = slGeneration lease\<rparr>))) (cleared s) w"
    by (rule withReservation_post(2)) (auto intro: recoverLocked_clears [OF d])
  then show ?thesis unfolding RecoverScope_def RecoverExpectedReserved_def joinSemantic_def
    by (auto simp: wpa_def retA_def errors_Join_def cleared_def split: prod.splits)
qed

lemma finishRun_clears:
  assumes d: "distinct_paths s"
  shows "wpa (finishRun sha s deps lease r e panicked renewErr) (\<lambda>_ e w'. e = [] \<longrightarrow> no_records s (w_files w')) w"
proof -
  have rec: "wpa (recoverScope sha s deps command lease) (\<lambda>_ e w'. e = [] \<longrightarrow> no_records s (w_files w')) w" for command
    unfolding recoverScope_def by (rule recoverWith_clears, rule wpa_mono [OF RecoverScope_clears [OF d]]) simp
  show ?thesis unfolding finishRun_def Let_def
    by (rule wpa_bindI, rule wp_pairAI, rule wpa_mono [OF rec], unfold prod.case, rule wpa_ifI)
      (auto simp: wp_rules errors_Join_def intro!: wp_mono [OF lifecycleFailure_files] split: option.splits)
qed

text \<open>A handled reconciliation of \<open>run\<close> is an error.\<close>

lemma reconcileRun_fails:
  "wp (reconcileRun deps current e digest) (\<lambda>x _. \<forall>r e'. x = Some (r, e') \<longrightarrow> e' \<noteq> []) (\<lambda>_ _. False) w"
proof -
  let ?Q = "\<lambda>x _. \<forall>r e'. x = Some (r, e') \<longrightarrow> e' \<noteq> []"
  have bad: "x \<noteq> [] \<Longrightarrow> wp (handled command status st exit x) ?Q (\<lambda>_ _. False) w1" for command status st exit x w1
    unfolding handled_def by (intro wp_bindI wp_resultI wp_returnI) simp
  show ?thesis
    unfolding reconcileRun_def
    by (rule wp_bindI, rule wp_mono [OF lifecycleFailure_files])
      (rule wp_ifI bad wp_returnI wp_bindI wp_pair_any wp_tryI wp_ioA_any wp_case_sumI
       | (simp add: errors_Join_def; fail)
       | (split prod.split option.split, intro conjI allI impI))+
qed

lemma Run_clears:
  assumes d: "distinct_paths s"
  shows "wpa (Run sha s deps ctx policyPath argv) (\<lambda>_ e w'. e = [] \<longrightarrow> no_records s (w_files w')) w"
proof -
  let ?Q = "\<lambda>_ e w'. e = [] \<longrightarrow> no_records s (w_files w')"
  have recon: "wp (reconcileRun deps current e digest) Q E w1"
    if "\<And>x w'. (\<forall>r e'. x = Some (r, e') \<longrightarrow> e' \<noteq> []) \<Longrightarrow> Q x w'" for current e digest Q E w1
    by (rule wp_mono [OF reconcileRun_fails]) (auto intro: that)
  have opt: "wpa (case x of Some (r, e) \<Rightarrow> retA r e | None \<Rightarrow> m) ?Q w1"
    if "\<forall>r e'. x = Some (r, e') \<longrightarrow> e' \<noteq> []" "wpa m ?Q w1" for x :: "(Result \<times> err) option" and m w1
    using that by (auto simp: wp_rules split: option.splits)
  have lease: "wpa (leaseFailed sha s deps r e) ?Q w1" for r e w1
    unfolding leaseFailed_def Let_def
    by (rule wpa_bindI, rule wp_pair_any, unfold prod.case, rule wpa_bindI, rule wp_mono [OF lifecycleFailure_files])
      (auto simp: wp_rules errors_Join_def split: option.splits)
  have scoped: "wpa (runScoped sha s deps argv l r) ?Q w1" for l r w1
  proof -
    have run: "wp (runner deps c argv x) (\<lambda>_ _. True) (\<lambda>_ _. False) w2" for c x w2
      by (simp add: wp_def runner_def split: prod.splits)
    show ?thesis unfolding runScoped_def
      by (rule wpa_bindI wp_tablesI wp_pair_any wp_mono [OF run] finishRun_clears [OF d] | (simp; fail)
          | (split prod.split, intro allI impI) | (split option.split run_outcome.split, intro conjI allI impI))+
  qed
  show ?thesis
    unfolding Run_def
    by (rule wpa_ifI wpa_handleI wp_ioA_any wpa_bindI recon wp_pair_any opt lease scoped answer_clears wpa_retI | assumption
        | (simp; fail) | (split prod.split, intro allI impI) | (split option.split, intro conjI allI impI))+
qed

section \<open>A reported activation\<close>

text \<open>The journal on disk is the activation the result names, for the policy with this digest.\<close>

definition on_disk :: "sha256 \<Rightarrow> store \<Rightarrow> string \<Rightarrow> Result \<Rightarrow> Journal \<Rightarrow> files \<Rightarrow> bool" where
  "on_disk sha s digest r j f \<longleftrightarrow> journal_at sha s f = Inr j \<and> jState j = ''active'' \<and> jActivationID j = reActivationID r \<and>
     jGeneration j = reGeneration r \<and> pDigest (jPolicy j) = digest \<and> rePolicyDigest r = digest \<and> jMode j = reMode r"

text \<open>The service manages the listener of that journal.\<close>

definition managing :: "Journal \<Rightarrow> ('l, 'y) Service \<Rightarrow> bool" where
  "managing j sv \<longleftrightarrow> (\<exists>m. svListeners sv (lPID (jListener j)) = Some m \<and> mpProof m = proofFromJournal j \<and>
     mpActivationID m = jActivationID j)"

definition reported :: "sha256 \<Rightarrow> store \<Rightarrow> string \<Rightarrow> Result \<Rightarrow> err \<Rightarrow> ('l, 'y) Service world \<Rightarrow> bool" where
  "reported sha s digest r e w \<longleftrightarrow> (e = [] \<longrightarrow> (\<exists>j. on_disk sha s digest r j (w_files w) \<and>
     (reStatus r = ''active'' \<and> managing j (w_ext w) \<or> reStatus r = ''idempotent'')))"

lemma reported_error [simp]: "e \<noteq> [] \<Longrightarrow> reported sha s digest r e w"
  by (simp add: reported_def)

lemma answer_reported: "e \<noteq> [] \<Longrightarrow> wpa (answer command status st exit e) (reported sha s digest) w"
  unfolding answer_def by (intro wpa_bindI wp_resultI wpa_retI) simp

lemma abandon_reported: "wpa m (\<lambda>_ e _. e \<noteq> []) w \<Longrightarrow> wpa (abandon deps managed m) (reported sha s digest) w"
  by (auto simp: wpa_def abandon_def split: prod.splits)

lemma answer_error: "e \<noteq> [] \<Longrightarrow> wpa (answer command status st exit e) (\<lambda>_ e _. e \<noteq> []) w"
  unfolding answer_def by (intro wpa_bindI wp_resultI wpa_retI)

lemma wpa_platform:
  "(\<And>a e y. Q a e (w\<lparr>w_ext := (w_ext w)\<lparr>svPlatform := y\<rparr>\<rparr>)) \<Longrightarrow> wpa (platform m) Q w"
  by (auto simp: wpa_def platform_def split: prod.splits)

lemma managing_platform [simp]: "managing j (sv\<lparr>svPlatform := y\<rparr>) = managing j sv"
  by (simp add: managing_def)

lemma Reconcile_ext: "wpa (Reconcile sha s) (\<lambda>_ _ w'. w_ext w' = w_ext w) w"
proof -
  have "wpa (Reconcile sha s) (\<lambda>_ _. ext_is (w_ext w)) w"
    by (rule keepsAD [OF ext.reconcile(1) [OF ext_transaction(4)]]) (simp add: ext_is_def)
  then show ?thesis by (rule wpa_mono) (simp add: ext_is_def)
qed

lemma wpa_conj: "wpa m Q w \<Longrightarrow> wpa m Q' w \<Longrightarrow> wpa m (\<lambda>a e w'. Q a e w' \<and> Q' a e w') w"
  by (auto simp: wpa_def split: prod.splits)

lemma verify_reported:
  assumes d: "distinct_paths s" and r: "reStatus r = ''active''" "reActivationID r = lmActivationID metadata" "reGeneration r = 1"
      "rePolicyDigest r = digest" "reMode r = lmMode metadata"
    and reg: "svListeners (w_ext w) (lpPID proof) = Some m" "mpProof m = proof" "mpActivationID m = lmActivationID metadata"
  shows "wpa (verifyActivation sha s deps command metadata digest managed proof r) (reported sha s digest) w"
proof -
  have failed: "wpa (verificationFailed sha s deps command i managed live r x) (reported sha s digest) w1" for i live x w1
  proof -
    have any: "wpa (if b \<noteq> [] then retA (f a) (errors_Join [[ErrRecoveryRequired], x, b]) else retA (g a)
        (errors_Join [[Other ''listener or activation authority changed after publication''], x])) (reported sha s digest) w2" for a b f g w2
      by (simp add: wp_rules errors_Join_def)
    show ?thesis unfolding verificationFailed_def
      by (rule wpa_bindI wp_ifI wp_pair_any wp_returnI wpa_ifI wpa_retI any | (simp add: errors_Join_def; fail)
          | (split prod.split, intro allI impI))+
  qed
  have good: "reported sha s digest r [] w1"
    if m: "storeMatches rc metadata digest proof" and dsc: "described sha s rc (w_files w1)"
      and ext: "w_ext w1 = (w_ext w)\<lparr>svPlatform := y\<rparr>" for rc w1 y
  proof -
    obtain j b where j: "journal_at sha s (w_files w1) = Inr j" "jState j = ''active''" "rc = reconciliationFromJournal j b"
      using m dsc by (auto simp: described_def storeMatches_def)
    have p: "proof = proofFromJournal j" using m j(3) by (simp add: storeMatches_def reconciliationFromJournal_def)
    have "on_disk sha s digest r j (w_files w1)"
      using m j r by (simp add: on_disk_def storeMatches_def reconciliationFromJournal_def)
    moreover have "managing j (w_ext w1)"
      using reg m j(3) unfolding ext by (simp add: managing_def p storeMatches_def reconciliationFromJournal_def proofFromJournal_def)
    ultimately show ?thesis using r(1) by (auto simp: reported_def)
  qed
  show ?thesis
    unfolding verifyActivation_def Let_def
    by (rule wpa_bindI, rule wp_pairAI, rule wpa_platform, unfold prod.case, split prod.split, intro allI impI, rule wpa_bindI, rule wp_pairAI,
        rule wpa_mono [OF wpa_conj [OF Reconcile_describes [OF d, of sha] Reconcile_ext]], unfold prod.case)
      (auto simp: wp_rules intro!: failed good)
qed

lemma wp_now_ext:
  assumes "\<And>t w'. w_ext w' = w_ext w \<Longrightarrow> w_files w' = w_files w \<Longrightarrow> Q t w'"
  shows "wp nowE Q E w"
  by (rule wp_nowE) (auto intro: assms)

lemma publishListener_reported:
  assumes d: "distinct_paths s" and "lmGeneration metadata = 1"
  shows "wpa (publishListener sha s deps command policy digest mechanism metadata managed environment desired prior) (reported sha s digest) w"
proof -
  let ?proof = "listenerProof (lisIdentity deps managed) metadata"
  let ?m = "\<lparr>mpListener = managed, mpProof = ?proof, mpActivationID = lmActivationID metadata\<rparr>"
  have verified: "wpa (bindA (update (register (lPID (lisIdentity deps managed)) ?m environment)) zero_result (\<lambda>_.
      bindA (Service_result command ''active'' ''active'' 0) zero_result (\<lambda>r.
        verifyActivation sha s deps command metadata digest managed ?proof
          (r\<lparr>reActivationID := lmActivationID metadata, reGeneration := 1, rePolicyDigest := digest, reMode := lmMode metadata,
             reListenerAddress := lAddress (lisIdentity deps managed), rePublishedVariables := EnvironmentNames\<rparr>))))
      (reported sha s digest) w1" for w1
  proof (rule wpa_bindI, rule wp_updateI, rule wpa_bindI, unfold Service_result_def, rule wp_bindI, rule wp_now_ext, rule wp_returnI, goal_cases)
    case (1 t w2)
    then have "svListeners (w_ext w2) (lpPID ?proof) = Some ?m"
      by (simp add: register_def listenerProof_def)
    note reg = this
    show ?case
    proof (rule verify_reported [OF d _ _ _ _ _ reg])
      show "mpProof ?m = ?proof" "mpActivationID ?m = lmActivationID metadata" by simp_all
    qed simp_all
  qed
  show ?thesis
    unfolding publishListener_def Let_def
    by (rule wpa_bindI wp_nowE wp_pair_any wpa_ifI abandon_reported answer_error verified
        | (simp add: errors_Join_def; fail) | (split prod.split, intro allI impI))+
qed

lemma activate_reported:
  assumes d: "distinct_paths s"
  shows "wpa (activate sha s deps command policy digest mode mechanism) (reported sha s digest) w"
proof -
  show ?thesis
    unfolding activate_def Let_def
    by (rule wpa_handleI wp_random_any wp_ioA_any wpa_bindI wp_pair_any wp_tablesI publishListener_reported [OF d] wpa_ifI
          abandon_reported answer_reported answer_error
        | (simp add: errors_Join_def selected_error; fail) | (split prod.split, intro allI impI) | (split sum.split, intro conjI allI impI))+
qed

lemma reconcileForOn_describes:
  assumes d: "distinct_paths s"
  shows "wpa (reconcileForOn sha s n ctxErr) (\<lambda>rc e w'. e = [] \<longrightarrow> described sha s rc (w_files w')) w"
proof (induction n arbitrary: w)
  case 0
  show ?case unfolding reconcileForOn.simps
    by (rule wpa_bindI, rule wp_pairAI, rule wpa_mono [OF Reconcile_describes [OF d, of sha]]) (auto simp: wp_rules errors_Join_def)
next
  case (Suc n)
  show ?case unfolding reconcileForOn.simps
    by (rule wpa_bindI, rule wp_pairAI, rule wpa_mono [OF Reconcile_describes [OF d, of sha]]) (auto simp: wp_rules intro: Suc)
qed

lemma reconcileOn_idempotent:
  "wp (reconcileOn deps rc e digest mode) (\<lambda>x _. \<forall>r. x = Some (r, []) \<longrightarrow> e = [] \<and> rcState rc = ReconciliationActive \<and>
     reStatus r = ''idempotent'' \<and> reActivationID r = rcActivationID rc \<and> reGeneration r = rcGeneration rc \<and>
     rcPolicyDigest rc = digest \<and> rePolicyDigest r = digest \<and> reMode r = rcMode rc) (\<lambda>_ _. False) w"
proof -
  let ?Q = "\<lambda>x _. \<forall>r. x = Some (r, []) \<longrightarrow> e = [] \<and> rcState rc = ReconciliationActive \<and>
     reStatus r = ''idempotent'' \<and> reActivationID r = rcActivationID rc \<and> reGeneration r = rcGeneration rc \<and>
     rcPolicyDigest rc = digest \<and> rePolicyDigest r = digest \<and> reMode r = rcMode rc"
  have bad: "x \<noteq> [] \<Longrightarrow> wp (handled command status st exit x) ?Q (\<lambda>_ _. False) w1" for command status st exit x w1
    unfolding handled_def by (intro wp_bindI wp_resultI wp_returnI) simp
  have same: "wp (bindE (Service_result ''proxy on'' ''idempotent'' ''active'' 0) (\<lambda>r. returnE (Some (r\<lparr>reActivationID := rcActivationID rc,
      reGeneration := rcGeneration rc, rePolicyDigest := digest, reMode := rcMode rc\<rparr>, [])))) ?Q (\<lambda>_ _. False) w1"
    if "e = []" "rcState rc = ReconciliationActive" "rcPolicyDigest rc = digest" for w1
    by (intro wp_bindI wp_resultI wp_returnI) (simp add: that)
  show ?thesis
    unfolding reconcileOn_def
    by (rule wp_bindI, rule wp_mono [OF lifecycleFailure_files])
      (rule wp_ifI bad same wp_returnI wp_bindI wp_pair_any wp_tryI wp_ioA_any wp_case_sumI
       | (simp add: errors_Join_def; fail) | (blast; fail)
       | (split prod.split option.split, intro conjI allI impI))+
qed

lemma reconcileOn_reported:
  assumes "e = [] \<longrightarrow> described sha s rc (w_files w)"
  shows "wp (reconcileOn deps rc e digest mode) (\<lambda>x w'. \<forall>r e'. x = Some (r, e') \<longrightarrow> reported sha s digest r e' w') (\<lambda>_ _. False) w"
proof -
  have files: "wp (reconcileOn deps rc e digest mode) (\<lambda>_ w'. w_files w' = w_files w) (\<lambda>_ w'. w_files w' = w_files w) w"
    by (rule files_after) (intro keeps_intros)
  show ?thesis
  proof (rule wp_mono [OF wp_conj [THEN iffD2, OF conjI [OF reconcileOn_idempotent files]]], goal_cases)
    case (1 x w')
    show ?case
    proof (intro allI impI)
      fix r e' assume x: "x = Some (r, e')"
      show "reported sha s digest r e' w'"
      proof (cases "e' = []")
        case True
        then have f: "e = []" "rcState rc = ReconciliationActive" "reStatus r = ''idempotent''" "reActivationID r = rcActivationID rc"
            "reGeneration r = rcGeneration rc" "rcPolicyDigest rc = digest" "rePolicyDigest r = digest" "reMode r = rcMode rc"
            and files: "w_files w' = w_files w"
          using 1 x by auto
        obtain j b where "journal_at sha s (w_files w) = Inr j" "jState j = ''active''" "rc = reconciliationFromJournal j b"
          using assms f(1,2) by (auto simp: described_def)
        then show ?thesis using f files by (auto simp: reported_def on_disk_def reconciliationFromJournal_def)
      qed simp
    qed
  qed simp
qed

lemma On_reported:
  assumes d: "distinct_paths s"
  shows "wpa (On sha s deps ctx policyPath mode) (\<lambda>r e w'. \<exists>policy digest. reported sha s digest r e w' \<and>
     (e = [] \<longrightarrow> fst (polLoad deps policyPath (svPlatform (w_ext w))) = ((policy, digest), []))) w"
proof -
  have load: "wp (ioA (platform (polLoad deps policyPath))) Q E w"
    if "\<And>policy digest w'. fst (polLoad deps policyPath (svPlatform (w_ext w))) = ((policy, digest), []) \<Longrightarrow> Q (policy, digest) w'"
      "\<And>e w'. e \<noteq> [] \<Longrightarrow> E e w'" for Q E
    using that by (auto simp: wp_def ioA_def platform_def split: prod.splits)
  have body: "wpa m (\<lambda>r e w'. \<exists>policy digest. reported sha s digest r e w' \<and>
     (e = [] \<longrightarrow> fst (polLoad deps policyPath (svPlatform (w_ext w))) = ((policy, digest), []))) w1"
    if "wpa m (reported sha s digest) w1" "fst (polLoad deps policyPath (svPlatform (w_ext w))) = ((policy, digest), [])" for m w1 policy digest
    by (rule wpa_mono [OF that(1)]) (use that(2) in blast)
  have bad: "wpa (answer command status st exit e) (\<lambda>r e w'. \<exists>policy digest. reported sha s digest r e w' \<and>
     (e = [] \<longrightarrow> fst (polLoad deps policyPath (svPlatform (w_ext w))) = ((policy, digest), []))) w1" if "e \<noteq> []" for command status st exit e w1
    by (rule wpa_mono [OF answer_error [OF that]]) simp
  have recon: "wpa (bindA (pairA (reconcileForOn sha s n (cxErr ctx))) zero_result (\<lambda>(rc, e).
      bindA (reconcileOn deps rc e digest mode) zero_result (\<lambda>x. case x of Some (r, e') \<Rightarrow> retA r e' | None \<Rightarrow> m))) (reported sha s digest) w1"
    if "\<And>w2. wpa m (reported sha s digest) w2" for n digest m w1
  proof (rule wpa_bindI, rule wp_pairAI, rule wpa_mono [OF reconcileForOn_describes [OF d]], unfold prod.case, goal_cases)
    case (1 rc e w2)
    show ?case
      by (rule wpa_bindI, rule wp_mono [OF reconcileOn_reported [OF 1]])
        (auto simp: wp_rules that split: option.split)
  qed
  note go = wpa_handleI wp_ioA_any recon wpa_bindI wpa_ifI answer_reported wpa_retI
  show ?thesis
    unfolding On_def
  proof (rule wpa_handleI, rule load, unfold prod.case, goal_cases)
    case (1 policy digest w1)
    show ?case
    proof (rule body [OF recon 1], rule wpa_handleI, rule wp_ioA_any)
      fix x :: "string \<times> string" and w2 :: "('a, 'b) Service world"
      show "wpa (case x of (md, mechanism) \<Rightarrow> bindA (pairA (activate sha s deps ''proxy on'' policy digest md mechanism)) zero_result (\<lambda>(r, activateErr).
           if \<not> errors_Is activateErr ErrActivationRace then retA r activateErr
           else bindA (pairA (reconcileForOn sha s (cxRetriesAgain ctx) (cxErr ctx))) zero_result (\<lambda>(current', reconcileErr').
             bindA (reconcileOn deps current' reconcileErr' digest mode) zero_result (\<lambda>reconciled'.
             case reconciled' of
               Some (r', e') \<Rightarrow> retA r' e'
             | None \<Rightarrow> answer ''proxy on'' ''conflict'' ''unknown'' 6 [ErrLifecycleConflict])))) (reported sha s digest) w2"
        by (cases x, simp, rule wpa_bindI, rule wp_pairAI, rule wpa_mono [OF activate_reported [OF d]])
          (unfold prod.case, intro wpa_ifI wpa_retI recon answer_reported, simp_all)
    qed (rule answer_reported)
  next
    case (2 e w1)
    then show ?case by (rule bad)
  qed
qed


section \<open>Status of an interrupted activation\<close>

text \<open>Reconciliation in a world without failures and competitors, by what the disk holds.\<close>

lemma Reconcile_friendly:
  fixes w :: "'x world"
  assumes d: "distinct_paths s" and f: "friendly s w" "w_ticks w = []" "w_files w (pathReservation (stPaths s)) = None"
    and time: "formatRFC3339Nano (w_clock w + 30 * time_Second) = Some x" "w_clock w + 30 * time_Second \<noteq> zero_time"
    and uid: "- (10 ^ 11) < stUid s" "stUid s < 10 ^ 11"
    and op: "\<And>w1 :: 'x world. calm w1 \<Longrightarrow> journal_at sha s (w_files w1) = journal_at sha s (w_files w) \<Longrightarrow>
      receipt_at sha s (w_files w1) = receipt_at sha s (w_files w) \<Longrightarrow> reconcileLocked sha s w1 = (((rc, []), []), w1)"
  shows "\<exists>w'. Reconcile sha s w = ((rc, []), w')"
proof -
  have "\<exists>a w2. reconcileLocked sha s w1 = ((a, []), w2) \<and> a = (rc, []) \<and> calm w2 \<and>
      w_files w2 (pathReservation (stPaths s)) = w_files w1 (pathReservation (stPaths s))"
    if "calm w1" "\<And>p. p \<noteq> pathReservation (stPaths s) \<Longrightarrow> p \<noteq> pathLock (stPaths s) \<Longrightarrow> w_files w1 p = w_files w p" for w1 :: "'x world"
    using op [OF that(1)] that distinct_pathsD [OF d] by (simp add: journal_at_def receipt_at_def stored_def)
  from withInternalReservation_friendly [OF d f time uid, where P = "\<lambda>a. a = (rc, [])", OF this]
  obtain w' where "withInternalReservation sha s (zero_reconciliation, []) (reconcileLocked sha s) w = (((rc, []), []), w')" by blast
  then show ?thesis by (simp add: Reconcile_def joinSemantic_def errors_Join_def)
qed

lemma Reconcile_completes:
  assumes d: "distinct_paths s" and f: "friendly s w" "w_ticks w = []" "w_files w (pathReservation (stPaths s)) = None"
    and time: "formatRFC3339Nano (w_clock w + 30 * time_Second) = Some x" "w_clock w + 30 * time_Second \<noteq> zero_time"
    and uid: "- (10 ^ 11) < stUid s" "stUid s < 10 ^ 11"
    and j: "journal_at sha s (w_files w) = Inr j" and r: "receipt_at sha s (w_files w) = Inr r" and b: "ValidateBinding j r = []"
  shows "\<exists>w'. Reconcile sha s w = ((reconciliationFromJournal j False, []), w')"
  by (rule Reconcile_friendly [OF d f time uid])
    (use j r b in \<open>simp add: reconcileLocked_def bindA_def tryE_def locked_readJournal_calm locked_readReceipt_calm ownershipError_def
      checkE_def returnE_def retA_def\<close>)

lemma Reconcile_inactive:
  assumes d: "distinct_paths s" and f: "friendly s w" "w_ticks w = []" "w_files w (pathReservation (stPaths s)) = None"
    and time: "formatRFC3339Nano (w_clock w + 30 * time_Second) = Some x" "w_clock w + 30 * time_Second \<noteq> zero_time"
    and uid: "- (10 ^ 11) < stUid s" "stUid s < 10 ^ 11"
    and none: "no_records s (w_files w)"
  shows "\<exists>w'. Reconcile sha s w = ((zero_reconciliation\<lparr>rcState := ReconciliationInactive\<rparr>, []), w')"
proof -
  have "journal_at sha s (w_files w) = Inl [ErrNotFound]" "receipt_at sha s (w_files w) = Inl [ErrNotFound]"
    using none by (simp_all add: no_records_def journal_at_def receipt_at_def stored_def)
  then show ?thesis
    by (intro Reconcile_friendly [OF d f time uid])
      (simp add: reconcileLocked_def bindA_def tryE_def locked_readJournal_calm locked_readReceipt_calm ownershipError_def retA_def)
qed

text \<open>The records demand recovery, and \<open>status\<close> says so with exit code zero and no error.\<close>

lemma Status_pending:
  assumes rc: "Reconcile sha s w = ((rc, []), w1)" and pending: "rcState rc = ReconciliationRecoveryRequired"
  shows "\<exists>r w'. Status sha s deps w = ((r, []), w') \<and> reStatus r = ''recovery_required'' \<and> reState r = ''recovery_required'' \<and>
     reExitCode r = 0"
proof -
  obtain t w2 where now: "nowE w1 = (Inr t, w2)" by (cases "w_ticks w1") (auto simp: nowE_def)
  show ?thesis
    using rc pending now
    by (simp add: Status_def bindA_def pairA_def lifecycleFailure_def returnE_def Service_result_def bindE_def retA_def Let_def
        reconciliation_text_def result_at_def)
qed

section \<open>The tables of the service\<close>

text \<open>
  A listener is filed under the process it proves, and is not filed as stopped at the same time.
\<close>

definition tables_ok :: "('l, 'y) Service \<Rightarrow> bool" where
  "tables_ok sv \<longleftrightarrow> (\<forall>pid m. svListeners sv pid = Some m \<longrightarrow> lpPID (mpProof m) = pid \<and> svStopped sv pid = None) \<and>
     (\<forall>pid p. svStopped sv pid = Some p \<longrightarrow> lpPID (spProof p) = pid)"

lemma New_ok: "New deps y = Inr sv \<Longrightarrow> tables_ok sv"
  by (auto simp: New_def tables_ok_def split: if_splits)

lemma tables_ok_steps:
  "tables_ok sv \<Longrightarrow> tables_ok (sv\<lparr>svPlatform := y\<rparr>)" "tables_ok sv \<Longrightarrow> tables_ok (forget proof sv)"
  "tables_ok sv \<Longrightarrow> tables_ok (purgeActivation i g sv)"
  "tables_ok sv \<Longrightarrow> lpPID (mpProof m) = pid \<Longrightarrow> tables_ok (register pid m environment sv)"
  by (auto simp: tables_ok_def forget_def purgeActivation_def register_def split: option.splits if_splits)

abbreviation filed :: "('l, 'y) Service world \<Rightarrow> bool" where "filed w \<equiv> tables_ok (w_ext w)"

lemma keeps_by_ext: "(\<And>x. keeps (ext_is x) m) \<Longrightarrow> keeps (\<lambda>w. P (w_ext w)) m"
  by (rule keepsI) (fastforce simp: keeps_def ext_is_def wp_def split: prod.splits sum.splits)

lemma keepsA_by_ext: "(\<And>x. keepsA (ext_is x) m) \<Longrightarrow> keepsA (\<lambda>w. P (w_ext w)) m"
  by (rule keepsAI) (fastforce simp: keepsA_def ext_is_def wpa_def split: prod.splits)

lemma filed_service [keeps_intros]:
  "keepsA filed (platform m)" "keeps filed tables" "keeps filed nowE" "keeps filed randomIdentity"
  "keeps filed (update (forget proof))" "keeps filed (update (purgeActivation i g))"
  by (auto simp: keeps_def keepsA_def wp_rules platform_def wpa_def tables_ok_steps split: prod.splits intro!: wp_nowE wp_randomIdentity)

lemma filed_results [keeps_intros]:
  "keeps filed (Service_result command status st exit)" "keepsA filed (answer command status st exit e)"
  "keeps filed (handled command status st exit e)" "keeps filed (lifecycleFailure command e)"
  unfolding Service_result_def answer_def handled_def lifecycleFailure_def Service_result_def by (intro keeps_intros)+

lemma filed_listeners [keeps_intros]:
  "keepsA filed (shutdownVerified deps managed)" "keepsA filed (Service_Inspect deps pid)" "keepsA filed (Service_Stop deps proof)"
  unfolding shutdownVerified_def Service_Inspect_def Service_Stop_def by (intro keeps_intros)+

text \<open>The store itself does not know the tables; recovery reaches them through the service's controller.\<close>

interpretation filed: store_invariant sha s "filed :: ('l, 'y) Service world \<Rightarrow> bool" for sha s
  by unfold_locales (rule keeps_by_ext; rule ext.primitives)+

lemma filed_recover [keeps_intros]:
  "keepsA filed (RecoverExpected sha s (restorer deps) (controller deps) expected)"
  "keepsA filed (RecoverScope sha s lease (restorer deps) (controller deps))"
proof -
  have env: "keeps filed (CompareAndSet (restorer deps) req)" for req
    by (simp add: restorer_def keeps_intros)
  have lis: "keeps filed (Inspect (controller deps) pid)" "keeps filed (Stop (controller deps) proof)" for pid "proof"
    by (simp_all add: controller_def keeps_intros)
  have locked: "keepsA filed (recoverLocked sha s (restorer deps) (controller deps) expected)" for expected
    by (rule recoverLocked_invariant [OF env lis]) (rule keeps_by_ext, intro keeps_intros)+
  show "keepsA filed (RecoverExpected sha s (restorer deps) (controller deps) expected)"
    "keepsA filed (RecoverScope sha s lease (restorer deps) (controller deps))"
    unfolding RecoverExpected_def RecoverScope_def RecoverExpectedReserved_def
    by (intro keeps_intros filed.semantic filed.internally_reserved filed.finally_reserved locked)+
qed

lemma filed_store [keeps_intros]:
  "keepsA filed (Reconcile sha s)" "keepsA filed (AcquireScope sha s i g)" "keepsA filed (RenewScope sha s lease)"
proof -
  have locked: "keepsA filed (reconcileLocked sha s)" by (rule keepsA_by_ext) (intro keeps_intros)
  show "keepsA filed (Reconcile sha s)" by (rule filed.reconcile(1) [OF locked])
  show "keepsA filed (AcquireScope sha s i g)" "keepsA filed (RenewScope sha s lease)"
    unfolding AcquireScope_def RenewScope_def cancelUnconsumedReservation_def
    by (intro keeps_intros filed.reserve filed.renew filed.cancel filed.reconcile(2) [OF locked])+
qed

lemma filed_loops [keeps_intros]:
  "keepsA filed (reconcileForOn sha s n ctxErr)" "keepsA filed (renewScopes sha s n lease)"
proof -
  show "keepsA filed (reconcileForOn sha s n ctxErr)"
    by (induction n) (simp_all only: reconcileForOn.simps, intro keeps_intros, intro keeps_intros)
  show "keepsA filed (renewScopes sha s n lease)"
    by (induction n arbitrary: lease) (simp_all only: renewScopes.simps, intro keeps_intros, intro keeps_intros)
qed

lemma filed_activation [keeps_intros]: "keepsA filed (Activate sha s j mechanism (publication deps mechanism' prior desired))"
proof -
  have pub: "keeps filed (publishAndCommit sha tx j publishing mechanism (publication deps mechanism' prior desired))" for tx publishing
  proof (rule keepsI, goal_cases)
    case (1 w)
    have "filed (snd (publication deps mechanism' prior desired w))"
      using 1 by (simp add: publication_def tables_ok_steps split: prod.splits)
    moreover have "keeps filed (Transition sha tx x nx mechanism)" for x nx by (rule keeps_by_ext) (intro keeps_intros)
    ultimately show ?case using keeps_result
      by (fastforce simp: wp_def publishAndCommit_def split: prod.splits attempt.splits sum.splits)
  qed
  have tx: "keeps filed (Prepare sha tx j)" "keeps filed (Transition sha tx x nx mech)" "keeps filed (Clear sha tx x)" for tx x nx mech
    by (rule keeps_by_ext, intro keeps_intros)+
  show ?thesis
    unfolding Activate_def activationCallback_def settlePublication_def cancelUnconsumedReservation_def Let_def
    by (intro keeps_intros filed.reserve filed.transaction filed.cancel pub tx)
qed

lemma filed_abandon [keeps_intros]: "keepsA filed m \<Longrightarrow> keepsA filed (abandon deps managed m)"
  by (rule keepsAI)
    (auto simp: wpa_def abandon_def split: prod.splits dest: keepsA_result intro: keepsA_result [OF filed_listeners(1)] prod.collapse [symmetric])

lemma filed_recoveries [keeps_intros]:
  "keepsA filed operation \<Longrightarrow> keepsA filed (recoverWith command i g operation)"
  "keepsA filed (recoverExpected sha s deps command i g)" "keepsA filed (recoverScope sha s deps command lease)"
  "keepsA filed (recover sha s deps command)"
proof -
  show with_: "keepsA filed operation \<Longrightarrow> keepsA filed (recoverWith command i g operation)" for command i g and operation :: "('l, 'y, RecoveryResult) service_act"
    unfolding recoverWith_def by (intro keeps_intros)
  show "keepsA filed (recoverExpected sha s deps command i g)" "keepsA filed (recoverScope sha s deps command lease)"
    "keepsA filed (recover sha s deps command)"
    unfolding recover_def recoverExpected_def recoverScope_def by (intro keeps_intros with_)+
qed

lemma filed_register:
  "keeps filed (update (register (lPID identity)
     \<lparr>mpListener = managed, mpProof = listenerProof identity metadata, mpActivationID = i\<rparr> environment))"
  by (rule keepsI) (simp add: wp_rules tables_ok_steps listenerProof_def)

lemma filed_activate [keeps_intros]: "keepsA filed (activate sha s deps command policy digest mode mechanism)"
  unfolding activate_def publishListener_def verifyActivation_def verificationFailed_def Let_def
  by (intro keeps_intros filed_register)

text \<open>Every command of the service keeps the tables in order.\<close>

lemma service_filed:
  "keepsA filed (On sha s deps ctx policyPath mode)" "keepsA filed (Run sha s deps ctx policyPath argv)"
  "keepsA filed (Off sha s deps removeCA)" "keepsA filed (Reset sha s deps yes removeCA)"
  "keepsA filed (Status sha s deps)" "keepsA filed (Doctor deps policyPath)" "keepsA filed (Routes deps policyPath)"
proof -
  have recon: "keeps filed (reconcileOn deps rc e digest mode)" "keeps filed (reconcileRun deps rc e digest)" for rc e digest
    unfolding reconcileOn_def reconcileRun_def by (intro keeps_intros)+
  have run: "keeps filed (runner deps c argv x)" for c x
    by (rule keepsI) (simp add: wp_def runner_def tables_ok_steps split: prod.splits)
  have outcome: "keepsA filed (case x of RunReturned a b \<Rightarrow> f a b | RunPanicked \<Rightarrow> m)"
    if "\<And>a b. keepsA filed (f a b)" "keepsA filed m" for x f and m :: "('l, 'y, Result) service_act"
    using that by (cases x) simp_all
  show "keepsA filed (On sha s deps ctx policyPath mode)" unfolding On_def by (intro keeps_intros recon)
  show "keepsA filed (Run sha s deps ctx policyPath argv)"
    unfolding Run_def leaseFailed_def runScoped_def finishRun_def Let_def by (intro keeps_intros recon run outcome)
  show "keepsA filed (Off sha s deps removeCA)" "keepsA filed (Reset sha s deps yes removeCA)"
    "keepsA filed (Status sha s deps)" "keepsA filed (Doctor deps policyPath)" "keepsA filed (Routes deps policyPath)"
    unfolding Off_def Reset_def Status_def Doctor_def doctorListener_def Routes_def Let_def by (intro keeps_intros)+
qed

end
