(* ===== verification/SampleActivation.thy ===== *)
theory SampleActivation
  imports ActivationResults SampleStore SampleRouter
begin

text \<open>
  A concrete activation service over the sample store: a platform whose state is the environment of the
  session, a policy with the digest of the sample journal and a live listener that matches it.  The
  properties of the service are applied to it.
\<close>

section \<open>The platform\<close>

abbreviation answers :: "'a \<Rightarrow> ('y, 'a) act" where
  "answers v \<equiv> (\<lambda>y. ((v, []), y))"

definition sample_deps :: "(unit, string \<Rightarrow> string option) Dependencies" where
  "sample_deps = \<lparr>envCompareAndSet = (\<lambda>req y. ((CASRestored, []), y(csName req := prior_of req))),
     envPlatform = ''linux'', envSessionIdentity = answers ''session'', envResolveMode = (\<lambda>_. answers (''session'', ''systemd_user_environment'')),
     envSnapshot = (\<lambda>names y. ((map (\<lambda>n. (n, case y n of None \<Rightarrow> \<lparr>pvPresent = False, pvValue = ''''\<rparr>
       | Some v \<Rightarrow> \<lparr>pvPresent = True, pvValue = v\<rparr>)) names, []), y)),
     envPublish = (\<lambda>_ prior desired y. (Returned [], fold (\<lambda>p y. y(puName p \<mapsto> puValue p)) desired y)),
     envBase = (\<lambda>_. []), lisStart = (\<lambda>_ _ _. answers ()), lisIdentity = (\<lambda>_. jListener (sample_journal ''active'')),
     lisInspect = (\<lambda>_. answers (proofFromJournal (sample_journal ''active''), True)),
     lisChildEnvironment = (\<lambda>_ base. answers base), lisShutdown = (\<lambda>_. answers ()),
     ctlInspect = (\<lambda>_. answers (proofFromJournal (sample_journal ''active''), True)), ctlStop = (\<lambda>_. answers ()),
     polLoad = (\<lambda>_. answers (sample_policy, zero_digest)), runCommand = (\<lambda>_ _ _ y. (RunReturned 0 [], y)), runTicks = (\<lambda>_. 0),
     dBinary = jBinary (sample_journal ''active''), dOwnerUID = 1000\<rparr>"

definition service_world :: "files \<Rightarrow> (unit, string \<Rightarrow> string option) Service world" where
  "service_world f = \<lparr>w_files = f, w_history = [], w_euid = 1000, w_io = [], w_clock = 1000000000, w_ticks = [], w_rand = [],
     w_ext = \<lparr>svListeners = Map.empty, svStopped = Map.empty, svEnvironments = Map.empty, svPlatform = (\<lambda>_. None)\<rparr>\<rparr>"

definition sample_publication :: "(unit, string \<Rightarrow> string option) Service publish_call" where
  "sample_publication = publication sample_deps ''systemd_user_environment'' []
     [\<lparr>puName = ''OPENAI_BASE_URL'', puValue = ''http://127.0.0.1:4000/v1'', puMarker = ''marker''\<rparr>]"

lemma sample_publication: "external_publication sample_publication" "atomic_publication sample_publication"
  by (auto simp: sample_publication_def publication_external) (auto simp: atomic_publication_def publication_def sample_deps_def)

text \<open>The store calls succeed in it whatever records there are.\<close>

lemma service_friendly:
  assumes "f ''/s/reservation.json'' = None" and "f ''/s/lifecycle.lock'' = None"
  shows "friendly sample_store (service_world f)" "w_ticks (service_world f) = []"
    "w_files (service_world f) (pathReservation (stPaths sample_store)) = None"
    "formatRFC3339Nano (w_clock (service_world f) + 30 * time_Second) = Some ''1970-01-01T00:00:31Z''"
    "w_clock (service_world f) + 30 * time_Second \<noteq> zero_time" "- (10 ^ 11) < stUid sample_store" "stUid sample_store < 10 ^ 11"
proof -
  have "formatRFC3339Nano 31000000000 = Some ''1970-01-01T00:00:31Z''" by code_simp
  then show "formatRFC3339Nano (w_clock (service_world f) + 30 * time_Second) = Some ''1970-01-01T00:00:31Z''"
    by (simp add: service_world_def time_Second_def)
qed (use assms in \<open>simp_all add: friendly_def service_world_def calm_def sample_store_def replaceable_def zero_time_def time_Second_def\<close>)

lemma nowE_service: "\<exists>t w'. nowE w = (Inr t, w')"
  by (cases "w_ticks w") (auto simp: nowE_def)

section \<open>Records by state\<close>

text \<open>An active pair of records, and one whose journal demands recovery.\<close>

definition active_files :: files where
  "active_files = sample_files(''/s/reservation.json'' := None)"

definition pending_receipt :: Receipt where
  "pending_receipt = sample_receipt\<lparr>rState := ''recovery_required''\<rparr>"

definition pending_files :: files where
  "pending_files = (\<lambda>_. None)
     (''/s/journal.json'' := Some (created_node 1000 3000 (empty_doc\<lparr>doc_journal := Some (sample_journal ''recovery_required'')\<rparr>)),
      ''/s/receipt.json'' := Some (created_node 1000 2500 (empty_doc\<lparr>doc_receipt := Some pending_receipt\<rparr>)))"

lemma active_at:
  "journal_at zero_sha sample_store active_files = Inr (sample_journal ''active'')"
  "receipt_at zero_sha sample_store active_files = Inr sample_receipt"
  using sample_at by (simp_all add: active_files_def journal_at_def receipt_at_def stored_def sample_store_def)

lemma pending_at:
  "journal_at zero_sha sample_store pending_files = Inr (sample_journal ''recovery_required'')"
  "receipt_at zero_sha sample_store pending_files = Inr pending_receipt"
proof -
  have v: "formatRFC3339Nano 0 = Some ''1970-01-01T00:00:00Z''" by code_simp
  note defs = policy_json_def binary_json_def listener_json_def journal_environment_json_def receipt_environment_json_def
    rollback_json_def int64_ok_def
  have "\<exists>kvs. journal_json (sample_journal ''recovery_required'') = Some kvs \<and> json_ok (JObject kvs)"
    by (simp add: journal_json_def sample_journal_def sample_environment_def v defs del: json_ok.simps(1) formatInt_samples)
  moreover have "\<exists>kvs. receipt_json pending_receipt = Some kvs \<and> json_ok (JObject kvs)"
    by (simp add: pending_receipt_def sample_receipt_fields receipt_json_def sample_journal_def v defs append_to_nil_def slice_elems_def del: json_ok.simps(1) formatInt_samples)
  moreover have "Receipt_Validate pending_receipt = []" "rOwnerUID pending_receipt = 1000" "rChecksum pending_receipt = zero_digest" by code_simp+
  moreover have "Journal_Validate (sample_journal ''recovery_required'') = []" by (rule sample_valid) (simp add: journal_states_def)
  ultimately have "journal_check zero_sha 1000 (sample_journal ''recovery_required'') = []" "receipt_check zero_sha 1000 pending_receipt = []"
    using verify_zero by (auto simp: journal_check_def receipt_check_def sample_journal_def)
  then show "journal_at zero_sha sample_store pending_files = Inr (sample_journal ''recovery_required'')"
    "receipt_at zero_sha sample_store pending_files = Inr pending_receipt"
    by (simp_all add: journal_at_def receipt_at_def stored_def sample_store_def pending_files_def
      maxRecordSize_def created_node_def empty_doc_def secure_node_def)
qed

lemma pending_bound: "ValidateBinding (sample_journal ''recovery_required'') pending_receipt = []"
  by code_simp

section \<open>Runs of the service\<close>

lemma sample_reconciles:
  "\<exists>w'. Reconcile zero_sha sample_store (service_world active_files) = ((reconciliationFromJournal (sample_journal ''active'') False, []), w')"
  "\<exists>w'. Reconcile zero_sha sample_store (service_world (\<lambda>_. None)) = ((zero_reconciliation\<lparr>rcState := ReconciliationInactive\<rparr>, []), w')"
proof -
  show "\<exists>w'. Reconcile zero_sha sample_store (service_world active_files) = ((reconciliationFromJournal (sample_journal ''active'') False, []), w')"
    by (rule Reconcile_completes [OF sample_distinct service_friendly _ _ sample_bound]) (simp_all add: active_files_def sample_files_def,
        use active_at in \<open>simp_all add: service_world_def active_files_def sample_files_def\<close>)
  show "\<exists>w'. Reconcile zero_sha sample_store (service_world (\<lambda>_. None)) = ((zero_reconciliation\<lparr>rcState := ReconciliationInactive\<rparr>, []), w')"
    by (rule Reconcile_inactive [OF sample_distinct service_friendly]) (simp_all add: no_records_def service_world_def)
qed

definition sample_context :: Context where
  "sample_context = \<lparr>cxRetries = 0, cxRetriesAgain = 0, cxErr = []\<rparr>"

text \<open>\<open>on\<close> over the active records is idempotent, \<open>off\<close> without records has nothing to do.\<close>

lemma sample_on:
  "\<exists>r w'. On zero_sha sample_store sample_deps sample_context ''policy.json'' ''session'' (service_world active_files) = ((r, []), w') \<and>
     reStatus r = ''idempotent'' \<and> reActivationID r = ''00000000-0000-4000-8000-000000000000''"
proof -
  have tables: "w_ext w' = w_ext (service_world active_files)"
    if "Reconcile zero_sha sample_store (service_world active_files) = (x, w')" for x w'
    using Reconcile_ext [of zero_sha sample_store "service_world active_files"] that by (simp add: wpa_def split: prod.splits)
  obtain w1 where rc: "Reconcile zero_sha sample_store (service_world active_files) =
      ((reconciliationFromJournal (sample_journal ''active'') False, []), w1)" using sample_reconciles(1) by blast
  obtain t w2 where t: "nowE w1 = (Inr t, w2)" using nowE_service by blast
  have same: "(service_world active_files)\<lparr>w_ext := (w_ext (service_world active_files))\<lparr>svPlatform := svPlatform (w_ext (service_world active_files))\<rparr>\<rparr> =
      service_world active_files" "w1\<lparr>w_ext := (w_ext w1)\<lparr>svPlatform := svPlatform (w_ext w1)\<rparr>\<rparr> = w1"
    by simp_all
  have fields: "w_ext w1 = \<lparr>svListeners = Map.empty, svStopped = Map.empty, svEnvironments = Map.empty, svPlatform = (\<lambda>_. None)\<rparr>"
    using tables [OF rc] by (simp add: service_world_def)
  show ?thesis
    using rc t same(2) fields
    by (simp add: On_def handleA_def ioA_def platform_def sample_deps_def sample_context_def bindA_def pairA_def same reconcileOn_def
        lifecycleFailure_def bindE_def returnE_def reconciliationFromJournal_def Service_Inspect_def tables_def retA_def tryE_def
        Service_result_def result_at_def proofFromJournal_def) (simp add: sample_journal_def)
qed

lemma sample_off:
  "\<exists>r w'. Off zero_sha sample_store sample_deps False (service_world (\<lambda>_. None)) = ((r, []), w') \<and> reStatus r = ''inactive''"
proof -
  obtain w1 where rc: "Reconcile zero_sha sample_store (service_world (\<lambda>_. None)) =
      ((zero_reconciliation\<lparr>rcState := ReconciliationInactive\<rparr>, []), w1)" using sample_reconciles(2) by blast
  obtain t w2 where t: "nowE w1 = (Inr t, w2)" using nowE_service by blast
  show ?thesis
    using rc t
    by (simp add: Off_def recover_def recoverWith_def bindA_def pairA_def lifecycleFailure_def returnE_def zero_reconciliation_def retA_def
        zero_recovery_def RecoveryNotActive_def RecoveryRequired_def RecoveryComplete_def Service_result_def bindE_def result_at_def Let_def)
qed

end
