(* ===== verification/Spec2Isabelle.thy ===== *)
theory Spec2Isabelle
  imports SampleStore SampleHandler SampleActivation
begin

text \<open>
  Verification of the Blazn proxy.

  The \<open>blazn\<close> program runs a local proxy for model traffic. Five parts of it carry the logic whose
  failure would hurt the user, and they are modelled here, from the Go sources under
  \<open>src/internal/proxy\<close> and \<open>src/internal/proxycontract\<close>:

  \<^item> The \<^emph>\<open>store\<close> (\<open>src/internal/proxy/state\<close>) remembers what an activation changed on the account: a
    journal with the prior values of the environment variables and a receipt without them, both
    checksummed files replaced atomically, under a lock and fenced by expiring reservations.
    Recovery reads them back, restores the environment and stops the recorded listener.
  \<^item> The \<^emph>\<open>activation service\<close> (\<open>src/internal/proxy/activation/service.go\<close>) implements \<open>proxy on\<close>, \<open>run\<close>,
    \<open>off\<close>, \<open>reset\<close>, \<open>status\<close>, \<open>doctor\<close>, \<open>routes\<close> and \<open>tail\<close> over the store: it starts a listener, journals
    what it is about to publish, publishes the environment, verifies what it did and undoes it.
  \<^item> The \<^emph>\<open>contract\<close> (\<open>src/internal/proxycontract/contracts.gen.go\<close>) defines policies, routes, endpoints
    and normalised requests and validates them.
  \<^item> The \<^emph>\<open>router\<close> (\<open>src/internal/proxy/router\<close>) authenticates a request at the listener, selects the
    routes the policy admits for it, resolves and pins their endpoints, and follows redirects only
    on the same endpoint. Its handler reads a request in one of three protocols (OpenAI Chat, OpenAI
    Responses, Anthropic Messages), normalises it, tries the routes in turn, falls back when the
    policy permits it, translates the answer or the event stream back, and audits every step.
  \<^item> The \<^emph>\<open>Anthropic adapter\<close> (\<open>src/internal/proxy/anthropic/adapter.go\<close>) translates the Messages
    protocol to and from the normalised form.

  The theories.

  \<^item> \<open>Prelude\<close>: lists, strings, Go slices, RFC 3339 times, the shared lemmas.
  \<^item> \<open>Effects\<close>: the world (files, outcomes of system calls, random bytes, clock, an outside state) and
    the effect type with errors as values; rules for postconditions and for invariants that every
    step keeps.
  \<^item> \<open>CanonicalJson\<close>: \<open>canonical.go\<close>. \<open>ProxyRecords\<close>: \<open>types.go\<close> of the store. \<open>SecureFiles\<close>:
    \<open>securefs_unix.go\<close>. \<open>ProxyStore\<close>: \<open>store_unix.go\<close>. \<open>ProxyRecovery\<close>: \<open>recovery_unix.go\<close>.
  \<^item> \<open>Consistency\<close>, \<open>CrashSafety\<close>: the invariant of the two records and that each operation keeps it at
    every point at which the process can be killed. \<open>Reservations\<close>: fencing and mutual exclusion.
    \<open>RecoveryResults\<close>, \<open>LiveRecovery\<close>: what recovery achieves and that it does. \<open>StoreMachine\<close>: the
    store as a step relation and its reachable worlds. \<open>SampleStore\<close>: a concrete store for witnesses.
  \<^item> \<open>ActivationStore\<close>: the \<open>PersistentStore\<close> of \<open>service.go\<close>, that is the publication transaction, scope
    leases and random identities, and that the journal is durable before anything is published and as
    long as anything is. \<open>ActivationService\<close>: the commands. \<open>ActivationResults\<close>: what their results and
    exit codes mean, and the invariant of the tables of the service. \<open>SampleActivation\<close>: a concrete service.
  \<^item> \<open>ProxyPolicy\<close>: the contract. \<open>RouterPolicy\<close>: \<open>policy.go\<close> of the router. \<open>RouterSecurity\<close>: its
    \<open>security.go\<close>. \<open>SampleRouter\<close>: a concrete policy and requests.
  \<^item> \<open>GoTime\<close>: formatting and parsing of RFC 3339 times as \<open>time.Format\<close> and \<open>time.Parse\<close> do it.
    \<open>GoJson\<close>: \<open>encoding/json\<close> on bytes, as far as the router uses it. \<open>RouterEvents\<close>: audit events,
    their validation, and \<open>emit\<close>. \<open>ContractResponses\<close>: responses and stream events of the contract.
  \<^item> \<open>OpenAIRequests\<close>: \<open>openai.go\<close>, from the text of a Chat or Responses request to the normalised
    request. \<open>AnthropicAdapter\<close>: \<open>adapter.go\<close>, the same for Messages, and its two directions for
    destinations. \<open>UpstreamBodies\<close>: the bodies sent to destinations and the answers read back, from
    \<open>upstream.go\<close>, and the context limit.
  \<^item> \<open>StreamNormalizer\<close>: the event stream of a destination as normalised events. \<open>StreamEncoder\<close>: the
    stream to the client; both from \<open>upstream.go\<close>. \<open>StreamBounds\<close>: how much a stream reads and writes.
  \<^item> \<open>RouterDispatch\<close>: the dispatch loop of \<open>upstream.go\<close>. \<open>RouterHandler\<close>: \<open>handler.go\<close>, \<open>NewHandler\<close>
    and workload scopes. \<open>SampleHandler\<close>: a concrete handler, client and stream for witnesses.

  Conventions. A Go error is a list of error values, empty for \<open>nil\<close>. A system call takes its
  outcome from a list in the world, so a theorem about every world is a theorem about every
  placement of failures; the list of file systems a run passed through is its history, so a
  statement about the history covers a kill at any point. Hashing (\<open>sha\<close>), DNS, the dialler, the
  environment service and the process controller are parameters; what a property needs of them is
  one of its hypotheses. So are, in the router, the transport, the lines and body a destination
  sends, the client's writer, timers, the request context and the conversion of decimal text to
  \<open>float64\<close>: each is a function that may answer anything and change an outside state. JSON texts are
  read and written byte by byte; a panic of Go (a nil pointer, an index out of range) is an error
  value of its own. The loops over a stream need no fuel: they end because the code counts bytes.

  In the activation service the tables and the state of the platform form the outside part of the world; the
  platform interfaces are fields of \<open>Dependencies\<close>. A context appears as the number of times a retry loop
  runs before it is done; only the publication and the runner may panic.

  What the theorems show. The records stay consistent under every operation, failure and kill, and
  are never ambiguous; a recovery that reports completion has restored the environment and removed
  the records, and does complete when nothing fails; recovery never stops a process with another
  identity and changes nothing when ownership is ambiguous; reservations exclude each other and
  fence late holders; writes are read back unchanged. An activation publishes only when its journal is on
  disk, and what it published stays journaled; a reported activation is the one on disk; \<open>off\<close>, \<open>reset\<close>
  and \<open>run\<close> end without a record or with an error; exit codes agree with errors. Selected routes obey the policy,
  local-only data is dialled to loopback addresses only, external routes reach public addresses
  over HTTPS only, redirects stay on the endpoint, and credentials are checked exactly and
  stripped. Every request the handler routes is valid and carries the data class the policy gives its
  alias; it is encoded for its destination without a panic; dispatch contacts a prefix of the
  selected routes and loses no audit event; stream events are well shaped and numbered without
  gaps, and a stream ends for every destination within bounds on what is read and written.
  Some properties show defects: a transient read error during recovery makes the records ambiguous for
  good; an empty list of rollback actions passes validation but never binds; a stream that
  succeeded is audited as cancelled; a deadline loses its terminal event; a failure is audited under
  a route that was not contacted; a stream that begins with a reasoning item panics; a Chat client
  of a Responses destination gets tool arguments under another index than the tool's start; \<open>status\<close>
  reports a pending recovery with exit code 0.

  Not modelled: the discovery of the account directory, the event stream of the Anthropic adapter
  (\<open>anthropic/stream.go\<close>, which the router does not call), the JSON form of the activation records
  of the contract, the HTTP server itself, and the other parts of the
  repository (sandboxes, nodes, plugins, command line), which are clients of services outside it.
\<close>

section \<open>The proxy store\<close>



text \<open>
  C2. A state transition keeps the records consistent at every point at which the process can be
  killed, for every journal it is given, every expectation, and every placement of failures.
\<close>

theorem transition_crash_safe:
  assumes "distinct_paths s" and "consistent sha s (w_files w)"
    and "Transition sha \<lparr>txStore = s, txActive = active\<rparr> expected journal mechanism w = (r, w')"
  shows "consistent sha s (w_files w') \<and> (\<exists>new. w_history w' = w_history w @ new \<and> list_all (consistent sha s) new)"
proof -
  have "crash_safe sha s w w'"
    by (rule keeps_result [OF Transition_crash_safe _ assms(3)]) (use assms(1,2) in \<open>simp_all add: crash_safe_def safe_since_refl\<close>)
  then show ?thesis by (simp add: crash_safe_def safe_since_def)
qed

theorem transition_crash_safe_witness:
  "\<exists>r w'. Transition zero_sha \<lparr>txStore = sample_store, txActive = True\<rparr> \<lparr>eaGeneration = 1, eaState = ''active''\<rparr>
       ((sample_journal ''deactivating'')\<lparr>jUpdatedAt := 5\<rparr>) '''' sample_world = (r, w') \<and> consistent zero_sha sample_store (w_files w')"
proof -
  obtain r w' where run: "Transition zero_sha \<lparr>txStore = sample_store, txActive = True\<rparr> \<lparr>eaGeneration = 1, eaState = ''active''\<rparr>
       ((sample_journal ''deactivating'')\<lparr>jUpdatedAt := 5\<rparr>) '''' sample_world = (r, w')" by (metis prod.exhaust)
  then show ?thesis
    using transition_crash_safe [OF sample_distinct _ run] sample_consistent sample_calm(2) by auto
qed

text \<open>
  C3. When recovery reports completion, every variable the journal recorded has exactly its recorded
  prior value or is absent as before, none conflicted, and no record is left, provided the
  environment service honours its compare-and-set contract.
\<close>

theorem recovery_restores:
  assumes "distinct_paths s" and "restorer_contract env er"
    and "Recover sha s er lc w = ((result, e), w')" and "rrStatus result = RecoveryComplete"
  shows "\<exists>j. journal_at sha s (w_files w) = Inr j \<and> no_records s (w_files w') \<and> rrConflictedEnvironment result = [] \<and>
     mset (rrRestoredEnvironment result) = mset (map jeName (jEnvironment j)) \<and>
     (\<forall>item \<in> set (jEnvironment j). env (w_ext w') (jeName item) = (if jePriorPresent item then jePriorValue item else None))"
  using Recover_post(1) [OF assms(1,2), of sha lc w] assms(3,4)
  by (auto simp: wpa_def recovered_def prior_value_def)

theorem recovery_restores_witness:
  "\<exists>w'. no_records sample_store (w_files w') \<and> w_ext w' ''OPENAI_BASE_URL'' = Some ''http://old'' \<and>
     snd (Recover zero_sha sample_store sample_restorer sample_controller free_world) = w'"
proof -
  obtain result w' where run: "Recover zero_sha sample_store sample_restorer sample_controller free_world = ((result, []), w')"
    "rrStatus result = RecoveryComplete" using free_recovers by blast
  from recovery_restores [OF sample_distinct sample_services(1) run] free_at(1) run(1) show ?thesis
    by (auto simp: sample_journal_def sample_environment_def)
qed





text \<open>
  C6. Without a readable journal, recovery never consults the environment service: its whole run is
  the same whatever service it is given, because a receipt holds no prior values.
\<close>

theorem receipt_recovery_ignores_environment:
  assumes "locked_readJournal sha s w = (Inl e, w1)"
  shows "recoverLocked sha s er lc expected w = recoverLocked sha s er' lc expected w"
  by (rule recoverLocked_receipt_only [OF assms])

theorem receipt_recovery_ignores_environment_witness:
  "recoverLocked zero_sha sample_store \<lparr>CompareAndSet = (\<lambda>_ w. (Inl [Other ''down''], w))\<rparr> sample_controller None
     (sample_world\<lparr>w_files := sample_files(''/s/journal.json'' := None)\<rparr>) =
   recoverLocked zero_sha sample_store sample_restorer sample_controller None
     (sample_world\<lparr>w_files := sample_files(''/s/journal.json'' := None)\<rparr>)"
proof -
  let ?w = "sample_world\<lparr>w_files := sample_files(''/s/journal.json'' := None)\<rparr>"
  have "locked_readJournal zero_sha sample_store ?w = (Inl [ErrNotFound], ?w)"
    using locked_readJournal_calm [of ?w] sample_calm(1) by (simp add: calm_def journal_at_def stored_def sample_store_def)
  from receipt_recovery_ignores_environment [OF this] show ?thesis .
qed

text \<open>
  C7. Recovery never signals a process it cannot identify: when the recorded listener is gone, or
  the process with its number has another identity, the outcome and the world are those of the
  inspection alone, so \<open>Stop\<close> was not called.
\<close>

theorem other_processes_not_signalled:
  assumes "Inspect lc (lpPID expected) w = (Inr (current, live), w')" and "\<not> live \<or> current \<noteq> expected"
  shows "stopVerified lc expected w = ((if live then ''recorded_listener_identity_absent'' else ''listener_absent'', []), w')"
  by (rule stopVerified_never_signals_others [OF assms])

theorem other_processes_not_signalled_witness:
  "stopVerified sample_controller (proofFromJournal (sample_journal ''active'')) sample_world = ((''listener_absent'', []), sample_world)"
  using other_processes_not_signalled [of sample_controller "proofFromJournal (sample_journal ''active'')" sample_world
      "proofFromJournal (sample_journal ''active'')" False sample_world]
  by (simp add: sample_controller_def)

text \<open>
  C8. A transient failure while reading an intact journal makes recovery rewrite the receipt as if
  the journal were gone; the rewritten receipt no longer matches the journal, and from then on the
  records are ambiguous although both files are intact.
\<close>

theorem transient_read_failure_makes_ambiguous:
  assumes "distinct_paths s" and "w_io w = [failure]" and "outcome_err failure \<noteq> []"
    and "w_rand w = []" and "w_euid w = stUid s"
    and "journal_at sha s (w_files w) = Inr j" and "jState j = ''active''" and "receipt_at sha s (w_files w) = Inr r"
    and "marshalChecksummed sha receipt_json set_receipt_checksum (r\<lparr>rState := ''recovery_required''\<rparr>) = Inr (data, r')"
    and "length data \<le> maxRecordSize"
    and "wire_receipt (r\<lparr>rState := ''recovery_required''\<rparr>) = r\<lparr>rState := ''recovery_required''\<rparr>"
    and "external_controller lc"
  shows "\<exists>result sem w'. recoverLocked sha s er lc None w = (((result, sem), []), w') \<and> ambiguous sha s (w_files w')"
  by (rule recover_after_read_failure) (fact assms)+

theorem transient_read_failure_makes_ambiguous_witness:
  "\<exists>result sem w'. recoverLocked zero_sha sample_store sample_restorer sample_controller None (sample_world\<lparr>w_io := [IoErr ''EIO'']\<rparr>) =
     (((result, sem), []), w') \<and> ambiguous zero_sha sample_store (w_files w')"
proof -
  let ?w = "sample_world\<lparr>w_io := [IoErr ''EIO'']\<rparr>"
  obtain data r' where m: "marshalChecksummed zero_sha receipt_json set_receipt_checksum (sample_receipt\<lparr>rState := ''recovery_required''\<rparr>) = Inr (data, r')"
    "length data \<le> maxRecordSize" using sample_receipt_marshals by blast
  have "wire_receipt (sample_receipt\<lparr>rState := ''recovery_required''\<rparr>) = sample_receipt\<lparr>rState := ''recovery_required''\<rparr>"
    by (simp add: sample_receipt_fields sample_journal_def sample_environment_def receipt_environment_of_def append_to_nil_def
        slice_elems_def SchemaVersion_def wire_defs sample_ascii coerceUTF8_ascii)
  then show ?thesis
    by (intro transient_read_failure_makes_ambiguous [of sample_store ?w "IoErr ''EIO''" zero_sha "sample_journal ''active''" sample_receipt, OF _ _ _ _ _ _ _ _ m])
      (simp_all add: sample_distinct sample_calm sample_at sample_services,
       simp_all add: sample_world_def sample_store_def sample_journal_def)
qed

text \<open>
  C9. A reservation fences its holder: an operation under a reservation that is not exactly the one
  in the file, or that has expired, is not run; the call fails, and no file but the lock changes.
\<close>

theorem reservation_fences_operations:
  assumes "distinct_paths s"
    and "reservation_at sha s (w_files w) \<noteq> Inr reservation \<or> monotone_clock w \<and> vExpiresAt reservation \<le> w_clock w"
    and "withOwnedReservation sha s reservation z operation w = ((a, e), w')"
  shows "a = z \<and> e \<noteq> [] \<and> (\<forall>p. p \<noteq> pathLock (stPaths s) \<longrightarrow> w_files w' p = w_files w p) \<and> w_ext w' = w_ext w"
  using reservation_fences [OF assms(1,2), of z operation] assms(3) by (auto simp: wpa_def untouched_def)

theorem reservation_fences_operations_witness:
  "snd (fst (withOwnedReservation zero_sha sample_store (sample_reservation\<lparr>vNonce := replicate 43 (CHR ''m'')\<rparr>) ()
     (actE (returnE ())) sample_world)) \<noteq> []"
proof -
  obtain a e w' where run: "withOwnedReservation zero_sha sample_store (sample_reservation\<lparr>vNonce := replicate 43 (CHR ''m'')\<rparr>) ()
     (actE (returnE ())) sample_world = ((a, e), w')" by (metis prod.exhaust)
  have "sample_reservation \<noteq> sample_reservation\<lparr>vNonce := replicate 43 (CHR ''m'')\<rparr>"
    by (simp add: sample_reservation_def numeral_eq_Suc)
  with reservation_fences_operations [OF sample_distinct _ run] run sample_at(3) sample_calm(2) show ?thesis by simp
qed

text \<open>
  C10. Mutual exclusion: while a reservation with another nonce is live, \<open>Reserve\<close> fails and changes
  no file but the lock, whatever system calls fail.
\<close>

theorem reserve_excludes_others:
  assumes "distinct_paths s" and "reservation_at sha s (w_files w) = Inr held" and "monotone_clock w"
    and "horizon w < vExpiresAt held" and "vNonce held \<noteq> nonce" and "Reserve sha s nonce ttl w = ((v, e), w')"
  shows "e \<noteq> [] \<and> (\<forall>p. p \<noteq> pathLock (stPaths s) \<longrightarrow> w_files w' p = w_files w p)"
  using Reserve_excludes [OF assms(1-5), of ttl] assms(6) by (auto simp: wpa_def untouched_def)

theorem reserve_excludes_others_witness:
  "snd (fst (Reserve zero_sha sample_store (replicate 43 (CHR ''m'')) time_Second sample_world)) \<noteq> []"
proof -
  obtain v e w' where run: "Reserve zero_sha sample_store (replicate 43 (CHR ''m'')) time_Second sample_world = ((v, e), w')"
    by (metis prod.exhaust)
  have "vNonce sample_reservation \<noteq> replicate 43 (CHR ''m'')" by (simp add: sample_reservation_def numeral_eq_Suc)
  with reserve_excludes_others [OF sample_distinct _ _ _ _ run, of sample_reservation] run sample_at(3) sample_calm(2) show ?thesis
    by (simp add: monotone_clock_def horizon_def sample_world_def sample_reservation_def)
qed





text \<open>
  C13. The journal is written first: the publication is called in no world but one whose disk holds the
  journal of this activation in state publishing.  Two publications that agree on such worlds give the same
  activation, whatever they do elsewhere.
\<close>

theorem journal_precedes_publication:
  assumes "distinct_paths s" and "consistent sha s (w_files w)" and "regular_journal sha j"
    and "\<And>v. publishing_on_disk sha s j (w_files v) \<Longrightarrow> publish v = publish' v"
  shows "Activate sha s j mechanism publish w = Activate sha s j mechanism publish' w"
  by (rule Activate_cong [OF assms])

theorem journal_precedes_publication_witness:
  "Activate zero_sha sample_store (sample_journal ''prepared'') ''systemd_user_environment'' (\<lambda>w. (Returned [], w)) (service_world (\<lambda>_. None)) =
   Activate zero_sha sample_store (sample_journal ''prepared'') ''systemd_user_environment''
     (\<lambda>w. if publishing_on_disk zero_sha sample_store (sample_journal ''prepared'') (w_files w) then (Returned [], w) else (Panicked, w))
     (service_world (\<lambda>_. None))"
proof (rule journal_precedes_publication [OF sample_distinct])
  show "consistent zero_sha sample_store (w_files (service_world (\<lambda>_. None)))"
    by (rule no_records_consistent) (simp add: no_records_def service_world_def)
  show "regular_journal zero_sha (sample_journal ''prepared'')" by (rule sample_regular) (simp add: journal_states_def)
qed simp

text \<open>
  C14. An empty but non-nil list of rollback actions passes validation, yet the receipt made from such
  a journal is never bound to it: the records are ambiguous as soon as they are written.
\<close>

theorem empty_rollback_never_binds:
  assumes "receiptFromJournalAt j mechanism t = Inr r" and "jRollbackActions j = Some []"
  shows "validateRollback (jRollbackActions j) = [] \<and> ValidateBinding j (r\<lparr>rState := st\<rparr>) \<noteq> []"
  using assms
  by (auto simp: receiptFromJournalAt_def Let_def validateRollback_def slice_elems_def append_to_nil_def ValidateBinding_def split: if_splits)

theorem empty_rollback_never_binds_witness:
  "\<exists>r. receiptFromJournalAt ((sample_journal ''active'')\<lparr>jRollbackActions := Some []\<rparr>) ''systemd_user_environment'' 0 = Inr r \<and>
     ValidateBinding ((sample_journal ''active'')\<lparr>jRollbackActions := Some []\<rparr>) (r\<lparr>rState := ''active''\<rparr>) \<noteq> []"
proof -
  have "\<not> isl (receiptFromJournalAt ((sample_journal ''active'')\<lparr>jRollbackActions := Some []\<rparr>) ''systemd_user_environment'' 0)"
    by code_simp
  then obtain r where r: "receiptFromJournalAt ((sample_journal ''active'')\<lparr>jRollbackActions := Some []\<rparr>) ''systemd_user_environment'' 0 = Inr r"
    by (cases "receiptFromJournalAt ((sample_journal ''active'')\<lparr>jRollbackActions := Some []\<rparr>) ''systemd_user_environment'' 0") auto
  from empty_rollback_never_binds [OF this, of "''active''"] r show ?thesis by simp
qed



text \<open>
  C16. \<open>proxy off\<close>, \<open>proxy reset\<close> and \<open>proxy run\<close> end without a record: whatever was on disk and whatever fails,
  a nil error from any of them means that neither journal nor receipt is left.
\<close>

theorem deactivation_leaves_no_record:
  assumes "distinct_paths s"
    and "Off sha s deps removeCA w = ((r, []), w') \<or> Reset sha s deps yes removeCA w = ((r, []), w') \<or>
      Run sha s deps ctx policyPath argv w = ((r, []), w')"
  shows "no_records s (w_files w')"
  using assms(2) deactivation_clears(1) [OF assms(1), of sha deps removeCA w] deactivation_clears(2) [OF assms(1), of sha deps yes removeCA w]
    Run_clears [OF assms(1), of sha deps ctx policyPath argv w]
  by (auto simp: wpa_def)

theorem deactivation_leaves_no_record_witness:
  "\<exists>r w'. Off zero_sha sample_store sample_deps False (service_world (\<lambda>_. None)) = ((r, []), w') \<and> no_records sample_store (w_files w')"
proof -
  obtain r w' where run: "Off zero_sha sample_store sample_deps False (service_world (\<lambda>_. None)) = ((r, []), w')" using sample_off by blast
  from deactivation_leaves_no_record [OF sample_distinct disjI1 [OF this]] run show ?thesis by blast
qed

section \<open>The router\<close>

text \<open>
  C17. For a policy the router accepts, the routes selected for a request are configured, valid,
  named by the alias and admissible (protocol, data class, boundary, capabilities, cost, and a
  protocol that preserves the request); there are between one and \<open>maxAttempts\<close> of them, at most
  two, and each fallback stays inside its boundary or crosses one the policy lists.
\<close>

theorem selected_routes_comply:
  assumes "newRouteIndex p = Inr r" and "selectRoutesFor r request = Inr routes"
  shows "routes \<noteq> [] \<and> int (length routes) \<le> fbMaxAttempts (poFallback p) \<and> length routes \<le> 2 \<and>
    successively (may_follow p) routes \<and>
    (\<exists>al. map_of (poAliases p) (nrModelAlias (rqNormalized request)) = Some al \<and>
       nrDataClass (rqNormalized request) = alDataClass al \<and>
       (\<forall>route \<in> set routes. route \<in> set (poRoutes p) \<and> rtID route \<in> set (alRouteIDs al) \<and>
          Route_Validate route = [] \<and> admissible p al request route))"
  by (rule selectRoutesFor_sound [OF assms])

theorem selected_routes_comply_witness: "may_follow sample_policy local_route cloud_route"
  using selected_routes_comply [OF sample_indexed sample_selected(1)] by simp

text \<open>
  C18. Local-only data stays local end to end: for a request of that class, every address the
  transport of a selected route dials is a loopback address, whatever the resolver answers and
  whatever host the connection is asked for.
\<close>

theorem local_only_dials_loopback:
  assumes "newRouteIndex p = Inr r" and "selectRoutesFor r request = Inr routes"
    and "nrDataClass (rqNormalized request) = ''local_only''" and "route \<in> set routes"
    and "Resolve dns route = Inr res" and "a \<in> set (snd (Transport_DialContext dial (reTransport res) host))"
  shows "rtDestinationClass route = ''local_node'' \<and> Addr_IsLoopback (Addr_Unmap a)"
  using selected_local [OF assms(1-4)] validateAddress_loopback [OF dialled_validated [OF assms(5,6)]] by auto

theorem local_only_dials_loopback_witness: "Addr_IsLoopback (Addr_Unmap (IPv4 (ipv4 127 0 0 1)))"
proof -
  obtain res where res: "Resolve (\<lambda>_. Inr [IPv4 (ipv4 127 0 0 1)]) local_route = Inr res" "reTransport res = ([IPv4 (ipv4 127 0 0 1)], ''11434'')"
    using local_resolves by blast
  have "nrDataClass (rqNormalized (sample_request ''private'' ''local_only'')) = ''local_only''" by (simp add: sample_request_def)
  from local_only_dials_loopback [OF sample_indexed sample_selected(2) this _ res(1), of "IPv4 (ipv4 127 0 0 1)" "\<lambda>_ _. Inr ()" "''elsewhere''"]
  show ?thesis by (simp add: res(2) Transport_DialContext_def)
qed

text \<open>
  C19. A selected route to the external boundary is HTTPS, resolves only to addresses that are neither
  loopback, private nor reserved, and takes its credential from the workspace vault.
\<close>

theorem external_dials_public:
  assumes "newRouteIndex p = Inr r" and "selectRoutesFor r request = Inr routes"
    and "route \<in> set routes" and "rtDataBoundary route = ''external''"
    and "Resolve dns route = Inr res" and "a \<in> set (snd (Transport_DialContext dial (reTransport res) host))"
  shows "urlScheme (reURL res) = ''https'' \<and> hasPrefix (rtCredentialRef route) ''workspace-vault://'' \<and>
     \<not> Addr_IsLoopback (Addr_Unmap a) \<and> \<not> Addr_IsPrivate (Addr_Unmap a) \<and> \<not> isNonPublicAddress (Addr_Unmap a)"
  using selected_external [OF assms(1-4)] dialled_validated [OF assms(5,6)] Resolve_Inr(4) [OF assms(5)]
  by (auto simp: validateAddress_def split: if_splits)

theorem external_dials_public_witness: "\<not> isNonPublicAddress (Addr_Unmap (IPv4 (ipv4 8 8 8 8)))"
proof -
  obtain res where res: "Resolve (\<lambda>_. Inr [IPv4 (ipv4 8 8 8 8)]) cloud_route = Inr res" "reTransport res = ([IPv4 (ipv4 8 8 8 8)], ''443'')"
    using cloud_resolves by blast
  have "rtDataBoundary cloud_route = ''external''" by (simp add: cloud_route_def)
  from external_dials_public [OF sample_indexed sample_selected(1) _ this res(1), of "IPv4 (ipv4 8 8 8 8)" "\<lambda>_ _. Inr ()" "''elsewhere''"]
  show ?thesis by (simp add: res(2) Transport_DialContext_def)
qed

text \<open>
  C20. The IPv4 addresses accepted for external routes are exactly those outside the special-purpose
  and private blocks, given as ranges of 32-bit numbers.
\<close>

theorem public_ipv4_exact:
  "validateAddress ''public_unicast_only'' (IPv4 a) = [] \<longleftrightarrow> \<not> in_ranges (reserved4 @ private4) (unat a)"
  by (rule validateAddress4)



text \<open>
  C22. The listener accepts a request exactly when it carries one credential, as a bearer token or as
  an API key but not both, equal to the non-empty listener token.
\<close>

theorem listener_authentication_exact:
  "fst (authenticateAndStrip h tok) \<longleftrightarrow> tok \<noteq> '''' \<and>
     ((\<exists>scheme. Header_Values h ''Authorization'' = [scheme @ CHR '' '' # tok] \<and> CHR '' '' \<notin> set scheme \<and>
         equalFold scheme ''Bearer'' \<and> Header_Values h ''x-api-key'' = []) \<or>
      (Header_Values h ''Authorization'' = [] \<and> Header_Values h ''x-api-key'' = [tok]))"
  by (rule authenticate_iff)



section \<open>The handler and the dispatch\<close>

text \<open>
  C24. For the routes selected by a valid policy, \<open>dispatch\<close> contacts a non-empty prefix of them, at
  most two, one after the other; every attempt but the last ended in a retryable failure whose reason
  the policy lists, and when it stopped early the last attempt permitted no fallback.
\<close>

theorem dispatch_contacts_routes:
  assumes "newRouteIndex (auPolicy c) = Inr r" and "selectRoutesFor r routed = Inr routes"
    and "dispatch c u routed routes w = (result, w')"
  shows "\<exists>tried ends v. prefix tried routes \<and> tried \<noteq> [] \<and> length tried \<le> 2 \<and>
    runs c u routed 0 tried w = (ends, v) \<and> same_contacts v w' \<and>
    list_all (retryable_end (auPolicy c)) (butlast ends) \<and>
    (tried \<noteq> routes \<longrightarrow> \<not> retryable_end (auPolicy c) (last ends))"
proof -
  have routes: "routes \<noteq> []" "length routes \<le> 2" using selectRoutesFor_sound [OF assms(1,2)] by blast+
  from dispatchFrom_contacts [OF assms(3) [unfolded dispatch_def]] obtain tried ends v where
    "prefix tried routes" "runs c u routed 0 tried w = (ends, v)" "same_contacts v w'"
    "list_all (retryable_end (auPolicy c)) (butlast ends)" "routes \<noteq> [] \<longrightarrow> tried \<noteq> []"
    "tried \<noteq> routes \<longrightarrow> \<not> retryable_end (auPolicy c) (last ends)" by auto
  moreover from this(1) have "length tried \<le> 2" using prefix_length_le routes(2) le_trans by blast
  ultimately show ?thesis using routes(1) by blast
qed

theorem dispatch_contacts_routes_witness:
  "\<exists>tried. prefix tried [local_route, cloud_route] \<and> tried \<noteq> [] \<and>
     same_contacts (snd (runs sample_audit unreachable (sample_request ''assistant'' ''company'') 0 tried start_world))
       (snd (dispatch sample_audit unreachable (sample_request ''assistant'' ''company'') [local_route, cloud_route] start_world))"
proof -
  obtain result w' where run: "dispatch sample_audit unreachable (sample_request ''assistant'' ''company'') [local_route, cloud_route] start_world = (result, w')"
    by (metis prod.exhaust)
  have "newRouteIndex (auPolicy sample_audit) = Inr sample_index" using sample_indexed by (simp add: sample_audit_def)
  from dispatch_contacts_routes [OF this sample_selected(1) run] run show ?thesis by auto
qed



text \<open>
  C26. An answered request is audited in full: a response that was written has an event for its attempt
  and one for the request, both successful and with the same usage, which is within the output limit.
\<close>

theorem answered_requests_audited:
  assumes "result_ready (haAudit h) request result" and "clock_ok w"
    and "serveResponse isAnthropic h client request result started w = (Answered (Some text), w')"
  shows "\<exists>usage e1 e2. hwEvents w' = hwEvents w @ [e1, e2] \<and> event_of result ''attempt_finished'' ''success'' ''none'' (Some usage) e1 \<and>
     event_of result ''request_finished'' ''success'' ''none'' (Some usage) e2 \<and>
     usOutputTokens usage \<le> nlMaxOutputTokens (nrLimits request)"
  by (rule answered_audited [OF assms])

theorem answered_requests_audited_witness:
  "\<exists>e1 e2. hwEvents (snd (serveResponse False (sample_handler unreachable) sample_client (rqNormalized (sample_request ''assistant'' ''company''))
     sample_result 0 start_world)) = [e1, e2]"
proof -
  let ?request = "rqNormalized (sample_request ''assistant'' ''company'')"
  have ready: "result_ready (haAudit (sample_handler unreachable)) ?request sample_result"
    using sample_result_ready by (simp add: sample_handler_def)
  obtain body w' where run: "serveResponse False (sample_handler unreachable) sample_client ?request sample_result 0 start_world = (Answered (Some body), w')"
    using sample_served by blast
  from answered_requests_audited [OF ready start_clock run] run show ?thesis by (auto simp: start_world_def)
qed

text \<open>
  C27. A stream that ended without error while its context was alive is audited as a cancelled request,
  without usage: the handler compares the nil error with the nil context error.
\<close>

theorem stream_success_audited_as_cancelled:
  assumes "result_ready (haAudit h) request result" and "clock_ok w"
    and "runStream h client request result (hwExt w) = ((usage, None, frames), x1)" and "upCtxErr (haUpstream h) x1 = (None, x2)"
  shows "\<exists>w' e. serveStream h client request result started w = (Streamed frames, w') \<and> hwEvents w' = hwEvents w @ [e] \<and>
     event_of result ''request_cancelled'' ''cancelled'' ''cancelled'' None e"
  by (rule stream_success_cancelled [OF assms])

theorem stream_success_audited_as_cancelled_witness:
  "\<exists>e. hwEvents (snd (serveStream (sample_handler unreachable) sample_client (rqNormalized (sample_request ''assistant'' ''company'')) streaming_result 0
      (start_world\<lparr>hwExt := tl sample_lines\<rparr>))) = [e] \<and> evType e = ''request_cancelled''"
proof -
  let ?request = "rqNormalized (sample_request ''assistant'' ''company'')" and ?w = "start_world\<lparr>hwExt := tl sample_lines\<rparr>"
  have ready: "result_ready (haAudit (sample_handler unreachable)) ?request streaming_result"
    using sample_result_ready by (simp add: sample_handler_def streaming_result_def result_ready_def)
  obtain usage frames x1 where run: "runStream (sample_handler unreachable) sample_client ?request streaming_result (hwExt ?w) = ((usage, None, frames), x1)"
    using sample_streamed by auto
  have ctx: "upCtxErr (haUpstream (sample_handler unreachable)) x1 = (None, x1)"
    by (simp add: sample_handler_def unreachable_def sample_upstream_def)
  have "clock_ok ?w" using start_clock by (simp add: clock_ok_def)
  from stream_success_audited_as_cancelled [OF ready this run ctx, of 0] show ?thesis
    by (auto simp: start_world_def event_of_def)
qed





text \<open>
  C30. The two listener checks agree: the Anthropic path accepts a request exactly when the other
  paths accept its credential and it names the supported version and no beta feature, and both leave
  the same headers.
\<close>

theorem listeners_agree:
  "(fst (AuthenticateAndStrip header token) = None \<longleftrightarrow>
     \<not> list_ex (\<lambda>kv. forbidden_header (fst kv)) header \<and> Header_Values header ''anthropic-version'' = [''2023-06-01''] \<and>
     fst (authenticateAndStrip header token)) \<and>
   snd (AuthenticateAndStrip header token) = snd (authenticateAndStrip header token)"
  using authenticate_anthropic by blast

text \<open>
  C31. A handler with a workload scope sends a request to exactly one route, the one of the scope, which
  the policy also selected for the request.
\<close>

theorem scoped_handler_one_route:
  assumes "routeRequest h routed = Inr routes" and "haWorkloadScope h = Some scope"
  shows "\<exists>route. routes = [route] \<and> rtID route = wsRouteID scope \<and>
     (\<exists>selected. selectRoutesFor (haRoutes h) routed = Inr selected \<and> route \<in> set selected)"
  by (rule scoped_route [OF assms])

theorem scoped_handler_one_route_witness:
  "\<exists>route. routeRequest ((sample_handler unreachable)\<lparr>haWorkloadScope := Some sample_scope\<rparr>) (sample_request ''assistant'' ''company'') = Inr [route] \<and>
     rtID route = rtID cloud_route"
proof -
  let ?h = "(sample_handler unreachable)\<lparr>haWorkloadScope := Some sample_scope\<rparr>"
  have run: "routeRequest ?h (sample_request ''assistant'' ''company'') = Inr [cloud_route]"
    using sample_selected(1) sample_within_context
    by (simp add: routeRequest_def sample_handler_def sample_audit_def sample_scope_def) (simp add: local_route_def cloud_route_def)
  from scoped_handler_one_route [OF this, of sample_scope] run show ?thesis by (simp add: sample_scope_def)
qed



text \<open>
  C33. An interrupted activation goes unnoticed by its exit code: over a bound pair of records whose journal is
  not active, \<open>proxy status\<close> says \<open>recovery_required\<close> and yet returns exit code 0 and no error, although the
  contract reserves exit code 9 for it.
\<close>

theorem pending_recovery_exits_zero:
  assumes "distinct_paths s" and "friendly s w" and "w_ticks w = []" and "w_files w (pathReservation (stPaths s)) = None"
    and "formatRFC3339Nano (w_clock w + 30 * time_Second) = Some x" and "w_clock w + 30 * time_Second \<noteq> zero_time"
    and "- (10 ^ 11) < stUid s" and "stUid s < 10 ^ 11"
    and "journal_at sha s (w_files w) = Inr j" and "receipt_at sha s (w_files w) = Inr r" and "ValidateBinding j r = []"
    and "jState j \<noteq> ''active''"
  shows "\<exists>result w'. Status sha s deps w = ((result, []), w') \<and> reStatus result = ''recovery_required'' \<and> reExitCode result = 0"
proof -
  obtain w' where "Reconcile sha s w = ((reconciliationFromJournal j False, []), w')"
    using Reconcile_completes [OF assms(1-11)] by blast
  moreover have "rcState (reconciliationFromJournal j False) = ReconciliationRecoveryRequired"
    using assms(12) by (simp add: reconciliationFromJournal_def)
  ultimately show ?thesis using Status_pending by blast
qed

theorem pending_recovery_exits_zero_witness:
  "\<exists>result w'. Status zero_sha sample_store sample_deps (service_world pending_files) = ((result, []), w') \<and>
     reStatus result = ''recovery_required'' \<and> reExitCode result = 0"
  by (rule pending_recovery_exits_zero [OF sample_distinct service_friendly _ _ pending_bound])
    (simp_all add: pending_files_def, use pending_at in \<open>simp_all add: service_world_def pending_files_def sample_journal_def\<close>)

text \<open>
  C34. Every command but \<open>run\<close>, whose exit code is that of the child process, reports success consistently:
  \<open>proxy on\<close>, \<open>off\<close>, \<open>reset\<close>, \<open>status\<close> and \<open>doctor\<close> return exit code 0 exactly when they return no error, for
  every state of the disk and every behaviour of the platform.
\<close>

theorem exit_codes_agree_with_errors:
  "wpa (On sha s deps ctx policyPath mode) (\<lambda>r e _. reExitCode r = 0 \<longleftrightarrow> e = []) w \<and>
   wpa (Off sha s deps removeCA) (\<lambda>r e _. reExitCode r = 0 \<longleftrightarrow> e = []) w \<and>
   wpa (Reset sha s deps yes removeCA) (\<lambda>r e _. reExitCode r = 0 \<longleftrightarrow> e = []) w \<and>
   wpa (Status sha s deps) (\<lambda>r e _. reExitCode r = 0 \<longleftrightarrow> e = []) w \<and>
   wpa (Doctor deps policyPath) (\<lambda>r e _. reExitCode r = 0 \<longleftrightarrow> e = []) w"
  using service_coherent(1) [of sha s deps ctx policyPath mode w]
    service_coherent(2) [of sha s deps removeCA w] service_coherent(3) [of sha s deps yes removeCA w]
    service_coherent(4) [of sha s deps w] service_coherent(5) [of deps policyPath w]
  by (simp add: coherent_def)

section \<open>Requests, bodies and streams\<close>

text \<open>
  C35. Whatever a client posts, a request that is normalised is valid, has the protocol of its path,
  names an alias of the policy, carries the data class the policy gives that alias and the deadline of
  the policy, and requires every capability it uses.
\<close>

theorem routed_requests_governed:
  assumes "normalizeRequest h request w = (Inr routed, w')" and "posted_path request" and "now w = (t, w1)"
  shows "NormalizedRequest_Validate (rqNormalized routed) = [] \<and>
    governed (protocolForPath (hrPath request)) (auPolicy (haAudit h)) t (rqNormalized routed)"
  by (rule normalizeRequest_governed [OF assms])

theorem routed_requests_governed_witness:
  "\<exists>routed. fst (normalizeRequest (sample_handler unreachable) sample_post start_world) = Inr routed \<and>
     nrProtocol (rqNormalized routed) = ProtocolOpenAIChat \<and>
     (\<exists>alias. map_of (poAliases sample_policy) (nrModelAlias (rqNormalized routed)) = Some alias)"
proof -
  obtain routed w' where run: "normalizeRequest (sample_handler unreachable) sample_post start_world = (Inr routed, w')"
    using sample_normalized by (cases "normalizeRequest (sample_handler unreachable) sample_post start_world"; cases "fst (normalizeRequest (sample_handler unreachable) sample_post start_world)") auto
  have path: "posted_path sample_post" by (simp add: posted_path_def sample_post_def)
  obtain t w1 where clock: "now start_world = (t, w1)" by (rule prod.exhaust)
  from routed_requests_governed [OF run path clock] run show ?thesis
    by (auto simp: governed_def sample_handler_def sample_audit_def protocolForPath_def sample_post_def)
qed

text \<open>
  C36. A valid request is always encoded for a Chat destination, and encoding it for any destination
  never dereferences a nil pointer.
\<close>

theorem destination_requests_encoded:
  assumes "NormalizedRequest_Validate (rqNormalized routed) = []"
  shows "encodeDestinationRequest F routed route \<noteq> Inl nil_dereference \<and>
    (rtDestinationProtocol route = ProtocolOpenAIChat \<longrightarrow>
       (\<exists>encoded. encodeDestinationRequest F routed route = Inr (encoded, ''chat/completions'')))"
  using encode_no_panic [OF assms, of F route] encode_chat [OF assms, of route F] by blast

theorem destination_requests_encoded_witness:
  "\<exists>encoded. encodeDestinationRequest sample_floats (sample_request ''assistant'' ''company'') local_route = Inr (encoded, ''chat/completions'')"
  using destination_requests_encoded [OF sample_request_valid, of sample_floats local_route] by (simp add: local_route_def)



text \<open>
  C38. A stream ends for every destination, writer and context, within bounds: however reads are counted,
  preparing and relaying it reads at most one line more than the limit of 32 MiB, and the frames written
  to the client stay within the same limit.
\<close>

theorem streams_are_bounded:
  assumes "counts_reads tally io" and "prepareStream (ioScan io) route request x = (Inr p, x1)"
    and "streamResponse F io route request p x1 = (res, s, x2)"
  shows "int (tally x2) \<le> int (tally x) + maxStreamBytes + 1 \<and> sum_lengths (ssWriter s) \<le> maxStreamBytes"
proof -
  note counter = read_counter.intro [OF assms(1)]
  note prepared = prepareStream_reads [where reads = tally, OF read_counter.scan_reads [OF counter] assms(2)]
  show ?thesis
    using prepared(1) read_counter.streamResponse_reads [OF counter prepared(2) assms(3)] streamResponse_within [OF assms(3)] by simp
qed

theorem streams_are_bounded_witness:
  "\<exists>p x1 res s x k. prepareStream (ioScan (counting sample_io)) local_route (rqNormalized (sample_request ''assistant'' ''company'')) (sample_lines, 0) = (Inr p, x1) \<and>
     streamResponse sample_floats (counting sample_io) local_route (rqNormalized (sample_request ''assistant'' ''company'')) p x1 = (res, s, x, k) \<and>
     int k \<le> maxStreamBytes + 1"
proof -
  let ?request = "rqNormalized (sample_request ''assistant'' ''company'')"
  let ?run = "prepareStream (ioScan (counting sample_io)) local_route ?request (sample_lines, 0)"
  have "\<not> isl (fst ?run)" by code_simp
  then obtain p x1 where run: "?run = (Inr p, x1)" by (cases ?run; cases "fst ?run") auto
  obtain res s x k where rest: "streamResponse sample_floats (counting sample_io) local_route ?request p x1 = (res, s, x, k)" by (rule prod_cases4)
  have "int k \<le> maxStreamBytes + 1" using streams_are_bounded [OF counting_counts run rest] by simp
  with run rest show ?thesis by blast
qed

text \<open>
  C39. A Chat client of a Responses destination gets the start of a tool call under the count of its
  tool calls, but the arguments under the output index of the destination, which differs as soon as the
  call is not the first output.
\<close>

theorem tool_arguments_under_other_index:
  assumes "ssProtocol s = ProtocolOpenAIChat"
    and "map_of (snToolOutputIndexes n) callID = Some index" and "distinct (map fst (snToolOutputIndexes n))"
    and "seType start = ''tool_call_start''" and "seCallID start = Some callID" and "seToolName start = Some name"
    and "seType piece = ''tool_arguments_delta''" and "seCallID piece = Some callID" and "seArgumentsDelta piece = Some delta"
    and "consumeEvent write start (s, x) = (None, s1, x1)" and "consumeEvent write piece (applyIndexHints n s1, x2) = (None, s2, x3)"
  shows "\<exists>f1 f2. ssWriter s2 = ssWriter s @ [f1, f2] \<and>
    frame_of (tool_start_payload (seLogicalRequestID start) (ssAlias s) (ssNextToolIndex s) callID name) f1 \<and>
    frame_of (tool_arguments_payload (seLogicalRequestID piece) (ssAlias s) index delta) f2"
  by (rule tool_arguments_misnumbered [OF assms])

theorem tool_arguments_under_other_index_witness:
  "\<exists>f1 f2. ssWriter (fst (snd (consumeEvent (clWrite sample_client) tool_piece (applyIndexHints hinting_normalizer after_start, [])))) = [f1, f2] \<and>
     frame_of (tool_start_payload ''r'' ''assistant'' 0 ''c'' ''f'') f1 \<and>
     frame_of (tool_arguments_payload ''r'' ''assistant'' 1 ''{}'') f2"
proof -
  let ?w = "clWrite sample_client"
  obtain x1 where start: "consumeEvent ?w tool_start (chat_encoder, []) = (None, after_start, x1)"
    using tool_events_written(1) by (cases "consumeEvent ?w tool_start (chat_encoder, [])") (auto simp: after_start_def)
  obtain s2 x3 where piece: "consumeEvent ?w tool_piece (applyIndexHints hinting_normalizer after_start, []) = (None, s2, x3)"
    using tool_events_written(2) by (cases "consumeEvent ?w tool_piece (applyIndexHints hinting_normalizer after_start, [])") auto
  have protocol: "ssProtocol chat_encoder = ProtocolOpenAIChat" "ssAlias chat_encoder = ''assistant''" "ssWriter chat_encoder = []" "ssNextToolIndex chat_encoder = 0"
    by (simp_all add: chat_encoder_def newEncoder_def sample_request_def)
  have "\<exists>f1 f2. ssWriter s2 = ssWriter chat_encoder @ [f1, f2] \<and>
    frame_of (tool_start_payload (seLogicalRequestID tool_start) (ssAlias chat_encoder) (ssNextToolIndex chat_encoder) ''c'' ''f'') f1 \<and>
    frame_of (tool_arguments_payload (seLogicalRequestID tool_piece) (ssAlias chat_encoder) 1 ''{}'') f2"
    by (rule tool_arguments_under_other_index [OF protocol(1) _ _ _ _ _ _ _ _ start piece])
      (simp_all add: hinting_normalizer_def tool_start_def tool_piece_def event_def)
  then show ?thesis using protocol by (simp add: piece) (simp add: tool_start_def tool_piece_def event_def)
qed

text \<open>
  C40. A Responses destination that begins its stream with a reasoning item makes \<open>prepareStream\<close> panic:
  the batch has no events and its first one is accessed.
\<close>

theorem reasoning_first_stream_panics:
  assumes "rtDestinationProtocol route = ProtocolOpenAIResponses" and "scan x = (Line line, x')" and "hasPrefix line ''data:''"
    and "int (length line) < maxStreamBytes" and "trimSpace (drop 5 line) \<noteq> ''[DONE]''"
    and "unmarshal dResponsesEvent zero_responsesEvent (trimSpace (drop 5 line)) = Some ev"
    and "rvType ev = ''response.output_item.added''" and "rvOutputIndex ev = Some index"
    and "eventItemOf (rvItem ev) = Some item" and "eiType item = ''reasoning''" and "eiID item \<noteq> ''''"
  shows "prepareStream scan route request x = (Inl index_out_of_range, x')"
  by (rule reasoning_first_panics [where scan = scan and x = x, OF assms])

theorem reasoning_first_stream_panics_witness:
  "prepareStream scan_lines responses_route (rqNormalized (sample_request ''assistant'' ''company'')) [reasoning_line] = (Inl index_out_of_range, [])"
proof -
  have "rtDestinationProtocol responses_route = ProtocolOpenAIResponses" by (simp add: responses_route_def)
  moreover have "scan_lines [reasoning_line] = (Line reasoning_line, [])" by (simp add: scan_lines_def)
  moreover have "hasPrefix reasoning_line ''data:''" "int (length reasoning_line) < maxStreamBytes" by code_simp+
  ultimately show ?thesis
    by (rule reasoning_first_stream_panics [where scan = scan_lines and x = "[reasoning_line]", OF _ _ _ _ reasoning_event_read(2,1) _ _ reasoning_event_read(3)])
      (simp_all add: reasoning_event_def)
qed

end
